(* ===== verification/Opcut_Prelude.thy ===== *)
theory Opcut_Prelude
  imports Complex_Main "HOL-Library.Char_ord" "HOL-Library.List_Lexorder" "HOL-Library.Multiset"
begin

text \<open>
  Shared vocabulary of the development: the result type that models a Python call
  which either returns or raises, the sequencing of such calls, the loop that stops
  at the first raise, and the facts about lists, association lists and sorting by a
  key that the component theories use again and again.

  Strings are \<^typ>\<open>string\<close>; the two library imports order them the way Python
  orders \<open>str\<close> values (lexicographically by character code), which is what
  \<open>sorted(..., key=...)\<close> uses in the result assembler.
\<close>

section \<open>Collections of facts\<close>

named_theorems opcut_defs "definitions of the operations of the model, for unfolding"
named_theorems opcut_intros "introduction rules of the step relations of the model"

section \<open>Calls that return or raise\<close>

type_synonym ('e, 'a) result = "'e + 'a"

abbreviation Raise :: "'e \<Rightarrow> ('e, 'a) result" where
  "Raise \<equiv> Inl"

abbreviation Return :: "'a \<Rightarrow> ('e, 'a) result" where
  "Return \<equiv> Inr"

definition bind_result :: "('e, 'a) result \<Rightarrow> ('a \<Rightarrow> ('e, 'b) result) \<Rightarrow> ('e, 'b) result" where
  "bind_result r f = (case r of Inl e \<Rightarrow> Inl e | Inr v \<Rightarrow> f v)"

primrec fold_result :: "('a \<Rightarrow> 's \<Rightarrow> ('e, 's) result) \<Rightarrow> 'a list \<Rightarrow> 's \<Rightarrow> ('e, 's) result" where
  "fold_result f [] s = Inr s"
| "fold_result f (x # xs) s = bind_result (f x s) (fold_result f xs)"

definition dict_get :: "('k \<rightharpoonup> 'v) \<Rightarrow> 'k \<Rightarrow> 'v \<Rightarrow> 'v" where
  "dict_get m k d = (case m k of None \<Rightarrow> d | Some v \<Rightarrow> v)"

section \<open>Sequencing\<close>

lemma bind_result_Inl [simp]: "bind_result (Inl e) f = Inl e"
  by (simp add: bind_result_def)

lemma bind_result_Inr [simp]: "bind_result (Inr v) f = f v"
  by (simp add: bind_result_def)

lemma bind_result_eq_Inr_iff:
  "bind_result r f = Inr y \<longleftrightarrow> (\<exists>v. r = Inr v \<and> f v = Inr y)"
  by (cases r) simp_all

lemma bind_result_eq_Inl_iff:
  "bind_result r f = Inl e \<longleftrightarrow> r = Inl e \<or> (\<exists>v. r = Inr v \<and> f v = Inl e)"
  by (cases r) simp_all

lemma bind_result_assoc:
  "bind_result (bind_result r f) g = bind_result r (\<lambda>v. bind_result (f v) g)"
  by (cases r) simp_all

lemma bind_result_cong [fundef_cong]:
  "r = r' \<Longrightarrow> (\<And>v. r' = Inr v \<Longrightarrow> f v = f' v) \<Longrightarrow> bind_result r f = bind_result r' f'"
  by (cases r') simp_all

section \<open>The loop that stops at the first raise\<close>

lemma fold_result_append:
  "fold_result f (xs @ ys) s = bind_result (fold_result f xs s) (fold_result f ys)"
  by (induction xs arbitrary: s) (simp_all add: bind_result_def split: sum.splits)

lemma fold_result_snoc:
  "fold_result f (xs @ [x]) s = bind_result (fold_result f xs s) (f x)"
  by (simp add: fold_result_append bind_result_def split: sum.splits)

text \<open>A loop whose every iteration returns is an ordinary fold.\<close>

lemma fold_result_total:
  "(\<And>x s. x \<in> set xs \<Longrightarrow> f x s = Inr (g x s)) \<Longrightarrow> fold_result f xs s = Inr (fold g xs s)"
  by (induction xs arbitrary: s) simp_all

text \<open>The invariant rule of the loop: what holds before and is kept by every iteration
  that returns holds for the state the loop returns.\<close>

lemma fold_result_invariant:
  assumes "fold_result f xs s = Inr t" and "P s"
    and "\<And>x s s'. x \<in> set xs \<Longrightarrow> P s \<Longrightarrow> f x s = Inr s' \<Longrightarrow> P s'"
  shows "P t"
  using assms
proof (induction xs arbitrary: s)
  case Nil
  then show ?case by simp
next
  case (Cons x xs)
  from Cons.prems(1) obtain s' where s': "f x s = Inr s'" and rest: "fold_result f xs s' = Inr t"
    by (auto simp: bind_result_eq_Inr_iff)
  from Cons.prems(2) s' have "P s'"
    by (rule Cons.prems(3) [rotated]) simp
  with rest show ?case
    by (rule Cons.IH) (auto intro: Cons.prems(3))
qed

section \<open>Dictionaries read with a default\<close>

lemma dict_get_Some [simp]: "m k = Some v \<Longrightarrow> dict_get m k d = v"
  by (simp add: dict_get_def)

lemma dict_get_None [simp]: "m k = None \<Longrightarrow> dict_get m k d = d"
  by (simp add: dict_get_def)

lemma dict_get_upd [simp]: "dict_get (m(k \<mapsto> v)) k' d = (if k' = k then v else dict_get m k' d)"
  by (simp add: dict_get_def)

section \<open>Dictionaries filled by a loop\<close>

text \<open>A loop of assignments \<open>m[k(x)] = v(x)\<close> leaves the dictionary that holds, for
  each key, the value of the last assignment to it.\<close>

lemma fold_map_upd:
  "fold (\<lambda>x m. m(k x \<mapsto> v x)) xs m = m ++ map_of (rev (map (\<lambda>x. (k x, v x)) xs))"
  by (induction xs arbitrary: m) simp_all

lemma fold_map_add:
  "fold (\<lambda>x m. m ++ map_of (rev (F x))) xs m = m ++ map_of (rev (concat (map F xs)))"
  by (induction xs arbitrary: m) simp_all

lemma map_of_rev_distinct: "distinct (map fst xs) \<Longrightarrow> map_of (rev xs) = map_of xs"
  by (rule ext) (metis distinct_rev map_of_eq_Some_iff not_None_eq rev_map set_rev map_of_eq_None_iff)

lemma dom_map_of_rev [simp]: "dom (map_of (rev xs)) = fst ` set xs"
  by (simp add: dom_map_of_conv_image_fst)

section \<open>Lists\<close>

text \<open>A string is cut in one way only at a separator that its tail does not hold.\<close>

lemma sep_not_in_tail: "c \<notin> set a \<Longrightarrow> a \<noteq> q @ c # b"
  by auto

lemma append_sep_eq_iff:
  assumes "c \<notin> set a" and "c \<notin> set b"
  shows "p @ c # a = q @ c # b \<longleftrightarrow> p = q \<and> a = b"
proof (induction p arbitrary: q)
  case Nil
  show ?case
    using assms(1) by (cases q) (simp_all add: sep_not_in_tail)
next
  case (Cons x p)
  show ?case
  proof (cases q)
    case Nil
    with assms(2) sep_not_in_tail [of c b p a] show ?thesis by auto
  next
    case (Cons y q')
    with Cons.IH [of q'] show ?thesis by simp
  qed
qed

lemma takeWhile_sep: "c \<notin> set a \<Longrightarrow> takeWhile (\<lambda>x. x \<noteq> c) (a @ c # b) = a"
  by (induction a) auto

lemma dropWhile_sep: "c \<notin> set a \<Longrightarrow> dropWhile (\<lambda>x. x \<noteq> c) (a @ c # b) = c # b"
  by (induction a) auto

text \<open>The same at the first separator.\<close>

lemma sep_first_eq_iff:
  assumes "c \<notin> set p" and "c \<notin> set q"
  shows "p @ c # a = q @ c # b \<longleftrightarrow> p = q \<and> a = b"
proof
  assume eq: "p @ c # a = q @ c # b"
  from arg_cong [OF eq, of "takeWhile (\<lambda>x. x \<noteq> c)"] assms have "p = q"
    by (simp add: takeWhile_sep)
  with eq show "p = q \<and> a = b"
    by simp
qed simp

lemma find_append:
  "find P (xs @ ys) = (case find P xs of None \<Rightarrow> find P ys | Some x \<Rightarrow> Some x)"
  by (induction xs) simp_all

lemma distinct_concat_map:
  assumes "distinct xs"
    and "\<And>x. x \<in> set xs \<Longrightarrow> distinct (f x)"
    and "\<And>x y. x \<in> set xs \<Longrightarrow> y \<in> set xs \<Longrightarrow> x \<noteq> y \<Longrightarrow> set (f x) \<inter> set (f y) = {}"
  shows "distinct (concat (map f xs))"
  using assms
proof (induction xs)
  case Nil
  then show ?case by simp
next
  case (Cons a xs)
  have "set (f a) \<inter> set (f x) = {}" if "x \<in> set xs" for x
    using that Cons.prems(1) by (intro Cons.prems(3)) auto
  moreover have "distinct (concat (map f xs))"
    using Cons.prems by (intro Cons.IH) auto
  ultimately show ?case
    using Cons.prems(2) by auto
qed

lemma length_concat_map_sum:
  "length (concat (map f xs)) = sum_list (map (\<lambda>x. length (f x)) xs)"
  by (induction xs) simp_all

lemma filter_concat_map:
  "filter P (concat (map f xs)) = concat (map (\<lambda>x. filter P (f x)) xs)"
  by (induction xs) simp_all

section \<open>Sorting by a key\<close>

text \<open>Sorting a list whose keys are pairwise different gives the one sorted
  arrangement of it, whatever the order it had.\<close>

lemma sorted_distinct_map_unique:
  assumes "sorted (map f xs)" and "distinct (map f xs)"
    and "sorted (map f ys)" and "distinct (map f ys)"
    and "set xs = set ys"
  shows "xs = ys"
proof -
  have inj: "inj_on f (set xs \<union> set ys)"
    using assms(2,5) by (simp add: distinct_map)
  have "map f xs = map f ys"
    using assms by (intro sorted_distinct_set_unique) simp_all
  with inj show ?thesis
    by (rule map_inj_on [rotated])
qed

lemma sort_key_unique:
  assumes "sorted (map f ys)" and "distinct (map f ys)" and "set ys = set xs"
    and "distinct (map f xs)"
  shows "sort_key f xs = ys"
proof (rule sorted_distinct_map_unique [where f = f])
  show "distinct (map f (sort_key f xs))"
    using assms(4) by (simp add: distinct_map)
qed (use assms in simp_all)

text \<open>Sorting records by a key from which each record is rebuilt is sorting the
  keys.\<close>

lemma insort_key_map_inv:
  "(\<And>k. f (g k) = k) \<Longrightarrow> insort_key f (g k) (map g ks) = map g (insort k ks)"
  by (induction ks) simp_all

lemma sort_key_map_inv:
  "(\<And>k. f (g k) = k) \<Longrightarrow> sort_key f (map g ks) = map g (sort ks)"
  by (induction ks) (simp_all add: insort_key_map_inv)

lemma sort_eq_sort_remdups:
  "distinct xs \<Longrightarrow> set xs = set ys \<Longrightarrow> sort xs = sort (remdups ys)"
  by (metis distinct_remdups_id sorted_list_of_set_sort_remdups)

section \<open>Association lists kept in insertion order\<close>

text \<open>\<open>d[k][field].append(v)\<close> on a dictionary kept as an association list: the
  entry of \<open>k\<close> changes, the order of the keys does not.\<close>

definition map_entry :: "'k \<Rightarrow> ('v \<Rightarrow> 'v) \<Rightarrow> ('k \<times> 'v) list \<Rightarrow> ('k \<times> 'v) list" where
  "map_entry k f al = map (\<lambda>(k', v). if k' = k then (k', f v) else (k', v)) al"

lemma map_entry_Nil [simp]: "map_entry k f [] = []"
  by (simp add: map_entry_def)

lemma map_entry_Cons [simp]:
  "map_entry k f ((k', v) # al) = (if k' = k then (k', f v) else (k', v)) # map_entry k f al"
  by (simp add: map_entry_def)

lemma map_entry_append [simp]:
  "map_entry k f (al @ bl) = map_entry k f al @ map_entry k f bl"
  by (simp add: map_entry_def)

lemma map_fst_map_entry [simp]: "map fst (map_entry k f al) = map fst al"
  by (induction al) auto

lemma fst_set_map_entry [simp]: "fst ` set (map_entry k f al) = fst ` set al"
  using map_fst_map_entry [of k f al] by (metis set_map)

lemma map_snd_map_entry:
  "map snd (map_entry k f al) = map (\<lambda>(k', v). if k' = k then f v else v) al"
  by (induction al) auto

lemma map_entry_notin [simp]: "k \<notin> fst ` set al \<Longrightarrow> map_entry k f al = al"
  by (induction al) auto

lemma list_all_map_entry:
  assumes "list_all (\<lambda>(k, v). v = A k) al"
    and "\<And>k'. k' \<in> fst ` set al \<Longrightarrow> A' k' = (if k' = k then f (A k') else A k')"
  shows "list_all (\<lambda>(k, v). v = A' k) (map_entry k f al)"
  using assms by (induction al) auto

section \<open>Grouping by a key\<close>

text \<open>Splitting a list into the sublists of each key, for keys that are pairwise
  different and cover the list, loses and repeats nothing.\<close>

lemma find_Some_holds: "find P xs = Some x \<Longrightarrow> P x \<and> x \<in> set xs"
  by (induction xs) (auto split: if_splits)

lemma mset_concat_filter_keys:
  "distinct ks \<Longrightarrow>
     mset (concat (map (\<lambda>k. filter (\<lambda>x. f x = k) xs) ks)) = mset (filter (\<lambda>x. f x \<in> set ks) xs)"
  by (induction ks) (auto simp: multiset_eq_iff)

lemma mset_group_by_key:
  assumes "distinct ks" and "f ` set xs \<subseteq> set ks"
  shows "mset (concat (map (\<lambda>k. map g (filter (\<lambda>x. f x = k) xs)) ks)) = mset (map g xs)"
proof -
  have "concat (map (\<lambda>k. map g (filter (\<lambda>x. f x = k) xs)) ks)
      = map g (concat (map (\<lambda>k. filter (\<lambda>x. f x = k) xs) ks))"
    by (simp add: map_concat comp_def)
  moreover have "filter (\<lambda>x. f x \<in> set ks) xs = xs"
    using assms(2) by (auto simp: filter_id_conv)
  ultimately show ?thesis
    using mset_concat_filter_keys [OF assms(1), of f xs] by (simp only: mset_map)
qed

lemma length_concat_mset: "length (concat xss) = size (mset (concat xss))"
  by simp

end
