(* ===== verification/Py_Repr.thy ===== *)
theory Py_Repr
  imports Opcut_Prelude
begin

text \<open>
  The text Python makes of a string with \<open>repr\<close>, as \<open>print\<close> shows the keys of a
  dictionary and \<open>str\<close> the key of a \<open>KeyError\<close>: the string between quotes, with the quote, the backslash, tab, newline
  and carriage return escaped by a backslash and every other character that is not
  printable written \<open>\xhh\<close>. The quote is the single one unless the string has a single
  quote and no double quote. A character of the model has a code below 256 and is read
  as the Unicode character of that code.

  \<open>read_repr\<close> reads such a text back; it models no code and is there for the round
  trip, which shows that the text determines the string.
\<close>

section \<open>The text of a string\<close>

abbreviation squote :: char where "squote \<equiv> CHR 0x27"

abbreviation dquote :: char where "dquote \<equiv> CHR 0x22"

abbreviation backslash :: char where "backslash \<equiv> CHR 0x5C"

definition hex_digit :: "nat \<Rightarrow> char" where
  "hex_digit d = ''0123456789abcdef'' ! d"

text \<open>\<open>str.isprintable\<close> on the characters below 256: the control characters, the
  no-break space and the soft hyphen are not printable.\<close>

definition is_printable :: "char \<Rightarrow> bool" where
  "is_printable c \<longleftrightarrow>
     (let n = of_char c :: nat in 32 \<le> n \<and> n \<noteq> 127 \<and> \<not> (128 \<le> n \<and> n \<le> 160) \<and> n \<noteq> 173)"

definition repr_quote :: "string \<Rightarrow> char" where
  "repr_quote s = (if squote \<in> set s \<and> dquote \<notin> set s then dquote else squote)"

definition repr_char :: "char \<Rightarrow> char \<Rightarrow> string" where
  "repr_char quote c =
     (if c = quote \<or> c = backslash then [backslash, c]
      else if c = CHR 0x09 then [backslash, CHR ''t'']
      else if c = CHR 0x0A then [backslash, CHR ''n'']
      else if c = CHR 0x0D then [backslash, CHR ''r'']
      else if \<not> is_printable c
        then [backslash, CHR ''x'', hex_digit (of_char c div 16), hex_digit (of_char c mod 16)]
      else [c])"

definition py_repr :: "string \<Rightarrow> string" where
  "py_repr s = (let quote = repr_quote s in quote # concat (map (repr_char quote) s) @ [quote])"

section \<open>Reading it back\<close>

definition hex_val :: "char \<Rightarrow> nat" where
  "hex_val c = (if of_char c < (58::nat) then of_char c - 48 else of_char c - 87)"

definition unescape :: "char \<Rightarrow> char" where
  "unescape e = (if e = CHR ''t'' then CHR 0x09 else if e = CHR ''n'' then CHR 0x0A
     else if e = CHR ''r'' then CHR 0x0D else e)"

text \<open>What follows a backslash, and one character of the body, escaped or not, each
  with the text after it.\<close>

definition read_escape :: "string \<Rightarrow> (char \<times> string) option" where
  "read_escape t =
     (case t of
        [] \<Rightarrow> None
      | e # t' \<Rightarrow>
          if e = CHR ''x'' then
            (case t' of
               h # l # t'' \<Rightarrow> Some (char_of (16 * hex_val h + hex_val l), t'')
             | _ \<Rightarrow> None)
          else Some (unescape e, t'))"

definition read_char :: "char \<Rightarrow> string \<Rightarrow> (char \<times> string) option" where
  "read_char c t = (if c = backslash then read_escape t else Some (c, t))"

lemma read_char_shorter: "read_char c t = Some (d, t') \<Longrightarrow> length t' \<le> length t"
  by (auto simp: read_char_def read_escape_def split: if_splits list.splits)

text \<open>The characters up to the closing quote and the text after it.\<close>

function read_body :: "char \<Rightarrow> string \<Rightarrow> (string \<times> string) option" where
  "read_body quote [] = None"
| "read_body quote (c # t) =
     (if c = quote then Some ([], t)
      else (case read_char c t of
              None \<Rightarrow> None
            | Some (d, t') \<Rightarrow> map_option (apfst ((#) d)) (read_body quote t')))"
  by pat_completeness auto

termination
  by (relation "measure (\<lambda>(quote, s). length s)") (auto dest: read_char_shorter)

definition read_repr :: "string \<Rightarrow> (string \<times> string) option" where
  "read_repr s =
     (case s of
        [] \<Rightarrow> None
      | quote # t \<Rightarrow> if quote = squote \<or> quote = dquote then read_body quote t else None)"

section \<open>Facts\<close>

lemma less_16_cases:
  "(d::nat) < 16 \<longleftrightarrow> d \<in> {0, 1, 2, 3, 4, 5, 6, 7, 8, 9, 10, 11, 12, 13, 14, 15}"
  unfolding insert_iff empty_iff by arith

lemma hex_val_hex_digit [simp]: "d < 16 \<Longrightarrow> hex_val (hex_digit d) = d"
  unfolding less_16_cases insert_iff empty_iff
  by (elim disjE) (simp_all add: hex_val_def hex_digit_def)

lemma char_of_hex [simp]:
  "char_of (16 * (of_char c div 16) + of_char c mod 16 :: nat) = c"
  by simp

lemma hex_digits_of_char:
  "(of_char c :: nat) div 16 < 16" "(of_char c :: nat) mod 16 < 16"
  using nat_of_char_less_256 [of c] by (simp_all add: div_less_iff_less_mult)

lemma repr_quote_cases: "repr_quote s = squote \<or> repr_quote s = dquote"
  by (simp add: repr_quote_def)

lemma repr_char_nonempty [simp]: "repr_char quote c \<noteq> []"
  by (simp add: repr_char_def)

text \<open>One character, escaped or not, is read back as it was.\<close>

lemma read_body_repr_char:
  assumes "quote = squote \<or> quote = dquote"
  shows "read_body quote (repr_char quote c @ t) = map_option (apfst ((#) c)) (read_body quote t)"
  using assms hex_digits_of_char [of c]
  by (elim disjE) (simp_all add: repr_char_def read_char_def read_escape_def unescape_def)

lemma read_body_repr:
  assumes "quote = squote \<or> quote = dquote"
  shows "read_body quote (concat (map (repr_char quote) s) @ quote # rest) = Some (s, rest)"
  by (induction s) (simp_all add: read_body_repr_char [OF assms])

lemma read_repr_py_repr [simp]: "read_repr (py_repr s @ rest) = Some (s, rest)"
  using repr_quote_cases [of s] read_body_repr [of "repr_quote s" s rest]
  by (auto simp: read_repr_def py_repr_def Let_def)

lemma py_repr_inj [simp]: "py_repr s = py_repr t \<longleftrightarrow> s = t"
proof
  assume "py_repr s = py_repr t"
  then have "read_repr (py_repr s @ []) = read_repr (py_repr t @ [])"
    by simp
  then show "s = t"
    by (simp only: read_repr_py_repr option.inject prod.inject)
qed simp

text \<open>What is read is shorter than what it was read from.\<close>

lemma read_body_shorter: "read_body quote s = Some (k, r) \<Longrightarrow> length r < length s"
  by (induction quote s arbitrary: k rule: read_body.induct)
     (fastforce split: if_splits option.splits dest: read_char_shorter)+

lemma read_repr_shorter: "read_repr s = Some (k, r) \<Longrightarrow> length r < length s"
  by (auto simp: read_repr_def split: list.splits if_splits dest!: read_body_shorter)

text \<open>A string of printable characters without quote and backslash is put between
  single quotes and left as it is.\<close>

definition plain_char :: "char \<Rightarrow> bool" where
  "plain_char c \<longleftrightarrow> is_printable c \<and> c \<noteq> squote \<and> c \<noteq> backslash"

lemma py_repr_plain: "list_all plain_char s \<Longrightarrow> py_repr s = squote # s @ [squote]"
proof -
  assume s: "list_all plain_char s"
  then have "squote \<notin> set s"
    by (auto simp: list_all_iff plain_char_def)
  moreover from s have "concat (map (repr_char squote) s) = s"
    by (induction s) (auto simp: plain_char_def repr_char_def is_printable_def)
  ultimately show ?thesis
    by (simp add: py_repr_def repr_quote_def Let_def)
qed

text \<open>The equations that compute the text of a given string.\<close>

lemmas eval_repr = py_repr_def Let_def repr_quote_def repr_char_def is_printable_def hex_digit_def

text \<open>Examples: a plain identifier, one with a single quote, one with both quotes and
  one with a tab and a character that is not printable.\<close>

lemma py_repr_ex:
  "py_repr ''Shelf_1'' = squote # ''Shelf_1'' @ [squote]"
  "py_repr ''O'Neil_1'' = dquote # ''O'Neil_1'' @ [dquote]"
  "py_repr [CHR ''a'', squote, dquote] = [squote, CHR ''a'', backslash, squote, dquote, squote]"
  "py_repr [CHR 0x09, CHR 0x07, CHR 0xE9, CHR 0xA0]
     = squote # [backslash, CHR ''t''] @ [backslash, CHR ''x'', CHR ''0'', CHR ''7'']
         @ [CHR 0xE9] @ [backslash, CHR ''x'', CHR ''a'', CHR ''0''] @ [squote]"
  by (simp_all add: eval_repr)

end
