(* ===== verification/Py_Runtime.thy ===== *)
theory Py_Runtime
  imports Py_Repr
begin

text \<open>
  The parts of the Python runtime that \<open>src/app/main.py\<close> relies on and whose
  behaviour the theorems depend on: the exceptions it raises and catches, indexing a
  list at \<open>0\<close>, \<open>range(n)\<close> over an \<open>int\<close> that may be zero or negative, and the
  decimal text of an \<open>int\<close> inside an f-string, from which the unit identifiers
  \<open>f"{name}_{i+1}"\<close> are built.

  The lemmas give the decimal text a reader (\<open>read_int\<close>), hence injectivity, and
  show that a unit identifier determines its name and its ordinal
  (\<open>split_unit_id\<close>), which is what makes identifiers of different specifications
  different.
\<close>

section \<open>Exceptions\<close>

text \<open>
  The exceptions the orchestrator raises itself (\<open>KeyError\<close> from
  \<open>panel_mapping[panel_id]\<close>, \<open>IndexError\<close> from \<open>panels[0]\<close>, \<open>ValueError\<close> for an
  unknown method), the one it catches by name (\<open>UnresolvableError\<close>, raised by the
  packing library) and any other exception of the packing library, kept as its type
  name and its text.
\<close>

datatype exn =
    KeyError string
  | IndexError
  | ValueError string
  | UnresolvableError string
  | OtherError string string

type_synonym 'a py = "(exn, 'a) result"

text \<open>\<open>type(e).__name__\<close> and \<open>str(e)\<close>, as the handlers of \<open>calculate\<close> print them.
  The text of a \<open>KeyError\<close> is the \<open>repr\<close> of the key.\<close>

fun exn_name :: "exn \<Rightarrow> string" where
  "exn_name (KeyError k) = ''KeyError''"
| "exn_name IndexError = ''IndexError''"
| "exn_name (ValueError m) = ''ValueError''"
| "exn_name (UnresolvableError m) = ''UnresolvableError''"
| "exn_name (OtherError n m) = n"

fun exn_str :: "exn \<Rightarrow> string" where
  "exn_str (KeyError k) = py_repr k"
| "exn_str IndexError = ''list index out of range''"
| "exn_str (ValueError m) = m"
| "exn_str (UnresolvableError m) = m"
| "exn_str (OtherError n m) = m"

fun is_unresolvable :: "exn \<Rightarrow> bool" where
  "is_unresolvable (UnresolvableError m) = True"
| "is_unresolvable e = False"

section \<open>Lists and ranges\<close>

definition first_elem :: "'a list \<Rightarrow> 'a py" where
  "first_elem xs = (case xs of [] \<Rightarrow> Raise IndexError | x # _ \<Rightarrow> Return x)"

definition py_range :: "int \<Rightarrow> int list" where
  "py_range n = [0..n - 1]"

section \<open>The decimal text of an integer\<close>

definition digit_char :: "nat \<Rightarrow> char" where
  "digit_char d = ''0123456789'' ! d"

fun str_nat :: "nat \<Rightarrow> string" where
  "str_nat n = (if n < 10 then [digit_char n] else str_nat (n div 10) @ [digit_char (n mod 10)])"

declare str_nat.simps [simp del]

definition str_int :: "int \<Rightarrow> string" where
  "str_int i = (if i < 0 then CHR ''-'' # str_nat (nat (- i)) else str_nat (nat i))"

definition unit_id :: "string \<Rightarrow> int \<Rightarrow> string" where
  "unit_id name i = name @ ''_'' @ str_int i"

text \<open>Readers, for the round trips; they model no code.\<close>

definition is_digit :: "char \<Rightarrow> bool" where
  "is_digit c \<longleftrightarrow> c \<in> set ''0123456789''"

definition digit_val :: "char \<Rightarrow> nat" where
  "digit_val c = of_char c - 48"

definition read_nat :: "string \<Rightarrow> nat" where
  "read_nat s = foldl (\<lambda>a c. 10 * a + digit_val c) 0 s"

definition read_int :: "string \<Rightarrow> int" where
  "read_int s = (case s of [] \<Rightarrow> 0
     | c # r \<Rightarrow> if c = CHR ''-'' then - int (read_nat r) else int (read_nat s))"

definition split_unit_id :: "string \<Rightarrow> string \<times> int" where
  "split_unit_id s =
     (rev (tl (dropWhile (\<lambda>c. c \<noteq> CHR ''_'') (rev s))),
      read_int (rev (takeWhile (\<lambda>c. c \<noteq> CHR ''_'') (rev s))))"

section \<open>Facts about exceptions and indexing\<close>

lemma is_unresolvable_iff: "is_unresolvable e \<longleftrightarrow> (\<exists>m. e = UnresolvableError m)"
  by (cases e) simp_all

lemma first_elem_Nil [simp]: "first_elem [] = Raise IndexError"
  by (simp add: first_elem_def)

lemma first_elem_Cons [simp]: "first_elem (x # xs) = Return x"
  by (simp add: first_elem_def)

lemma first_elem_eq_Inr_iff: "first_elem xs = Inr x \<longleftrightarrow> xs \<noteq> [] \<and> x = hd xs"
  by (cases xs) auto

lemma first_elem_eq_Inl_iff: "first_elem xs = Inl e \<longleftrightarrow> xs = [] \<and> e = IndexError"
  by (cases xs) auto

section \<open>Facts about ranges\<close>

lemma py_range_rec: "py_range n = (if n \<le> 0 then [] else py_range (n - 1) @ [n - 1])"
  by (simp add: py_range_def upto_rec2)

lemmas py_range_numeral [simp] = py_range_rec [of "numeral k"] for k

lemma py_range_nonpos [simp]: "n \<le> 0 \<Longrightarrow> py_range n = []"
  by (simp add: py_range_def)

lemma py_range_one [simp]: "py_range 1 = [0]"
  by (simp add: py_range_def)

lemma py_range_Suc: "0 \<le> n \<Longrightarrow> py_range (n + 1) = py_range n @ [n]"
  by (simp add: py_range_def upto_rec2)

lemma length_py_range [simp]: "length (py_range n) = nat n"
  by (simp add: py_range_def)

lemma set_py_range [simp]: "set (py_range n) = {0..<n}"
  by (auto simp: py_range_def)

lemma distinct_py_range [simp]: "distinct (py_range n)"
  by (simp add: py_range_def)

lemma py_range_eq_Nil_iff [simp]: "py_range n = [] \<longleftrightarrow> n \<le> 0"
  by (auto simp: py_range_def)

text \<open>A longer range starts with the shorter one: the units of an attempt keep their
  place when a quantity grows.\<close>

lemma py_range_prefix: "m \<le> n \<Longrightarrow> \<exists>ys. py_range n = py_range m @ ys"
proof (cases "0 < m")
  case True
  assume "m \<le> n"
  with True have "[0..n - 1] = [0..m - 1] @ [m..n - 1]"
    using upto_split2 [of 0 "m - 1" "n - 1"] by simp
  then show ?thesis by (auto simp: py_range_def)
next
  case False
  then show ?thesis by simp
qed

section \<open>Facts about the decimal text\<close>

lemma less_10_cases: "(d::nat) < 10 \<longleftrightarrow> d \<in> {0, 1, 2, 3, 4, 5, 6, 7, 8, 9}"
  by auto

lemma digit_val_digit_char [simp]: "d < 10 \<Longrightarrow> digit_val (digit_char d) = d"
  by (auto simp: less_10_cases digit_val_def digit_char_def)

lemma is_digit_digit_char [simp]: "d < 10 \<Longrightarrow> is_digit (digit_char d)"
  by (auto simp: less_10_cases is_digit_def digit_char_def)

lemma is_digit_simps [simp]: "\<not> is_digit CHR ''_''" "\<not> is_digit CHR ''-''"
  by (simp_all add: is_digit_def)

lemma str_nat_nonempty [simp]: "str_nat n \<noteq> []"
  by (subst str_nat.simps) simp

lemma str_nat_digits: "c \<in> set (str_nat n) \<Longrightarrow> is_digit c"
proof (induction n rule: str_nat.induct)
  case (1 n)
  then show ?case
    by (subst (asm) (2) str_nat.simps) (auto split: if_splits)
qed

lemma read_nat_snoc: "read_nat (s @ [c]) = 10 * read_nat s + digit_val c"
  by (simp add: read_nat_def)

lemma read_nat_str_nat [simp]: "read_nat (str_nat n) = n"
proof (induction n rule: str_nat.induct)
  case (1 n)
  show ?case
  proof (cases "n < 10")
    case True
    then show ?thesis
      by (subst str_nat.simps) (simp add: read_nat_def)
  next
    case False
    with "1.IH" show ?thesis
      by (subst str_nat.simps) (simp add: read_nat_snoc)
  qed
qed

lemma str_nat_inj [simp]: "str_nat m = str_nat n \<longleftrightarrow> m = n"
  by (metis read_nat_str_nat)

lemma hd_str_nat_digit: "is_digit (hd (str_nat n))"
  by (rule str_nat_digits [of _ n]) simp

lemma str_nat_not_minus: "str_nat n \<noteq> CHR ''-'' # r"
  using hd_str_nat_digit [of n] by (auto simp: is_digit_def)

lemma read_int_str_int [simp]: "read_int (str_int i) = i"
proof (cases "i < 0")
  case True
  then show ?thesis by (simp add: read_int_def str_int_def)
next
  case False
  obtain c r where cr: "str_nat (nat i) = c # r"
    by (cases "str_nat (nat i)") simp_all
  with str_nat_not_minus [of "nat i" r] have "c \<noteq> CHR ''-''" by auto
  with False cr show ?thesis
    by (simp add: read_int_def str_int_def) (metis read_nat_str_nat nat_0_le not_less)
qed

lemma str_int_inj [simp]: "str_int i = str_int j \<longleftrightarrow> i = j"
  by (metis read_int_str_int)

lemma str_int_nonempty [simp]: "str_int i \<noteq> []"
  by (simp add: str_int_def)

lemma underscore_notin_str_int [simp]: "CHR ''_'' \<notin> set (str_int i)"
  using str_nat_digits [of "CHR ''_''"] by (auto simp: str_int_def)

section \<open>Facts about unit identifiers\<close>

lemma unit_id_inj [simp]: "unit_id n i = unit_id m j \<longleftrightarrow> n = m \<and> i = j"
  by (simp add: unit_id_def append_sep_eq_iff)

lemma split_unit_id_unit_id [simp]: "split_unit_id (unit_id n i) = (n, i)"
proof -
  have "rev (unit_id n i) = rev (str_int i) @ CHR ''_'' # rev n"
    by (simp add: unit_id_def)
  then show ?thesis
    by (simp add: split_unit_id_def takeWhile_sep dropWhile_sep)
qed

lemma unit_id_nonempty [simp]: "unit_id n i \<noteq> []"
  by (simp add: unit_id_def)

lemma inj_unit_id: "inj (unit_id n)"
  by (simp add: inj_def)

text \<open>The equations that compute the identifier of a given name and number.\<close>

lemmas eval_ids = unit_id_def str_int_def str_nat.simps digit_char_def

text \<open>Identifiers are ordered as text, not by their number: the tenth unit of a
  specification comes before the second.\<close>

lemma unit_id_order_textual: "unit_id name 10 < unit_id name 2"
  by (induction name) (simp_all add: eval_ids)

end
