(* ===== verification/Data_Model.thy ===== *)
theory Data_Model
  imports Py_Runtime
begin

text \<open>
  The data of \<open>src/app/main.py\<close>: the request and response classes (pydantic models,
  here records), the dictionaries the optimizer builds per unit (\<open>item_mapping\<close>,
  \<open>panel_mapping\<close>, here records of their keys), the objects handed to the packing
  library (\<open>common.Panel\<close>, \<open>common.Item\<close>, \<open>common.Params\<close>, \<open>common.Method\<close>) and
  the JSON the library's result is turned into (\<open>result["used"]\<close>,
  \<open>result["unused"]\<close>, \<open>result["cuts"]\<close>).

  Field names carry a prefix per class (\<open>pin_\<close> for \<open>PanelInput\<close>, \<open>iin_\<close> for
  \<open>ItemInput\<close>, \<open>up_\<close> for \<open>UserParams\<close>, \<open>ui_\<close> for \<open>UsedItem\<close>, \<open>ua_\<close> for
  \<open>UnusedArea\<close>, \<open>po_\<close> for \<open>PanelOutput\<close>, \<open>cr_\<close> for \<open>CalculationResponse\<close>,
  \<open>cp_\<close> and \<open>ci_\<close> for \<open>common.Panel\<close> and \<open>common.Item\<close>),
  since the classes share the names \<open>name\<close>, \<open>width\<close>, \<open>height\<close>. A \<open>float\<close> is a
  \<^typ>\<open>real\<close>: the orchestrator copies and swaps widths, heights and coordinates and
  never computes with them. An \<open>int\<close> is an \<^typ>\<open>int\<close>; a quantity may be zero or
  negative, which the classes do not forbid. \<open>Literal[...]\<close> fields are datatypes.
  A \<open>Dict[str, bool]\<close> or \<open>Dict[str, int]\<close> of the response is an association list
  in insertion order, read through \<open>map_of\<close>.

  \<open>CalculationResponse.calculation_time\<close> is not a field of the record here: it is a
  difference of two readings of the wall clock and no method reads it. The theory
  \<open>Calculate_Effects\<close> extends the record by it.
\<close>

section \<open>Literals and small dictionaries\<close>

datatype grain = Horizontal | Vertical

datatype engraved = Line_horizontal | Line_vertical | Line_none

type_synonym borders = "(string \<times> bool) list"

definition default_borders :: borders where
  "default_borders = [(''top'', False), (''right'', False), (''bottom'', False), (''left'', False)]"

definition borders_get :: "borders \<Rightarrow> string \<Rightarrow> bool" where
  "borders_get b k = dict_get (map_of b) k False"

definition border_keys :: "string list" where
  "border_keys = [''top'', ''right'', ''bottom'', ''left'']"

section \<open>The request\<close>

record PanelInput =
  pin_name :: string
  pin_width :: real
  pin_height :: real
  pin_quantity :: int
  pin_grain :: grain

record ItemInput =
  iin_name :: string
  iin_width :: real
  iin_height :: real
  iin_isRotate :: bool
  iin_quantity :: int
  iin_grain :: grain
  iin_engraved_line :: engraved
  iin_borders :: borders

record UserParams =
  up_cut_width :: real
  up_min_initial_usage :: bool
  up_panels :: "PanelInput list"
  up_items :: "ItemInput list"

section \<open>The response\<close>

record UsedItem =
  ui_item_id :: string
  ui_name :: string
  ui_width :: real
  ui_height :: real
  ui_x :: real
  ui_y :: real
  ui_rotate :: bool
  ui_grain :: grain
  ui_engraved_line :: engraved
  ui_borders :: borders

record UnusedArea =
  ua_width :: real
  ua_height :: real
  ua_x :: real
  ua_y :: real

record PanelOutput =
  po_panel_id :: string
  po_panel_name :: string
  po_width :: real
  po_height :: real
  po_used_items :: "UsedItem list"
  po_unused_areas :: "UnusedArea list"

record CalculationResponse =
  cr_success :: bool
  cr_panels :: "PanelOutput list"
  cr_cuts :: "string list"
  cr_summary :: "(string \<times> int) list"
  cr_error :: "string option"

section \<open>The dictionaries built per unit\<close>

text \<open>The value of \<open>item_mapping[item_id]\<close> (\<open>_create_item_mapping\<close>) and of
  \<open>panel_mapping[panel_id]\<close> (\<open>_create_panel_mapping\<close>).\<close>

record ItemDetails =
  idt_name :: string
  idt_width :: real
  idt_height :: real
  idt_original_width :: real
  idt_original_height :: real
  idt_can_rotate :: bool
  idt_grain :: grain
  idt_engraved_line :: engraved
  idt_borders :: borders

record PanelDetails =
  pdt_name :: string
  pdt_width :: real
  pdt_height :: real
  pdt_grain :: grain

type_synonym item_mapping = "string \<rightharpoonup> ItemDetails"

type_synonym panel_mapping = "string \<rightharpoonup> PanelDetails"

section \<open>The boundary to the packing library\<close>

datatype Method = GREEDY | FORWARD_GREEDY | GREEDY_NATIVE | FORWARD_GREEDY_NATIVE

record Panel =
  cp_id :: string
  cp_width :: real
  cp_height :: real

record Item =
  ci_id :: string
  ci_width :: real
  ci_height :: real
  ci_can_rotate :: bool

record Params =
  prm_cut_width :: real
  prm_min_initial_usage :: bool
  prm_panels :: "Panel list"
  prm_items :: "Item list"

text \<open>
  One entry of \<open>result["used"]\<close> and of \<open>result["unused"]\<close>. The keys \<open>panel\<close>,
  \<open>item\<close>, \<open>x\<close>, \<open>y\<close> and \<open>rotate\<close> are read with \<open>[...]\<close> and are always there;
  \<open>width\<close> and \<open>height\<close> of a used entry are read with \<open>.get\<close> and may be missing.
  In \<open>RawResult\<close>, \<open>None\<close> stands for a key the result does not have (for
  \<open>cuts\<close>, also for the value \<open>None\<close>); a result that is \<open>None\<close> or empty is the
  record of three \<open>None\<close>s.
\<close>

record UsedJson =
  uj_panel :: string
  uj_item :: string
  uj_x :: real
  uj_y :: real
  uj_rotate :: bool
  uj_width :: "real option"
  uj_height :: "real option"

record UnusedJson =
  nj_panel :: string
  nj_width :: real
  nj_height :: real
  nj_x :: real
  nj_y :: real

record RawResult =
  rr_used :: "UsedJson list option"
  rr_unused :: "UnusedJson list option"
  rr_cuts :: "string list option"

text \<open>The packing library as the orchestrator sees it: \<open>common.result_to_json\<close>
  after \<open>opcut.calculate.calculate\<close>, which returns a result or raises.\<close>

type_synonym solver = "Method \<Rightarrow> Params \<Rightarrow> RawResult py"

section \<open>Well-formed requests\<close>

text \<open>What the specification asks of a request (names unique among the panels and
  among the items) and what a Python \<open>dict\<close> guarantees (no key twice).\<close>

definition valid_borders :: "borders \<Rightarrow> bool" where
  "valid_borders b \<longleftrightarrow> distinct (map fst b)"

definition unique_panel_names :: "PanelInput list \<Rightarrow> bool" where
  "unique_panel_names ps \<longleftrightarrow> distinct (map pin_name ps)"

definition unique_item_names :: "ItemInput list \<Rightarrow> bool" where
  "unique_item_names its \<longleftrightarrow> distinct (map iin_name its)"

definition wf_request :: "UserParams \<Rightarrow> bool" where
  "wf_request u \<longleftrightarrow> unique_panel_names (up_panels u) \<and> unique_item_names (up_items u)
     \<and> list_all (\<lambda>i. valid_borders (iin_borders i)) (up_items u)"

section \<open>Example data\<close>

text \<open>The sheet and the part of the scenarios of the specification (a 2440 by 1220
  sheet of vertical grain, a 500 by 300 part), a second panel type and a part that
  lies across the grain of the sheet, carries an engraved line and two borders and
  is wanted twice. The closed instances of the theorems are stated on them.\<close>

definition ex_sheet :: PanelInput where
  "ex_sheet = \<lparr>pin_name = ''Sheet'', pin_width = 2440, pin_height = 1220,
     pin_quantity = 1, pin_grain = Vertical\<rparr>"

definition ex_board :: PanelInput where
  "ex_board = \<lparr>pin_name = ''Board'', pin_width = 1000, pin_height = 600,
     pin_quantity = 2, pin_grain = Horizontal\<rparr>"

definition ex_shelf :: ItemInput where
  "ex_shelf = \<lparr>iin_name = ''Shelf'', iin_width = 500, iin_height = 300, iin_isRotate = False,
     iin_quantity = 1, iin_grain = Vertical, iin_engraved_line = Line_none,
     iin_borders = default_borders\<rparr>"

definition ex_door :: ItemInput where
  "ex_door = \<lparr>iin_name = ''Door'', iin_width = 500, iin_height = 300, iin_isRotate = True,
     iin_quantity = 2, iin_grain = Horizontal, iin_engraved_line = Line_horizontal,
     iin_borders = [(''top'', True), (''right'', False), (''bottom'', False), (''left'', True)]\<rparr>"

definition ex_request :: UserParams where
  "ex_request = \<lparr>up_cut_width = 3, up_min_initial_usage = False,
     up_panels = [ex_sheet, ex_board], up_items = [ex_shelf, ex_door]\<rparr>"

text \<open>Scenario A of the specification: one sheet and one shelf of the same grain.
  Scenario B: one sheet and one rail that lies across its grain and carries an
  engraved line.\<close>

definition scenario_a :: UserParams where
  "scenario_a = \<lparr>up_cut_width = 3, up_min_initial_usage = False,
     up_panels = [ex_sheet], up_items = [ex_shelf]\<rparr>"

definition ex_rail :: ItemInput where
  "ex_rail = \<lparr>iin_name = ''Rail'', iin_width = 500, iin_height = 300, iin_isRotate = False,
     iin_quantity = 1, iin_grain = Horizontal, iin_engraved_line = Line_horizontal,
     iin_borders = default_borders\<rparr>"

definition scenario_b :: UserParams where
  "scenario_b = \<lparr>up_cut_width = 3, up_min_initial_usage = False,
     up_panels = [ex_sheet], up_items = [ex_rail]\<rparr>"

text \<open>Scenario C of the specification: one sheet in stock and forty parts wanted,
  for a packing library that never finds a placement.\<close>

definition scenario_c :: UserParams where
  "scenario_c = \<lparr>up_cut_width = 3, up_min_initial_usage = False,
     up_panels = [ex_sheet], up_items = [ex_shelf\<lparr>iin_quantity := 40\<rparr>]\<rparr>"

text \<open>A result of the packing library for the example request, as JSON: the shelf
  and one door on the first sheet, the other door on the first board, one region
  left over on each; and the response that belongs to it.\<close>

definition ex_result :: RawResult where
  "ex_result = \<lparr>rr_used = Some
       [\<lparr>uj_panel = ''Sheet_1'', uj_item = ''Shelf_1'', uj_x = 0, uj_y = 0, uj_rotate = False,
          uj_width = None, uj_height = None\<rparr>,
        \<lparr>uj_panel = ''Board_1'', uj_item = ''Door_1'', uj_x = 0, uj_y = 0, uj_rotate = False,
          uj_width = Some 300, uj_height = Some 500\<rparr>,
        \<lparr>uj_panel = ''Sheet_1'', uj_item = ''Door_2'', uj_x = 503, uj_y = 0, uj_rotate = True,
          uj_width = None, uj_height = None\<rparr>],
     rr_unused = Some
       [\<lparr>nj_panel = ''Sheet_1'', nj_width = 1634, nj_height = 1220, nj_x = 806, nj_y = 0\<rparr>,
        \<lparr>nj_panel = ''Board_1'', nj_width = 697, nj_height = 600, nj_x = 303, nj_y = 0\<rparr>],
     rr_cuts = None\<rparr>"

definition ex_door_shown :: "string \<Rightarrow> real \<Rightarrow> bool \<Rightarrow> UsedItem" where
  "ex_door_shown item_id x rotated =
     \<lparr>ui_item_id = item_id, ui_name = ''Door'', ui_width = 300, ui_height = 500,
      ui_x = x, ui_y = 0, ui_rotate = rotated, ui_grain = Horizontal,
      ui_engraved_line = Line_vertical,
      ui_borders = [(''top'', True), (''right'', True), (''bottom'', False), (''left'', False)]\<rparr>"

definition ex_shelf_shown :: UsedItem where
  "ex_shelf_shown =
     \<lparr>ui_item_id = ''Shelf_1'', ui_name = ''Shelf'', ui_width = 500, ui_height = 300,
      ui_x = 0, ui_y = 0, ui_rotate = False, ui_grain = Vertical,
      ui_engraved_line = Line_none, ui_borders = default_borders\<rparr>"

definition ex_response :: CalculationResponse where
  "ex_response =
     \<lparr>cr_success = True,
      cr_panels =
        [\<lparr>po_panel_id = ''Board_1'', po_panel_name = ''Board'', po_width = 1000, po_height = 600,
          po_used_items = [ex_door_shown ''Door_1'' 0 False],
          po_unused_areas = [\<lparr>ua_width = 697, ua_height = 600, ua_x = 303, ua_y = 0\<rparr>]\<rparr>,
         \<lparr>po_panel_id = ''Sheet_1'', po_panel_name = ''Sheet'', po_width = 2440, po_height = 1220,
          po_used_items = [ex_shelf_shown, ex_door_shown ''Door_2'' 503 True],
          po_unused_areas = [\<lparr>ua_width = 1634, ua_height = 1220, ua_x = 806, ua_y = 0\<rparr>]\<rparr>],
      cr_cuts = [],
      cr_summary = [(''total_panels_used'', 2), (''total_items_placed'', 3),
                    (''total_unused_areas'', 2)],
      cr_error = None\<rparr>"

text \<open>A result that names an item and a panel the request does not have, and the
  result and the response of Scenario A.\<close>

definition ex_stray :: RawResult where
  "ex_stray = \<lparr>rr_used = Some
       [\<lparr>uj_panel = ''Sheet_1'', uj_item = ''Ghost_1'', uj_x = 0, uj_y = 0, uj_rotate = False,
          uj_width = None, uj_height = None\<rparr>],
     rr_unused = Some
       [\<lparr>nj_panel = ''Sheet_9'', nj_width = 10, nj_height = 10, nj_x = 0, nj_y = 0\<rparr>],
     rr_cuts = None\<rparr>"

definition ex_result_a :: RawResult where
  "ex_result_a = \<lparr>rr_used = Some [\<lparr>uj_panel = ''Sheet_1'', uj_item = ''Shelf_1'', uj_x = 0,
       uj_y = 0, uj_rotate = False, uj_width = None, uj_height = None\<rparr>],
     rr_unused = Some [], rr_cuts = None\<rparr>"

definition ex_response_a :: CalculationResponse where
  "ex_response_a =
     \<lparr>cr_success = True,
      cr_panels = [\<lparr>po_panel_id = ''Sheet_1'', po_panel_name = ''Sheet'', po_width = 2440,
         po_height = 1220,
         po_used_items = [\<lparr>ui_item_id = ''Shelf_1'', ui_name = ''Shelf'', ui_width = 500,
            ui_height = 300, ui_x = 0, ui_y = 0, ui_rotate = False, ui_grain = Vertical,
            ui_engraved_line = Line_none, ui_borders = default_borders\<rparr>],
         po_unused_areas = []\<rparr>],
      cr_cuts = [],
      cr_summary = [(''total_panels_used'', 1), (''total_items_placed'', 1),
                    (''total_unused_areas'', 0)],
      cr_error = None\<rparr>"

lemmas ex_response_defs = ex_response_def ex_door_shown_def ex_shelf_shown_def default_borders_def
  ex_response_a_def

lemmas ex_defs = ex_sheet_def ex_board_def ex_shelf_def ex_door_def ex_request_def

lemmas scenario_defs = scenario_a_def scenario_b_def scenario_c_def ex_rail_def

section \<open>Facts\<close>

lemma Panel_eta [simp]:
  "\<lparr>cp_id = cp_id (x::Panel), cp_width = cp_width x, cp_height = cp_height x\<rparr> = x"
  by (cases x) simp

lemma Item_eta [simp]:
  "\<lparr>ci_id = ci_id (x::Item), ci_width = ci_width x, ci_height = ci_height x,
     ci_can_rotate = ci_can_rotate x\<rparr> = x"
  by (cases x) simp

lemma borders_get_default [simp]: "borders_get default_borders k = False"
  by (simp add: borders_get_def default_borders_def dict_get_def)

lemma borders_get_Nil [simp]: "borders_get [] k = False"
  by (simp add: borders_get_def)

lemma borders_get_Cons [simp]:
  "borders_get ((k', v) # b) k = (if k = k' then v else borders_get b k)"
  by (simp add: borders_get_def dict_get_def)

lemma valid_default_borders [simp]: "valid_borders default_borders"
  by (simp add: valid_borders_def default_borders_def)

lemma unique_panel_names_Cons [simp]:
  "unique_panel_names (p # ps) \<longleftrightarrow> pin_name p \<notin> pin_name ` set ps \<and> unique_panel_names ps"
  by (simp add: unique_panel_names_def)

lemma unique_item_names_Cons [simp]:
  "unique_item_names (i # its) \<longleftrightarrow> iin_name i \<notin> iin_name ` set its \<and> unique_item_names its"
  by (simp add: unique_item_names_def)

lemma unique_names_Nil [simp]: "unique_panel_names []" "unique_item_names []"
  by (simp_all add: unique_panel_names_def unique_item_names_def)

lemma wf_ex_request: "wf_request ex_request"
  by (simp add: wf_request_def ex_defs valid_borders_def default_borders_def)

end
