(* ===== verification/Geometry_Transform.thy ===== *)
theory Geometry_Transform
  imports Data_Model
begin

text \<open>
  The geometry transform of \<open>CuttingOptimizer\<close>: \<open>_transform_item_for_calculation\<close>
  swaps the width and the height of an item whose grain differs from the panel's
  before the item goes to the packing library, and \<open>_transform_used_item_for_display\<close>
  builds the \<open>UsedItem\<close> of a placement, flipping the engraved line and turning the
  four border flags a quarter turn clockwise for such an item.

  The lemmas show that the swap keeps the area and the original dimensions beside
  the cutting ones, that the flip is an involution whose only fixed
  point is \<open>none\<close>, that four quarter turns give back every border flag while two do
  not, and what \<open>_transform_used_item_for_display\<close> returns on each branch: for an
  identifier the mapping knows, for one it does not (the defaults of \<open>.get\<close>), with
  and without a width in the placement.
\<close>

section \<open>To the cutting orientation\<close>

record TransformedItem =
  ti_name :: string
  ti_width :: real
  ti_height :: real
  ti_isRotate :: bool
  ti_quantity :: int
  ti_grain :: grain
  ti_engraved_line :: engraved
  ti_borders :: borders
  ti_original_width :: real
  ti_original_height :: real

definition transform_item_for_calculation :: "ItemInput \<Rightarrow> PanelInput \<Rightarrow> TransformedItem" where
  "transform_item_for_calculation item panel =
     (let (cutting_width, cutting_height) =
        (if iin_grain item \<noteq> pin_grain panel
         then (iin_height item, iin_width item)
         else (iin_width item, iin_height item))
      in \<lparr>ti_name = iin_name item,
          ti_width = cutting_width,
          ti_height = cutting_height,
          ti_isRotate = iin_isRotate item,
          ti_quantity = iin_quantity item,
          ti_grain = iin_grain item,
          ti_engraved_line = iin_engraved_line item,
          ti_borders = iin_borders item,
          ti_original_width = iin_width item,
          ti_original_height = iin_height item\<rparr>)"

section \<open>Back to the display\<close>

text \<open>The two rewrites of the cross-grain branch of
  \<open>_transform_used_item_for_display\<close>.\<close>

definition flip_engraved_line :: "engraved \<Rightarrow> engraved" where
  "flip_engraved_line engrand_line_origin =
     (if engrand_line_origin = Line_none then Line_none
      else if engrand_line_origin = Line_horizontal then Line_vertical else Line_horizontal)"

definition rotate_borders :: "borders \<Rightarrow> borders" where
  "rotate_borders b =
     (let left = borders_get b ''left'';
          top = borders_get b ''top'';
          right = borders_get b ''right'';
          bottom = borders_get b ''bottom''
      in [(''top'', left), (''right'', top), (''bottom'', right), (''left'', bottom)])"

definition transform_used_item_for_display ::
  "UsedJson \<Rightarrow> item_mapping \<Rightarrow> PanelInput \<Rightarrow> UsedItem" where
  "transform_used_item_for_display used_item item_map panel =
     (let item_id = uj_item used_item;
          item_details = item_map item_id;
          cutting_width = (case uj_width used_item of Some w \<Rightarrow> w
             | None \<Rightarrow> (case item_details of Some d \<Rightarrow> idt_width d | None \<Rightarrow> 0));
          cutting_height = (case uj_height used_item of Some h \<Rightarrow> h
             | None \<Rightarrow> (case item_details of Some d \<Rightarrow> idt_height d | None \<Rightarrow> 0));
          grain = (case item_details of Some d \<Rightarrow> idt_grain d | None \<Rightarrow> Vertical);
          engrand_line_origin =
            (case item_details of Some d \<Rightarrow> idt_engraved_line d | None \<Rightarrow> Line_none);
          borders = (case item_details of Some d \<Rightarrow> idt_borders d | None \<Rightarrow> default_borders);
          (engrand_line, borders') =
            (if grain \<noteq> pin_grain panel
             then (flip_engraved_line engrand_line_origin, rotate_borders borders)
             else (engrand_line_origin, borders))
      in \<lparr>ui_item_id = item_id,
          ui_name = (case item_details of Some d \<Rightarrow> idt_name d | None \<Rightarrow> ''''),
          ui_width = cutting_width,
          ui_height = cutting_height,
          ui_x = uj_x used_item,
          ui_y = uj_y used_item,
          ui_rotate = uj_rotate used_item,
          ui_grain = grain,
          ui_engraved_line = engrand_line,
          ui_borders = borders'\<rparr>)"

text \<open>Whether an item lies across the grain of the panel it is compared with.\<close>

definition cross_grain :: "grain \<Rightarrow> PanelInput \<Rightarrow> bool" where
  "cross_grain g panel \<longleftrightarrow> g \<noteq> pin_grain panel"

text \<open>The round trip of an item through the cutting orientation: a shown item has the
  width, the height, the engraved line and the four border flags its specification
  declares. An item is unchanged by a quarter turn when it is square, has no
  engraved line and the same flag on all four sides.\<close>

definition shown_as_declared :: "ItemInput \<Rightarrow> UsedItem \<Rightarrow> bool" where
  "shown_as_declared i shown \<longleftrightarrow>
     ui_width shown = iin_width i \<and> ui_height shown = iin_height i
     \<and> ui_engraved_line shown = iin_engraved_line i
     \<and> borders_get (ui_borders shown) ''top'' = borders_get (iin_borders i) ''top''
     \<and> borders_get (ui_borders shown) ''right'' = borders_get (iin_borders i) ''right''
     \<and> borders_get (ui_borders shown) ''bottom'' = borders_get (iin_borders i) ''bottom''
     \<and> borders_get (ui_borders shown) ''left'' = borders_get (iin_borders i) ''left''"

definition quarter_turn_symmetric :: "ItemInput \<Rightarrow> bool" where
  "quarter_turn_symmetric i \<longleftrightarrow>
     iin_width i = iin_height i \<and> iin_engraved_line i = Line_none
     \<and> borders_get (iin_borders i) ''right'' = borders_get (iin_borders i) ''top''
     \<and> borders_get (iin_borders i) ''bottom'' = borders_get (iin_borders i) ''top''
     \<and> borders_get (iin_borders i) ''left'' = borders_get (iin_borders i) ''top''"

section \<open>The swap\<close>

lemmas transform_item_defs [opcut_defs] = transform_item_for_calculation_def Let_def

lemma transform_item_fields [simp]:
  "ti_name (transform_item_for_calculation item panel) = iin_name item"
  "ti_isRotate (transform_item_for_calculation item panel) = iin_isRotate item"
  "ti_quantity (transform_item_for_calculation item panel) = iin_quantity item"
  "ti_grain (transform_item_for_calculation item panel) = iin_grain item"
  "ti_engraved_line (transform_item_for_calculation item panel) = iin_engraved_line item"
  "ti_borders (transform_item_for_calculation item panel) = iin_borders item"
  "ti_original_width (transform_item_for_calculation item panel) = iin_width item"
  "ti_original_height (transform_item_for_calculation item panel) = iin_height item"
  by (simp_all add: transform_item_defs split: prod.splits)

lemma transform_item_width [simp]:
  "ti_width (transform_item_for_calculation item panel) =
     (if cross_grain (iin_grain item) panel then iin_height item else iin_width item)"
  by (simp add: transform_item_defs cross_grain_def)

lemma transform_item_height [simp]:
  "ti_height (transform_item_for_calculation item panel) =
     (if cross_grain (iin_grain item) panel then iin_width item else iin_height item)"
  by (simp add: transform_item_defs cross_grain_def)

lemma transform_item_area:
  "ti_width (transform_item_for_calculation item panel)
     * ti_height (transform_item_for_calculation item panel)
   = iin_width item * iin_height item"
  by simp

section \<open>The flip and the quarter turn\<close>

lemma flip_engraved_line_simps [simp]:
  "flip_engraved_line Line_none = Line_none"
  "flip_engraved_line Line_horizontal = Line_vertical"
  "flip_engraved_line Line_vertical = Line_horizontal"
  by (simp_all add: flip_engraved_line_def)

lemma flip_engraved_line_involution [simp]: "flip_engraved_line (flip_engraved_line e) = e"
  by (cases e) simp_all

lemma flip_engraved_line_fixed_iff: "flip_engraved_line e = e \<longleftrightarrow> e = Line_none"
  by (cases e) simp_all

lemma rotate_borders_get [simp]:
  "borders_get (rotate_borders b) ''top'' = borders_get b ''left''"
  "borders_get (rotate_borders b) ''right'' = borders_get b ''top''"
  "borders_get (rotate_borders b) ''bottom'' = borders_get b ''right''"
  "borders_get (rotate_borders b) ''left'' = borders_get b ''bottom''"
  by (simp_all add: rotate_borders_def)

lemma rotate_borders_keys [simp]: "map fst (rotate_borders b) = border_keys"
  by (simp add: rotate_borders_def border_keys_def)

lemma valid_rotate_borders [simp]: "valid_borders (rotate_borders b)"
  by (simp add: valid_borders_def border_keys_def)

lemma rotate_borders_other_key:
  "k \<notin> set border_keys \<Longrightarrow> borders_get (rotate_borders b) k = False"
  by (simp add: rotate_borders_def border_keys_def)

text \<open>A dictionary with exactly the four flags, in the order the code writes them.\<close>

definition four_borders :: "bool \<Rightarrow> bool \<Rightarrow> bool \<Rightarrow> bool \<Rightarrow> borders" where
  "four_borders t r b l = [(''top'', t), (''right'', r), (''bottom'', b), (''left'', l)]"

lemma rotate_borders_four [simp]: "rotate_borders (four_borders t r b l) = four_borders l t r b"
  by (simp add: rotate_borders_def four_borders_def)

lemma rotate_borders_is_four:
  "rotate_borders b = four_borders (borders_get b ''left'') (borders_get b ''top'')
     (borders_get b ''right'') (borders_get b ''bottom'')"
  by (simp add: rotate_borders_def four_borders_def)

text \<open>C34. Four quarter turns give back each of the four border flags of any
  dictionary, also of one that lacks keys or has others.\<close>

theorem rotate_borders_four_cycle:
  "map (borders_get ((rotate_borders ^^ 4) b)) border_keys = map (borders_get b) border_keys"
  by (simp add: numeral_eq_Suc border_keys_def)

text \<open>On the dictionaries the code itself writes, four quarter turns are the
  identity, and no smaller positive number of turns is.\<close>

lemma rotate_borders_pow4_four [simp]:
  "(rotate_borders ^^ 4) (four_borders t r b l) = four_borders t r b l"
  by (simp add: numeral_eq_Suc)

lemma rotate_borders_pow_mod4:
  "(rotate_borders ^^ n) (four_borders t r b l) = (rotate_borders ^^ (n mod 4)) (four_borders t r b l)"
proof (induction n arbitrary: t r b l rule: less_induct)
  case (less n)
  show ?case
  proof (cases "n < 4")
    case True
    then show ?thesis by simp
  next
    case False
    then obtain k where n: "n = k + 4"
      by (metis add.commute le_add_diff_inverse not_less)
    have "(rotate_borders ^^ n) (four_borders t r b l)
        = (rotate_borders ^^ k) ((rotate_borders ^^ 4) (four_borders t r b l))"
      unfolding n by (simp only: funpow_add o_apply)
    also have "\<dots> = (rotate_borders ^^ (k mod 4)) (four_borders t r b l)"
      using less.IH [of k] n by simp
    finally show ?thesis by (simp add: n)
  qed
qed

lemma four_borders_eq_iff [simp]:
  "four_borders t r b l = four_borders t' r' b' l' \<longleftrightarrow> t = t' \<and> r = r' \<and> b = b' \<and> l = l'"
  by (simp add: four_borders_def)

lemma rotate_borders_order_four:
  "(rotate_borders ^^ n) (four_borders True False False False) = four_borders True False False False
     \<longleftrightarrow> n mod 4 = 0"
proof -
  define m where "m = n mod 4"
  have "m < 4" by (simp add: m_def)
  then consider "m = 0" | "m = 1" | "m = 2" | "m = 3" by linarith
  then have "(rotate_borders ^^ m) (four_borders True False False False)
      = four_borders True False False False \<longleftrightarrow> m = 0"
    by cases (simp_all add: numeral_2_eq_2 numeral_3_eq_3)
  then show ?thesis
    by (simp add: m_def rotate_borders_pow_mod4 [of n])
qed


section \<open>The display record\<close>

lemmas display_defs [opcut_defs] = transform_used_item_for_display_def Let_def

lemma display_passthrough [simp]:
  "ui_item_id (transform_used_item_for_display u m panel) = uj_item u"
  "ui_x (transform_used_item_for_display u m panel) = uj_x u"
  "ui_y (transform_used_item_for_display u m panel) = uj_y u"
  "ui_rotate (transform_used_item_for_display u m panel) = uj_rotate u"
  by (simp_all add: display_defs split: prod.splits)

text \<open>An identifier the mapping knows.\<close>

lemma display_known:
  assumes "m (uj_item u) = Some d"
  shows "transform_used_item_for_display u m panel =
    \<lparr>ui_item_id = uj_item u,
     ui_name = idt_name d,
     ui_width = (case uj_width u of Some w \<Rightarrow> w | None \<Rightarrow> idt_width d),
     ui_height = (case uj_height u of Some h \<Rightarrow> h | None \<Rightarrow> idt_height d),
     ui_x = uj_x u, ui_y = uj_y u, ui_rotate = uj_rotate u,
     ui_grain = idt_grain d,
     ui_engraved_line = (if cross_grain (idt_grain d) panel
        then flip_engraved_line (idt_engraved_line d) else idt_engraved_line d),
     ui_borders = (if cross_grain (idt_grain d) panel
        then rotate_borders (idt_borders d) else idt_borders d)\<rparr>"
  using assms by (simp add: display_defs cross_grain_def split: option.splits)

text \<open>An identifier the mapping does not know: the defaults of \<open>.get\<close>, compared
  with the default grain \<open>vertical\<close>. The default borders are all \<open>False\<close>, so the
  quarter turn leaves them as they are.\<close>

lemma rotate_default_borders [simp]: "rotate_borders default_borders = default_borders"
  by (simp add: rotate_borders_def default_borders_def Let_def)

lemma display_unknown:
  assumes "m (uj_item u) = None"
  shows "transform_used_item_for_display u m panel =
    \<lparr>ui_item_id = uj_item u,
     ui_name = '''',
     ui_width = (case uj_width u of Some w \<Rightarrow> w | None \<Rightarrow> 0),
     ui_height = (case uj_height u of Some h \<Rightarrow> h | None \<Rightarrow> 0),
     ui_x = uj_x u, ui_y = uj_y u, ui_rotate = uj_rotate u,
     ui_grain = Vertical,
     ui_engraved_line = Line_none,
     ui_borders = default_borders\<rparr>"
  using assms by (simp add: display_defs split: option.splits)

end
