(* ===== verification/Quantity_Expander.thy ===== *)
theory Quantity_Expander
  imports Geometry_Transform
begin

text \<open>
  The quantity expander of \<open>CuttingOptimizer\<close>: \<open>_expand_panels\<close> and
  \<open>_expand_items\<close> turn every specification of quantity \<open>q\<close> into the units
  \<open>name_1 .. name_q\<close> handed to the packing library, \<open>_create_panel_mapping\<close> and
  \<open>_create_item_mapping\<close> build the dictionaries from a unit identifier back to
  the specification it came from.

  The lemmas give the identifiers of the units (\<open>unit_ids\<close>), their number, that
  they are pairwise different when the names are, that the dictionaries have exactly
  the units as keys and hold the data of the unit's specification, and that a larger
  quantity keeps the units of a smaller one.
\<close>

section \<open>Units\<close>

definition expand_panels :: "PanelInput list \<Rightarrow> Panel list" where
  "expand_panels panels =
     concat (map (\<lambda>panel.
       map (\<lambda>i. \<lparr>cp_id = unit_id (pin_name panel) (i + 1),
                  cp_width = pin_width panel,
                  cp_height = pin_height panel\<rparr>)
         (py_range (pin_quantity panel))) panels)"

definition expand_items :: "ItemInput list \<Rightarrow> PanelInput \<Rightarrow> Item list" where
  "expand_items items panel =
     concat (map (\<lambda>item.
       let transformed_item = transform_item_for_calculation item panel
       in map (\<lambda>i. \<lparr>ci_id = unit_id (iin_name item) (i + 1),
                     ci_width = ti_width transformed_item,
                     ci_height = ti_height transformed_item,
                     ci_can_rotate = iin_isRotate item\<rparr>)
            (py_range (iin_quantity item))) items)"

section \<open>Lookup tables\<close>

definition create_item_mapping :: "ItemInput list \<Rightarrow> PanelInput \<Rightarrow> item_mapping" where
  "create_item_mapping items panel =
     fold (\<lambda>item item_map.
       let transformed_item = transform_item_for_calculation item panel
       in fold (\<lambda>i m. m(unit_id (iin_name item) (i + 1) \<mapsto>
              \<lparr>idt_name = iin_name item,
               idt_width = ti_width transformed_item,
               idt_height = ti_height transformed_item,
               idt_original_width = iin_width item,
               idt_original_height = iin_height item,
               idt_can_rotate = iin_isRotate item,
               idt_grain = iin_grain item,
               idt_engraved_line = iin_engraved_line item,
               idt_borders = iin_borders item\<rparr>))
            (py_range (iin_quantity item)) item_map) items Map.empty"

definition create_panel_mapping :: "PanelInput list \<Rightarrow> panel_mapping" where
  "create_panel_mapping panels =
     fold (\<lambda>panel panel_map.
       fold (\<lambda>i m. m(unit_id (pin_name panel) (i + 1) \<mapsto>
              \<lparr>pdt_name = pin_name panel,
               pdt_width = pin_width panel,
               pdt_height = pin_height panel,
               pdt_grain = pin_grain panel\<rparr>))
         (py_range (pin_quantity panel)) panel_map) panels Map.empty"

section \<open>The description of the expansion\<close>

text \<open>The identifiers \<open>name_1 .. name_q\<close> of one specification, the unit of a panel,
  the unit of an item and the values of the two dictionaries: what the loops above
  compute, written without loops.\<close>

definition unit_ids :: "string \<Rightarrow> int \<Rightarrow> string list" where
  "unit_ids name q = map (\<lambda>i. unit_id name (i + 1)) (py_range q)"

definition panel_details :: "PanelInput \<Rightarrow> PanelDetails" where
  "panel_details panel = \<lparr>pdt_name = pin_name panel, pdt_width = pin_width panel,
     pdt_height = pin_height panel, pdt_grain = pin_grain panel\<rparr>"

definition item_details :: "PanelInput \<Rightarrow> ItemInput \<Rightarrow> ItemDetails" where
  "item_details panel item =
     \<lparr>idt_name = iin_name item,
      idt_width = ti_width (transform_item_for_calculation item panel),
      idt_height = ti_height (transform_item_for_calculation item panel),
      idt_original_width = iin_width item,
      idt_original_height = iin_height item,
      idt_can_rotate = iin_isRotate item,
      idt_grain = iin_grain item,
      idt_engraved_line = iin_engraved_line item,
      idt_borders = iin_borders item\<rparr>"

definition panel_entries :: "PanelInput list \<Rightarrow> (string \<times> PanelDetails) list" where
  "panel_entries panels =
     concat (map (\<lambda>p. map (\<lambda>k. (k, panel_details p)) (unit_ids (pin_name p) (pin_quantity p))) panels)"

definition item_entries :: "ItemInput list \<Rightarrow> PanelInput \<Rightarrow> (string \<times> ItemDetails) list" where
  "item_entries items panel =
     concat (map (\<lambda>i. map (\<lambda>k. (k, item_details panel i)) (unit_ids (iin_name i) (iin_quantity i))) items)"

section \<open>Identifiers of one specification\<close>

lemma unit_ids_nonpos [simp]: "q \<le> 0 \<Longrightarrow> unit_ids name q = []"
  by (simp add: unit_ids_def)

lemma length_unit_ids [simp]: "length (unit_ids name q) = nat q"
  by (simp add: unit_ids_def)

lemma set_unit_ids: "set (unit_ids name q) = unit_id name ` {1..q}"
proof -
  have "(\<lambda>i. i + 1) ` {0..<q} = {1..q}"
    by (auto simp: image_iff intro: bexI [of _ "x - 1" for x])
  then show ?thesis
    by (simp add: unit_ids_def image_image [symmetric, of "unit_id name" "\<lambda>i. i + 1"])
qed

lemma unit_id_in_unit_ids [simp]:
  "unit_id n k \<in> set (unit_ids name q) \<longleftrightarrow> n = name \<and> 1 \<le> k \<and> k \<le> q"
  by (auto simp: set_unit_ids)

lemma distinct_unit_ids [simp]: "distinct (unit_ids name q)"
  by (simp add: unit_ids_def distinct_map inj_on_def)

lemma unit_ids_disjoint:
  "name \<noteq> name' \<Longrightarrow> set (unit_ids name q) \<inter> set (unit_ids name' q') = {}"
  by (auto simp: set_unit_ids)

lemma unit_ids_Suc: "0 \<le> q \<Longrightarrow> unit_ids name (q + 1) = unit_ids name q @ [unit_id name (q + 1)]"
  by (simp add: unit_ids_def py_range_Suc)

lemma unit_ids_numeral [simp]:
  "unit_ids name (numeral k) = unit_ids name (numeral k - 1) @ [unit_id name (numeral k)]"
proof -
  have "(0::int) \<le> numeral k - 1"
    by (simp only: diff_ge_0_iff_ge one_le_numeral)
  from unit_ids_Suc [OF this, of name] show ?thesis
    by (simp only: diff_add_cancel)
qed

lemma unit_ids_one [simp]: "unit_ids name 1 = [unit_id name 1]"
  by (simp add: unit_ids_def)

lemma unit_ids_zero [simp]: "unit_ids name 0 = []"
  by simp

text \<open>The identifiers of all specifications of a list, in the order of the list.\<close>

lemma distinct_all_unit_ids:
  assumes "distinct (map nm xs)"
  shows "distinct (concat (map (\<lambda>x. unit_ids (nm x) (qty x)) xs))"
proof (rule distinct_concat_map)
  show "distinct xs"
    using assms by (simp add: distinct_map)
next
  fix x y assume "x \<in> set xs" "y \<in> set xs" "x \<noteq> y"
  with assms have "nm x \<noteq> nm y"
    by (auto simp: distinct_map inj_on_def)
  then show "set (unit_ids (nm x) (qty x)) \<inter> set (unit_ids (nm y) (qty y)) = {}"
    by (rule unit_ids_disjoint)
qed simp

section \<open>Units of the panels\<close>

lemma expand_panels_Nil [simp]: "expand_panels [] = []"
  by (simp add: expand_panels_def)

lemma expand_panels_Cons:
  "expand_panels (p # ps) =
     map (\<lambda>k. \<lparr>cp_id = k, cp_width = pin_width p, cp_height = pin_height p\<rparr>)
       (unit_ids (pin_name p) (pin_quantity p)) @ expand_panels ps"
  by (simp add: expand_panels_def unit_ids_def comp_def)

lemma expand_panels_append [simp]:
  "expand_panels (ps @ qs) = expand_panels ps @ expand_panels qs"
  by (simp add: expand_panels_def)

lemma expand_panels_ids:
  "map cp_id (expand_panels ps) = concat (map (\<lambda>p. unit_ids (pin_name p) (pin_quantity p)) ps)"
  by (induction ps) (simp_all add: expand_panels_Cons comp_def)

lemma length_expand_panels:
  "length (expand_panels ps) = (\<Sum>p\<leftarrow>ps. nat (pin_quantity p))"
  by (induction ps) (simp_all add: expand_panels_Cons)

section \<open>Units of the items\<close>

lemma expand_items_Nil [simp]: "expand_items [] panel = []"
  by (simp add: expand_items_def)

lemma expand_items_Cons:
  "expand_items (i # its) panel =
     map (\<lambda>k. \<lparr>ci_id = k,
                ci_width = ti_width (transform_item_for_calculation i panel),
                ci_height = ti_height (transform_item_for_calculation i panel),
                ci_can_rotate = iin_isRotate i\<rparr>)
       (unit_ids (iin_name i) (iin_quantity i)) @ expand_items its panel"
  by (simp add: expand_items_def unit_ids_def comp_def Let_def)

lemma expand_items_ids:
  "map ci_id (expand_items its panel) = concat (map (\<lambda>i. unit_ids (iin_name i) (iin_quantity i)) its)"
  by (induction its) (simp_all add: expand_items_Cons comp_def)

lemma length_expand_items:
  "length (expand_items its panel) = (\<Sum>i\<leftarrow>its. nat (iin_quantity i))"
  by (induction its) (simp_all add: expand_items_Cons)

section \<open>The dictionaries as association lists\<close>

lemma create_panel_mapping_eq: "create_panel_mapping ps = map_of (rev (panel_entries ps))"
  by (simp add: create_panel_mapping_def fold_map_upd fold_map_add panel_entries_def
      unit_ids_def panel_details_def comp_def)

lemma create_item_mapping_eq: "create_item_mapping its panel = map_of (rev (item_entries its panel))"
  by (simp add: create_item_mapping_def Let_def fold_map_upd fold_map_add item_entries_def
      unit_ids_def item_details_def comp_def)

lemma panel_entries_keys:
  "map fst (panel_entries ps) = concat (map (\<lambda>p. unit_ids (pin_name p) (pin_quantity p)) ps)"
  by (simp add: panel_entries_def map_concat comp_def)

lemma item_entries_keys:
  "map fst (item_entries its panel) = concat (map (\<lambda>i. unit_ids (iin_name i) (iin_quantity i)) its)"
  by (simp add: item_entries_def map_concat comp_def)

lemma distinct_panel_entries:
  "unique_panel_names ps \<Longrightarrow> distinct (map fst (panel_entries ps))"
  unfolding panel_entries_keys unique_panel_names_def by (rule distinct_all_unit_ids)

lemma distinct_item_entries:
  "unique_item_names its \<Longrightarrow> distinct (map fst (item_entries its panel))"
  unfolding item_entries_keys unique_item_names_def by (rule distinct_all_unit_ids)

lemma panel_entry_mem:
  "(k, d) \<in> set (panel_entries ps) \<longleftrightarrow>
     (\<exists>p\<in>set ps. k \<in> set (unit_ids (pin_name p) (pin_quantity p)) \<and> d = panel_details p)"
  by (auto simp: panel_entries_def)

lemma item_entry_mem:
  "(k, d) \<in> set (item_entries its panel) \<longleftrightarrow>
     (\<exists>i\<in>set its. k \<in> set (unit_ids (iin_name i) (iin_quantity i)) \<and> d = item_details panel i)"
  by (auto simp: item_entries_def)

lemma create_panel_mapping_entry:
  "unique_panel_names ps \<Longrightarrow> (k, d) \<in> set (panel_entries ps) \<Longrightarrow> create_panel_mapping ps k = Some d"
  by (simp add: create_panel_mapping_eq map_of_rev_distinct distinct_panel_entries)

lemma create_item_mapping_entry:
  "unique_item_names its \<Longrightarrow> (k, d) \<in> set (item_entries its panel) \<Longrightarrow>
     create_item_mapping its panel k = Some d"
  by (simp add: create_item_mapping_eq map_of_rev_distinct distinct_item_entries)

lemma dom_create_panel_mapping:
  "dom (create_panel_mapping ps) = set (map cp_id (expand_panels ps))"
  unfolding create_panel_mapping_eq expand_panels_ids dom_map_of_rev
  by (simp only: set_map [symmetric] panel_entries_keys)

lemma dom_create_item_mapping:
  "dom (create_item_mapping its panel) = set (map ci_id (expand_items its panel))"
  unfolding create_item_mapping_eq expand_items_ids dom_map_of_rev
  by (simp only: set_map [symmetric] item_entries_keys)

text \<open>An identifier that is no unit of the request has no entry.\<close>

lemma create_panel_mapping_None:
  "k \<notin> set (map cp_id (expand_panels ps)) \<Longrightarrow> create_panel_mapping ps k = None"
  using dom_create_panel_mapping [of ps] by blast

text \<open>The entry and the unit of the \<open>k\<close>-th copy of a specification.\<close>

lemma panel_unit_entry:
  assumes "unique_panel_names ps" and "p \<in> set ps" and "1 \<le> k" and "k \<le> pin_quantity p"
  shows "create_panel_mapping ps (unit_id (pin_name p) k) = Some (panel_details p)"
  using assms
  by (intro create_panel_mapping_entry) (auto simp: panel_entry_mem set_unit_ids intro!: bexI [of _ p])

lemma item_unit_entry:
  assumes "unique_item_names items" and "i \<in> set items" and "1 \<le> k" and "k \<le> iin_quantity i"
  shows "create_item_mapping items panel (unit_id (iin_name i) k) = Some (item_details panel i)"
  using assms
  by (intro create_item_mapping_entry) (auto simp: item_entry_mem set_unit_ids intro!: bexI [of _ i])

lemma item_unit_member:
  assumes "i \<in> set items" and "1 \<le> k" and "k \<le> iin_quantity i"
  shows "\<lparr>ci_id = unit_id (iin_name i) k,
          ci_width = ti_width (transform_item_for_calculation i panel),
          ci_height = ti_height (transform_item_for_calculation i panel),
          ci_can_rotate = iin_isRotate i\<rparr> \<in> set (expand_items items panel)"
proof -
  let ?unit = "\<lambda>j. \<lparr>ci_id = unit_id (iin_name i) (j + 1),
      ci_width = ti_width (transform_item_for_calculation i panel),
      ci_height = ti_height (transform_item_for_calculation i panel),
      ci_can_rotate = iin_isRotate i\<rparr>"
  from assms(2,3) have "?unit (k - 1) \<in> ?unit ` set (py_range (iin_quantity i))"
    by (intro imageI) simp
  with assms(1) show ?thesis
    by (auto simp: expand_items_def Let_def intro!: bexI [of _ i])
qed

text \<open>A larger quantity keeps the units of a smaller one; the item units depend on
  the reference panel through its grain only.\<close>

lemma set_unit_ids_mono: "q \<le> q' \<Longrightarrow> set (unit_ids name q) \<subseteq> set (unit_ids name q')"
  by (auto simp: set_unit_ids)

lemma unit_ids_prefix: "q \<le> q' \<Longrightarrow> \<exists>ys. unit_ids name q' = unit_ids name q @ ys"
  using py_range_prefix [of q q'] by (auto simp: unit_ids_def)

lemma set_expand_panels:
  "set (expand_panels ps) =
     (\<Union>p\<in>set ps. (\<lambda>i. \<lparr>cp_id = unit_id (pin_name p) (i + 1), cp_width = pin_width p,
        cp_height = pin_height p\<rparr>) ` {0..<pin_quantity p})"
  by (auto simp: expand_panels_def)

lemma expand_items_grain:
  "pin_grain p = pin_grain p' \<Longrightarrow> expand_items its p = expand_items its p'"
  by (simp add: expand_items_def transform_item_for_calculation_def)

text \<open>The units of the example request.\<close>

lemma ex_units: "map cp_id (expand_panels (up_panels ex_request)) = [''Sheet_1'', ''Board_1'', ''Board_2'']"
  by (simp add: ex_defs expand_panels_Cons eval_ids)

lemma ex_item_units:
  "map ci_id (expand_items (up_items ex_request) (hd (up_panels ex_request)))
     = [''Shelf_1'', ''Door_1'', ''Door_2'']"
  by (simp add: ex_defs expand_items_Cons eval_ids)

section \<open>Properties of the expansion\<close>

text \<open>C8. The identifiers of the panel units of one attempt are pairwise different
  when the panel names are: no two units of \<open>_expand_panels\<close> share an identifier.\<close>

theorem expand_panels_ids_distinct:
  "unique_panel_names ps \<Longrightarrow> distinct (map cp_id (expand_panels ps))"
  unfolding expand_panels_ids unique_panel_names_def by (rule distinct_all_unit_ids)

theorem expand_panels_ids_distinct_witness:
  "unique_panel_names [ex_sheet, ex_board]
   \<and> distinct (map cp_id (expand_panels [ex_sheet, ex_board]))
   \<and> map cp_id (expand_panels [ex_sheet, ex_board]) = [''Sheet_1'', ''Board_1'', ''Board_2'']"
  using expand_panels_ids_distinct [of "[ex_sheet, ex_board]"]
  by (simp add: ex_defs expand_panels_Cons unit_id_def str_int_def str_nat.simps digit_char_def)

text \<open>C18. The same for the item units of \<open>_expand_items\<close>.\<close>

theorem expand_items_ids_distinct:
  "unique_item_names its \<Longrightarrow> distinct (map ci_id (expand_items its panel))"
  unfolding expand_items_ids unique_item_names_def by (rule distinct_all_unit_ids)

theorem expand_items_ids_distinct_witness:
  "unique_item_names [ex_shelf, ex_door]
   \<and> distinct (map ci_id (expand_items [ex_shelf, ex_door] ex_sheet))
   \<and> map ci_id (expand_items [ex_shelf, ex_door] ex_sheet) = [''Shelf_1'', ''Door_1'', ''Door_2'']"
  using expand_items_ids_distinct [of "[ex_shelf, ex_door]" ex_sheet]
  by (simp add: ex_defs expand_items_Cons unit_id_def str_int_def str_nat.simps digit_char_def)

text \<open>\<open>_expand_panels\<close> makes as many units as the quantities say, a quantity
  below one counting as none.\<close>

theorem expand_panels_count:
  "int (length (expand_panels ps)) = (\<Sum>p\<leftarrow>ps. max 0 (pin_quantity p))"
  by (induction ps) (simp_all add: expand_panels_Cons max_def)

text \<open>The keys of \<open>panel_mapping\<close> are exactly the identifiers of the units of
  \<open>_expand_panels\<close>, and the keys of \<open>item_mapping\<close> those of \<open>_expand_items\<close>: a
  placement that names a unit handed to the packing library finds its entry.\<close>

theorem mapping_keys_are_units:
  "dom (create_panel_mapping ps) = set (map cp_id (expand_panels ps))
   \<and> dom (create_item_mapping its panel) = set (map ci_id (expand_items its panel))"
  by (simp only: dom_create_panel_mapping dom_create_item_mapping simp_thms)

text \<open>With unique panel names, \<open>panel_mapping\<close> holds under \<open>name_k\<close>, for
  \<open>k\<close> from one to the quantity, the name, width, height and grain of the panel
  called \<open>name\<close>.\<close>

theorem create_panel_mapping_lookup:
  assumes "unique_panel_names ps" and "p \<in> set ps" and "1 \<le> k" and "k \<le> pin_quantity p"
  shows "create_panel_mapping ps (unit_id (pin_name p) k) = Some (panel_details p)"
  using assms by (intro create_panel_mapping_entry) (auto simp: panel_entry_mem)

theorem create_panel_mapping_lookup_witness:
  "unique_panel_names [ex_sheet, ex_board] \<and> ex_board \<in> set [ex_sheet, ex_board]
   \<and> (1::int) \<le> 2 \<and> 2 \<le> pin_quantity ex_board
   \<and> create_panel_mapping [ex_sheet, ex_board] ''Board_2''
       = Some \<lparr>pdt_name = ''Board'', pdt_width = 1000, pdt_height = 600, pdt_grain = Horizontal\<rparr>"
  using create_panel_mapping_lookup [of "[ex_sheet, ex_board]" ex_board 2]
  by (simp add: ex_defs panel_details_def unit_id_def str_int_def str_nat.simps digit_char_def)

text \<open>With unique item names, \<open>item_mapping\<close> holds under \<open>name_k\<close> the details
  of the item called \<open>name\<close>: its cutting width and height, its declared ones, its
  grain, engraved line and borders.\<close>

theorem create_item_mapping_lookup:
  assumes "unique_item_names its" and "i \<in> set its" and "1 \<le> k" and "k \<le> iin_quantity i"
  shows "create_item_mapping its panel (unit_id (iin_name i) k) = Some (item_details panel i)"
  using assms by (intro create_item_mapping_entry) (auto simp: item_entry_mem)

theorem create_item_mapping_lookup_witness:
  "unique_item_names [ex_shelf, ex_door] \<and> ex_door \<in> set [ex_shelf, ex_door]
   \<and> (1::int) \<le> 2 \<and> 2 \<le> iin_quantity ex_door
   \<and> map_option (\<lambda>d. (idt_width d, idt_height d, idt_original_width d, idt_original_height d))
         (create_item_mapping [ex_shelf, ex_door] ex_sheet ''Door_2'')
       = Some (300, 500, 500, 300)"
  using create_item_mapping_lookup [of "[ex_shelf, ex_door]" ex_door 2 ex_sheet]
  by (simp add: ex_defs item_details_def cross_grain_def unit_id_def str_int_def str_nat.simps
      digit_char_def)

text \<open>C17. The unit of an item and its entry in \<open>item_mapping\<close> agree: the width,
  the height and the rotate flag handed to the packing library are those the
  assembler later reads back, for every unit of every item.\<close>

theorem units_agree_with_mapping:
  assumes "unique_item_names its"
  shows "map (\<lambda>u. map_option (\<lambda>d. (idt_width d, idt_height d, idt_can_rotate d))
             (create_item_mapping its panel (ci_id u))) (expand_items its panel)
       = map (\<lambda>u. Some (ci_width u, ci_height u, ci_can_rotate u)) (expand_items its panel)"
proof (rule map_cong [OF refl])
  fix u assume "u \<in> set (expand_items its panel)"
  then obtain i k where i: "i \<in> set its" and k: "k \<in> set (unit_ids (iin_name i) (iin_quantity i))"
    and u: "u = \<lparr>ci_id = k, ci_width = ti_width (transform_item_for_calculation i panel),
                ci_height = ti_height (transform_item_for_calculation i panel),
                ci_can_rotate = iin_isRotate i\<rparr>"
    by (auto simp: expand_items_def unit_ids_def Let_def)
  from i k have "(k, item_details panel i) \<in> set (item_entries its panel)"
    by (auto simp: item_entry_mem)
  with assms have "create_item_mapping its panel k = Some (item_details panel i)"
    by (rule create_item_mapping_entry)
  with u show "map_option (\<lambda>d. (idt_width d, idt_height d, idt_can_rotate d))
          (create_item_mapping its panel (ci_id u)) = Some (ci_width u, ci_height u, ci_can_rotate u)"
    by (simp add: item_details_def)
qed

theorem units_agree_with_mapping_witness:
  "unique_item_names [ex_shelf, ex_door]
   \<and> map (\<lambda>u. map_option (\<lambda>d. (idt_width d, idt_height d, idt_can_rotate d))
             (create_item_mapping [ex_shelf, ex_door] ex_sheet (ci_id u)))
         (expand_items [ex_shelf, ex_door] ex_sheet)
       = [Some (500, 300, False), Some (300, 500, True), Some (300, 500, True)]"
  using units_agree_with_mapping [of "[ex_shelf, ex_door]" ex_sheet]
  by (simp add: ex_defs expand_items_Cons cross_grain_def)

end
