(* ===== verification/Packing_Adapter.thy ===== *)
theory Packing_Adapter
  imports Quantity_Expander
begin

text \<open>
  The boundary to the packing library as \<open>CuttingOptimizer\<close> crosses it: the table
  from the method names of the API to \<open>common.Method\<close> (\<open>self.method_map\<close>), the
  \<open>common.Params\<close> built from the request and the expanded units, and the call
  itself. The library is a parameter of type \<open>solver\<close>: a function from the method
  and the parameters to the JSON of a result or to the exception it raises. Nothing
  is assumed of it.

  The lemmas show that the table knows exactly the four names, that the accelerated
  variants are told apart only by the method value, and what the parameters of an
  attempt hold.
\<close>

section \<open>Methods\<close>

definition method_map :: "string \<rightharpoonup> Method" where
  "method_map = map_of
     [(''greedy'', GREEDY),
      (''forward_greedy'', FORWARD_GREEDY),
      (''greedy_native'', GREEDY_NATIVE),
      (''forward_greedy_native'', FORWARD_GREEDY_NATIVE)]"

section \<open>One call\<close>

definition build_params :: "UserParams \<Rightarrow> Panel list \<Rightarrow> Item list \<Rightarrow> Params" where
  "build_params current_user_params panels_list items_list =
     \<lparr>prm_cut_width = up_cut_width current_user_params,
      prm_min_initial_usage = up_min_initial_usage current_user_params,
      prm_panels = panels_list,
      prm_items = items_list\<rparr>"

text \<open>Expanding the request and calling the library: the statements of the \<open>try\<close>
  block of \<open>calculate\<close> up to \<open>common.result_to_json\<close>. \<open>panels[0]\<close> raises
  \<open>IndexError\<close> for a request without panels, before the library is called.\<close>

definition invoke :: "solver \<Rightarrow> Method \<Rightarrow> UserParams \<Rightarrow> RawResult py" where
  "invoke solve opcut_method current_user_params =
     (let panels_list = expand_panels (up_panels current_user_params)
      in bind_result (first_elem (up_panels current_user_params)) (\<lambda>panel0.
           let items_list = expand_items (up_items current_user_params) panel0;
               opcut_params = build_params current_user_params panels_list items_list
           in solve opcut_method opcut_params))"

text \<open>The parameters the library receives for a request with a first panel.\<close>

definition params_of :: "UserParams \<Rightarrow> Params" where
  "params_of u = build_params u (expand_panels (up_panels u))
     (expand_items (up_items u) (hd (up_panels u)))"

text \<open>The library answers a call with \<open>UnresolvableError\<close>.\<close>

definition infeasible :: "solver \<Rightarrow> Method \<Rightarrow> Params \<Rightarrow> bool" where
  "infeasible solve m p = (case solve m p of Inl e \<Rightarrow> is_unresolvable e | Inr r \<Rightarrow> False)"

section \<open>Stand-ins for the library\<close>

text \<open>Packing libraries for the closed instances of the theorems: one that never
  finds a placement, one that fails with another exception, one that returns an
  empty result, one that returns a given result, and one that wants at least \<open>n\<close>
  panel units and then puts every item unit on the first panel unit at the
  origin.\<close>

definition never_fits :: solver where
  "never_fits m p = Raise (UnresolvableError ''no fit'')"

definition crashes :: solver where
  "crashes m p = Raise (OtherError ''RuntimeError'' ''boom'')"

definition places_nothing :: solver where
  "places_nothing m p = Return \<lparr>rr_used = None, rr_unused = None, rr_cuts = None\<rparr>"

definition always_returns :: "RawResult \<Rightarrow> solver" where
  "always_returns raw m p = Return raw"

definition stacks_from :: "nat \<Rightarrow> solver" where
  "stacks_from n m p =
     (if length (prm_panels p) < n \<or> prm_panels p = [] then Raise (UnresolvableError ''no fit'')
      else Return
        \<lparr>rr_used = Some (map (\<lambda>it. \<lparr>uj_panel = cp_id (hd (prm_panels p)), uj_item = ci_id it,
             uj_x = 0, uj_y = 0, uj_rotate = False, uj_width = None, uj_height = None\<rparr>)
             (prm_items p)),
         rr_unused = Some [],
         rr_cuts = None\<rparr>)"

section \<open>Facts\<close>

lemma infeasibleD: "infeasible solve m p \<Longrightarrow> \<exists>e. solve m p = Raise e \<and> is_unresolvable e"
  by (auto simp: infeasible_def split: sum.splits)

lemma method_map_simps [simp]:
  "method_map ''greedy'' = Some GREEDY"
  "method_map ''forward_greedy'' = Some FORWARD_GREEDY"
  "method_map ''greedy_native'' = Some GREEDY_NATIVE"
  "method_map ''forward_greedy_native'' = Some FORWARD_GREEDY_NATIVE"
  by (simp_all add: method_map_def)

lemma dom_method_map:
  "dom method_map = {''greedy'', ''forward_greedy'', ''greedy_native'', ''forward_greedy_native''}"
  by (auto simp: method_map_def split: if_splits)

lemma ran_method_map: "ran method_map = UNIV"
proof -
  have "m \<in> ran method_map" for m
    by (cases m) (auto simp: ran_def intro: exI [of _ "''greedy''"] exI [of _ "''forward_greedy''"]
        exI [of _ "''greedy_native''"] exI [of _ "''forward_greedy_native''"])
  then show ?thesis by auto
qed

lemma invoke_Nil [simp]:
  "up_panels u = [] \<Longrightarrow> invoke solve m u = Raise IndexError"
  by (simp add: invoke_def)

lemma invoke_Cons:
  "up_panels u \<noteq> [] \<Longrightarrow> invoke solve m u = solve m (params_of u)"
  by (cases "up_panels u") (simp_all add: invoke_def params_of_def)

lemma invoke_unresolvable_nonempty:
  "invoke solve m u = Raise e \<Longrightarrow> is_unresolvable e \<Longrightarrow> up_panels u \<noteq> []"
  by (cases "up_panels u") auto

lemma infeasible_never_fits [simp]: "infeasible never_fits m p"
  by (simp add: infeasible_def never_fits_def)

lemma params_of_fields [simp]:
  "prm_cut_width (params_of u) = up_cut_width u"
  "prm_min_initial_usage (params_of u) = up_min_initial_usage u"
  "prm_panels (params_of u) = expand_panels (up_panels u)"
  "prm_items (params_of u) = expand_items (up_items u) (hd (up_panels u))"
  by (simp_all add: params_of_def build_params_def)

end
