(* ===== verification/Result_Assembler.thy ===== *)
theory Result_Assembler
  imports Quantity_Expander
begin

text \<open>
  The result assembler of \<open>CuttingOptimizer\<close>: \<open>transform_result\<close> groups the
  placements and the unused regions of the packing library's result by panel unit,
  attaches the panel's name and size from \<open>panel_mapping\<close>, turns each placement
  into a \<open>UsedItem\<close> with \<open>_transform_used_item_for_display\<close>, sorts the panels by
  identifier and counts panels, placements and unused regions.

  \<open>panels_dict\<close> is an association list in insertion order; the two loops are
  \<open>fold_result\<close> over \<open>process_used_item\<close> and \<open>process_unused_area\<close>, which raise
  \<open>KeyError\<close> where \<open>panel_mapping[panel_id]\<close> does. The \<open>except\<close> clause of
  \<open>transform_result\<close> logs and raises again, so the exception is the result.

  \<open>transform_result_spec\<close> says what the method promises without loops or
  dictionaries; the lemmas show that the loops keep \<open>assembled\<close>, and the theorems
  that \<open>transform_result\<close> is \<open>transform_result_spec\<close> on every input, when it
  returns, and that a response holds every placement and every unused region of
  the result exactly once, on panels sorted by identifier, with counts that are
  those of its panels.
\<close>

section \<open>Panel structures\<close>

type_synonym panels_dict = "(string \<times> PanelOutput) list"

definition build_panel_structure :: "string \<Rightarrow> panel_mapping \<Rightarrow> PanelOutput py" where
  "build_panel_structure pid panel_map =
     (case panel_map pid of
        None \<Rightarrow> Raise (KeyError pid)
      | Some panel_data \<Rightarrow> Return
          \<lparr>po_panel_id = pid,
           po_panel_name = pdt_name panel_data,
           po_width = pdt_width panel_data,
           po_height = pdt_height panel_data,
           po_used_items = [],
           po_unused_areas = []\<rparr>)"

text \<open>\<open>if panel_id not in panels_dict: panels_dict[panel_id] = ...\<close>\<close>

definition ensure_panel :: "string \<Rightarrow> panel_mapping \<Rightarrow> panels_dict \<Rightarrow> panels_dict py" where
  "ensure_panel pid panel_map pd =
     (if pid \<notin> set (map fst pd)
      then bind_result (build_panel_structure pid panel_map) (\<lambda>s. Return (pd @ [(pid, s)]))
      else Return pd)"

section \<open>The two loops\<close>

text \<open>\<open>result["used"]\<close> where the result has the key, as the loop reads it, and
  \<open>result.get("used", [])\<close>, as the summary does: the same list. Likewise for
  \<open>"unused"\<close> and, with \<open>None\<close> read as empty, for \<open>"cuts"\<close>.\<close>

definition used_of :: "RawResult \<Rightarrow> UsedJson list" where
  "used_of result = (case rr_used result of None \<Rightarrow> [] | Some us \<Rightarrow> us)"

definition unused_of :: "RawResult \<Rightarrow> UnusedJson list" where
  "unused_of result = (case rr_unused result of None \<Rightarrow> [] | Some ns \<Rightarrow> ns)"

definition cuts_of :: "RawResult \<Rightarrow> string list" where
  "cuts_of result = (case rr_cuts result of None \<Rightarrow> [] | Some cs \<Rightarrow> cs)"

definition unused_area_of :: "UnusedJson \<Rightarrow> UnusedArea" where
  "unused_area_of unused_area =
     \<lparr>ua_width = nj_width unused_area,
      ua_height = nj_height unused_area,
      ua_x = nj_x unused_area,
      ua_y = nj_y unused_area\<rparr>"

definition process_used_item ::
  "item_mapping \<Rightarrow> panel_mapping \<Rightarrow> PanelInput \<Rightarrow> UsedJson \<Rightarrow> panels_dict \<Rightarrow> panels_dict py" where
  "process_used_item item_map panel_map panel0 used_item pd =
     (let pid = uj_panel used_item
      in bind_result (ensure_panel pid panel_map pd) (\<lambda>pd'.
           let enriched_item = transform_used_item_for_display used_item item_map panel0
           in Return (map_entry pid
                (\<lambda>s. s\<lparr>po_used_items := po_used_items s @ [enriched_item]\<rparr>) pd')))"

definition process_unused_area ::
  "panel_mapping \<Rightarrow> UnusedJson \<Rightarrow> panels_dict \<Rightarrow> panels_dict py" where
  "process_unused_area panel_map unused_area pd =
     (let pid = nj_panel unused_area
      in bind_result (ensure_panel pid panel_map pd) (\<lambda>pd'.
           Return (map_entry pid
             (\<lambda>s. s\<lparr>po_unused_areas := po_unused_areas s @ [unused_area_of unused_area]\<rparr>) pd')))"

section \<open>The whole method\<close>

definition transform_result :: "RawResult \<Rightarrow> UserParams \<Rightarrow> CalculationResponse py" where
  "transform_result result user_params =
     bind_result (first_elem (up_panels user_params)) (\<lambda>panel0.
       let item_map = create_item_mapping (up_items user_params) panel0;
           panel_map = create_panel_mapping (up_panels user_params)
       in bind_result (fold_result (process_used_item item_map panel_map panel0)
                         (used_of result) []) (\<lambda>pd1.
          bind_result (fold_result (process_unused_area panel_map) (unused_of result) pd1) (\<lambda>pd2.
            let panels_list = sort_key po_panel_id (map snd pd2);
                cuts = cuts_of result;
                summary = [(''total_panels_used'', int (length panels_list)),
                           (''total_items_placed'', int (length (used_of result))),
                           (''total_unused_areas'', int (length (unused_of result)))]
            in Return \<lparr>cr_success = True,
                       cr_panels = panels_list,
                       cr_cuts = cuts,
                       cr_summary = summary,
                       cr_error = None\<rparr>)))"

section \<open>What the method promises\<close>

text \<open>The panel identifiers a result names, in the order the loops meet them.\<close>

definition panel_ids :: "UsedJson list \<Rightarrow> UnusedJson list \<Rightarrow> string list" where
  "panel_ids used unused = map uj_panel used @ map nj_panel unused"

text \<open>The panel of identifier \<open>k\<close>, with the placements and the regions that name
  it, each in the order of the result.\<close>

definition assemble_panel ::
  "panel_mapping \<Rightarrow> item_mapping \<Rightarrow> PanelInput \<Rightarrow> UsedJson list \<Rightarrow> UnusedJson list \<Rightarrow> string
     \<Rightarrow> PanelOutput" where
  "assemble_panel panel_map item_map panel0 used unused k =
     \<lparr>po_panel_id = k,
      po_panel_name = pdt_name (the (panel_map k)),
      po_width = pdt_width (the (panel_map k)),
      po_height = pdt_height (the (panel_map k)),
      po_used_items = map (\<lambda>u. transform_used_item_for_display u item_map panel0)
         (filter (\<lambda>u. uj_panel u = k) used),
      po_unused_areas = map unused_area_of (filter (\<lambda>a. nj_panel a = k) unused)\<rparr>"

definition transform_result_spec :: "RawResult \<Rightarrow> UserParams \<Rightarrow> CalculationResponse py" where
  "transform_result_spec result user_params =
     (case up_panels user_params of
        [] \<Rightarrow> Raise IndexError
      | panel0 # _ \<Rightarrow>
          let panel_map = create_panel_mapping (up_panels user_params);
              item_map = create_item_mapping (up_items user_params) panel0;
              ids = panel_ids (used_of result) (unused_of result)
          in (case find (\<lambda>k. panel_map k = None) ids of
                Some k \<Rightarrow> Raise (KeyError k)
              | None \<Rightarrow> Return
                  \<lparr>cr_success = True,
                   cr_panels = map (assemble_panel panel_map item_map panel0
                                      (used_of result) (unused_of result))
                                 (sort (remdups ids)),
                   cr_cuts = cuts_of result,
                   cr_summary =
                     [(''total_panels_used'', int (card (set ids))),
                      (''total_items_placed'', int (length (used_of result))),
                      (''total_unused_areas'', int (length (unused_of result)))],
                   cr_error = None\<rparr>))"

text \<open>The invariant of the loops: after the placements \<open>used\<close> and the regions
  \<open>unused\<close>, \<open>panels_dict\<close> has one entry for each panel they name, every such panel
  is known to \<open>panel_mapping\<close>, and each entry is the assembled panel.\<close>

definition assembled ::
  "panel_mapping \<Rightarrow> item_mapping \<Rightarrow> PanelInput \<Rightarrow> UsedJson list \<Rightarrow> UnusedJson list
     \<Rightarrow> panels_dict \<Rightarrow> bool" where
  "assembled panel_map item_map panel0 used unused pd \<longleftrightarrow>
     distinct (map fst pd)
     \<and> set (map fst pd) = set (panel_ids used unused)
     \<and> set (panel_ids used unused) \<subseteq> dom panel_map
     \<and> list_all (\<lambda>(k, s). s = assemble_panel panel_map item_map panel0 used unused k) pd"

section \<open>Opening a panel\<close>

lemma ensure_panel_known:
  "pid \<in> set (map fst pd) \<Longrightarrow> ensure_panel pid panel_map pd = Return pd"
  by (simp add: ensure_panel_def)

lemma ensure_panel_missing:
  "pid \<notin> set (map fst pd) \<Longrightarrow> panel_map pid = None \<Longrightarrow>
     ensure_panel pid panel_map pd = Raise (KeyError pid)"
  by (simp add: ensure_panel_def build_panel_structure_def)

lemma ensure_panel_new:
  "pid \<notin> set (map fst pd) \<Longrightarrow> panel_map pid = Some d \<Longrightarrow>
     ensure_panel pid panel_map pd = Return (pd @ [(pid, assemble_panel panel_map item_map panel0 [] [] pid)])"
  by (simp add: ensure_panel_def build_panel_structure_def assemble_panel_def)

lemmas ensure_panel_simps = ensure_panel_known ensure_panel_missing ensure_panel_new

section \<open>The assembled panel\<close>

lemma po_panel_id_assemble_panel [simp]:
  "po_panel_id (assemble_panel panel_map item_map panel0 used unused k) = k"
  by (simp add: assemble_panel_def)

lemma assemble_panel_snoc_used:
  "assemble_panel panel_map item_map panel0 (used @ [u]) unused k =
     (if uj_panel u = k
      then (assemble_panel panel_map item_map panel0 used unused k)
        \<lparr>po_used_items := po_used_items (assemble_panel panel_map item_map panel0 used unused k)
           @ [transform_used_item_for_display u item_map panel0]\<rparr>
      else assemble_panel panel_map item_map panel0 used unused k)"
  by (simp add: assemble_panel_def)

lemma assemble_panel_snoc_unused:
  "assemble_panel panel_map item_map panel0 used (unused @ [a]) k =
     (if nj_panel a = k
      then (assemble_panel panel_map item_map panel0 used unused k)
        \<lparr>po_unused_areas := po_unused_areas (assemble_panel panel_map item_map panel0 used unused k)
           @ [unused_area_of a]\<rparr>
      else assemble_panel panel_map item_map panel0 used unused k)"
  by (simp add: assemble_panel_def)

lemma assemble_panel_fresh:
  "k \<notin> set (panel_ids used unused) \<Longrightarrow>
     assemble_panel panel_map item_map panel0 used unused k
       = assemble_panel panel_map item_map panel0 [] [] k"
  by (auto simp: assemble_panel_def panel_ids_def filter_empty_conv)

section \<open>The invariant of the loops\<close>

lemma assembled_empty: "assembled panel_map item_map panel0 [] [] []"
  by (simp add: assembled_def panel_ids_def)

lemma assembledD:
  assumes "assembled panel_map item_map panel0 used unused pd"
  shows "distinct (map fst pd)" and "set (map fst pd) = set (panel_ids used unused)"
    and "set (panel_ids used unused) \<subseteq> dom panel_map"
    and "map snd pd = map (assemble_panel panel_map item_map panel0 used unused) (map fst pd)"
  using assms by (auto simp: assembled_def list_all_iff)

section \<open>One iteration\<close>

lemma ensure_panel_assembled:
  assumes "assembled panel_map item_map panel0 used unused pd" and "panel_map k = Some d"
  shows "\<exists>pd1. ensure_panel k panel_map pd = Return pd1
     \<and> distinct (map fst pd1)
     \<and> set (map fst pd1) = insert k (set (panel_ids used unused))
     \<and> list_all (\<lambda>(k, s). s = assemble_panel panel_map item_map panel0 used unused k) pd1"
proof (cases "k \<in> set (map fst pd)")
  case True
  with assms(1) show ?thesis
    by (auto simp: ensure_panel_known assembled_def)
next
  case False
  with assms(1) have "k \<notin> set (panel_ids used unused)"
    by (simp add: assembled_def)
  then have "assemble_panel panel_map item_map panel0 used unused k
      = assemble_panel panel_map item_map panel0 [] [] k"
    by (rule assemble_panel_fresh)
  with assms False show ?thesis
    by (auto simp: ensure_panel_new [where item_map = item_map and ?panel0.0 = panel0] assembled_def)
qed

lemma ensure_panel_unknown:
  assumes "assembled panel_map item_map panel0 used unused pd" and "panel_map k = None"
  shows "ensure_panel k panel_map pd = Raise (KeyError k)"
proof -
  from assms have "k \<notin> set (map fst pd)"
    by (auto simp: assembled_def)
  then show ?thesis
    using assms(2) by (rule ensure_panel_missing)
qed

lemma process_used_item_ok:
  assumes "assembled panel_map item_map panel0 used unused pd" and "panel_map (uj_panel u) = Some d"
  shows "\<exists>pd'. process_used_item item_map panel_map panel0 u pd = Return pd'
     \<and> assembled panel_map item_map panel0 (used @ [u]) unused pd'"
proof -
  from ensure_panel_assembled [OF assms] obtain pd1
    where pd1: "ensure_panel (uj_panel u) panel_map pd = Return pd1"
      and dist: "distinct (map fst pd1)"
      and keys: "set (map fst pd1) = insert (uj_panel u) (set (panel_ids used unused))"
      and all: "list_all (\<lambda>(k, s). s = assemble_panel panel_map item_map panel0 used unused k) pd1"
    by blast
  let ?f = "\<lambda>s. s\<lparr>po_used_items := po_used_items s @ [transform_used_item_for_display u item_map panel0]\<rparr>"
  have "list_all (\<lambda>(k, s). s = assemble_panel panel_map item_map panel0 (used @ [u]) unused k)
      (map_entry (uj_panel u) ?f pd1)"
    using all by (rule list_all_map_entry) (simp add: assemble_panel_snoc_used)
  moreover have "set (map fst pd1) = set (panel_ids (used @ [u]) unused)"
    using keys by (auto simp: panel_ids_def)
  moreover have "set (panel_ids (used @ [u]) unused) \<subseteq> dom panel_map"
    using assms by (auto simp: assembled_def panel_ids_def)
  ultimately show ?thesis
    using pd1 dist by (simp add: process_used_item_def assembled_def)
qed

lemma process_unused_area_ok:
  assumes "assembled panel_map item_map panel0 used unused pd" and "panel_map (nj_panel a) = Some d"
  shows "\<exists>pd'. process_unused_area panel_map a pd = Return pd'
     \<and> assembled panel_map item_map panel0 used (unused @ [a]) pd'"
proof -
  from ensure_panel_assembled [OF assms] obtain pd1
    where pd1: "ensure_panel (nj_panel a) panel_map pd = Return pd1"
      and dist: "distinct (map fst pd1)"
      and keys: "set (map fst pd1) = insert (nj_panel a) (set (panel_ids used unused))"
      and all: "list_all (\<lambda>(k, s). s = assemble_panel panel_map item_map panel0 used unused k) pd1"
    by blast
  let ?f = "\<lambda>s. s\<lparr>po_unused_areas := po_unused_areas s @ [unused_area_of a]\<rparr>"
  have "list_all (\<lambda>(k, s). s = assemble_panel panel_map item_map panel0 used (unused @ [a]) k)
      (map_entry (nj_panel a) ?f pd1)"
    using all by (rule list_all_map_entry) (simp add: assemble_panel_snoc_unused)
  moreover have "set (map fst pd1) = set (panel_ids used (unused @ [a]))"
    using keys by (auto simp: panel_ids_def)
  moreover have "set (panel_ids used (unused @ [a])) \<subseteq> dom panel_map"
    using assms by (auto simp: assembled_def panel_ids_def)
  ultimately show ?thesis
    using pd1 dist by (simp add: process_unused_area_def assembled_def)
qed

lemma process_used_item_unknown:
  assumes "assembled panel_map item_map panel0 used unused pd" and "panel_map (uj_panel u) = None"
  shows "process_used_item item_map panel_map panel0 u pd = Raise (KeyError (uj_panel u))"
  by (simp add: process_used_item_def ensure_panel_unknown [OF assms])

lemma process_unused_area_unknown:
  assumes "assembled panel_map item_map panel0 used unused pd" and "panel_map (nj_panel a) = None"
  shows "process_unused_area panel_map a pd = Raise (KeyError (nj_panel a))"
  by (simp add: process_unused_area_def ensure_panel_unknown [OF assms])


section \<open>The loops\<close>

lemma used_loop:
  assumes "assembled panel_map item_map panel0 used unused pd"
  shows "case find (\<lambda>k. panel_map k = None) (map uj_panel us) of
      Some k \<Rightarrow> fold_result (process_used_item item_map panel_map panel0) us pd = Raise (KeyError k)
    | None \<Rightarrow> (\<exists>pd'. fold_result (process_used_item item_map panel_map panel0) us pd = Return pd'
        \<and> assembled panel_map item_map panel0 (used @ us) unused pd')"
  using assms
proof (induction us arbitrary: used pd)
  case Nil
  then show ?case by simp
next
  case (Cons u us)
  show ?case
  proof (cases "panel_map (uj_panel u)")
    case None
    with Cons.prems show ?thesis
      by (simp add: process_used_item_unknown)
  next
    case (Some d)
    with Cons.prems obtain pd1
      where "process_used_item item_map panel_map panel0 u pd = Return pd1"
        and "assembled panel_map item_map panel0 (used @ [u]) unused pd1"
      using process_used_item_ok by blast
    with Cons.IH [of "used @ [u]" pd1] Some show ?thesis
      by (simp split: option.splits)
  qed
qed

lemma unused_loop:
  assumes "assembled panel_map item_map panel0 used unused pd"
  shows "case find (\<lambda>k. panel_map k = None) (map nj_panel ns) of
      Some k \<Rightarrow> fold_result (process_unused_area panel_map) ns pd = Raise (KeyError k)
    | None \<Rightarrow> (\<exists>pd'. fold_result (process_unused_area panel_map) ns pd = Return pd'
        \<and> assembled panel_map item_map panel0 used (unused @ ns) pd')"
  using assms
proof (induction ns arbitrary: unused pd)
  case Nil
  then show ?case by simp
next
  case (Cons a ns)
  show ?case
  proof (cases "panel_map (nj_panel a)")
    case None
    with Cons.prems show ?thesis
      by (simp add: process_unused_area_unknown)
  next
    case (Some d)
    with Cons.prems obtain pd1
      where "process_unused_area panel_map a pd = Return pd1"
        and "assembled panel_map item_map panel0 used (unused @ [a]) pd1"
      using process_unused_area_ok by blast
    with Cons.IH [of "unused @ [a]" pd1] Some show ?thesis
      by (simp split: option.splits)
  qed
qed

text \<open>What the sorted list of an assembled dictionary is.\<close>

lemma assembled_sorted:
  assumes "assembled panel_map item_map panel0 used unused pd"
  shows "sort_key po_panel_id (map snd pd)
    = map (assemble_panel panel_map item_map panel0 used unused) (sort (remdups (panel_ids used unused)))"
proof -
  note d = assembledD [OF assms]
  have "sort_key po_panel_id (map snd pd)
      = map (assemble_panel panel_map item_map panel0 used unused) (sort (map fst pd))"
    unfolding d(4) by (rule sort_key_map_inv) simp
  also have "sort (map fst pd) = sort (remdups (panel_ids used unused))"
    using d(1,2) by (rule sort_eq_sort_remdups)
  finally show ?thesis .
qed

lemma assembled_length:
  assumes "assembled panel_map item_map panel0 used unused pd"
  shows "length pd = card (set (panel_ids used unused))"
  using assembledD(1,2) [OF assms] by (metis distinct_card length_map)


text \<open>Both loops, one after the other, from the empty dictionary.\<close>

lemma loops_result:
  "case find (\<lambda>k. panel_map k = None) (panel_ids used unused) of
      Some k \<Rightarrow>
        bind_result (fold_result (process_used_item item_map panel_map panel0) used [])
          (fold_result (process_unused_area panel_map) unused) = Raise (KeyError k)
    | None \<Rightarrow> (\<exists>pd.
        bind_result (fold_result (process_used_item item_map panel_map panel0) used [])
          (fold_result (process_unused_area panel_map) unused) = Return pd
        \<and> assembled panel_map item_map panel0 used unused pd)"
proof (cases "find (\<lambda>k. panel_map k = None) (map uj_panel used)")
  case (Some k)
  with used_loop [OF assembled_empty, where panel_map = panel_map and us = used
      and item_map = item_map and ?panel0.0 = panel0] show ?thesis
    by (simp add: panel_ids_def find_append)
next
  case None
  with used_loop [OF assembled_empty, where panel_map = panel_map and us = used
      and item_map = item_map and ?panel0.0 = panel0] obtain pd1
    where "fold_result (process_used_item item_map panel_map panel0) used [] = Return pd1"
      and "assembled panel_map item_map panel0 used [] pd1"
    by auto
  with unused_loop [where panel_map = panel_map and item_map = item_map and ?panel0.0 = panel0
      and used = used and unused = "[]" and pd = pd1 and ns = unused] None show ?thesis
    by (simp add: panel_ids_def find_append split: option.splits)
qed

section \<open>The method and its specification\<close>

lemma transform_result_unfold:
  assumes "up_panels user_params = panel0 # ps"
  shows "transform_result result user_params =
    bind_result
      (bind_result
         (fold_result (process_used_item (create_item_mapping (up_items user_params) panel0)
            (create_panel_mapping (up_panels user_params)) panel0) (used_of result) [])
         (fold_result (process_unused_area (create_panel_mapping (up_panels user_params)))
            (unused_of result)))
      (\<lambda>pd. Return
         \<lparr>cr_success = True,
          cr_panels = sort_key po_panel_id (map snd pd),
          cr_cuts = cuts_of result,
          cr_summary = [(''total_panels_used'', int (length pd)),
                        (''total_items_placed'', int (length (used_of result))),
                        (''total_unused_areas'', int (length (unused_of result)))],
          cr_error = None\<rparr>)"
  using assms by (simp add: transform_result_def Let_def bind_result_assoc)

text \<open>With at least one panel in the request, \<open>transform_result\<close> raises the
  \<open>KeyError\<close> of the first panel identifier that \<open>panel_mapping\<close> does not know,
  and returns the assembled response when there is none.\<close>

lemma transform_result_Cons:
  assumes "up_panels user_params = panel0 # ps"
  shows "transform_result result user_params =
    (case find (\<lambda>k. create_panel_mapping (up_panels user_params) k = None)
            (panel_ids (used_of result) (unused_of result)) of
       Some k \<Rightarrow> Raise (KeyError k)
     | None \<Rightarrow> Return
         \<lparr>cr_success = True,
          cr_panels = map (assemble_panel (create_panel_mapping (up_panels user_params))
                (create_item_mapping (up_items user_params) panel0) panel0
                (used_of result) (unused_of result))
              (sort (remdups (panel_ids (used_of result) (unused_of result)))),
          cr_cuts = cuts_of result,
          cr_summary =
            [(''total_panels_used'', int (card (set (panel_ids (used_of result) (unused_of result))))),
             (''total_items_placed'', int (length (used_of result))),
             (''total_unused_areas'', int (length (unused_of result)))],
          cr_error = None\<rparr>)"
  using loops_result [where panel_map = "create_panel_mapping (up_panels user_params)"
      and used = "used_of result" and unused = "unused_of result"
      and item_map = "create_item_mapping (up_items user_params) panel0" and ?panel0.0 = panel0]
  unfolding transform_result_unfold [OF assms]
  by (auto simp: assembled_sorted assembled_length split: option.splits)

lemma transform_result_Nil:
  "up_panels user_params = [] \<Longrightarrow> transform_result result user_params = Raise IndexError"
  by (simp add: transform_result_def)

section \<open>A response that was returned\<close>

lemma transform_result_ReturnD:
  assumes "transform_result result u = Return r"
  shows "up_panels u \<noteq> []"
    and "set (panel_ids (used_of result) (unused_of result)) \<subseteq> dom (create_panel_mapping (up_panels u))"
    and "r = \<lparr>cr_success = True,
          cr_panels = map (assemble_panel (create_panel_mapping (up_panels u))
                (create_item_mapping (up_items u) (hd (up_panels u))) (hd (up_panels u))
                (used_of result) (unused_of result))
              (sort (remdups (panel_ids (used_of result) (unused_of result)))),
          cr_cuts = cuts_of result,
          cr_summary =
            [(''total_panels_used'', int (card (set (panel_ids (used_of result) (unused_of result))))),
             (''total_items_placed'', int (length (used_of result))),
             (''total_unused_areas'', int (length (unused_of result)))],
          cr_error = None\<rparr>"
proof -
  from assms show ne: "up_panels u \<noteq> []"
    by (auto simp: transform_result_Nil)
  then obtain p ps where ps: "up_panels u = p # ps"
    by (cases "up_panels u") auto
  from assms have f: "find (\<lambda>k. create_panel_mapping (up_panels u) k = None)
      (panel_ids (used_of result) (unused_of result)) = None"
    unfolding transform_result_Cons [OF ps] by (simp split: option.splits)
  then show "set (panel_ids (used_of result) (unused_of result)) \<subseteq> dom (create_panel_mapping (up_panels u))"
    by (auto simp: find_None_iff)
  from assms f ps show "r = \<lparr>cr_success = True,
          cr_panels = map (assemble_panel (create_panel_mapping (up_panels u))
                (create_item_mapping (up_items u) (hd (up_panels u))) (hd (up_panels u))
                (used_of result) (unused_of result))
              (sort (remdups (panel_ids (used_of result) (unused_of result)))),
          cr_cuts = cuts_of result,
          cr_summary =
            [(''total_panels_used'', int (card (set (panel_ids (used_of result) (unused_of result))))),
             (''total_items_placed'', int (length (used_of result))),
             (''total_unused_areas'', int (length (unused_of result)))],
          cr_error = None\<rparr>"
    unfolding transform_result_Cons [OF ps] by simp
qed

lemma used_items_assembled:
  "mset (concat (map (\<lambda>k. po_used_items (assemble_panel pm im p0 used unused k))
       (sort (remdups (panel_ids used unused)))))
   = mset (map (\<lambda>x. transform_used_item_for_display x im p0) used)"
proof -
  have "concat (map (\<lambda>k. po_used_items (assemble_panel pm im p0 used unused k))
       (sort (remdups (panel_ids used unused))))
     = concat (map (\<lambda>k. map (\<lambda>x. transform_used_item_for_display x im p0)
          (filter (\<lambda>x. uj_panel x = k) used)) (sort (remdups (panel_ids used unused))))"
    by (simp add: comp_def assemble_panel_def)
  also have "mset \<dots> = mset (map (\<lambda>x. transform_used_item_for_display x im p0) used)"
    by (rule mset_group_by_key) (auto simp: panel_ids_def)
  finally show ?thesis .
qed

lemma unused_areas_assembled:
  "mset (concat (map (\<lambda>k. po_unused_areas (assemble_panel pm im p0 used unused k))
       (sort (remdups (panel_ids used unused)))))
   = mset (map unused_area_of unused)"
proof -
  have "concat (map (\<lambda>k. po_unused_areas (assemble_panel pm im p0 used unused k))
       (sort (remdups (panel_ids used unused))))
     = concat (map (\<lambda>k. map unused_area_of
          (filter (\<lambda>x. nj_panel x = k) unused)) (sort (remdups (panel_ids used unused))))"
    by (simp add: comp_def assemble_panel_def)
  also have "mset \<dots> = mset (map unused_area_of unused)"
    by (rule mset_group_by_key) (auto simp: panel_ids_def)
  finally show ?thesis .
qed

text \<open>A result that names only panel units of the request is assembled.\<close>

lemma transform_result_returns:
  assumes "up_panels u \<noteq> []"
    and "set (panel_ids (used_of result) (unused_of result)) \<subseteq> cp_id ` set (expand_panels (up_panels u))"
  shows "\<exists>r. transform_result result u = Return r"
proof -
  from assms(1) obtain p ps where ps: "up_panels u = p # ps"
    by (cases "up_panels u") auto
  from assms(2) have "find (\<lambda>k. create_panel_mapping (up_panels u) k = None)
      (panel_ids (used_of result) (unused_of result)) = None"
    using dom_create_panel_mapping [of "up_panels u"] by (auto simp: find_None_iff)
  then show ?thesis
    by (simp add: transform_result_Cons [OF ps])
qed

text \<open>Every placement is shown on the panel it names.\<close>

lemma placement_shown:
  assumes "transform_result raw u = Return r" and "x \<in> set (used_of raw)"
  shows "\<exists>p\<in>set (cr_panels r). po_panel_id p = uj_panel x
     \<and> transform_used_item_for_display x
          (create_item_mapping (up_items u) (hd (up_panels u))) (hd (up_panels u))
        \<in> set (po_used_items p)"
proof -
  let ?A = "assemble_panel (create_panel_mapping (up_panels u))
      (create_item_mapping (up_items u) (hd (up_panels u))) (hd (up_panels u))
      (used_of raw) (unused_of raw)"
  from assms(2) have "uj_panel x \<in> set (panel_ids (used_of raw) (unused_of raw))"
    by (simp add: panel_ids_def)
  then have "?A (uj_panel x) \<in> set (cr_panels r)"
    by (simp add: transform_result_ReturnD(3) [OF assms(1)])
  moreover from assms(2) have "transform_used_item_for_display x
      (create_item_mapping (up_items u) (hd (up_panels u))) (hd (up_panels u))
      \<in> set (po_used_items (?A (uj_panel x)))"
    by (simp add: assemble_panel_def)
  ultimately show ?thesis
    by (intro bexI [of _ "?A (uj_panel x)"]) simp_all
qed

text \<open>What \<open>transform_result\<close> raises is never the exception that asks for a retry.\<close>

lemma transform_result_raises:
  "transform_result raw u = Raise e \<Longrightarrow> \<not> is_unresolvable e"
proof (cases "up_panels u")
  case Nil
  then show "transform_result raw u = Raise e \<Longrightarrow> \<not> is_unresolvable e"
    by (auto simp: transform_result_Nil)
next
  case (Cons p ps)
  then show "transform_result raw u = Raise e \<Longrightarrow> \<not> is_unresolvable e"
    by (auto simp: transform_result_Cons [OF Cons] split: option.splits)
qed

text \<open>The example result and its response.\<close>

lemma transform_result_ex: "transform_result ex_result ex_request = Return ex_response"
proof -
  have "up_panels ex_request = ex_sheet # [ex_board]"
    by (simp add: ex_request_def)
  then show ?thesis
    apply (subst transform_result_Cons, assumption)
    apply (simp only: card_set)
    apply (simp add: ex_result_def used_of_def unused_of_def cuts_of_def panel_ids_def)
    apply (simp add: ex_defs create_panel_mapping_eq panel_entries_def eval_ids panel_details_def)
    apply (simp add: assemble_panel_def create_item_mapping_eq item_entries_def item_details_def eval_ids
     transform_used_item_for_display_def Let_def dict_get_def rotate_borders_def flip_engraved_line_def unused_area_of_def transform_item_for_calculation_def ex_response_defs)
    done
qed

text \<open>The result of Scenario A, for one sheet and for three.\<close>

lemma transform_scenario_a:
  assumes "q = 1 \<or> q = 3"
  shows "transform_result ex_result_a (scenario_a\<lparr>up_panels := [ex_sheet\<lparr>pin_quantity := q\<rparr>]\<rparr>)
     = Return ex_response_a"
proof -
  have ps: "up_panels (scenario_a\<lparr>up_panels := [ex_sheet\<lparr>pin_quantity := q\<rparr>]\<rparr>)
      = ex_sheet\<lparr>pin_quantity := q\<rparr> # []"
    by simp
  from assms show ?thesis
    apply (subst transform_result_Cons [OF ps])
    apply (simp only: card_set)
    apply (elim disjE)
     apply (simp_all add: ex_result_a_def used_of_def unused_of_def cuts_of_def panel_ids_def)
     apply (simp_all add: scenario_a_def ex_defs create_panel_mapping_eq panel_entries_def eval_ids
        panel_details_def)
     apply (simp_all add: assemble_panel_def create_item_mapping_eq item_entries_def item_details_def
        eval_ids transform_used_item_for_display_def Let_def dict_get_def
        transform_item_for_calculation_def ex_response_defs)
    done
qed

section \<open>Properties of the method\<close>

text \<open>C1. \<open>transform_result\<close> computes what \<open>transform_result_spec\<close> says, on every
  result and every request: \<open>IndexError\<close> without panels, the \<open>KeyError\<close> of the
  first unknown panel identifier, and otherwise the panels the result names, each
  once, sorted by identifier, each with its placements and regions in the order of
  the result, the cut lines, and the three counts.\<close>

theorem transform_result_refines:
  "transform_result result user_params = transform_result_spec result user_params"
proof (cases "up_panels user_params")
  case Nil
  then show ?thesis
    by (simp add: transform_result_Nil transform_result_spec_def)
next
  case (Cons panel0 ps)
  then show ?thesis
    by (simp add: transform_result_Cons [OF Cons] transform_result_spec_def Let_def
        split: option.splits)
qed

text \<open>C7. Nothing is lost and nothing is duplicated: in a response of
  \<open>transform_result\<close>, the placed items of all panels together are, as a multiset,
  the display records of the placements of the result, and the unused areas of all
  panels together are the unused regions of the result.\<close>

theorem transform_result_conserves:
  assumes "transform_result result u = Return r"
  shows "mset (concat (map po_used_items (cr_panels r)))
       = mset (map (\<lambda>x. transform_used_item_for_display x
            (create_item_mapping (up_items u) (hd (up_panels u))) (hd (up_panels u))) (used_of result))
    \<and> mset (concat (map po_unused_areas (cr_panels r))) = mset (map unused_area_of (unused_of result))"
  by (simp add: transform_result_ReturnD(3) [OF assms] comp_def used_items_assembled
      unused_areas_assembled)

theorem transform_result_conserves_witness:
  "transform_result ex_result ex_request = Return ex_response
   \<and> mset (concat (map po_used_items (cr_panels ex_response)))
       = {#ex_door_shown ''Door_1'' 0 False, ex_shelf_shown, ex_door_shown ''Door_2'' 503 True#}
   \<and> mset (concat (map po_unused_areas (cr_panels ex_response)))
       = mset (map unused_area_of (unused_of ex_result))"
  using transform_result_conserves [OF transform_result_ex] transform_result_ex
  by (simp add: ex_response_def)

text \<open>C19. Summary consistency: in a response of \<open>transform_result\<close> the count
  \<open>total_panels_used\<close> is the number of panels of the response,
  \<open>total_items_placed\<close> the number of placed items over all its panels and
  \<open>total_unused_areas\<close> the number of unused areas over all its panels.\<close>

theorem transform_result_summary:
  assumes "transform_result result u = Return r"
  shows "map_of (cr_summary r) ''total_panels_used'' = Some (int (length (cr_panels r)))
    \<and> map_of (cr_summary r) ''total_items_placed''
        = Some (int (length (concat (map po_used_items (cr_panels r)))))
    \<and> map_of (cr_summary r) ''total_unused_areas''
        = Some (int (length (concat (map po_unused_areas (cr_panels r)))))"
proof -
  note r = transform_result_ReturnD(3) [OF assms]
  have "length (concat (map po_used_items (cr_panels r))) = length (used_of result)"
    unfolding length_concat_mset r by (simp add: comp_def used_items_assembled)
  moreover have "length (concat (map po_unused_areas (cr_panels r))) = length (unused_of result)"
    unfolding length_concat_mset r by (simp add: comp_def unused_areas_assembled)
  moreover have "length (cr_panels r) = card (set (panel_ids (used_of result) (unused_of result)))"
    by (simp add: r length_remdups_card_conv)
  ultimately show ?thesis
    by (simp add: r)
qed

theorem transform_result_summary_witness:
  "transform_result ex_result ex_request = Return ex_response
   \<and> map_of (cr_summary ex_response) ''total_panels_used'' = Some 2
   \<and> length (cr_panels ex_response) = 2
   \<and> map_of (cr_summary ex_response) ''total_items_placed'' = Some 3
   \<and> length (concat (map po_used_items (cr_panels ex_response))) = 3
   \<and> map_of (cr_summary ex_response) ''total_unused_areas'' = Some 2"
  using transform_result_summary [OF transform_result_ex] transform_result_ex
  by (simp add: ex_response_def)

text \<open>C32. The panels of a response are sorted by identifier (in the order of
  strings), no identifier occurs twice, the identifiers are those the result names,
  and each is a panel unit of the request.\<close>

theorem transform_result_panels_sorted:
  assumes "transform_result result u = Return r"
  shows "sorted (map po_panel_id (cr_panels r)) \<and> distinct (map po_panel_id (cr_panels r))
    \<and> set (map po_panel_id (cr_panels r)) = set (panel_ids (used_of result) (unused_of result))
    \<and> set (map po_panel_id (cr_panels r)) \<subseteq> cp_id ` set (expand_panels (up_panels u))"
proof -
  note r = transform_result_ReturnD [OF assms]
  have "map po_panel_id (cr_panels r) = sort (remdups (panel_ids (used_of result) (unused_of result)))"
    by (simp add: r(3) comp_def)
  with r(2) show ?thesis
    by (simp add: dom_create_panel_mapping)
qed

theorem transform_result_panels_sorted_witness:
  "transform_result ex_result ex_request = Return ex_response
   \<and> map po_panel_id (cr_panels ex_response) = [''Board_1'', ''Sheet_1'']
   \<and> sorted (map po_panel_id (cr_panels ex_response))
   \<and> set (map po_panel_id (cr_panels ex_response)) \<subseteq> cp_id ` set (expand_panels (up_panels ex_request))"
proof -
  have "map po_panel_id (cr_panels ex_response) = [''Board_1'', ''Sheet_1'']"
    by (simp add: ex_response_def)
  with transform_result_panels_sorted [OF transform_result_ex] transform_result_ex show ?thesis
    by blast
qed

text \<open>C31. For a request with a panel, \<open>transform_result\<close> returns a response
  exactly when every panel identifier the result names is a unit of
  \<open>_expand_panels\<close>; otherwise it raises.\<close>

theorem transform_result_returns_iff:
  assumes "up_panels u \<noteq> []"
  shows "(\<exists>r. transform_result result u = Return r) \<longleftrightarrow>
     set (panel_ids (used_of result) (unused_of result)) \<subseteq> cp_id ` set (expand_panels (up_panels u))"
  using transform_result_returns [OF assms, of result] transform_result_ReturnD(2) [of result u]
  by (auto simp: dom_create_panel_mapping)

theorem transform_result_returns_iff_witness:
  "up_panels ex_request \<noteq> []
   \<and> (\<exists>r. transform_result ex_result ex_request = Return r)
   \<and> set (panel_ids (used_of ex_result) (unused_of ex_result))
        \<subseteq> cp_id ` set (expand_panels (up_panels ex_request))
   \<and> transform_result ex_result (ex_request\<lparr>up_panels := [ex_board]\<rparr>) = Raise (KeyError ''Sheet_1'')"
proof -
  have ne: "up_panels ex_request \<noteq> []"
    by (simp add: ex_request_def)
  have "transform_result ex_result (ex_request\<lparr>up_panels := [ex_board]\<rparr>) = Raise (KeyError ''Sheet_1'')"
    by (subst transform_result_Cons [where ?panel0.0 = ex_board and ps = "[]"], simp)
      (simp add: ex_result_def used_of_def unused_of_def panel_ids_def ex_defs
        create_panel_mapping_eq panel_entries_def eval_ids panel_details_def)
  with transform_result_returns_iff [OF ne, of ex_result] transform_result_ex ne show ?thesis
    by blast
qed

end
