(* ===== verification/Retry_Controller.thy ===== *)
theory Retry_Controller
  imports Packing_Adapter Result_Assembler
begin

text \<open>
  The retry controller of \<open>CuttingOptimizer\<close>: \<open>calculate\<close> with its helpers
  \<open>_increment_panel_quantities\<close> and \<open>_get_total_panel_quantity\<close>. One pass of
  the \<open>while True\<close> loop is \<open>attempt\<close> (the \<open>try\<close> block) followed by
  \<open>handle_exception\<close> (the \<open>except\<close> clauses); the loop is \<open>calculate_loop\<close>, a
  recursive function whose termination is proved from the measure \<open>50 - total\<close>.

  The same loop is given as a state machine, \<open>retry_step\<close>, over the states
  \<open>Attempting\<close> and \<open>Terminal\<close>; in \<open>any_step\<close> the packing library may answer each
  attempt as it likes. The lemmas show that every run of the machine ends, that the
  function is its one run, what stays fixed along a run and how the quantities
  grow, how many attempts there are at most, at which total an always infeasible
  request is given up, that the calculation recovers when the library answers
  after some retries, and which response each way of ending gives.
\<close>

section \<open>Quantities\<close>

definition increment_panel_quantities :: "UserParams \<Rightarrow> int \<Rightarrow> UserParams" where
  "increment_panel_quantities user_params increment =
     user_params\<lparr>up_panels :=
       map (\<lambda>panel. panel\<lparr>pin_quantity := pin_quantity panel + increment\<rparr>)
         (up_panels user_params)\<rparr>"

definition get_total_panel_quantity :: "UserParams \<Rightarrow> int" where
  "get_total_panel_quantity user_params = sum_list (map pin_quantity (up_panels user_params))"

section \<open>Responses of a failed calculation\<close>

definition failure_response :: "string \<Rightarrow> CalculationResponse" where
  "failure_response msg =
     \<lparr>cr_success = False, cr_panels = [], cr_cuts = [], cr_summary = [], cr_error = Some msg\<rparr>"

definition unresolvable_message :: "int \<Rightarrow> string" where
  "unresolvable_message current_total_panels =
     ''UnresolvableError: No valid cutting solution found even with ''
       @ str_int current_total_panels
       @ '' panels. Try adjusting item dimensions or using different optimization method.''"

definition exception_message :: "exn \<Rightarrow> string" where
  "exception_message e = exn_name e @ '': '' @ exn_str e"

section \<open>One pass of the loop\<close>

definition attempt :: "solver \<Rightarrow> Method \<Rightarrow> UserParams \<Rightarrow> CalculationResponse py" where
  "attempt solve opcut_method current_user_params =
     bind_result (invoke solve opcut_method current_user_params) (\<lambda>result_json.
       transform_result result_json current_user_params)"

text \<open>What the \<open>except\<close> clauses make of an exception: \<open>None\<close> stands for "go
  round the loop again with every quantity one higher".\<close>

definition handle_exception :: "UserParams \<Rightarrow> exn \<Rightarrow> CalculationResponse option" where
  "handle_exception current_user_params e =
     (if is_unresolvable e then
        (let current_total_panels = get_total_panel_quantity current_user_params
         in if current_total_panels < 50 then None
            else Some (failure_response (unresolvable_message current_total_panels)))
      else Some (failure_response (exception_message e)))"

section \<open>Facts needed to define the loop\<close>

lemma up_panels_increment [simp]:
  "up_panels (increment_panel_quantities u k) =
     map (\<lambda>p. p\<lparr>pin_quantity := pin_quantity p + k\<rparr>) (up_panels u)"
  by (simp add: increment_panel_quantities_def)

lemma increment_fields [simp]:
  "up_items (increment_panel_quantities u k) = up_items u"
  "up_cut_width (increment_panel_quantities u k) = up_cut_width u"
  "up_min_initial_usage (increment_panel_quantities u k) = up_min_initial_usage u"
  by (simp_all add: increment_panel_quantities_def)

lemma sum_list_quantity_increment:
  "(\<Sum>p\<leftarrow>ps. pin_quantity p + k) = sum_list (map pin_quantity ps) + int (length ps) * k"
  by (induction ps) (simp_all add: algebra_simps)

lemma total_increment:
  "get_total_panel_quantity (increment_panel_quantities u k)
     = get_total_panel_quantity u + int (length (up_panels u)) * k"
  by (simp add: get_total_panel_quantity_def comp_def sum_list_quantity_increment)

lemma attempt_unresolvable_nonempty:
  assumes "attempt solve m u = Raise e" and "is_unresolvable e"
  shows "up_panels u \<noteq> []"
proof
  assume "up_panels u = []"
  with assms(1) have "e = IndexError"
    by (simp add: attempt_def)
  with assms(2) show False by simp
qed

lemma handle_exception_None_iff:
  "handle_exception u e = None \<longleftrightarrow> is_unresolvable e \<and> get_total_panel_quantity u < 50"
  by (simp add: handle_exception_def Let_def)

text \<open>A retry brings the total nearer to the ceiling.\<close>

lemma retry_decreases:
  assumes "attempt solve m u = Raise e" and "handle_exception u e = None"
  shows "nat (50 - get_total_panel_quantity (increment_panel_quantities u 1))
       < nat (50 - get_total_panel_quantity u)"
proof -
  from assms have "up_panels u \<noteq> []" and "get_total_panel_quantity u < 50"
    by (auto simp: handle_exception_None_iff dest: attempt_unresolvable_nonempty)
  then have "0 < int (length (up_panels u))" by simp
  with \<open>get_total_panel_quantity u < 50\<close> show ?thesis
    by (simp add: total_increment)
qed

section \<open>The loop\<close>

function calculate_loop :: "solver \<Rightarrow> Method \<Rightarrow> UserParams \<Rightarrow> CalculationResponse" where
  "calculate_loop solve opcut_method current_user_params =
     (case attempt solve opcut_method current_user_params of
        Inr transformed_result \<Rightarrow> transformed_result
      | Inl e \<Rightarrow>
          (case handle_exception current_user_params e of
             Some response \<Rightarrow> response
           | None \<Rightarrow> calculate_loop solve opcut_method
                (increment_panel_quantities current_user_params 1)))"
  by pat_completeness auto
termination
proof (relation "measure (\<lambda>(solve, m, u). nat (50 - get_total_panel_quantity u))", goal_cases)
  case 1
  show ?case by simp
next
  case (2 solve m u e)
  with retry_decreases [of solve m u e] show ?case by simp
qed

declare calculate_loop.simps [simp del]

definition calculate :: "solver \<Rightarrow> UserParams \<Rightarrow> string \<Rightarrow> CalculationResponse py" where
  "calculate solve user_params method =
     (case method_map method of
        None \<Rightarrow> Raise (ValueError (''Unknown method: '' @ method))
      | Some opcut_method \<Rightarrow> Return (calculate_loop solve opcut_method user_params))"

section \<open>The loop as a state machine\<close>

text \<open>The two states of the controller and its steps: an attempt that returns ends
  in the response; one that raises ends in a failure response or, for
  \<open>UnresolvableError\<close> below the ceiling, leads to the next attempt with every
  quantity one higher. \<open>retry_step\<close> takes the answers of one packing library;
  \<open>any_step\<close> lets the library answer each attempt as it likes.\<close>

datatype controller = Attempting UserParams | Terminal CalculationResponse

inductive retry_step :: "solver \<Rightarrow> Method \<Rightarrow> controller \<Rightarrow> controller \<Rightarrow> bool"
  for solve :: solver and m :: Method where
  step_success:
    "attempt solve m u = Return r \<Longrightarrow> retry_step solve m (Attempting u) (Terminal r)"
| step_retry:
    "attempt solve m u = Raise e \<Longrightarrow> handle_exception u e = None \<Longrightarrow>
       retry_step solve m (Attempting u) (Attempting (increment_panel_quantities u 1))"
| step_failure:
    "attempt solve m u = Raise e \<Longrightarrow> handle_exception u e = Some r \<Longrightarrow>
       retry_step solve m (Attempting u) (Terminal r)"

definition any_step :: "Method \<Rightarrow> controller \<Rightarrow> controller \<Rightarrow> bool" where
  "any_step m s s' \<longleftrightarrow> (\<exists>solve. retry_step solve m s s')"

fun distance :: "controller \<Rightarrow> nat" where
  "distance (Attempting u) = Suc (nat (50 - get_total_panel_quantity u))"
| "distance (Terminal r) = 0"

section \<open>Descriptions of the outcome\<close>

text \<open>A response is either a success without an error text or a failure that
  carries one and nothing else.\<close>

definition response_wf :: "CalculationResponse \<Rightarrow> bool" where
  "response_wf r =
     (if cr_success r then cr_error r = None
      else cr_panels r = [] \<and> cr_cuts r = [] \<and> cr_summary r = [] \<and> cr_error r \<noteq> None)"

text \<open>The total quantity at which a calculation that never fits gives up: the first
  of \<open>t\<close>, \<open>t + n\<close>, \<open>t + 2n\<close>, ... that is at least 50, for \<open>n\<close> panel
  specifications of total quantity \<open>t\<close>.\<close>

definition exhausted_total :: "UserParams \<Rightarrow> int" where
  "exhausted_total u =
     (let t = get_total_panel_quantity u; n = int (length (up_panels u))
      in if 50 \<le> t then t else t + n * ((50 - t + n - 1) div n))"

section \<open>Steps\<close>

inductive_cases retry_step_AttemptingE [elim]: "retry_step solve m (Attempting u) s"
inductive_cases retry_step_TerminalE [elim!]: "retry_step solve m (Terminal r) s"
inductive_simps retry_step_to_Attempting: "retry_step solve m s (Attempting u')"

lemmas retry_step_intros [opcut_intros] = retry_step.intros

lemma calculate_loop_success:
  "attempt solve m u = Return r \<Longrightarrow> calculate_loop solve m u = r"
  by (simp add: calculate_loop.simps)

lemma calculate_loop_handled:
  "attempt solve m u = Raise e \<Longrightarrow> handle_exception u e = Some r \<Longrightarrow> calculate_loop solve m u = r"
  by (simp add: calculate_loop.simps)

lemma calculate_loop_retry:
  "attempt solve m u = Raise e \<Longrightarrow> handle_exception u e = None \<Longrightarrow>
     calculate_loop solve m u = calculate_loop solve m (increment_panel_quantities u 1)"
  by (subst calculate_loop.simps) simp

lemma retry_step_distance: "retry_step solve m s s' \<Longrightarrow> distance s' < distance s"
  by (induction rule: retry_step.induct) (auto dest: retry_decreases)

lemma retry_step_deterministic:
  "retry_step solve m s s' \<Longrightarrow> retry_step solve m s s'' \<Longrightarrow> s' = s''"
  by (induction rule: retry_step.induct) auto

lemma retry_step_progress: "\<exists>s. retry_step solve m (Attempting u) s"
proof (cases "attempt solve m u")
  case (Inl e)
  then show ?thesis
    by (cases "handle_exception u e") (auto intro: retry_step.intros)
next
  case (Inr r)
  then show ?thesis by (auto intro: retry_step.intros)
qed

text \<open>C2. The retry loop ends whatever the packing library answers: the steps of
  the controller, with the library free to answer each attempt differently, admit
  no infinite run. (Each retry of \<open>calculate\<close> raises the total quantity, which
  is below 50 when a retry is made.)\<close>

theorem retry_terminates: "wf {(s', s). any_step m s s'}"
proof (rule wf_subset [OF wf_measure [of distance]])
  show "{(s', s). any_step m s s'} \<subseteq> measure distance"
    by (auto simp: any_step_def dest: retry_step_distance)
qed

lemma calculate_loop_run:
  "(retry_step solve m)\<^sup>*\<^sup>* (Attempting u) (Terminal (calculate_loop solve m u))"
proof (induction solve m u rule: calculate_loop.induct)
  case (1 solve m u)
  show ?case
  proof (cases "attempt solve m u")
    case (Inr r)
    then show ?thesis
      by (auto simp: calculate_loop_success intro: retry_step.intros)
  next
    case (Inl e)
    show ?thesis
    proof (cases "handle_exception u e")
      case None
      with Inl "1.IH" have "(retry_step solve m)\<^sup>*\<^sup>* (Attempting (increment_panel_quantities u 1))
          (Terminal (calculate_loop solve m u))"
        by (simp add: calculate_loop_retry)
      moreover from Inl None have "retry_step solve m (Attempting u) (Attempting (increment_panel_quantities u 1))"
        by (rule step_retry)
      ultimately show ?thesis
        by (rule converse_rtranclp_into_rtranclp [rotated])
    next
      case (Some r)
      with Inl show ?thesis
        by (auto simp: calculate_loop_handled intro: retry_step.intros)
    qed
  qed
qed

section \<open>Quantities along a run\<close>

lemma increment_zero [simp]: "increment_panel_quantities u 0 = u"
  by (simp add: increment_panel_quantities_def)

lemma increment_add [simp]:
  "increment_panel_quantities (increment_panel_quantities u a) b = increment_panel_quantities u (a + b)"
  by (simp add: increment_panel_quantities_def comp_def add.assoc)

lemma length_panels_increment [simp]:
  "length (up_panels (increment_panel_quantities u k)) = length (up_panels u)"
  by simp

lemma retry_step_Attempting_iff:
  "retry_step solve m s (Attempting u') \<longleftrightarrow>
     (\<exists>u e. s = Attempting u \<and> u' = increment_panel_quantities u 1
        \<and> attempt solve m u = Raise e \<and> handle_exception u e = None)"
  by (auto simp: retry_step_to_Attempting)

text \<open>After k retries.\<close>

lemma retries_shape:
  assumes "(any_step m ^^ k) (Attempting u0) (Attempting u)"
  shows "u = increment_panel_quantities u0 (int k)
    \<and> (k = 0 \<or> (up_panels u0 \<noteq> []
          \<and> get_total_panel_quantity u0 + int (length (up_panels u0)) * (int k - 1) < 50))"
  using assms
proof (induction k arbitrary: u)
  case 0
  then show ?case by simp
next
  case (Suc k)
  from Suc.prems obtain s where s: "(any_step m ^^ k) (Attempting u0) s" and "any_step m s (Attempting u)"
    by auto
  then obtain solve u' e where s': "s = Attempting u'" and u: "u = increment_panel_quantities u' 1"
    and raised: "attempt solve m u' = Raise e" and none: "handle_exception u' e = None"
    by (auto simp: any_step_def retry_step_Attempting_iff)
  from Suc.IH [of u'] s s' have u': "u' = increment_panel_quantities u0 (int k)"
    by simp
  from raised none have "up_panels u' \<noteq> []" and "get_total_panel_quantity u' < 50"
    by (auto simp: handle_exception_None_iff dest: attempt_unresolvable_nonempty)
  with u u' show ?case
    by (simp add: total_increment)
qed

section \<open>The function and the machine\<close>

lemma terminal_stuck: "(retry_step solve m)\<^sup>*\<^sup>* (Terminal a) s \<Longrightarrow> s = Terminal a"
  by (induction rule: rtranclp_induct) auto

lemma calculate_loop_unique:
  "(retry_step solve m)\<^sup>*\<^sup>* (Attempting u) (Terminal r) \<Longrightarrow> r = calculate_loop solve m u"
proof (induction solve m u rule: calculate_loop.induct)
  case (1 solve m u)
  from "1.prems" obtain s where step: "retry_step solve m (Attempting u) s"
    and rest: "(retry_step solve m)\<^sup>*\<^sup>* s (Terminal r)"
    by (auto elim: converse_rtranclpE)
  from step show ?case
  proof cases
    case (step_success r')
    with rest show ?thesis
      by (auto simp: calculate_loop_success dest: terminal_stuck)
  next
    case (step_retry e)
    with rest "1.IH" show ?thesis
      by (simp add: calculate_loop_retry)
  next
    case (step_failure e r')
    with rest show ?thesis
      by (auto simp: calculate_loop_handled dest: terminal_stuck)
  qed
qed

text \<open>The example request, with a library that never fits, is retried.\<close>

lemma ex_retry:
  "any_step GREEDY (Attempting ex_request) (Attempting (increment_panel_quantities ex_request 1))"
proof -
  have "attempt never_fits GREEDY ex_request = Raise (UnresolvableError ''no fit'')"
    by (simp add: attempt_def invoke_Cons never_fits_def ex_request_def)
  moreover have "handle_exception ex_request (UnresolvableError ''no fit'') = None"
    by (simp add: handle_exception_None_iff get_total_panel_quantity_def ex_defs)
  ultimately show ?thesis
    unfolding any_step_def by (blast intro: step_retry)
qed

text \<open>C4. The number of steps of a run that starts with \<open>n > 0\<close> panel
  specifications of total quantity \<open>T0\<close> is at most
  \<open>\<lceil>max(0, 50 - T0) / n\<rceil> + 1\<close>, the increment of the total per retry being
  \<open>n\<close>: the bound of the specification on the number of attempts.\<close>

theorem attempts_bound:
  assumes "(any_step m ^^ k) (Attempting u0) s" and "up_panels u0 \<noteq> []"
  shows "int k \<le> (max 0 (50 - get_total_panel_quantity u0) + int (length (up_panels u0)) - 1)
      div int (length (up_panels u0)) + 1"
proof -
  define n t where "n = int (length (up_panels u0))" and "t = get_total_panel_quantity u0"
  from assms(2) have n: "0 < n" by (simp add: n_def)
  have "int k \<le> (max 0 (50 - t) + n - 1) div n + 1"
  proof (cases k)
    case 0
    from n have "0 \<le> max 0 (50 - t) + n - 1"
      by linarith
    with n have "0 \<le> (max 0 (50 - t) + n - 1) div n"
      by (simp only: pos_imp_zdiv_nonneg_iff)
    with 0 show ?thesis by simp
  next
    case (Suc j)
    from assms(1) Suc obtain s' where "(any_step m ^^ j) (Attempting u0) s'" and "any_step m s' s"
      by auto
    then obtain u where "(any_step m ^^ j) (Attempting u0) (Attempting u)"
      by (cases s') (auto simp: any_step_def)
    then have "j = 0 \<or> t + n * (int j - 1) < 50"
      by (auto simp: n_def t_def dest: retries_shape)
    with n have "int j * n \<le> max 0 (50 - t) + n - 1"
      by (auto simp: algebra_simps)
    then have "int j * n div n \<le> (max 0 (50 - t) + n - 1) div n"
      using n by (intro zdiv_mono1)
    with n Suc show ?thesis by simp
  qed
  then show ?thesis by (simp only: n_def t_def)
qed

theorem attempts_bound_witness:
  "(any_step GREEDY ^^ 1) (Attempting ex_request) (Attempting (increment_panel_quantities ex_request 1))
   \<and> up_panels ex_request \<noteq> []
   \<and> int 1 \<le> (max 0 (50 - get_total_panel_quantity ex_request) + int (length (up_panels ex_request)) - 1)
        div int (length (up_panels ex_request)) + 1
   \<and> (max 0 (50 - get_total_panel_quantity ex_request) + int (length (up_panels ex_request)) - 1)
        div int (length (up_panels ex_request)) + 1 = 25"
  using attempts_bound [where m = GREEDY and k = 1 and ?u0.0 = ex_request
      and s = "Attempting (increment_panel_quantities ex_request 1)"] ex_retry
  by (simp add: get_total_panel_quantity_def ex_defs eq_OO)

text \<open>C20. Retry monotonicity: a request reached by retries from \<open>u0\<close> is \<open>u0\<close> with
  every panel quantity raised by the number \<open>k\<close> of retries, items and cutting
  parameters unchanged; its total quantity is that of \<open>u0\<close> plus \<open>k\<close> times the number
  of panel specifications.\<close>

theorem retry_invariant:
  assumes "(any_step m)\<^sup>*\<^sup>* (Attempting u0) (Attempting u)"
  shows "\<exists>k. u = increment_panel_quantities u0 (int k)
    \<and> up_items u = up_items u0 \<and> up_cut_width u = up_cut_width u0
    \<and> get_total_panel_quantity u = get_total_panel_quantity u0 + int k * int (length (up_panels u0))"
proof -
  from assms obtain k where "(any_step m ^^ k) (Attempting u0) (Attempting u)"
    by (auto simp: rtranclp_power)
  then have "u = increment_panel_quantities u0 (int k)"
    by (simp add: retries_shape)
  then show ?thesis
    by (auto simp: total_increment mult.commute)
qed

theorem retry_invariant_witness:
  "(any_step GREEDY)\<^sup>*\<^sup>* (Attempting ex_request) (Attempting (increment_panel_quantities ex_request 1))
   \<and> (\<exists>k. increment_panel_quantities ex_request 1 = increment_panel_quantities ex_request (int k)
        \<and> up_items (increment_panel_quantities ex_request 1) = up_items ex_request
        \<and> up_cut_width (increment_panel_quantities ex_request 1) = up_cut_width ex_request
        \<and> get_total_panel_quantity (increment_panel_quantities ex_request 1)
            = get_total_panel_quantity ex_request + int k * int (length (up_panels ex_request)))
   \<and> get_total_panel_quantity ex_request = 3
   \<and> get_total_panel_quantity (increment_panel_quantities ex_request 1) = 5"
  using retry_invariant [of GREEDY ex_request "increment_panel_quantities ex_request 1"] ex_retry
  by (auto simp: get_total_panel_quantity_def ex_defs)

text \<open>C21. A retry offers the packing library every panel unit of the attempt
  before, with the same identifier and size, and the same item units: the supply
  only grows.\<close>

theorem retry_keeps_units:
  assumes "0 \<le> k"
  shows "set (expand_panels (up_panels u))
       \<subseteq> set (expand_panels (up_panels (increment_panel_quantities u k)))
    \<and> expand_items (up_items (increment_panel_quantities u k))
         (hd (up_panels (increment_panel_quantities u k)))
       = expand_items (up_items u) (hd (up_panels u))"
proof -
  have "pin_grain (hd (up_panels (increment_panel_quantities u k))) = pin_grain (hd (up_panels u))"
    by (cases "up_panels u") simp_all
  then have "expand_items (up_items u) (hd (up_panels (increment_panel_quantities u k)))
      = expand_items (up_items u) (hd (up_panels u))"
    by (rule expand_items_grain)
  moreover from assms have "set (expand_panels (up_panels u))
       \<subseteq> set (expand_panels (up_panels (increment_panel_quantities u k)))"
    by (force simp: set_expand_panels)
  ultimately show ?thesis
    by simp
qed

theorem retry_keeps_units_witness:
  "(0::int) \<le> 1
   \<and> map cp_id (expand_panels (up_panels ex_request)) = [''Sheet_1'', ''Board_1'', ''Board_2'']
   \<and> map cp_id (expand_panels (up_panels (increment_panel_quantities ex_request 1)))
       = [''Sheet_1'', ''Sheet_2'', ''Board_1'', ''Board_2'', ''Board_3'']
   \<and> set (expand_panels (up_panels ex_request))
       \<subseteq> set (expand_panels (up_panels (increment_panel_quantities ex_request 1)))
   \<and> expand_items (up_items (increment_panel_quantities ex_request 1))
         (hd (up_panels (increment_panel_quantities ex_request 1)))
       = expand_items (up_items ex_request) (hd (up_panels ex_request))"
proof -
  have "map cp_id (expand_panels (up_panels (increment_panel_quantities ex_request 1)))
       = [''Sheet_1'', ''Sheet_2'', ''Board_1'', ''Board_2'', ''Board_3'']"
    by (simp add: ex_defs expand_panels_Cons eval_ids)
  with retry_keeps_units [of 1 ex_request] ex_units show ?thesis
    by simp
qed

section \<open>Giving up at the ceiling\<close>

lemma ceiling_step:
  fixes t n :: int
  assumes "0 < n" and "t < 50"
  shows "(if 50 \<le> t + n then t + n else t + n + n * ((50 - (t + n) + n - 1) div n))
       = t + n * ((50 - t + n - 1) div n)"
proof (cases "50 \<le> t + n")
  case True
  with assms have "(50 - t + n - 1) div n = 1"
    by (intro int_div_pos_eq [where r = "50 - t - 1"]) auto
  with True show ?thesis by simp
next
  case False
  have "(50 - t + n - 1) div n = (50 - (t + n) + n - 1) div n + 1"
    using assms(1) div_add_self2 [of n "50 - (t + n) + n - 1"] by (simp add: algebra_simps)
  with False show ?thesis by (simp add: algebra_simps)
qed

lemma exhausted_total_increment:
  assumes "up_panels u \<noteq> []" and "get_total_panel_quantity u < 50"
  shows "exhausted_total (increment_panel_quantities u 1) = exhausted_total u"
  using assms ceiling_step [of "int (length (up_panels u))" "get_total_panel_quantity u"]
  by (simp add: exhausted_total_def total_increment Let_def)

lemma attempt_raises_solver:
  "up_panels u \<noteq> [] \<Longrightarrow> solve m (params_of u) = Raise e \<Longrightarrow> attempt solve m u = Raise e"
  by (simp add: attempt_def invoke_Cons)

lemma handle_exception_exhausted:
  "is_unresolvable e \<Longrightarrow> 50 \<le> get_total_panel_quantity u \<Longrightarrow>
     handle_exception u e = Some (failure_response (unresolvable_message (get_total_panel_quantity u)))"
  by (simp add: handle_exception_def Let_def)

lemma handle_exception_fatal:
  "\<not> is_unresolvable e \<Longrightarrow> handle_exception u e = Some (failure_response (exception_message e))"
  by (simp add: handle_exception_def)

lemma always_unresolvable_loop:
  assumes "\<And>p. infeasible solve m p" and "up_panels u \<noteq> []"
  shows "calculate_loop solve m u = failure_response (unresolvable_message (exhausted_total u))"
  using assms
proof (induction solve m u rule: calculate_loop.induct)
  case (1 solve m u)
  from "1.prems" obtain e where e: "solve m (params_of u) = Raise e" "is_unresolvable e"
    by (blast dest: infeasibleD)
  with "1.prems"(2) have att: "attempt solve m u = Raise e"
    by (simp add: attempt_raises_solver)
  show ?case
  proof (cases "get_total_panel_quantity u < 50")
    case True
    with e have none: "handle_exception u e = None"
      by (simp add: handle_exception_None_iff)
    from "1.prems" have "calculate_loop solve m (increment_panel_quantities u 1)
        = failure_response (unresolvable_message (exhausted_total (increment_panel_quantities u 1)))"
      by (intro "1.IH" [OF att none]) simp_all
    with att none True "1.prems"(2) show ?thesis
      by (simp add: calculate_loop_retry exhausted_total_increment)
  next
    case False
    with e att show ?thesis
      by (simp add: calculate_loop_handled handle_exception_exhausted exhausted_total_def)
  qed
qed

text \<open>The range of the total at which the calculation gives up.\<close>

lemma exhausted_total_bounds:
  assumes "up_panels u \<noteq> []"
  shows "50 \<le> exhausted_total u"
    and "get_total_panel_quantity u < 50 \<Longrightarrow> exhausted_total u < 50 + int (length (up_panels u))"
proof -
  define n t where "n = int (length (up_panels u))" and "t = get_total_panel_quantity u"
  from assms have n: "0 < n" by (simp add: n_def)
  have e: "exhausted_total u = (if 50 \<le> t then t else t + n * ((50 - t + n - 1) div n))"
    by (simp add: exhausted_total_def Let_def n_def t_def)
  have m: "(50 - t + n - 1) mod n < n" "0 \<le> (50 - t + n - 1) mod n"
    using n by simp_all
  have d: "n * ((50 - t + n - 1) div n) = (50 - t + n - 1) - (50 - t + n - 1) mod n"
    by (simp add: minus_mod_eq_mult_div [symmetric])
  from m show "50 \<le> exhausted_total u"
    unfolding e d by auto
  from m show "exhausted_total u < 50 + int (length (up_panels u))" if "get_total_panel_quantity u < 50"
    using that unfolding e d n_def [symmetric] t_def [symmetric] by auto
qed

section \<open>Well-formed responses\<close>

lemma transform_result_Return_success:
  "transform_result raw u = Return r \<Longrightarrow> cr_success r \<and> cr_error r = None"
  by (auto simp: transform_result_def Let_def bind_result_eq_Inr_iff)

lemma attempt_Return_success:
  "attempt solve m u = Return r \<Longrightarrow> cr_success r \<and> cr_error r = None"
  by (auto simp: attempt_def bind_result_eq_Inr_iff dest: transform_result_Return_success)

lemma response_wf_failure [simp]: "response_wf (failure_response msg)"
  by (simp add: response_wf_def failure_response_def)

lemma not_success_failure [simp]: "\<not> cr_success (failure_response msg)"
  by (simp add: failure_response_def)

lemma handle_exception_Some_failure:
  "handle_exception u e = Some r \<Longrightarrow> \<exists>msg. r = failure_response msg"
  by (auto simp: handle_exception_def Let_def split: if_splits)

lemma response_wf_calculate_loop: "response_wf (calculate_loop solve m u)"
proof (induction solve m u rule: calculate_loop.induct)
  case (1 solve m u)
  show ?case
  proof (cases "attempt solve m u")
    case (Inr r)
    then show ?thesis
      by (auto simp: calculate_loop_success response_wf_def dest: attempt_Return_success)
  next
    case (Inl e)
    with "1.IH" show ?thesis
      by (cases "handle_exception u e")
        (auto simp: calculate_loop_retry calculate_loop_handled dest: handle_exception_Some_failure)
  qed
qed

lemma success_origin:
  "cr_success (calculate_loop solve m u) \<Longrightarrow>
     \<exists>k. attempt solve m (increment_panel_quantities u (int k)) = Return (calculate_loop solve m u)"
proof (induction solve m u rule: calculate_loop.induct)
  case (1 solve m u)
  show ?case
  proof (cases "attempt solve m u")
    case (Inr r)
    then have "attempt solve m (increment_panel_quantities u (int 0)) = Return (calculate_loop solve m u)"
      by (simp add: calculate_loop_success)
    then show ?thesis ..
  next
    case (Inl e)
    show ?thesis
    proof (cases "handle_exception u e")
      case None
      with Inl "1.IH" "1.prems" obtain k
        where "attempt solve m (increment_panel_quantities u (1 + int k)) = Return (calculate_loop solve m u)"
        by (auto simp: calculate_loop_retry)
      then have "attempt solve m (increment_panel_quantities u (int (Suc k)))
          = Return (calculate_loop solve m u)"
        by (simp add: add.commute)
      then show ?thesis ..
    next
      case (Some r)
      with Inl "1.prems" show ?thesis
        by (auto simp: calculate_loop_handled dest: handle_exception_Some_failure)
    qed
  qed
qed

text \<open>A failure is the answer of the \<open>except\<close> clauses to what one of the attempts
  raised.\<close>

lemma failure_origin:
  "\<not> cr_success (calculate_loop solve m u) \<Longrightarrow>
     \<exists>k e. attempt solve m (increment_panel_quantities u (int k)) = Raise e
       \<and> handle_exception (increment_panel_quantities u (int k)) e
           = Some (calculate_loop solve m u)"
proof (induction solve m u rule: calculate_loop.induct)
  case (1 solve m u)
  show ?case
  proof (cases "attempt solve m u")
    case (Inr r)
    with "1.prems" show ?thesis
      by (auto simp: calculate_loop_success dest: attempt_Return_success)
  next
    case (Inl e)
    show ?thesis
    proof (cases "handle_exception u e")
      case None
      with Inl "1.IH" "1.prems" obtain k e'
        where "attempt solve m (increment_panel_quantities u (1 + int k)) = Raise e'"
          "handle_exception (increment_panel_quantities u (1 + int k)) e'
            = Some (calculate_loop solve m u)"
        by (auto simp: calculate_loop_retry)
      then have "attempt solve m (increment_panel_quantities u (int (Suc k))) = Raise e'
          \<and> handle_exception (increment_panel_quantities u (int (Suc k))) e'
            = Some (calculate_loop solve m u)"
        by (simp add: add.commute)
      then show ?thesis
        by blast
    next
      case (Some r)
      with Inl have "attempt solve m (increment_panel_quantities u (int 0)) = Raise e
          \<and> handle_exception (increment_panel_quantities u (int 0)) e
            = Some (calculate_loop solve m u)"
        by (simp add: calculate_loop_handled)
      then show ?thesis
        by blast
    qed
  qed
qed

section \<open>An answered attempt\<close>

text \<open>An attempt the packing library answers.\<close>

lemma attempt_solved:
  "up_panels u \<noteq> [] \<Longrightarrow> solve m (params_of u) = Return raw \<Longrightarrow>
     attempt solve m u = transform_result raw u"
  by (simp add: attempt_def invoke_Cons)

lemma calculate_loop_solved:
  assumes "up_panels u \<noteq> []" and "solve m (params_of u) = Return raw"
  shows "calculate_loop solve m u =
    (case transform_result raw u of Inr response \<Rightarrow> response
     | Inl e \<Rightarrow> failure_response (exception_message e))"
proof (cases "transform_result raw u")
  case (Inl e)
  with attempt_solved [where solve = solve and m = m, OF assms] transform_result_raises [OF Inl] show ?thesis
    by (simp add: calculate_loop_handled handle_exception_fatal)
next
  case (Inr r)
  with attempt_solved [where solve = solve and m = m, OF assms] show ?thesis
    by (simp add: calculate_loop_success)
qed

section \<open>Recovery by more panels\<close>

lemma calculate_loop_after_retries:
  assumes "\<And>j. j < k \<Longrightarrow> infeasible solve m (params_of (increment_panel_quantities u (int j)))"
    and "up_panels u \<noteq> []"
    and "k = 0 \<or> get_total_panel_quantity u + int (length (up_panels u)) * (int k - 1) < 50"
  shows "calculate_loop solve m u = calculate_loop solve m (increment_panel_quantities u (int k))"
  using assms
proof (induction k)
  case 0
  then show ?case by simp
next
  case (Suc k)
  let ?u = "increment_panel_quantities u (int k)"
  from Suc.prems(2) have n: "0 < int (length (up_panels u))" by simp
  from Suc.prems(3) have tot: "get_total_panel_quantity ?u < 50"
    by (simp add: total_increment)
  have "k = 0 \<or> get_total_panel_quantity u + int (length (up_panels u)) * (int k - 1) < 50"
  proof (cases k)
    case (Suc j)
    have "int (length (up_panels u)) * (int k - 1) \<le> int (length (up_panels u)) * int k"
      by (intro mult_left_mono) simp_all
    with tot show ?thesis by (simp add: total_increment)
  qed simp
  with Suc have "calculate_loop solve m u = calculate_loop solve m ?u"
    by simp
  moreover from Suc.prems(1) [of k] obtain e
    where "solve m (params_of ?u) = Raise e" and e: "is_unresolvable e"
    by (auto dest: infeasibleD)
  with Suc.prems(2) have att: "attempt solve m ?u = Raise e"
    by (simp add: attempt_raises_solver)
  moreover from e tot have "handle_exception ?u e = None"
    by (simp add: handle_exception_None_iff)
  ultimately show ?case
    by (simp add: calculate_loop_retry [OF att] add.commute)
qed

section \<open>The outcomes of \<open>calculate\<close>\<close>

text \<open>A method name outside the table raises \<open>ValueError\<close> with the text
  \<open>Unknown method: \<close> and the name, before anything is expanded or packed.\<close>

theorem calculate_unknown_method:
  "method_map method = None \<Longrightarrow>
     calculate solve u method = Raise (ValueError (''Unknown method: '' @ method))"
  by (simp add: calculate_def)

theorem calculate_unknown_method_witness:
  "method_map ''fastest'' = None
   \<and> calculate never_fits ex_request ''fastest'' = Raise (ValueError ''Unknown method: fastest'')"
  using calculate_unknown_method [of "''fastest''" never_fits ex_request]
  by (simp add: method_map_def)

text \<open>C3. Exhaustion: when the packing library answers every call with
  \<open>UnresolvableError\<close> and the request has a panel, \<open>calculate\<close> returns the failure
  response whose text names the total quantity at which it gave up, the first of
  \<open>T0\<close>, \<open>T0 + n\<close>, \<open>T0 + 2n\<close>, ... that is at least 50.\<close>

theorem calculate_exhaustion:
  assumes "method_map method = Some m" and "\<And>p. infeasible solve m p" and "up_panels u \<noteq> []"
  shows "calculate solve u method
    = Return (failure_response (unresolvable_message (exhausted_total u)))"
  using assms by (simp add: calculate_def always_unresolvable_loop)

theorem calculate_exhaustion_witness:
  "method_map ''greedy'' = Some GREEDY \<and> (\<forall>p. infeasible never_fits GREEDY p)
   \<and> up_panels scenario_c \<noteq> []
   \<and> calculate never_fits scenario_c ''greedy'' = Return
       \<lparr>cr_success = False, cr_panels = [], cr_cuts = [], cr_summary = [],
        cr_error = Some (''UnresolvableError: No valid cutting solution found even with 50 panels.''
          @ '' Try adjusting item dimensions or using different optimization method.'')\<rparr>"
  using calculate_exhaustion [of "''greedy''" GREEDY never_fits scenario_c]
  by (simp add: scenario_c_def ex_defs exhausted_total_def get_total_panel_quantity_def
      failure_response_def unresolvable_message_def str_int_def str_nat.simps digit_char_def)

text \<open>C22. The total quantity named in the failure response of an exhausted
  calculation is at least 50 and less than 50 plus the number of panel
  specifications: with more than one specification it need not be 50.\<close>

theorem calculate_exhaustion_overshoot:
  assumes "method_map method = Some m" and "\<And>p. infeasible solve m p" and "up_panels u \<noteq> []"
    and "get_total_panel_quantity u < 50"
  shows "\<exists>t. calculate solve u method = Return (failure_response (unresolvable_message t))
    \<and> 50 \<le> t \<and> t < 50 + int (length (up_panels u))"
  using assms exhausted_total_bounds [of u]
  by (auto simp: calculate_def always_unresolvable_loop)

theorem calculate_exhaustion_overshoot_witness:
  "method_map ''greedy'' = Some GREEDY \<and> (\<forall>p. infeasible never_fits GREEDY p)
   \<and> up_panels ex_request \<noteq> [] \<and> get_total_panel_quantity ex_request < 50
   \<and> calculate never_fits ex_request ''greedy'' = Return (failure_response (unresolvable_message 51))
   \<and> (\<exists>t. calculate never_fits ex_request ''greedy'' = Return (failure_response (unresolvable_message t))
        \<and> 50 \<le> t \<and> t < 50 + int (length (up_panels ex_request)))"
proof -
  have "calculate never_fits ex_request ''greedy'' = Return (failure_response (unresolvable_message 51))"
    by (simp add: calculate_def always_unresolvable_loop exhausted_total_def
        get_total_panel_quantity_def ex_defs)
  with calculate_exhaustion_overshoot [of "''greedy''" GREEDY never_fits ex_request] show ?thesis
    by (simp add: get_total_panel_quantity_def ex_defs)
qed

text \<open>C9. Recovery: when the packing library finds no placement for the first
  \<open>k\<close> attempts, the total quantity stays below the ceiling up to the last of
  them, and the library answers the attempt with every quantity raised by \<open>k\<close>,
  then \<open>calculate\<close> returns what \<open>transform_result\<close> makes of that answer for
  the raised quantities: its response, or the failure response of what it
  raises.\<close>

theorem calculate_recovers:
  assumes "method_map method = Some m" and "up_panels u \<noteq> []"
    and "\<And>j. j < k \<Longrightarrow> infeasible solve m (params_of (increment_panel_quantities u (int j)))"
    and "k = 0 \<or> get_total_panel_quantity u + int (length (up_panels u)) * (int k - 1) < 50"
    and "solve m (params_of (increment_panel_quantities u (int k))) = Return raw"
  shows "calculate solve u method =
    (case transform_result raw (increment_panel_quantities u (int k)) of
       Inr response \<Rightarrow> Return response
     | Inl e \<Rightarrow> Return (failure_response (exception_message e)))"
  using assms
  by (simp add: calculate_def calculate_loop_after_retries [where k = k]
      calculate_loop_solved [where raw = raw] split: sum.splits)

text \<open>Scenario A with a library that wants three panel units: two retries, then the
  shelf on the first sheet.\<close>

lemma stacks_scenario_a:
  "j < 2 \<Longrightarrow> infeasible (stacks_from 3) GREEDY (params_of (increment_panel_quantities scenario_a (int j)))"
  by (cases j rule: nat.exhaust [case_product nat.exhaust])
     (simp_all add: less_Suc_eq infeasible_def stacks_from_def scenario_a_def ex_defs expand_panels_Cons)

lemma stacks_scenario_a_answer:
  "stacks_from 3 GREEDY (params_of (increment_panel_quantities scenario_a (int 2))) = Return ex_result_a"
  by (simp add: stacks_from_def scenario_a_def ex_defs expand_panels_Cons expand_items_Cons eval_ids
      ex_result_a_def)

theorem calculate_recovers_witness:
  "method_map ''greedy'' = Some GREEDY \<and> up_panels scenario_a \<noteq> []
   \<and> infeasible (stacks_from 3) GREEDY (params_of (increment_panel_quantities scenario_a (int 0)))
   \<and> infeasible (stacks_from 3) GREEDY (params_of (increment_panel_quantities scenario_a (int 1)))
   \<and> get_total_panel_quantity scenario_a + int (length (up_panels scenario_a)) * (int 2 - 1) < 50
   \<and> stacks_from 3 GREEDY (params_of (increment_panel_quantities scenario_a (int 2))) = Return ex_result_a
   \<and> calculate (stacks_from 3) scenario_a ''greedy'' = Return ex_response_a"
proof -
  have u: "increment_panel_quantities scenario_a 2
      = scenario_a\<lparr>up_panels := [ex_sheet\<lparr>pin_quantity := 3\<rparr>]\<rparr>"
    by (simp add: increment_panel_quantities_def scenario_a_def ex_defs)
  have ne: "up_panels scenario_a \<noteq> []" and tot: "get_total_panel_quantity scenario_a = 1"
    and len: "length (up_panels scenario_a) = 1"
    by (simp_all add: scenario_a_def get_total_panel_quantity_def ex_defs)
  from calculate_recovers [where u = scenario_a and k = 2 and solve = "stacks_from 3",
      OF method_map_simps(1) ne stacks_scenario_a _ stacks_scenario_a_answer]
    transform_scenario_a [of 3]
  have "calculate (stacks_from 3) scenario_a ''greedy'' = Return ex_response_a"
    by (simp add: tot len u)
  with ne tot len stacks_scenario_a [of 0] stacks_scenario_a [of 1] stacks_scenario_a_answer
  show ?thesis
    by simp
qed

text \<open>C24. An exception other than \<open>UnresolvableError\<close> in the first attempt ends the
  calculation at once, without a retry: the response is the failure response with
  the name of the exception, a colon and its text.\<close>

theorem calculate_fatal_no_retry:
  assumes "method_map method = Some m" and "attempt solve m u = Raise e" and "\<not> is_unresolvable e"
  shows "calculate solve u method = Return (failure_response (exn_name e @ '': '' @ exn_str e))"
  using assms
  by (simp add: calculate_def calculate_loop_handled handle_exception_fatal exception_message_def)

theorem calculate_fatal_no_retry_witness:
  "method_map ''greedy'' = Some GREEDY
   \<and> attempt crashes GREEDY ex_request = Raise (OtherError ''RuntimeError'' ''boom'')
   \<and> \<not> is_unresolvable (OtherError ''RuntimeError'' ''boom'')
   \<and> calculate crashes ex_request ''greedy'' = Return (failure_response ''RuntimeError: boom'')"
  using calculate_fatal_no_retry [of "''greedy''" GREEDY crashes ex_request "OtherError ''RuntimeError'' ''boom''"]
  by (simp add: attempt_def invoke_Cons crashes_def ex_request_def)

text \<open>Whatever the packing library does, \<open>calculate\<close> either raises the
  \<open>ValueError\<close> of an unknown method or returns a well-formed response: a success
  without an error text, or a failure with an error text and no panels, cuts or
  counts.\<close>

theorem calculate_response_wf:
  "case calculate solve u method of
     Inr r \<Rightarrow> response_wf r
   | Inl e \<Rightarrow> e = ValueError (''Unknown method: '' @ method) \<and> method \<notin> dom method_map"
  by (auto simp: calculate_def response_wf_calculate_loop split: option.splits)

end
