(* ===== verification/Api_Handler.thy ===== *)
theory Api_Handler
  imports Retry_Controller
begin

text \<open>
  The HTTP face of \<open>src/app/main.py\<close>: the handler \<open>calculate_optimization\<close> of
  \<open>POST /calculate\<close> and the handler \<open>health_check\<close> of \<open>GET /health\<close>. The
  handler of \<open>/calculate\<close> sets the quantity of the first panel of the request to
  one, calls \<open>optimizer.calculate\<close> and turns whatever is raised on the way (the
  \<open>IndexError\<close> of a request without panels, the \<open>ValueError\<close> of an unknown
  method) into a failure response whose text starts with \<open>API Error: \<close>.

  The request is handed over as a value; the assignment to
  \<open>user_params.panels[0].quantity\<close> is the update of the first element of the
  list. Logging and the two \<open>print\<close> calls are left out.

  The lemmas show that the handler always answers with a well-formed response, what
  it answers in each case of failure, and that the quantity the caller gives for the
  first panel has no influence on the answer.
\<close>

section \<open>The handlers\<close>

text \<open>\<open>user_params.panels[0].quantity=1\<close>\<close>

definition set_first_quantity :: "UserParams \<Rightarrow> UserParams py" where
  "set_first_quantity user_params =
     (case up_panels user_params of
        [] \<Rightarrow> Raise IndexError
      | panel # rest \<Rightarrow> Return (user_params\<lparr>up_panels := panel\<lparr>pin_quantity := 1\<rparr> # rest\<rparr>))"

definition api_error_response :: "exn \<Rightarrow> CalculationResponse" where
  "api_error_response e = failure_response (''API Error: '' @ exn_str e)"

definition calculate_optimization :: "solver \<Rightarrow> UserParams \<Rightarrow> string \<Rightarrow> CalculationResponse" where
  "calculate_optimization solve user_params method =
     (case bind_result (set_first_quantity user_params)
             (\<lambda>user_params. calculate solve user_params method) of
        Inr response \<Rightarrow> response
      | Inl e \<Rightarrow> api_error_response e)"

definition health_check :: "(string \<times> string) list" where
  "health_check = [(''status'', ''healthy''), (''service'', ''cutting-optimizer'')]"

section \<open>The request the optimizer receives\<close>

lemma set_first_quantity_Nil [simp]:
  "up_panels u = [] \<Longrightarrow> set_first_quantity u = Raise IndexError"
  by (simp add: set_first_quantity_def)

lemma set_first_quantity_Cons:
  "up_panels u = p # ps \<Longrightarrow>
     set_first_quantity u = Return (u\<lparr>up_panels := p\<lparr>pin_quantity := 1\<rparr> # ps\<rparr>)"
  by (simp add: set_first_quantity_def)

lemma set_first_quantity_total:
  "up_panels u = p # ps \<Longrightarrow> set_first_quantity u = Return u' \<Longrightarrow>
     get_total_panel_quantity u' = 1 + sum_list (map pin_quantity ps)"
  by (auto simp: set_first_quantity_Cons get_total_panel_quantity_def)

lemma set_first_quantity_ignores:
  "set_first_quantity (u\<lparr>up_panels := p\<lparr>pin_quantity := q\<rparr> # ps\<rparr>)
     = set_first_quantity (u\<lparr>up_panels := p # ps\<rparr>)"
  by (simp add: set_first_quantity_def)

lemma calculate_optimization_Cons:
  "up_panels u = p # ps \<Longrightarrow>
     calculate_optimization solve u method =
       (case method_map method of
          None \<Rightarrow> failure_response (''API Error: Unknown method: '' @ method)
        | Some m \<Rightarrow> calculate_loop solve m (u\<lparr>up_panels := p\<lparr>pin_quantity := 1\<rparr> # ps\<rparr>))"
  by (simp add: calculate_optimization_def set_first_quantity_Cons calculate_def
      api_error_response_def split: option.splits)

lemma calculate_optimization_Nil:
  "up_panels u = [] \<Longrightarrow>
     calculate_optimization solve u method = failure_response ''API Error: list index out of range''"
  by (simp add: calculate_optimization_def api_error_response_def)

section \<open>Properties of the handler\<close>

text \<open>C30. The handler of \<open>/calculate\<close> answers every request, whatever the packing
  library does, with a well-formed response: a success without error text or a
  failure with an error text and no panels, cuts or counts. No exception leaves the
  handler.\<close>

theorem calculate_optimization_wf: "response_wf (calculate_optimization solve u method)"
proof (cases "up_panels u")
  case Nil
  then show ?thesis by (simp add: calculate_optimization_Nil)
next
  case (Cons p ps)
  then show ?thesis
    by (simp add: calculate_optimization_Cons response_wf_calculate_loop split: option.splits)
qed

text \<open>C29. The quantity the caller gives for the first panel has no influence on the
  answer: the handler overwrites it with one before the calculation starts.\<close>

theorem first_quantity_ignored:
  "calculate_optimization solve (u\<lparr>up_panels := p\<lparr>pin_quantity := q\<rparr> # ps\<rparr>) method
     = calculate_optimization solve (u\<lparr>up_panels := p # ps\<rparr>) method"
  by (simp add: calculate_optimization_def set_first_quantity_ignores)

text \<open>C35. The failures of the handler itself: a request without panels is answered
  with the text of the \<open>IndexError\<close>, whatever the method; a request with a panel
  and a method outside the table with the text of the \<open>ValueError\<close>.\<close>

theorem calculate_optimization_errors:
  "calculate_optimization solve (u\<lparr>up_panels := []\<rparr>) method
     = failure_response ''API Error: list index out of range''
   \<and> (method_map method = None \<longrightarrow>
        calculate_optimization solve (u\<lparr>up_panels := p # ps\<rparr>) method
          = failure_response (''API Error: Unknown method: '' @ method))"
  by (simp add: calculate_optimization_Nil calculate_optimization_Cons)

theorem calculate_optimization_errors_witness:
  "calculate_optimization never_fits (ex_request\<lparr>up_panels := []\<rparr>) ''greedy''
     = failure_response ''API Error: list index out of range''
   \<and> method_map ''fastest'' = None
   \<and> calculate_optimization never_fits (ex_request\<lparr>up_panels := ex_sheet # [ex_board]\<rparr>) ''fastest''
          = failure_response ''API Error: Unknown method: fastest''"
  using calculate_optimization_errors [of never_fits ex_request "''greedy''" ]
    calculate_optimization_errors [of never_fits ex_request "''fastest''" ex_sheet "[ex_board]"]
  by (simp add: method_map_def)

text \<open>Scenario C through the handler: for a request with one panel
  specification, whatever its quantity, and a packing library that never finds a
  placement, the answer is the failure that names 50 panels: the first attempt is
  made with one panel, the fiftieth with fifty.\<close>

theorem handler_exhaustion_single:
  assumes "method_map method = Some m" and "\<And>prm. infeasible solve m prm"
  shows "calculate_optimization solve (u\<lparr>up_panels := [p]\<rparr>) method
     = failure_response (unresolvable_message 50)"
  using assms
  by (simp add: calculate_optimization_Cons [where p = p and ps = "[]"] always_unresolvable_loop
      exhausted_total_def get_total_panel_quantity_def)

theorem handler_exhaustion_single_witness:
  "method_map ''greedy'' = Some GREEDY \<and> (\<forall>prm. infeasible never_fits GREEDY prm)
   \<and> calculate_optimization never_fits (scenario_c\<lparr>up_panels := [ex_sheet\<lparr>pin_quantity := 7\<rparr>]\<rparr>) ''greedy''
     = \<lparr>cr_success = False, cr_panels = [], cr_cuts = [], cr_summary = [],
        cr_error = Some (''UnresolvableError: No valid cutting solution found even with 50 panels.''
          @ '' Try adjusting item dimensions or using different optimization method.'')\<rparr>"
  using handler_exhaustion_single [where solve = never_fits and u = scenario_c
      and p = "ex_sheet\<lparr>pin_quantity := 7\<rparr>", OF method_map_simps(1)]
  by (simp add: failure_response_def unresolvable_message_def str_int_def str_nat.simps digit_char_def)

end
