(* ===== verification/Calculate_Effects.thy ===== *)
theory Calculate_Effects
  imports Api_Handler "HOL-Library.State_Monad" "HOL-Library.Sublist"
begin

text \<open>
  \<open>transform_result\<close>, \<open>calculate\<close> and the handler of \<open>/calculate\<close> with the effects
  the other theories leave out: the records written to the logger, the two \<open>print\<close>
  calls of the handler, the readings of \<open>time.time()\<close> and the field
  \<open>calculation_time\<close> of the response. The effects are a state, \<open>world\<close>, threaded
  through the statements in the state monad of the library; the clock is a
  parameter, the sequence of its readings. The functions follow the source statement
  by statement; a function with effects has the name of the one without, and \<open>_io\<close>.

  A log message is the list of the pieces of its f-string. A piece whose text is
  made by the runtime (a duration formatted with \<open>.2f\<close>, a traceback, the type and the
  keys view of the result, the \<open>repr\<close> of the panels) is kept as the value it is made
  from.

  The lemmas show that the effects do not reach the answer: without the log and the
  time, what \<open>calculate_io\<close> returns is \<open>calculate\<close>, for every clock and every world
  it starts in. They show what the effects are: the log and the output only grow,
  a record of level \<open>ERROR\<close> is written exactly when the response is a failure, and
  the time in a response of \<open>calculate\<close> is the difference of two readings of the
  clock, the later minus the earlier.
\<close>

section \<open>The world\<close>

text \<open>The levels the orchestrator logs at, ordered by their numbers, and the level
  \<open>logging.basicConfig\<close> sets: a record below it is dropped.\<close>

datatype level = INFO | WARNING | ERROR

fun levelno :: "level \<Rightarrow> nat" where
  "levelno INFO = 20"
| "levelno WARNING = 30"
| "levelno ERROR = 40"

instantiation level :: linorder
begin

definition less_eq_level :: "level \<Rightarrow> level \<Rightarrow> bool" where
  "less_eq_level a b \<longleftrightarrow> levelno a \<le> levelno b"

definition less_level :: "level \<Rightarrow> level \<Rightarrow> bool" where
  "less_level a b \<longleftrightarrow> levelno a < levelno b"

instance
  by standard (auto simp: less_eq_level_def less_level_def elim!: levelno.elims)

end

definition root_level :: level where
  "root_level = INFO"

datatype piece =
    Str string
  | Seconds real
  | Traceback exn
  | Type_of RawResult
  | Keys RawResult
  | Keys_if_any RawResult
  | Result_data RawResult
  | Panels "PanelInput list"

type_synonym message = "piece list"

record world =
  w_log :: "(level \<times> message) list"
  w_stdout :: "message list"
  w_clock_reads :: nat

type_synonym clock = "nat \<Rightarrow> real"

type_synonym 'a io = "(world, 'a) state"

definition emit :: "level \<Rightarrow> message \<Rightarrow> unit io" where
  "emit lvl msg =
     State (\<lambda>w. ((), if root_level \<le> lvl then w\<lparr>w_log := w_log w @ [(lvl, msg)]\<rparr> else w))"

definition logger_info :: "message \<Rightarrow> unit io" where
  "logger_info = emit INFO"

definition logger_warning :: "message \<Rightarrow> unit io" where
  "logger_warning = emit WARNING"

definition logger_error :: "message \<Rightarrow> unit io" where
  "logger_error = emit ERROR"

definition py_print :: "message \<Rightarrow> unit io" where
  "py_print msg = State (\<lambda>w. ((), w\<lparr>w_stdout := w_stdout w @ [msg]\<rparr>))"

definition time_time :: "clock \<Rightarrow> real io" where
  "time_time clock = State (\<lambda>w. (clock (w_clock_reads w), w\<lparr>w_clock_reads := Suc (w_clock_reads w)\<rparr>))"

definition str_len :: "'a list \<Rightarrow> string" where
  "str_len xs = str_int (int (length xs))"

section \<open>The response with its time\<close>

record TimedResponse = CalculationResponse +
  cr_calculation_time :: "real option"

definition timed :: "CalculationResponse \<Rightarrow> real option \<Rightarrow> TimedResponse" where
  "timed r t = CalculationResponse.extend r (TimedResponse.fields t)"

definition untimed :: "TimedResponse \<Rightarrow> CalculationResponse" where
  "untimed r = CalculationResponse.truncate r"

section \<open>The assembler\<close>

text \<open>\<open>transform_result\<close> logs when it starts and when it is done, and nothing in
  between; what it catches it logs and raises again.\<close>

definition transform_result_io :: "RawResult \<Rightarrow> UserParams \<Rightarrow> CalculationResponse py io" where
  "transform_result_io result user_params = do {
     logger_info [Str ''Transforming result: '', Keys_if_any result];
     (case transform_result result user_params of
        Inr response \<Rightarrow> do {
          logger_info [Str (''Transformation complete: '' @ str_len (cr_panels response)
            @ '' panels, '' @ str_len (cr_cuts response) @ '' cuts'')];
          State_Monad.return (Return response)
        }
      | Inl e \<Rightarrow> do {
          logger_error [Str (''Error transforming result: '' @ exn_str e)];
          logger_error [Str ''Result data: '', Result_data result];
          logger_error [Traceback e];
          State_Monad.return (Raise e)
        })
   }"

section \<open>One pass of the loop\<close>

definition attempt_io ::
  "clock \<Rightarrow> solver \<Rightarrow> Method \<Rightarrow> real \<Rightarrow> UserParams \<Rightarrow> TimedResponse py io" where
  "attempt_io clock solve opcut_method start_time current_user_params = do {
     let total_panels = get_total_panel_quantity current_user_params;
     (if 50 \<le> total_panels
      then logger_warning [Str (''Panel quantity already at maximum ('' @ str_int total_panels
             @ ''), proceeding with calculation'')]
      else State_Monad.return ());
     let panels_list = expand_panels (up_panels current_user_params);
     (case first_elem (up_panels current_user_params) of
        Inl e \<Rightarrow> State_Monad.return (Raise e)
      | Inr panel0 \<Rightarrow> do {
          let items_list = expand_items (up_items current_user_params) panel0;
          logger_info [Str (''Calculation attempt with '' @ str_len panels_list
             @ '' panels and '' @ str_len items_list @ '' items'')];
          let opcut_params = build_params current_user_params panels_list items_list;
          logger_info [Str ''Starting optimization calculation...''];
          (case solve opcut_method opcut_params of
             Inl e \<Rightarrow> State_Monad.return (Raise e)
           | Inr result_json \<Rightarrow> do {
               now \<leftarrow> time_time clock;
               let calculation_time = now - start_time;
               logger_info [Str ''Calculation completed in '', Seconds calculation_time,
                 Str '' seconds''];
               logger_info [Str ''Raw result type: '', Type_of result_json];
               logger_info [Str ''Raw result keys: '', Keys result_json];
               outcome \<leftarrow> transform_result_io result_json current_user_params;
               (case outcome of
                  Inl e \<Rightarrow> State_Monad.return (Raise e)
                | Inr transformed_result \<Rightarrow>
                    State_Monad.return (Return (timed transformed_result (Some calculation_time))))
             })
        })
   }"

definition handle_exception_io ::
  "clock \<Rightarrow> real \<Rightarrow> UserParams \<Rightarrow> exn \<Rightarrow> TimedResponse option io" where
  "handle_exception_io clock start_time current_user_params e = do {
     now \<leftarrow> time_time clock;
     let calculation_time = now - start_time;
     (if is_unresolvable e then do {
        logger_warning [Str (''UnresolvableError encountered: '' @ exn_str e)];
        let current_total_panels = get_total_panel_quantity current_user_params;
        logger_info [Str (''Current total panel quantity: '' @ str_int current_total_panels)];
        (if current_total_panels < 50 then do {
           let new_total_panels =
             get_total_panel_quantity (increment_panel_quantities current_user_params 1);
           logger_info [Str (''Increased panel quantity to '' @ str_int new_total_panels
             @ '', retrying calculation...'')];
           State_Monad.return None
         } else do {
           logger_error [Str (''Panel quantity ('' @ str_int current_total_panels
             @ '') reached maximum limit (50), cannot retry'')];
           State_Monad.return (Some (timed
             (failure_response (unresolvable_message current_total_panels))
             (Some calculation_time)))
         })
      } else do {
        logger_error [Str ''Calculation failed after '', Seconds calculation_time,
          Str ('' seconds: '' @ exn_str e)];
        logger_error [Traceback e];
        State_Monad.return (Some (timed (failure_response (exception_message e))
          (Some calculation_time)))
      })
   }"

section \<open>Facts needed to define the loop\<close>

named_theorems io_simps "the effects of the primitive statements"

lemma level_simps [simp]:
  "INFO \<le> lvl" "lvl \<le> ERROR" "ERROR \<le> lvl \<longleftrightarrow> lvl = ERROR" "\<not> ERROR \<le> WARNING"
  by (cases lvl; simp add: less_eq_level_def)+

lemma run_emit [io_simps]:
  "run_state (emit lvl msg) w = ((), w\<lparr>w_log := w_log w @ [(lvl, msg)]\<rparr>)"
  by (simp add: emit_def root_level_def)

lemma run_py_print [io_simps]:
  "run_state (py_print msg) w = ((), w\<lparr>w_stdout := w_stdout w @ [msg]\<rparr>)"
  by (simp add: py_print_def)

lemma run_time_time [io_simps]:
  "run_state (time_time clock) w
     = (clock (w_clock_reads w), w\<lparr>w_clock_reads := Suc (w_clock_reads w)\<rparr>)"
  by (simp add: time_time_def)

lemmas logger_defs = logger_info_def logger_warning_def logger_error_def

lemma untimed_timed [simp]: "untimed (timed r t) = r"
  by (simp add: untimed_def timed_def CalculationResponse.defs TimedResponse.defs)

lemma time_of_timed [simp]: "cr_calculation_time (timed r t) = t"
  by (simp add: timed_def CalculationResponse.defs TimedResponse.defs)

lemma success_timed [simp]: "cr_success (timed r t) = cr_success r"
  by (simp add: timed_def CalculationResponse.defs TimedResponse.defs)

text \<open>Without its effects, the assembler is \<open>transform_result\<close> and a pass is the pass
  of \<open>Retry_Controller\<close>.\<close>

lemma run_transform_result_io:
  "run_state (transform_result_io result u) w =
     (transform_result result u,
      w\<lparr>w_log := w_log w @ (INFO, [Str ''Transforming result: '', Keys_if_any result]) #
         (case transform_result result u of
            Inr response \<Rightarrow>
              [(INFO, [Str (''Transformation complete: '' @ str_len (cr_panels response)
                 @ '' panels, '' @ str_len (cr_cuts response) @ '' cuts'')])]
          | Inl e \<Rightarrow>
              [(ERROR, [Str (''Error transforming result: '' @ exn_str e)]),
               (ERROR, [Str ''Result data: '', Result_data result]),
               (ERROR, [Traceback e])])\<rparr>)"
  by (simp add: transform_result_io_def io_simps logger_defs split: sum.splits)

lemma attempt_io_erases:
  "map_sum id untimed (fst (run_state (attempt_io clock solve m t0 u) w)) = attempt solve m u"
  by (simp add: attempt_io_def attempt_def invoke_def bind_result_def Let_def io_simps logger_defs
      run_transform_result_io split: sum.splits)

lemma handle_exception_io_erases:
  "map_option untimed (fst (run_state (handle_exception_io clock t0 u e) w)) = handle_exception u e"
  by (simp add: handle_exception_io_def handle_exception_def Let_def io_simps logger_defs)

lemma attempt_io_Raise:
  "run_state (attempt_io clock solve m t0 u) w = (Inl e, w') \<Longrightarrow> attempt solve m u = Raise e"
  using attempt_io_erases [of clock solve m t0 u w] by simp

lemma attempt_io_Return:
  "run_state (attempt_io clock solve m t0 u) w = (Inr r, w') \<Longrightarrow> attempt solve m u = Return (untimed r)"
  using attempt_io_erases [of clock solve m t0 u w] by simp

lemma handle_exception_io_None:
  "run_state (handle_exception_io clock t0 u e) w = (None, w') \<Longrightarrow> handle_exception u e = None"
  using handle_exception_io_erases [of clock t0 u e w] by simp

lemma handle_exception_io_Some:
  "run_state (handle_exception_io clock t0 u e) w = (Some r, w') \<Longrightarrow>
     handle_exception u e = Some (untimed r)"
  using handle_exception_io_erases [of clock t0 u e w] by simp

section \<open>The loop and \<open>calculate\<close>\<close>

function calculate_loop_io ::
  "clock \<Rightarrow> solver \<Rightarrow> Method \<Rightarrow> real \<Rightarrow> UserParams \<Rightarrow> world \<Rightarrow> TimedResponse \<times> world" where
  "calculate_loop_io clock solve opcut_method start_time current_user_params w =
     (case run_state (attempt_io clock solve opcut_method start_time current_user_params) w of
        (Inr transformed_result, w') \<Rightarrow> (transformed_result, w')
      | (Inl e, w') \<Rightarrow>
          (case run_state (handle_exception_io clock start_time current_user_params e) w' of
             (Some response, w'') \<Rightarrow> (response, w'')
           | (None, w'') \<Rightarrow> calculate_loop_io clock solve opcut_method start_time
                (increment_panel_quantities current_user_params 1) w''))"
  by pat_completeness auto
termination
proof (relation "measure (\<lambda>(clock, solve, m, t0, u, w). nat (50 - get_total_panel_quantity u))",
    goal_cases)
  case 1
  show ?case by simp
next
  case (2 clock solve m t0 u w a w' e h w'')
  then have "attempt solve m u = Raise e" and "handle_exception u e = None"
    by (auto dest: attempt_io_Raise [OF sym] handle_exception_io_None [OF sym])
  with retry_decreases [of solve m u e] show ?case by simp
qed

declare calculate_loop_io.simps [simp del]

definition calculate_io :: "clock \<Rightarrow> solver \<Rightarrow> UserParams \<Rightarrow> string \<Rightarrow> TimedResponse py io" where
  "calculate_io clock solve user_params method =
     (case method_map method of
        None \<Rightarrow> State_Monad.return (Raise (ValueError (''Unknown method: '' @ method)))
      | Some opcut_method \<Rightarrow> do {
          logger_info [Str (''Starting calculation with method: '' @ method)];
          logger_info [Str (''Panels: '' @ str_len (up_panels user_params) @ '' types, Items: ''
            @ str_len (up_items user_params) @ '' types'')];
          start_time \<leftarrow> time_time clock;
          response \<leftarrow> State (calculate_loop_io clock solve opcut_method start_time user_params);
          State_Monad.return (Return response)
        })"

section \<open>The handler\<close>

definition api_error_io :: "exn \<Rightarrow> TimedResponse io" where
  "api_error_io e = do {
     logger_error [Str (''API error: '' @ exn_str e)];
     logger_error [Traceback e];
     State_Monad.return (timed (api_error_response e) None)
   }"

text \<open>\<open>try: body except Exception as e: handler\<close>, for a body that ends in \<open>return\<close>.\<close>

definition try_except :: "'a py io \<Rightarrow> (exn \<Rightarrow> 'a io) \<Rightarrow> 'a io" where
  "try_except body handler = do {
     outcome \<leftarrow> body;
     (case outcome of Inl e \<Rightarrow> handler e | Inr x \<Rightarrow> State_Monad.return x)
   }"

definition calculate_optimization_io ::
  "clock \<Rightarrow> solver \<Rightarrow> UserParams \<Rightarrow> string \<Rightarrow> TimedResponse io" where
  "calculate_optimization_io clock solve user_params method =
     try_except (do {
       logger_info [Str (''Received calculation request for method: '' @ method)];
       logger_info [Str (''Processing '' @ str_len (up_panels user_params) @ '' panels and ''
         @ str_len (up_items user_params) @ '' items'')];
       let total_panels = sum_list (map pin_quantity (up_panels user_params));
       logger_info [Str (''Initial total panel quantity: '' @ str_int total_panels)];
       let horizontal_grain_items =
         filter (\<lambda>item. iin_grain item = Horizontal) (up_items user_params);
       logger_info [Str (''Items with horizontal grain: '' @ str_len horizontal_grain_items
         @ ''/'' @ str_len (up_items user_params))];
       py_print [Panels (up_panels user_params)];
       (case set_first_quantity user_params of
          Inl e \<Rightarrow> State_Monad.return (Raise e)
        | Inr user_params \<Rightarrow> do {
            py_print [Panels (up_panels user_params)];
            calculate_io clock solve user_params method
          })
     }) api_error_io"

section \<open>The answer without the effects\<close>

text \<open>The three ways a pass of the loop can go, as an induction rule: the attempt
  returns; it raises and the \<open>except\<close> clause returns; it raises and the loop goes
  round.\<close>

lemma calculate_loop_io_run [case_names returned handled retried]:
  assumes returned: "\<And>u w r w'.
      run_state (attempt_io clock solve m t0 u) w = (Inr r, w') \<Longrightarrow> P u w (r, w')"
    and handled: "\<And>u w e w1 r w'.
      run_state (attempt_io clock solve m t0 u) w = (Inl e, w1) \<Longrightarrow>
      run_state (handle_exception_io clock t0 u e) w1 = (Some r, w') \<Longrightarrow> P u w (r, w')"
    and retried: "\<And>u w e w1 w2.
      run_state (attempt_io clock solve m t0 u) w = (Inl e, w1) \<Longrightarrow>
      run_state (handle_exception_io clock t0 u e) w1 = (None, w2) \<Longrightarrow>
      P (increment_panel_quantities u 1) w2
        (calculate_loop_io clock solve m t0 (increment_panel_quantities u 1) w2) \<Longrightarrow>
      P u w (calculate_loop_io clock solve m t0 (increment_panel_quantities u 1) w2)"
  shows "P u w (calculate_loop_io clock solve m t0 u w)"
  using assms
proof (induction clock solve m t0 u w rule: calculate_loop_io.induct)
  case (1 clock solve m t0 u w)
  obtain a w1 where a: "run_state (attempt_io clock solve m t0 u) w = (a, w1)"
    by (cases "run_state (attempt_io clock solve m t0 u) w")
  show ?case
  proof (cases a)
    case (Inr r)
    with a "1.prems"(1) [of u w r w1] show ?thesis
      by (simp add: calculate_loop_io.simps [of _ _ _ _ u])
  next
    case (Inl e)
    obtain h w2 where h: "run_state (handle_exception_io clock t0 u e) w1 = (h, w2)"
      by (cases "run_state (handle_exception_io clock t0 u e) w1")
    show ?thesis
    proof (cases h)
      case None
      from "1.IH" [OF a [symmetric] Inl h [symmetric] None "1.prems"]
      have "P (increment_panel_quantities u 1) w2
          (calculate_loop_io clock solve m t0 (increment_panel_quantities u 1) w2)" .
      with a Inl h None "1.prems"(3) [of u w e w1 w2] show ?thesis
        by (simp add: calculate_loop_io.simps [of _ _ _ _ u])
    next
      case (Some r)
      with a Inl h "1.prems"(2) [of u w e w1 r w2] show ?thesis
        by (simp add: calculate_loop_io.simps [of _ _ _ _ u])
    qed
  qed
qed

lemma calculate_loop_io_erases:
  "untimed (fst (calculate_loop_io clock solve m t0 u w)) = calculate_loop solve m u"
proof (induction u w rule: calculate_loop_io_run [of clock solve m t0])
  case (returned u w r w')
  then show ?case
    by (simp add: calculate_loop.simps [of _ _ u] attempt_io_Return)
next
  case (handled u w e w1 r w')
  then show ?case
    by (simp add: calculate_loop.simps [of _ _ u] attempt_io_Raise handle_exception_io_Some)
next
  case (retried u w e w1 w2)
  then show ?case
    by (simp add: calculate_loop.simps [of _ _ u] attempt_io_Raise handle_exception_io_None)
qed

lemma calculate_io_erases_result:
  "map_sum id untimed (fst (run_state (calculate_io clock solve u method) w)) = calculate solve u method"
  by (simp add: calculate_io_def calculate_def io_simps logger_defs calculate_loop_io_erases
      split: option.splits prod.splits)
     (metis calculate_loop_io_erases fst_conv)

lemma run_try_except:
  "run_state (try_except body handler) w =
     (case run_state body w of
        (Inl e, w') \<Rightarrow> run_state (handler e) w'
      | (Inr x, w') \<Rightarrow> (x, w'))"
  by (simp add: try_except_def split: prod.splits sum.splits)

text \<open>The handler, statement by statement: what it logs and prints before it calls
  \<open>calculate\<close>, and how it ends.\<close>

definition request_records :: "UserParams \<Rightarrow> string \<Rightarrow> (level \<times> message) list" where
  "request_records u name =
     [(INFO, [Str (''Received calculation request for method: '' @ name)]),
      (INFO, [Str (''Processing '' @ str_len (up_panels u) @ '' panels and ''
         @ str_len (up_items u) @ '' items'')]),
      (INFO, [Str (''Initial total panel quantity: ''
         @ str_int (sum_list (map pin_quantity (up_panels u))))]),
      (INFO, [Str (''Items with horizontal grain: ''
         @ str_len (filter (\<lambda>item. iin_grain item = Horizontal) (up_items u))
         @ ''/'' @ str_len (up_items u))])]"

definition received :: "UserParams \<Rightarrow> string \<Rightarrow> world \<Rightarrow> world" where
  "received u name w = w\<lparr>w_log := w_log w @ request_records u name,
     w_stdout := w_stdout w @ [[Panels (up_panels u)]]\<rparr>"

lemma run_api_error_io:
  "run_state (api_error_io e) w =
     (timed (api_error_response e) None,
      w\<lparr>w_log := w_log w @ [(ERROR, [Str (''API error: '' @ exn_str e)]), (ERROR, [Traceback e])]\<rparr>)"
  by (simp add: api_error_io_def io_simps logger_defs)

lemma run_calculate_optimization_io:
  "run_state (calculate_optimization_io clock solve u name) w =
     (case set_first_quantity u of
        Inl e \<Rightarrow> run_state (api_error_io e) (received u name w)
      | Inr u' \<Rightarrow>
          (case run_state (calculate_io clock solve u' name)
                  ((received u name w)\<lparr>w_stdout := w_stdout w @
                     [[Panels (up_panels u)], [Panels (up_panels u')]]\<rparr>) of
             (Inl e, w') \<Rightarrow> run_state (api_error_io e) w'
           | (Inr response, w') \<Rightarrow> (response, w')))"
  by (simp add: calculate_optimization_io_def run_try_except io_simps logger_defs Let_def
      received_def request_records_def split: sum.splits)

lemma calculate_optimization_io_erases:
  "untimed (fst (run_state (calculate_optimization_io clock solve u name) w))
     = calculate_optimization solve u name"
proof (cases "set_first_quantity u")
  case (Inl e)
  then show ?thesis
    by (simp add: run_calculate_optimization_io run_api_error_io calculate_optimization_def
        bind_result_def)
next
  case (Inr u')
  with calculate_io_erases_result [of clock solve u' name
      "(received u name w)\<lparr>w_stdout := w_stdout w @ [[Panels (up_panels u)], [Panels (up_panels u')]]\<rparr>"]
  show ?thesis
    by (auto simp: run_calculate_optimization_io run_api_error_io calculate_optimization_def
        bind_result_def split: prod.splits sum.splits)
qed

lemma calculate_io_Raise:
  "run_state (calculate_io clock solve u name) w = (Inl e, w') \<Longrightarrow> method_map name = None"
  using calculate_io_erases_result [of clock solve u name w]
  by (auto simp: calculate_def split: option.splits)

lemma calculate_io_Return:
  "run_state (calculate_io clock solve u name) w = (Inr r, w') \<Longrightarrow> method_map name \<noteq> None"
  using calculate_io_erases_result [of clock solve u name w]
  by (auto simp: calculate_def split: option.splits)

section \<open>What the effects are\<close>

text \<open>The number of records of level \<open>ERROR\<close>; a change of the world that writes no
  such record and prints nothing; and what a pass that ends the loop with a response
  does to the world: it reads the clock, the time of the response is the last
  reading less the start time, and it writes an \<open>ERROR\<close> record exactly when the
  response is a failure.\<close>

definition error_count :: "world \<Rightarrow> nat" where
  "error_count w = length (filter (\<lambda>(lvl, msg). ERROR \<le> lvl) (w_log w))"

definition grows :: "world \<Rightarrow> world \<Rightarrow> bool" where
  "grows w w' \<longleftrightarrow> prefix (w_log w) (w_log w') \<and> w_stdout w' = w_stdout w
     \<and> w_clock_reads w \<le> w_clock_reads w' \<and> error_count w \<le> error_count w'"

definition quiet :: "world \<Rightarrow> world \<Rightarrow> bool" where
  "quiet w w' \<longleftrightarrow> grows w w' \<and> error_count w' = error_count w"

definition measured :: "clock \<Rightarrow> real \<Rightarrow> world \<Rightarrow> TimedResponse \<Rightarrow> world \<Rightarrow> bool" where
  "measured clock start_time w r w' \<longleftrightarrow>
     grows w w' \<and> w_clock_reads w < w_clock_reads w'
     \<and> cr_calculation_time r = Some (clock (w_clock_reads w' - 1) - start_time)
     \<and> (cr_success r \<longleftrightarrow> error_count w' = error_count w)"

definition world0 :: world where
  "world0 = \<lparr>w_log = [], w_stdout = [], w_clock_reads = 0\<rparr>"

lemmas effect_defs = grows_def quiet_def measured_def error_count_def

lemma quiet_refl [simp]: "quiet w w"
  by (simp add: effect_defs)

lemma quiet_trans: "quiet w w1 \<Longrightarrow> quiet w1 w2 \<Longrightarrow> quiet w w2"
  by (auto simp: grows_def quiet_def)

lemma quiet_measured: "quiet w w1 \<Longrightarrow> measured clock t0 w1 r w' \<Longrightarrow> measured clock t0 w r w'"
  by (auto simp: grows_def quiet_def measured_def)

lemma grows_measured_failure:
  "grows w w1 \<Longrightarrow> measured clock t0 w1 r w' \<Longrightarrow> \<not> cr_success r \<Longrightarrow> measured clock t0 w r w'"
  by (auto simp: grows_def measured_def)

lemma attempt_io_effects:
  assumes "run_state (attempt_io clock solve m t0 u) w = (a, w')"
  shows "case a of
           Inl e \<Rightarrow> grows w w' \<and> (is_unresolvable e \<longrightarrow> quiet w w')
         | Inr r \<Rightarrow> measured clock t0 w r w'"
  using assms
  by (auto simp: attempt_io_def Let_def io_simps logger_defs run_transform_result_io effect_defs
      first_elem_def dest: transform_result_Return_success transform_result_raises
      split: sum.splits list.splits if_splits)

lemma handle_exception_io_effects:
  assumes "run_state (handle_exception_io clock t0 u e) w = (h, w')"
  shows "case h of
           None \<Rightarrow> quiet w w' \<and> is_unresolvable e
         | Some r \<Rightarrow> measured clock t0 w r w' \<and> \<not> cr_success r"
  using assms
  by (auto simp: handle_exception_io_def Let_def io_simps logger_defs effect_defs split: if_splits)

lemma calculate_loop_io_measured:
  "measured clock t0 w (fst (calculate_loop_io clock solve m t0 u w))
     (snd (calculate_loop_io clock solve m t0 u w))"
proof (induction u w rule: calculate_loop_io_run [of clock solve m t0])
  case (returned u w r w')
  with attempt_io_effects [of clock solve m t0 u w "Inr r" w'] show ?case
    by simp
next
  case (handled u w e w1 r w')
  with attempt_io_effects [of clock solve m t0 u w "Inl e" w1]
    handle_exception_io_effects [of clock t0 u e w1 "Some r" w'] show ?case
    by (auto intro: grows_measured_failure)
next
  case (retried u w e w1 w2)
  with attempt_io_effects [of clock solve m t0 u w "Inl e" w1]
    handle_exception_io_effects [of clock t0 u e w1 None w2] show ?case
    by (auto intro: quiet_measured quiet_trans)
qed

lemma calculate_loop_io_effects:
  "calculate_loop_io clock solve m t0 u w = (r, w') \<Longrightarrow> measured clock t0 w r w'"
  using calculate_loop_io_measured [of clock t0 w solve m u] by simp

lemma calculate_io_effects:
  assumes "run_state (calculate_io clock solve u method) w = (a, w')"
  shows "case a of Inl e \<Rightarrow> w' = w
         | Inr r \<Rightarrow> measured clock (clock (w_clock_reads w)) w r w'
                    \<and> w_clock_reads w + 2 \<le> w_clock_reads w'"
proof (cases "method_map method")
  case None
  with assms show ?thesis
    by (auto simp: calculate_io_def)
next
  case (Some m)
  define w1 where "w1 = snd (run_state (do {
      logger_info [Str (''Starting calculation with method: '' @ method)];
      logger_info [Str (''Panels: '' @ str_len (up_panels u) @ '' types, Items: ''
        @ str_len (up_items u) @ '' types'')];
      time_time clock }) w)"
  have q: "quiet w w1" and reads: "w_clock_reads w1 = Suc (w_clock_reads w)"
    by (simp_all add: w1_def io_simps logger_defs effect_defs)
  from assms Some obtain r where r: "a = Inr r"
    and loop: "calculate_loop_io clock solve m (clock (w_clock_reads w)) u w1 = (r, w')"
    by (auto simp: calculate_io_def w1_def io_simps logger_defs split: prod.splits)
  from calculate_loop_io_effects [OF loop] have m: "measured clock (clock (w_clock_reads w)) w1 r w'" .
  with reads have "w_clock_reads w + 2 \<le> w_clock_reads w'"
    by (simp add: effect_defs)
  with quiet_measured [OF q m] r show ?thesis
    by simp
qed

lemma received_effects:
  "prefix (w_log w) (w_log (received u name w))"
  "error_count (received u name w) = error_count w"
  "w_stdout (received u name w) = w_stdout w @ [[Panels (up_panels u)]]"
  by (simp_all add: received_def request_records_def error_count_def)

text \<open>The call of \<open>calculate\<close> in the handler, with the \<open>except\<close> clause around it.\<close>

lemma handled_calculate_io_effects:
  assumes a: "run_state (calculate_io clock solve u name) w = (a, w1)"
    and r: "(case a of Inl e \<Rightarrow> run_state (api_error_io e) w1 | Inr x \<Rightarrow> (x, w1)) = (r, w')"
  shows "prefix (w_log w) (w_log w') \<and> w_stdout w' = w_stdout w
    \<and> (cr_success r \<longleftrightarrow> error_count w' = error_count w)
    \<and> (cr_calculation_time r = None \<longleftrightarrow> method_map name = None)"
proof (cases a)
  case (Inl e)
  with a calculate_io_effects [OF a] have "method_map name = None" and "w1 = w"
    by (auto dest: calculate_io_Raise)
  with r Inl show ?thesis
    by (auto simp: run_api_error_io error_count_def api_error_response_def)
next
  case (Inr x)
  with a calculate_io_effects [OF a]
  have "method_map name \<noteq> None" and "measured clock (clock (w_clock_reads w)) w x w1"
    by (auto dest: calculate_io_Return)
  with r Inr show ?thesis
    by (auto simp: measured_def grows_def)
qed

lemma calculate_optimization_io_effects:
  assumes "run_state (calculate_optimization_io clock solve u name) w = (r, w')"
  shows "prefix (w_log w) (w_log w')
    \<and> w_stdout w' = w_stdout w @ map (\<lambda>ps. [Panels ps])
         (case set_first_quantity u of Inl e \<Rightarrow> [up_panels u] | Inr u' \<Rightarrow> [up_panels u, up_panels u'])
    \<and> (cr_success r \<longleftrightarrow> error_count w' = error_count w)
    \<and> (cr_calculation_time r = None \<longleftrightarrow> up_panels u = [] \<or> method_map name = None)"
proof (cases "set_first_quantity u")
  case (Inl e)
  then have "up_panels u = []"
    by (simp add: set_first_quantity_def split: list.splits)
  with assms Inl show ?thesis
    using received_effects(1) [of w u name] received_effects(2) [of u name w]
    by (auto simp: run_calculate_optimization_io run_api_error_io error_count_def
        api_error_response_def received_effects(3))
next
  case (Inr u')
  then have ne: "up_panels u \<noteq> []"
    by (auto simp: set_first_quantity_def)
  define w2 where "w2 = (received u name w)\<lparr>w_stdout := w_stdout w @
    [[Panels (up_panels u)], [Panels (up_panels u')]]\<rparr>"
  obtain a w3 where a: "run_state (calculate_io clock solve u' name) w2 = (a, w3)"
    by (cases "run_state (calculate_io clock solve u' name) w2")
  have w2: "prefix (w_log w) (w_log w2)" "error_count w2 = error_count w"
    "w_stdout w2 = w_stdout w @ [[Panels (up_panels u)], [Panels (up_panels u')]]"
    using received_effects(1) [of w u name] received_effects(2) [of u name w]
    by (simp_all add: w2_def error_count_def)
  from assms Inr a have "(case a of Inl e \<Rightarrow> run_state (api_error_io e) w3 | Inr x \<Rightarrow> (x, w3))
      = (r, w')"
    by (simp add: run_calculate_optimization_io w2_def)
  from handled_calculate_io_effects [OF a this] Inr w2 ne show ?thesis
    by auto
qed

section \<open>A run\<close>

text \<open>The example request against a packing library that fails, with a clock that
  advances by one second per reading: what is logged, and the run from the empty
  world.\<close>

definition crash_log :: "(level \<times> message) list" where
  "crash_log =
     [(INFO, [Str ''Starting calculation with method: greedy'']),
      (INFO, [Str ''Panels: 2 types, Items: 2 types'']),
      (INFO, [Str ''Calculation attempt with 3 panels and 3 items'']),
      (INFO, [Str ''Starting optimization calculation...'']),
      (ERROR, [Str ''Calculation failed after '', Seconds 1, Str '' seconds: boom'']),
      (ERROR, [Traceback (OtherError ''RuntimeError'' ''boom'')])]"

lemma crash_run_from:
  "run_state (calculate_io (\<lambda>n. real n) crashes ex_request ''greedy'') w =
     (Return (timed (failure_response ''RuntimeError: boom'') (Some 1)),
      w\<lparr>w_log := w_log w @ crash_log, w_clock_reads := Suc (Suc (w_clock_reads w))\<rparr>)"
proof -
  have n_p: "length (expand_panels [ex_sheet, ex_board]) = 3"
    using arg_cong [OF ex_units, of length] by (simp add: ex_request_def)
  have n_i: "length (expand_items (up_items ex_request) ex_sheet) = 3"
    using arg_cong [OF ex_item_units, of length] by (simp add: ex_request_def)
  have total: "get_total_panel_quantity ex_request = 3"
    by (simp add: get_total_panel_quantity_def ex_defs)
  have panels: "up_panels ex_request = [ex_sheet, ex_board]"
    and items: "length (up_items ex_request) = 2"
    by (simp_all add: ex_request_def)
  have att: "run_state (attempt_io clock crashes GREEDY t0 ex_request) w =
      (Raise (OtherError ''RuntimeError'' ''boom''),
       w\<lparr>w_log := w_log w @
         [(INFO, [Str ''Calculation attempt with 3 panels and 3 items'']),
          (INFO, [Str ''Starting optimization calculation...''])]\<rparr>)" for clock t0 w
    by (simp add: attempt_io_def crashes_def io_simps logger_defs Let_def first_elem_def
        str_len_def n_p n_i total panels eval_ids)
  show ?thesis
    by (simp add: calculate_io_def calculate_loop_io.simps [of _ _ _ _ ex_request] att
        handle_exception_io_def crash_log_def io_simps logger_defs Let_def
        str_len_def panels items exception_message_def eval_ids)
qed

lemma crash_run:
  "run_state (calculate_io (\<lambda>n. real n) crashes ex_request ''greedy'') world0 =
     (Return (timed (failure_response ''RuntimeError: boom'') (Some 1)),
      \<lparr>w_log = crash_log, w_stdout = [], w_clock_reads = 2\<rparr>)"
  by (simp add: crash_run_from world0_def)

text \<open>Scenario A against a packing library that wants three panel units: two
  retries, then the shelf on the first sheet.\<close>

definition retry_log :: "(level \<times> message) list" where
  "retry_log =
     [(INFO, [Str ''Starting calculation with method: greedy'']),
      (INFO, [Str ''Panels: 1 types, Items: 1 types'']),
      (INFO, [Str ''Calculation attempt with 1 panels and 1 items'']),
      (INFO, [Str ''Starting optimization calculation...'']),
      (WARNING, [Str ''UnresolvableError encountered: no fit'']),
      (INFO, [Str ''Current total panel quantity: 1'']),
      (INFO, [Str ''Increased panel quantity to 2, retrying calculation...'']),
      (INFO, [Str ''Calculation attempt with 2 panels and 1 items'']),
      (INFO, [Str ''Starting optimization calculation...'']),
      (WARNING, [Str ''UnresolvableError encountered: no fit'']),
      (INFO, [Str ''Current total panel quantity: 2'']),
      (INFO, [Str ''Increased panel quantity to 3, retrying calculation...'']),
      (INFO, [Str ''Calculation attempt with 3 panels and 1 items'']),
      (INFO, [Str ''Starting optimization calculation...'']),
      (INFO, [Str ''Calculation completed in '', Seconds 3, Str '' seconds'']),
      (INFO, [Str ''Raw result type: '', Type_of ex_result_a]),
      (INFO, [Str ''Raw result keys: '', Keys ex_result_a]),
      (INFO, [Str ''Transforming result: '', Keys_if_any ex_result_a]),
      (INFO, [Str ''Transformation complete: 1 panels, 0 cuts''])]"

definition sheets :: "int \<Rightarrow> UserParams" where
  "sheets q = scenario_a\<lparr>up_panels := [ex_sheet\<lparr>pin_quantity := q\<rparr>]\<rparr>"

lemma sheets_facts:
  "scenario_a = sheets 1"
  "increment_panel_quantities (sheets q) k = sheets (q + k)"
  "get_total_panel_quantity (sheets q) = q"
  "up_panels (sheets q) = [ex_sheet\<lparr>pin_quantity := q\<rparr>]"
  "length (up_items (sheets q)) = 1"
  by (simp_all add: sheets_def scenario_a_def ex_defs increment_panel_quantities_def
      get_total_panel_quantity_def)

lemma sheets_units:
  "q \<in> {1, 2, 3} \<Longrightarrow> length (expand_panels [ex_sheet\<lparr>pin_quantity := q\<rparr>]) = nat q"
  "length (expand_items (up_items (sheets q)) (ex_sheet\<lparr>pin_quantity := q\<rparr>)) = 1"
  by (auto simp: sheets_def scenario_a_def ex_defs expand_panels_Cons expand_items_Cons py_range_def)

lemma sheets_refused:
  assumes "q = 1 \<or> q = 2"
  shows "run_state (attempt_io clock (stacks_from 3) GREEDY t0 (sheets q)) w =
     (Raise (UnresolvableError ''no fit''),
      w\<lparr>w_log := w_log w @
        [(INFO, [Str (''Calculation attempt with '' @ str_int q @ '' panels and 1 items'')]),
         (INFO, [Str ''Starting optimization calculation...''])]\<rparr>)"
  using assms
  by (elim disjE; hypsubst)
     (simp_all add: attempt_io_def io_simps logger_defs Let_def first_elem_def str_len_def
      sheets_facts(2-) sheets_units stacks_from_def build_params_def eval_ids)

lemma sheets_retried:
  assumes "q = 1 \<or> q = 2"
  shows "run_state (handle_exception_io clock t0 (sheets q) (UnresolvableError ''no fit'')) w =
     (None,
      w\<lparr>w_log := w_log w @
        [(WARNING, [Str ''UnresolvableError encountered: no fit'']),
         (INFO, [Str (''Current total panel quantity: '' @ str_int q)]),
         (INFO, [Str (''Increased panel quantity to '' @ str_int (q + 1)
            @ '', retrying calculation...'')])],
        w_clock_reads := Suc (w_clock_reads w)\<rparr>)"
  using assms
  by (elim disjE; hypsubst)
     (simp_all add: handle_exception_io_def io_simps logger_defs Let_def sheets_facts(2-))

lemma sheets_served:
  "run_state (attempt_io clock (stacks_from 3) GREEDY t0 (sheets 3)) w =
     (Return (timed ex_response_a (Some (clock (w_clock_reads w) - t0))),
      w\<lparr>w_log := w_log w @
        [(INFO, [Str ''Calculation attempt with 3 panels and 1 items'']),
         (INFO, [Str ''Starting optimization calculation...'']),
         (INFO, [Str ''Calculation completed in '', Seconds (clock (w_clock_reads w) - t0),
            Str '' seconds'']),
         (INFO, [Str ''Raw result type: '', Type_of ex_result_a]),
         (INFO, [Str ''Raw result keys: '', Keys ex_result_a]),
         (INFO, [Str ''Transforming result: '', Keys_if_any ex_result_a]),
         (INFO, [Str ''Transformation complete: 1 panels, 0 cuts''])],
        w_clock_reads := Suc (w_clock_reads w)\<rparr>)"
proof -
  have "stacks_from 3 GREEDY (params_of (sheets 3)) = Return ex_result_a"
    using stacks_scenario_a_answer by (simp add: sheets_facts(1,2))
  then have solved: "stacks_from 3 GREEDY (build_params (sheets 3)
      (expand_panels [ex_sheet\<lparr>pin_quantity := 3\<rparr>])
      (expand_items (up_items (sheets 3)) (ex_sheet\<lparr>pin_quantity := 3\<rparr>))) = Return ex_result_a"
    by (simp add: params_of_def sheets_facts(4))
  have shown: "transform_result ex_result_a (sheets 3) = Return ex_response_a"
    using transform_scenario_a [of 3] by (simp add: sheets_def)
  have sizes: "length (cr_panels ex_response_a) = 1" "length (cr_cuts ex_response_a) = 0"
    by (simp_all add: ex_response_a_def)
  show ?thesis
    by (simp add: attempt_io_def io_simps logger_defs Let_def first_elem_def str_len_def
        sheets_facts(2-) sheets_units solved run_transform_result_io shown sizes eval_ids)
qed

lemma retry_run:
  "run_state (calculate_io (\<lambda>n. real n) (stacks_from 3) scenario_a ''greedy'') world0 =
     (Return (timed ex_response_a (Some 3)),
      \<lparr>w_log = retry_log, w_stdout = [], w_clock_reads = 4\<rparr>)"
  unfolding sheets_facts(1)
  by (simp add: calculate_io_def calculate_loop_io.simps [of _ _ _ _ "sheets q" for q]
      sheets_refused sheets_retried sheets_served sheets_facts(2-) world0_def retry_log_def
      io_simps logger_defs str_len_def eval_ids)

section \<open>Properties of the effects\<close>

text \<open>C12. The effects do not reach the answer. Whatever the clock shows and whatever
  has been logged and printed before, \<open>calculate\<close> with its logging and timing returns,
  the time apart, what \<open>calculate\<close> without them returns and raises what it raises;
  and so does the handler of \<open>/calculate\<close>. No decision of the retry loop depends on
  the log or on the clock.\<close>

theorem calculate_io_refines:
  "map_sum id untimed (fst (run_state (calculate_io clock solve u method) w))
     = calculate solve u method
   \<and> untimed (fst (run_state (calculate_optimization_io clock solve u method) w))
     = calculate_optimization solve u method"
  by (simp add: calculate_io_erases_result calculate_optimization_io_erases)

text \<open>C13. The elapsed time and the error records of \<open>calculate\<close>. When \<open>calculate\<close>
  returns a response, it has read the clock at least twice; the time in the response
  is the last reading less the first, so it is not negative when the clock does not
  go back; the log has only grown and nothing was printed; and a record of level
  \<open>ERROR\<close> was written exactly when the response is a failure.\<close>

theorem calculation_time_measured:
  assumes "run_state (calculate_io clock solve u method) w = (Return r, w')"
  shows "cr_calculation_time r = Some (clock (w_clock_reads w' - 1) - clock (w_clock_reads w))
    \<and> w_clock_reads w < w_clock_reads w' - 1
    \<and> (mono clock \<longrightarrow> (\<exists>t. cr_calculation_time r = Some t \<and> 0 \<le> t))
    \<and> prefix (w_log w) (w_log w') \<and> w_stdout w' = w_stdout w
    \<and> (cr_success r \<longleftrightarrow> error_count w' = error_count w)"
proof -
  from calculate_io_effects [OF assms]
  have m: "measured clock (clock (w_clock_reads w)) w r w'"
    and reads: "w_clock_reads w + 2 \<le> w_clock_reads w'"
    by simp_all
  from reads have "mono clock \<Longrightarrow> clock (w_clock_reads w) \<le> clock (w_clock_reads w' - 1)"
    by (intro monoD [of clock]) simp_all
  with m reads show ?thesis
    by (auto simp: measured_def grows_def)
qed

theorem calculation_time_measured_witness:
  "run_state (calculate_io (\<lambda>n. real n) crashes ex_request ''greedy'') world0
     = (Return (timed (failure_response ''RuntimeError: boom'') (Some 1)),
        \<lparr>w_log = crash_log, w_stdout = [], w_clock_reads = 2\<rparr>)
   \<and> run_state (calculate_io (\<lambda>n. real n) (stacks_from 3) scenario_a ''greedy'') world0
     = (Return (timed ex_response_a (Some 3)),
        \<lparr>w_log = retry_log, w_stdout = [], w_clock_reads = 4\<rparr>)
   \<and> mono (\<lambda>n. real n)
   \<and> cr_calculation_time (timed (failure_response ''RuntimeError: boom'') (Some 1))
       = Some (real (2 - 1) - real (w_clock_reads world0))
   \<and> cr_calculation_time (timed ex_response_a (Some 3))
       = Some (real (4 - 1) - real (w_clock_reads world0))
   \<and> \<not> cr_success (timed (failure_response ''RuntimeError: boom'') (Some 1))
   \<and> cr_success (timed ex_response_a (Some 3))
   \<and> error_count world0 = 0
   \<and> error_count \<lparr>w_log = crash_log, w_stdout = [], w_clock_reads = 2\<rparr> = 2
   \<and> error_count \<lparr>w_log = retry_log, w_stdout = [], w_clock_reads = 4\<rparr> = 0"
  using calculation_time_measured [OF crash_run] calculation_time_measured [OF retry_run]
    crash_run retry_run
  by (simp add: world0_def error_count_def mono_def crash_log_def retry_log_def)

end
