(* ===== verification/Service.thy ===== *)
theory Service
  imports Calculate_Effects
begin

text \<open>
  The service of \<open>src/app/main.py\<close> as a whole: the application with its two routes,
  \<open>POST /calculate\<close> and \<open>GET /health\<close>, serving one request after the other. Both
  handlers are \<open>async def\<close> without an \<open>await\<close>, so the one event loop \<open>uvicorn.run\<close>
  starts runs each of them to its end before the next: a run of the service is a
  sequence of requests, each served in the world the one before left behind. The
  routes are \<open>serve\<close>, the two decorators with their handlers. The run, \<open>serve_all\<close>,
  translates no line of the sources: it states this scheduling of the server, which
  is not part of the repository, as the assumption the theorems on runs are proved
  under. The packing library is a function of the call, as in the other theories.

  The theorem shows that requests do not reach each other: the answer to each request
  of a run is, the time apart, the answer to that request alone, whatever was served
  before it and however that ended.
\<close>

section \<open>Requests and responses\<close>

datatype http_request =
    Post_calculate UserParams string
  | Get_health

datatype 'r http_response =
    Calculation 'r
  | Health "(string \<times> string) list"

definition serve :: "clock \<Rightarrow> solver \<Rightarrow> http_request \<Rightarrow> TimedResponse http_response io" where
  "serve clock solve request =
     (case request of
        Post_calculate user_params method \<Rightarrow> do {
          response \<leftarrow> calculate_optimization_io clock solve user_params method;
          State_Monad.return (Calculation response)
        }
      | Get_health \<Rightarrow> State_Monad.return (Health health_check))"

definition serve_all ::
  "clock \<Rightarrow> solver \<Rightarrow> http_request list \<Rightarrow> TimedResponse http_response list io" where
  "serve_all clock solve requests = State_Monad.traverse_list (serve clock solve) requests"

text \<open>The answer to one request, without effects.\<close>

fun answer :: "solver \<Rightarrow> http_request \<Rightarrow> CalculationResponse http_response" where
  "answer solve (Post_calculate user_params method) =
     Calculation (calculate_optimization solve user_params method)"
| "answer solve Get_health = Health health_check"

fun succeeded :: "TimedResponse http_response \<Rightarrow> bool" where
  "succeeded (Calculation r) = cr_success r"
| "succeeded (Health h) = True"

section \<open>One request\<close>

lemma prefix_error_count:
  "prefix (w_log w) (w_log w') \<Longrightarrow> error_count w \<le> error_count w'"
  by (auto simp: error_count_def prefix_def)

lemma serve_erases:
  "map_http_response untimed (fst (run_state (serve clock solve request) w)) = answer solve request"
  by (cases request)
     (simp_all add: serve_def calculate_optimization_io_erases split: prod.splits,
      metis calculate_optimization_io_erases fst_conv)

lemma serve_effects:
  assumes "run_state (serve clock solve request) w = (response, w')"
  shows "prefix (w_log w) (w_log w') \<and> prefix (w_stdout w) (w_stdout w')
    \<and> (succeeded response \<longleftrightarrow> error_count w' = error_count w)"
proof (cases request)
  case (Post_calculate u name)
  with assms obtain r where r: "run_state (calculate_optimization_io clock solve u name) w = (r, w')"
    and "response = Calculation r"
    by (auto simp: serve_def split: prod.splits)
  with calculate_optimization_io_effects [OF r] show ?thesis
    by simp
next
  case Get_health
  with assms show ?thesis
    by (auto simp: serve_def)
qed

section \<open>A run of the service\<close>

lemma run_serve_all_Cons:
  "run_state (serve_all clock solve (request # requests)) w =
     (case run_state (serve clock solve request) w of
        (response, w1) \<Rightarrow>
          (case run_state (serve_all clock solve requests) w1 of
             (responses, w') \<Rightarrow> (response # responses, w')))"
  by (simp add: serve_all_def split: prod.splits)

lemma run_serve_all_Nil [simp]: "run_state (serve_all clock solve []) w = ([], w)"
  by (simp add: serve_all_def)

lemma serve_all_erases:
  "map (map_http_response untimed) (fst (run_state (serve_all clock solve requests) w))
     = map (answer solve) requests"
proof (induction requests arbitrary: w)
  case Nil
  show ?case by simp
next
  case (Cons request requests)
  obtain response w1 where 1: "run_state (serve clock solve request) w = (response, w1)"
    by (cases "run_state (serve clock solve request) w")
  obtain rest w2 where 2: "run_state (serve_all clock solve requests) w1 = (rest, w2)"
    by (cases "run_state (serve_all clock solve requests) w1")
  with 1 serve_erases [of clock solve request w] Cons [of w1] show ?case
    by (simp add: run_serve_all_Cons)
qed

lemma serve_all_effects:
  "run_state (serve_all clock solve requests) w = (responses, w') \<Longrightarrow>
     prefix (w_log w) (w_log w') \<and> prefix (w_stdout w) (w_stdout w')
     \<and> (list_all succeeded responses \<longleftrightarrow> error_count w' = error_count w)"
proof (induction requests arbitrary: w w' responses)
  case Nil
  then show ?case by auto
next
  case (Cons request requests)
  obtain response w1 where 1: "run_state (serve clock solve request) w = (response, w1)"
    by (cases "run_state (serve clock solve request) w")
  obtain rest w2 where 2: "run_state (serve_all clock solve requests) w1 = (rest, w2)"
    by (cases "run_state (serve_all clock solve requests) w1")
  from Cons.prems 1 2 have eq: "responses = response # rest" "w' = w2"
    by (simp_all add: run_serve_all_Cons)
  from serve_effects [OF 1] Cons.IH [OF 2] eq
    prefix_error_count [of w w1] prefix_error_count [of w1 w2]
  show ?case
    by (auto intro: prefix_order.trans)
qed

section \<open>A run with a failure\<close>

text \<open>Three requests against a packing library that fails: a calculation, the health
  check, and a calculation with a method that does not exist.\<close>

lemma service_run_ex:
  "fst (run_state (serve_all (\<lambda>n. real n) crashes
      [Post_calculate ex_request ''greedy'', Get_health, Post_calculate ex_request ''fastest'']) world0)
     = [Calculation (timed (failure_response ''RuntimeError: boom'') (Some 1)),
        Health [(''status'', ''healthy''), (''service'', ''cutting-optimizer'')],
        Calculation (timed (failure_response ''API Error: Unknown method: fastest'') None)]"
proof -
  have first: "set_first_quantity ex_request = Return ex_request"
    by (simp add: set_first_quantity_def ex_defs)
  have unknown: "run_state (calculate_io clock solve ex_request ''fastest'') w
      = (Raise (ValueError ''Unknown method: fastest''), w)" for clock solve w
    by (simp add: calculate_io_def method_map_def)
  show ?thesis
    by (simp add: run_serve_all_Cons serve_def run_calculate_optimization_io first crash_run_from
        unknown run_api_error_io api_error_response_def health_check_def)
qed

section \<open>Properties of the service\<close>

text \<open>C15. Requests do not reach each other. The answers of a run of the service are,
  the time apart, the answers to its requests one by one; the answer to a request
  served after any others is, the time apart, the answer to it served first, in any
  world; and no record of level \<open>ERROR\<close> is written in a run exactly when every
  calculation of the run succeeds.\<close>

theorem requests_isolated:
  "map (map_http_response untimed) (fst (run_state (serve_all clock solve requests) w))
     = map (answer solve) requests
   \<and> map_http_response untimed (fst (run_state (serve clock solve request)
         (snd (run_state (serve_all clock solve before) w))))
     = map_http_response untimed (fst (run_state (serve clock' solve request) w0))
   \<and> (list_all succeeded (fst (run_state (serve_all clock solve requests) w))
        \<longleftrightarrow> error_count (snd (run_state (serve_all clock solve requests) w)) = error_count w)"
  using serve_all_effects [of clock solve requests w]
  by (simp add: serve_all_erases serve_erases)

end
