(* ===== verification/Library_Calls.thy ===== *)
theory Library_Calls
  imports Service
begin

text \<open>
  How often the packing library is called, read off the log. \<open>calculate\<close> writes the
  record \<open>Starting optimization calculation...\<close> right before each call of the
  library and nowhere else, so the number of these records in the log is the number
  of calls. \<open>library_calls\<close> counts them and \<open>call_budget\<close> is the number of passes the
  specification allows a request: one, and one more for each step of the total
  quantity below the ceiling of 50.

  The lemmas count the records a pass and an \<open>except\<close> clause write; the theorems
  bound the calls of one \<open>calculate\<close> by the budget of the request, whatever the
  library answers, and the calls of a run of the service by the budgets of its
  requests. As the service answers one request after the other, the latter is what a
  request waits for.
\<close>

section \<open>Counting the calls\<close>

definition started :: "level \<times> message" where
  "started = (INFO, [Str ''Starting optimization calculation...''])"

definition library_calls :: "world \<Rightarrow> nat" where
  "library_calls w = count_list (w_log w) started"

definition call_budget :: "UserParams \<Rightarrow> nat" where
  "call_budget u =
     (if up_panels u = [] then 0
      else nat ((max 0 (50 - get_total_panel_quantity u) + int (length (up_panels u)) - 1)
             div int (length (up_panels u)) + 1))"

text \<open>The budget of a request to the service: the handler of \<open>/calculate\<close> sets the
  quantity of the first panel to one before it calls \<open>calculate\<close>.\<close>

definition request_budget :: "http_request \<Rightarrow> nat" where
  "request_budget request =
     (case request of
        Get_health \<Rightarrow> 0
      | Post_calculate u name \<Rightarrow>
          (case (set_first_quantity u, method_map name) of
             (Inr u', Some m) \<Rightarrow> call_budget u'
           | _ \<Rightarrow> 0))"

section \<open>One pass\<close>

lemma count_list_append [simp]: "count_list (xs @ ys) x = count_list xs x + count_list ys x"
  by (induction xs) simp_all

text \<open>The assembler and the \<open>except\<close> clauses do not call the library.\<close>

lemma transform_result_io_calls:
  "library_calls (snd (run_state (transform_result_io raw u) w)) = library_calls w"
  by (simp add: run_transform_result_io library_calls_def started_def split: sum.splits)

lemma handle_exception_io_calls:
  "library_calls (snd (run_state (handle_exception_io clock t0 u e) w)) = library_calls w"
  by (simp add: handle_exception_io_def Let_def io_simps logger_defs library_calls_def started_def)

text \<open>A pass calls it once, unless the request has no panel.\<close>

lemma attempt_io_calls:
  "library_calls (snd (run_state (attempt_io clock solve m t0 u) w))
     = library_calls w + (if up_panels u = [] then 0 else 1)"
  by (cases "up_panels u")
     (simp_all add: attempt_io_def Let_def io_simps logger_defs run_transform_result_io
       library_calls_def started_def split: sum.splits)

section \<open>The budget\<close>

lemma ceil_div_nonneg:
  fixes a n :: int
  assumes "0 < n" and "0 \<le> a"
  shows "0 \<le> (a + n - 1) div n"
proof -
  from assms have "0 \<le> a + n - 1"
    by linarith
  with assms(1) show ?thesis
    by (simp only: pos_imp_zdiv_nonneg_iff)
qed

lemma call_budget_pos: "up_panels u \<noteq> [] \<Longrightarrow> 0 < call_budget u"
  using ceil_div_nonneg [of "int (length (up_panels u))" "max 0 (50 - get_total_panel_quantity u)"]
  by (simp add: call_budget_def)

lemma budget_step:
  fixes t n :: int
  assumes "0 < n" and "t < 50"
  shows "(max 0 (50 - (t + n)) + n - 1) div n + 1 = (max 0 (50 - t) + n - 1) div n"
proof (cases "50 \<le> t + n")
  case True
  with assms have "(max 0 (50 - (t + n)) + n - 1) div n = 0"
    by (simp add: div_pos_pos_trivial)
  moreover from assms True have "(max 0 (50 - t) + n - 1) div n = 1"
    by (intro int_div_pos_eq [where r = "50 - t - 1"]) auto
  ultimately show ?thesis
    by simp
next
  case False
  with assms have "(max 0 (50 - t) + n - 1) div n = (50 - (t + n) + n - 1 + n) div n"
    by (simp add: algebra_simps)
  also have "\<dots> = (50 - (t + n) + n - 1) div n + 1"
    using assms(1) by simp
  finally show ?thesis
    using False by simp
qed

lemma call_budget_retry:
  assumes "up_panels u \<noteq> []" and "get_total_panel_quantity u < 50"
  shows "call_budget u = Suc (call_budget (increment_panel_quantities u 1))"
proof -
  define n t where "n = int (length (up_panels u))" and "t = get_total_panel_quantity u"
  define a b where "a = (max 0 (50 - (t + n)) + n - 1) div n"
    and "b = (max 0 (50 - t) + n - 1) div n"
  from assms(1) have n: "0 < n"
    by (simp add: n_def)
  have "call_budget (increment_panel_quantities u 1) = nat (a + 1)"
    and "call_budget u = nat (b + 1)"
    using assms(1) by (simp_all add: call_budget_def total_increment a_def b_def n_def t_def)
  moreover have "0 \<le> a"
    unfolding a_def using n by (intro ceil_div_nonneg) simp_all
  moreover from budget_step [OF n] assms(2) have "a + 1 = b"
    by (simp add: a_def b_def t_def)
  ultimately show ?thesis
    by simp
qed

text \<open>At the ceiling one pass is left.\<close>

lemma call_budget_ceiling:
  "up_panels u \<noteq> [] \<Longrightarrow> 50 \<le> get_total_panel_quantity u \<Longrightarrow> call_budget u = 1"
  by (simp add: call_budget_def div_pos_pos_trivial)

section \<open>The loop\<close>

lemma calculate_loop_io_calls:
  "library_calls (snd (calculate_loop_io clock solve m t0 u w)) \<le> library_calls w + call_budget u"
proof (induction u w rule: calculate_loop_io_run [of clock solve m t0])
  case (returned u w r w')
  with attempt_io_calls [of clock solve m t0 u w] call_budget_pos [of u] show ?case
    by (auto simp: Suc_le_eq split: if_splits)
next
  case (handled u w e w1 r w')
  with attempt_io_calls [of clock solve m t0 u w] handle_exception_io_calls [of clock t0 u e w1]
    call_budget_pos [of u]
  show ?case
    by (auto simp: Suc_le_eq split: if_splits)
next
  case (retried u w e w1 w2)
  then have "attempt solve m u = Raise e" and none: "handle_exception u e = None"
    by (auto dest: attempt_io_Raise handle_exception_io_None)
  then have "up_panels u \<noteq> []" and "get_total_panel_quantity u < 50"
    by (auto simp: handle_exception_None_iff dest: attempt_unresolvable_nonempty)
  with retried attempt_io_calls [of clock solve m t0 u w]
    handle_exception_io_calls [of clock t0 u e w1] call_budget_retry [of u]
  show ?case
    by simp
qed

text \<open>A library that never finds a placement is called as often as the budget
  allows.\<close>

lemma calculate_loop_io_exhausts:
  assumes "\<And>p. infeasible solve m p" and "up_panels u \<noteq> []"
  shows "library_calls (snd (calculate_loop_io clock solve m t0 u w))
    = library_calls w + call_budget u"
  using assms(2)
proof (induction u w rule: calculate_loop_io_run [of clock solve m t0])
  case (returned u w r w')
  from assms(1) [of "params_of u"] obtain e where "solve m (params_of u) = Raise e"
    by (auto dest: infeasibleD)
  with returned attempt_raises_solver [of u solve m e] show ?case
    by (auto dest: attempt_io_Return)
next
  case (handled u w e w1 r w')
  from assms(1) [of "params_of u"] obtain e' where "solve m (params_of u) = Raise e'"
    and "is_unresolvable e'"
    by (auto dest: infeasibleD)
  with handled attempt_raises_solver [of u solve m e'] have "is_unresolvable e"
    and "handle_exception u e \<noteq> None"
    by (auto dest: attempt_io_Raise handle_exception_io_Some)
  then have "50 \<le> get_total_panel_quantity u"
    by (simp add: handle_exception_None_iff)
  with handled attempt_io_calls [of clock solve m t0 u w]
    handle_exception_io_calls [of clock t0 u e w1]
  show ?case
    by (simp add: call_budget_ceiling)
next
  case (retried u w e w1 w2)
  then have "handle_exception u e = None"
    by (auto dest: handle_exception_io_None)
  then have "get_total_panel_quantity u < 50"
    by (simp add: handle_exception_None_iff)
  with retried attempt_io_calls [of clock solve m t0 u w]
    handle_exception_io_calls [of clock t0 u e w1] call_budget_retry [of u]
  show ?case
    by simp
qed

text \<open>\<open>calculate\<close> writes two records and reads the clock before it enters the loop.\<close>

definition entered :: "UserParams \<Rightarrow> string \<Rightarrow> world \<Rightarrow> world" where
  "entered u name w =
     w\<lparr>w_log := w_log w @
         [(INFO, [Str (''Starting calculation with method: '' @ name)]),
          (INFO, [Str (''Panels: '' @ str_len (up_panels u) @ '' types, Items: ''
             @ str_len (up_items u) @ '' types'')])],
       w_clock_reads := Suc (w_clock_reads w)\<rparr>"

lemma library_calls_entered [simp]: "library_calls (entered u name w) = library_calls w"
  by (simp add: entered_def library_calls_def started_def)

lemma run_calculate_io:
  "method_map name = Some m \<Longrightarrow>
     snd (run_state (calculate_io clock solve u name) w)
       = snd (calculate_loop_io clock solve m (clock (w_clock_reads w)) u (entered u name w))"
  by (simp add: calculate_io_def entered_def io_simps logger_defs split: prod.splits)

lemma unknown_calculate_io:
  "method_map name = None \<Longrightarrow> snd (run_state (calculate_io clock solve u name) w) = w"
  by (simp add: calculate_io_def)

lemma calculate_io_calls:
  "library_calls (snd (run_state (calculate_io clock solve u name) w))
     \<le> library_calls w + (case method_map name of None \<Rightarrow> 0 | Some m \<Rightarrow> call_budget u)"
proof (cases "method_map name")
  case None
  then show ?thesis
    by (simp add: unknown_calculate_io)
next
  case (Some m)
  with calculate_loop_io_calls [of clock solve m "clock (w_clock_reads w)" u "entered u name w"]
  show ?thesis
    by (simp add: run_calculate_io)
qed

section \<open>The service\<close>

lemma api_error_io_calls:
  "run_state (api_error_io e) w = (r, w') \<Longrightarrow> library_calls w' = library_calls w"
  by (auto simp: run_api_error_io library_calls_def started_def)

lemma library_calls_received [simp]:
  "library_calls ((received u name w)\<lparr>w_stdout := out\<rparr>) = library_calls w"
  "library_calls (received u name w) = library_calls w"
  by (simp_all add: received_def request_records_def library_calls_def started_def)

lemma serve_calls:
  "library_calls (snd (run_state (serve clock solve request) w))
     \<le> library_calls w + request_budget request"
proof (cases request)
  case Get_health
  then show ?thesis
    by (simp add: serve_def)
next
  case (Post_calculate u name)
  show ?thesis
  proof (cases "set_first_quantity u")
    case (Inl e)
    with Post_calculate show ?thesis
      by (auto simp: serve_def run_calculate_optimization_io split: prod.splits
          dest!: api_error_io_calls)
  next
    case (Inr u')
    let ?w = "(received u name w)\<lparr>w_stdout := w_stdout w @
      [[Panels (up_panels u)], [Panels (up_panels u')]]\<rparr>"
    obtain a w' where run: "run_state (calculate_io clock solve u' name) ?w = (a, w')"
      by (cases "run_state (calculate_io clock solve u' name) ?w")
    with calculate_io_calls [of clock solve u' name ?w]
    have "library_calls w' \<le> library_calls w + request_budget request"
      by (simp add: request_budget_def Post_calculate Inr split: option.splits)
    with Post_calculate Inr run show ?thesis
      by (cases a) (auto simp: serve_def run_calculate_optimization_io split: prod.splits
          dest!: api_error_io_calls)
  qed
qed

lemma serve_all_calls:
  "library_calls (snd (run_state (serve_all clock solve requests) w))
     \<le> library_calls w + sum_list (map request_budget requests)"
proof (induction requests arbitrary: w)
  case Nil
  show ?case by simp
next
  case (Cons request requests)
  obtain response w1 where 1: "run_state (serve clock solve request) w = (response, w1)"
    by (cases "run_state (serve clock solve request) w")
  with serve_calls [of clock solve request w] Cons [of w1] show ?case
    by (auto simp: run_serve_all_Cons split: prod.splits)
qed

section \<open>Properties of the log\<close>

text \<open>C14. Whatever the library answers, one call of \<open>calculate\<close> calls it at most
  \<open>\<lceil>max(0, 50 - T0) / n\<rceil> + 1\<close> times for a request with \<open>n > 0\<close> panel specifications
  of total quantity \<open>T0\<close>, and not at all for a request without panels or for an
  unknown method: the log gains at most that many records
  \<open>Starting optimization calculation...\<close>. A library that never finds a placement
  is called exactly that often.\<close>

theorem library_calls_bounded:
  "library_calls (snd (run_state (calculate_io clock solve u name) w))
     \<le> library_calls w + (case method_map name of None \<Rightarrow> 0 | Some m \<Rightarrow> call_budget u)
   \<and> (\<forall>m. method_map name = Some m \<and> (\<forall>p. infeasible solve m p) \<and> up_panels u \<noteq> [] \<longrightarrow>
        library_calls (snd (run_state (calculate_io clock solve u name) w))
          = library_calls w + call_budget u)"
  using calculate_io_calls [of clock solve u name w]
    calculate_loop_io_exhausts [of solve _ u clock "clock (w_clock_reads w)" "entered u name w"]
  by (auto simp: run_calculate_io)

theorem library_calls_bounded_witness:
  "method_map ''greedy'' = Some GREEDY \<and> (\<forall>p. infeasible never_fits GREEDY p)
   \<and> up_panels ex_request \<noteq> [] \<and> call_budget ex_request = 25
   \<and> library_calls (snd (run_state (calculate_io real never_fits ex_request ''greedy'') world0))
       = 25"
proof -
  have "call_budget ex_request = 25" and "library_calls world0 = 0"
    and "up_panels ex_request \<noteq> []"
    by (simp_all add: call_budget_def get_total_panel_quantity_def ex_defs library_calls_def
        world0_def)
  with library_calls_bounded [of real never_fits ex_request "''greedy''" world0] show ?thesis
    by simp
qed

text \<open>C16. What a request waits for. The service answers one request after the
  other, so before a request is answered the library has been called for all
  requests queued before it: at most once for every pass their budgets allow,
  where the budget of a calculation is that of its request with the quantity of the
  first panel set to one, and a health check, a request without panels and a
  request with an unknown method cost no call.\<close>

theorem service_calls_bounded:
  "library_calls (snd (run_state (serve_all clock solve requests) w))
     \<le> library_calls w + sum_list (map request_budget requests)
   \<and> request_budget Get_health = 0
   \<and> request_budget (Post_calculate u name)
       = (case (set_first_quantity u, method_map name) of
            (Inr u', Some m) \<Rightarrow>
              nat ((max 0 (50 - get_total_panel_quantity u') + int (length (up_panels u)) - 1)
                div int (length (up_panels u)) + 1)
          | _ \<Rightarrow> 0)"
proof -
  have "call_budget u' = nat ((max 0 (50 - get_total_panel_quantity u')
      + int (length (up_panels u)) - 1) div int (length (up_panels u)) + 1)"
    if "set_first_quantity u = Return u'" for u'
    using that
    by (cases "up_panels u") (auto simp: set_first_quantity_def call_budget_def)
  then show ?thesis
    using serve_all_calls [of clock solve requests w]
    by (auto simp: request_budget_def split: sum.splits option.splits)
qed

text \<open>A health check behind two calculations of the example request waits for at most
  fifty calls of the library.\<close>

lemma health_check_waits:
  "library_calls (snd (run_state (serve_all clock solve
      [Post_calculate ex_request ''greedy'', Post_calculate ex_request ''forward_greedy'']) world0))
     \<le> 50"
proof -
  have "set_first_quantity ex_request = Return ex_request"
    by (simp add: set_first_quantity_def ex_defs)
  then have "request_budget (Post_calculate ex_request ''greedy'') = 25"
    and "request_budget (Post_calculate ex_request ''forward_greedy'') = 25"
    by (simp_all add: request_budget_def method_map_def call_budget_def
        get_total_panel_quantity_def ex_defs)
  with serve_all_calls [of clock solve
      "[Post_calculate ex_request ''greedy'', Post_calculate ex_request ''forward_greedy'']" world0]
  show ?thesis
    by (simp add: library_calls_def world0_def)
qed

end
