(* ===== verification/Legacy_Api.thy ===== *)
theory Legacy_Api
  imports Packing_Adapter
begin

text \<open>
  The first version of the service, \<open>src/app.py\<close>: one endpoint, \<open>calculate_job\<close>,
  that takes panels and items as dictionaries from identifier to size, hands them to
  the packing library as they are and returns the JSON of the library's result, or
  \<open>{"error": str(e)}\<close> for whatever is raised. There are no quantities, no grain and
  no retry.

  A \<open>Dict[str, PanelModel]\<close> is an association list in insertion order; the list
  comprehensions over \<open>.items()\<close> are \<open>map\<close>s over it. The answer is a
  \<open>job_response\<close>.

  The lemmas show what the endpoint answers in each case and that its table of
  methods is the table of the orchestrator.
\<close>

section \<open>The request\<close>

record PanelModel =
  pm_width :: real
  pm_height :: real

record ItemModel =
  im_width :: real
  im_height :: real
  im_can_rotate :: bool

record ParamsModel =
  lp_cut_width :: real
  lp_min_initial_usage :: bool
  lp_panels :: "(string \<times> PanelModel) list"
  lp_items :: "(string \<times> ItemModel) list"

datatype job_response = Job_Result RawResult | Job_Error string

section \<open>The endpoint\<close>

definition job_panels :: "ParamsModel \<Rightarrow> Panel list" where
  "job_panels params =
     map (\<lambda>(k, v). \<lparr>cp_id = k, cp_width = pm_width v, cp_height = pm_height v\<rparr>) (lp_panels params)"

definition job_items :: "ParamsModel \<Rightarrow> Item list" where
  "job_items params =
     map (\<lambda>(k, v). \<lparr>ci_id = k, ci_width = im_width v, ci_height = im_height v,
        ci_can_rotate = im_can_rotate v\<rparr>) (lp_items params)"

definition job_method_map :: "string \<rightharpoonup> Method" where
  "job_method_map = map_of
     [(''greedy'', GREEDY),
      (''forward_greedy'', FORWARD_GREEDY),
      (''greedy_native'', GREEDY_NATIVE),
      (''forward_greedy_native'', FORWARD_GREEDY_NATIVE)]"

definition calculate_job :: "solver \<Rightarrow> ParamsModel \<Rightarrow> string \<Rightarrow> job_response" where
  "calculate_job solve params method =
     (let panels_list = job_panels params;
          items_list = job_items params;
          opcut_params = \<lparr>prm_cut_width = lp_cut_width params,
                          prm_min_initial_usage = lp_min_initial_usage params,
                          prm_panels = panels_list,
                          prm_items = items_list\<rparr>
      in case bind_result
                (case job_method_map method of
                   None \<Rightarrow> Raise (KeyError method)
                 | Some opcut_method \<Rightarrow> Return opcut_method)
                (\<lambda>opcut_method. solve opcut_method opcut_params) of
           Inr result \<Rightarrow> Job_Result result
         | Inl e \<Rightarrow> Job_Error (exn_str e))"

text \<open>The parameters the library receives.\<close>

definition job_params :: "ParamsModel \<Rightarrow> Params" where
  "job_params params =
     \<lparr>prm_cut_width = lp_cut_width params,
      prm_min_initial_usage = lp_min_initial_usage params,
      prm_panels = job_panels params,
      prm_items = job_items params\<rparr>"

section \<open>Facts\<close>

lemma job_method_map_eq: "job_method_map = method_map"
  by (simp add: job_method_map_def method_map_def)

lemma job_panels_ids [simp]: "map cp_id (job_panels params) = map fst (lp_panels params)"
  by (simp add: job_panels_def comp_def case_prod_beta)

lemma job_items_ids [simp]: "map ci_id (job_items params) = map fst (lp_items params)"
  by (simp add: job_items_def comp_def case_prod_beta)

lemma calculate_job_known:
  "method_map method = Some m \<Longrightarrow>
     calculate_job solve params method =
       (case solve m (job_params params) of
          Inr result \<Rightarrow> Job_Result result
        | Inl e \<Rightarrow> Job_Error (exn_str e))"
  by (simp add: calculate_job_def job_method_map_eq job_params_def Let_def)

lemma calculate_job_unknown:
  "method_map method = None \<Longrightarrow>
     calculate_job solve params method = Job_Error (py_repr method)"
  by (simp add: calculate_job_def job_method_map_eq Let_def)

section \<open>Properties of the endpoint\<close>

text \<open>What \<open>calculate_job\<close> answers: for a method of the table, the JSON of the
  library's result or the text of what the library raised, the library having
  received one panel and one item per entry of the dictionaries, under the keys as
  identifiers and in their order; for any other method, the text of the
  \<open>KeyError\<close>, the \<open>repr\<close> of the name, without the library being called.\<close>

theorem calculate_job_answer:
  "calculate_job solve params method =
     (case method_map method of
        None \<Rightarrow> Job_Error (py_repr method)
      | Some m \<Rightarrow>
          (case solve m (job_params params) of
             Inr result \<Rightarrow> Job_Result result
           | Inl e \<Rightarrow> Job_Error (exn_str e)))
   \<and> map cp_id (prm_panels (job_params params)) = map fst (lp_panels params)
   \<and> map ci_id (prm_items (job_params params)) = map fst (lp_items params)"
  by (simp add: calculate_job_known calculate_job_unknown job_params_def split: option.splits)

end
