(* ===== verification/Result_Inspection.thy ===== *)
theory Result_Inspection
  imports Data_Model
begin

text \<open>
  The script \<open>src/main.py\<close>: it reads a result of the packing library from
  \<open>result.json\<close> and counts, with \<open>collections.Counter\<close>, how often each item
  identifier occurs among the placements, and prints the counter. \<open>item_counts\<close> is
  the counter, or the \<open>KeyError\<close> of a result without the key \<open>used\<close>, and
  \<open>shown_counts\<close> is the entries in the order in which \<open>print\<close> shows them. The
  printed line and the script as a whole are in \<open>Counter_Text\<close>.

  A \<open>Counter\<close> is a dictionary: an association list in the order in which the keys
  were first seen. Its text lists the entries as \<open>most_common\<close> gives them: by
  descending count, entries of equal count in the order of the dictionary
  (\<open>sorted\<close> is stable, also with \<open>reverse=True\<close>). The lemmas show that the counter
  has each identifier once, with the number of its occurrences, in the order of the
  first occurrences, that the counts add up to the number of placements, and that
  \<open>most_common\<close> rearranges the entries and nothing else.
\<close>

section \<open>Counting\<close>

text \<open>One step of \<open>Counter(iterable)\<close>: \<open>self[elem] = self.get(elem, 0) + 1\<close>.\<close>

definition count_elem :: "'a \<Rightarrow> ('a \<times> nat) list \<Rightarrow> ('a \<times> nat) list" where
  "count_elem elem c = (if elem \<in> fst ` set c then map_entry elem Suc c else c @ [(elem, 1)])"

definition Counter :: "'a list \<Rightarrow> ('a \<times> nat) list" where
  "Counter iterable = fold count_elem iterable []"

definition item_counts :: "RawResult \<Rightarrow> (string \<times> nat) list py" where
  "item_counts data =
     (case rr_used data of
        None \<Rightarrow> Raise (KeyError ''used'')
      | Some used \<Rightarrow> Return (Counter (map uj_item used)))"

text \<open>\<open>Counter.most_common()\<close>, which \<open>Counter.__repr__\<close> calls:
  \<open>sorted(self.items(), key=itemgetter(1), reverse=True)\<close>.\<close>

definition most_common :: "('a \<times> nat) list \<Rightarrow> ('a \<times> nat) list" where
  "most_common c = sort_key (\<lambda>(elem, n). - int n) c"

definition shown_counts :: "RawResult \<Rightarrow> (string \<times> nat) list py" where
  "shown_counts data = bind_result (item_counts data) (\<lambda>counts. Return (most_common counts))"

section \<open>Facts\<close>

lemma Counter_Nil [simp]: "Counter [] = []"
  by (simp add: Counter_def)

lemma Counter_snoc: "Counter (xs @ [x]) = count_elem x (Counter xs)"
  by (simp add: Counter_def)

lemma keys_count_elem [simp]: "fst ` set (count_elem x c) = insert x (fst ` set c)"
  by (auto simp: count_elem_def)

lemma keys_Counter [simp]: "fst ` set (Counter xs) = set xs"
  by (induction xs rule: rev_induct) (simp_all add: Counter_snoc)

lemma distinct_count_elem: "distinct (map fst c) \<Longrightarrow> distinct (map fst (count_elem x c))"
  by (auto simp: count_elem_def)

lemma distinct_Counter [simp]: "distinct (map fst (Counter xs))"
  by (induction xs rule: rev_induct) (simp_all add: Counter_snoc distinct_count_elem)

lemma map_of_map_entry:
  "map_of (map_entry k f al) k' = (if k' = k then map_option f (map_of al k') else map_of al k')"
  by (induction al) auto

lemma map_of_count_elem:
  "map_of (count_elem x c) k =
     (if k = x then Some (case map_of c x of None \<Rightarrow> 1 | Some n \<Rightarrow> Suc n) else map_of c k)"
proof (cases "x \<in> fst ` set c")
  case True
  then obtain n where "map_of c x = Some n"
    by (cases "map_of c x") (auto simp: map_of_eq_None_iff)
  with True show ?thesis
    by (simp add: count_elem_def map_of_map_entry)
next
  case False
  then have "map_of c x = None"
    by (simp add: map_of_eq_None_iff)
  with False show ?thesis
    by (simp add: count_elem_def map_add_def split: option.splits)
qed

lemma map_of_Counter:
  "map_of (Counter xs) k = (if k \<in> set xs then Some (count_list xs k) else None)"
  by (induction xs rule: rev_induct) (auto simp: Counter_snoc map_of_count_elem)

lemma sum_map_entry_Suc:
  "distinct (map fst c) \<Longrightarrow> x \<in> fst ` set c \<Longrightarrow>
     sum_list (map snd (map_entry x Suc c)) = Suc (sum_list (map snd c))"
  by (induction c) (auto simp: rev_image_eqI)

lemma sum_Counter: "sum_list (map snd (Counter xs)) = length xs"
  by (induction xs rule: rev_induct)
     (simp_all add: Counter_snoc count_elem_def sum_map_entry_Suc)

section \<open>The order of the entries\<close>

text \<open>The keys of a counter are the elements in the order of their first
  occurrences.\<close>

lemma first_seen_Counter: "map fst (Counter xs) = rev (remdups (rev xs))"
  by (induction xs rule: rev_induct) (simp_all add: Counter_snoc count_elem_def)

text \<open>\<open>most_common\<close> rearranges the entries: the dictionary is the same, the counts
  descend, and entries of one count keep their order.\<close>

lemma mset_most_common [simp]: "mset (most_common c) = mset c"
  by (simp add: most_common_def)

lemma set_most_common [simp]: "set (most_common c) = set c"
  by (simp add: most_common_def)

lemma distinct_most_common [simp]:
  "distinct (map fst (most_common c)) \<longleftrightarrow> distinct (map fst c)"
  by (rule mset_eq_imp_distinct_iff) simp

lemma map_of_most_common:
  "distinct (map fst c) \<Longrightarrow> map_of (most_common c) = map_of c"
  by (simp add: map_of_inject_set)

lemma sum_most_common [simp]: "sum_list (map snd (most_common c)) = sum_list (map snd c)"
proof -
  have "sum_mset (mset (map snd (most_common c))) = sum_mset (mset (map snd c))"
    by simp
  then show ?thesis
    by (simp only: sum_mset_sum_list)
qed

lemma most_common_descending: "sorted_wrt (\<lambda>a b. snd b \<le> snd a) (most_common c)"
proof -
  have "sorted (map (\<lambda>(elem, n). - int n) (most_common c))"
    by (simp add: most_common_def)
  then show ?thesis
    by (simp add: sorted_map case_prod_unfold)
qed

lemma most_common_stable:
  "filter (\<lambda>e. snd e = n) (most_common c) = filter (\<lambda>e. snd e = n) c"
  using sort_key_stable [of "\<lambda>(elem, n). - int n" "- int n" c]
  by (simp add: most_common_def case_prod_unfold)

lemma shown_counts_cases:
  "shown_counts data =
     (case rr_used data of
        None \<Rightarrow> Raise (KeyError ''used'')
      | Some used \<Rightarrow> Return (most_common (Counter (map uj_item used))))"
  by (simp add: shown_counts_def item_counts_def bind_result_def split: option.splits)

lemma Counter_entry: "(k, n) \<in> set (Counter xs) \<Longrightarrow> n = count_list xs k"
  using map_of_is_SomeI [OF distinct_Counter, of k n xs]
  by (simp add: map_of_Counter split: if_splits)

lemma keys_of_count:
  "map fst (filter (\<lambda>e. snd e = n) (Counter xs))
     = filter (\<lambda>x. count_list xs x = n) (map fst (Counter xs))"
  unfolding filter_map
  by (rule arg_cong [where f = "map fst"], rule filter_cong) (auto dest: Counter_entry)

section \<open>Properties of the count\<close>

text \<open>\<open>Counter\<close> over the item identifiers of the placements has every
  identifier that occurs exactly once as a key, with the number of its occurrences
  as the count, and no other key; the counts add up to the number of
  placements.\<close>

theorem Counter_counts:
  "map_of (Counter xs) k = (if k \<in> set xs then Some (count_list xs k) else None)
   \<and> distinct (map fst (Counter xs))
   \<and> sum_list (map snd (Counter xs)) = length xs"
  by (simp add: map_of_Counter sum_Counter)

text \<open>C39. What the script prints. A result without the key \<open>used\<close> raises
  \<open>KeyError\<close>. Otherwise the entries shown are a rearrangement of the counter: every
  identifier that occurs among the placements is shown once, with the number of its
  occurrences, and no other; the counts descend and add up to the number of
  placements; identifiers of one count are shown in the order in which they first
  occur among the placements.\<close>

theorem shown_counts_correct:
  "shown_counts data = (case rr_used data of
       None \<Rightarrow> Raise (KeyError ''used'')
     | Some used \<Rightarrow> Return (most_common (Counter (map uj_item used))))
   \<and> map_of (most_common (Counter xs)) k = (if k \<in> set xs then Some (count_list xs k) else None)
   \<and> distinct (map fst (most_common (Counter xs)))
   \<and> sorted_wrt (\<lambda>a b. snd b \<le> snd a) (most_common (Counter xs))
   \<and> sum_list (map snd (most_common (Counter xs))) = length xs
   \<and> map fst (filter (\<lambda>e. snd e = n) (most_common (Counter xs)))
       = filter (\<lambda>x. count_list xs x = n) (rev (remdups (rev xs)))"
  using keys_of_count [of n xs]
  by (simp add: shown_counts_cases map_of_most_common map_of_Counter most_common_descending
      most_common_stable sum_Counter first_seen_Counter)

lemma shown_counts_ex:
  "most_common (Counter [''shelf'', ''door'', ''rail'', ''door''])
     = [(''door'', 2), (''shelf'', 1), (''rail'', 1)]"
  by (simp add: most_common_def Counter_def count_elem_def)

end
