(* ===== verification/Counter_Text.thy ===== *)
theory Counter_Text
  imports Result_Inspection Py_Repr
begin

text \<open>
  What \<open>src/main.py\<close> prints: the text of the \<open>Counter\<close>. \<open>Counter.__repr__\<close> gives
  \<open>Counter()\<close> for an empty counter and otherwise \<open>Counter({...})\<close> around the text of
  the dictionary of \<open>most_common()\<close>, whose entries are \<open>key: count\<close> with the key as
  \<open>repr\<close> makes it, separated by a comma and a blank. \<open>main_script\<close> is the whole
  script: the outcome of reading \<open>result.json\<close> is its parameter, the lines written
  to the standard output, or the exception that ends the script, its result.

  \<open>read_counter\<close> reads a printed line back into the entries; it models no code. The
  round trip shows that the line holds the counts and their order and nothing else.
\<close>

section \<open>The printed text\<close>

text \<open>\<open>sep.join(xs)\<close>.\<close>

fun join_sep :: "string \<Rightarrow> string list \<Rightarrow> string" where
  "join_sep sep [] = []"
| "join_sep sep [x] = x"
| "join_sep sep (x # y # ys) = x @ sep @ join_sep sep (y # ys)"

definition entry_repr :: "string \<times> nat \<Rightarrow> string" where
  "entry_repr = (\<lambda>(elem, n). py_repr elem @ '': '' @ str_nat n)"

definition dict_repr :: "(string \<times> nat) list \<Rightarrow> string" where
  "dict_repr d = ''{'' @ join_sep '', '' (map entry_repr d) @ ''}''"

definition counter_repr :: "(string \<times> nat) list \<Rightarrow> string" where
  "counter_repr c = (if c = [] then ''Counter()'' else ''Counter('' @ dict_repr (most_common c) @ '')'')"

definition main_script :: "RawResult py \<Rightarrow> string list py" where
  "main_script loaded =
     bind_result loaded (\<lambda>data.
     bind_result (item_counts data) (\<lambda>counts.
       Return [counter_repr counts]))"

section \<open>Reading a line back\<close>

text \<open>The text after a given beginning.\<close>

fun expect :: "string \<Rightarrow> string \<Rightarrow> string option" where
  "expect [] s = Some s"
| "expect (c # p) [] = None"
| "expect (c # p) (d # s) = (if c = d then expect p s else None)"

text \<open>One entry: the key, the colon and the count, with the text after it.\<close>

definition read_entry :: "string \<Rightarrow> ((string \<times> nat) \<times> string) option" where
  "read_entry s =
     (case read_repr s of
        None \<Rightarrow> None
      | Some (elem, r) \<Rightarrow>
          (case expect '': '' r of
             None \<Rightarrow> None
           | Some r' \<Rightarrow>
               if takeWhile is_digit r' = [] then None
               else Some ((elem, read_nat (takeWhile is_digit r')), dropWhile is_digit r')))"

lemma expect_length: "expect p s = Some r \<Longrightarrow> length r \<le> length s"
  by (induction p s rule: expect.induct) (auto split: if_splits)

lemma read_entry_shorter: "read_entry s = Some (e, r) \<Longrightarrow> length r < length s"
proof -
  assume "read_entry s = Some (e, r)"
  then obtain elem r1 r2 where "read_repr s = Some (elem, r1)" "expect '': '' r1 = Some r2"
    "r = dropWhile is_digit r2"
    by (auto simp: read_entry_def split: option.splits if_splits)
  with read_repr_shorter [of s elem r1] expect_length [of "'': ''" r1 r2]
    length_dropWhile_le [of is_digit r2]
  show ?thesis
    by simp
qed

text \<open>The entries up to the closing brace and bracket.\<close>

function read_entries :: "string \<Rightarrow> (string \<times> nat) list option" where
  "read_entries s =
     (case read_entry s of
        None \<Rightarrow> None
      | Some (e, r) \<Rightarrow>
          if r = ''})'' then Some [e]
          else (case expect '', '' r of
                  None \<Rightarrow> None
                | Some r' \<Rightarrow> map_option ((#) e) (read_entries r')))"
  by pat_completeness auto

termination
  by (relation "measure length")
     (auto dest!: read_entry_shorter expect_length)

declare read_entries.simps [simp del]

definition read_counter :: "string \<Rightarrow> (string \<times> nat) list option" where
  "read_counter s =
     (if s = ''Counter()'' then Some []
      else (case expect ''Counter({'' s of None \<Rightarrow> None | Some r \<Rightarrow> read_entries r))"

section \<open>Facts\<close>

lemma expect_append [simp]: "expect p (p @ s) = Some s"
  by (induction p) simp_all

lemma digits_then [simp]:
  assumes "\<not> is_digit c"
  shows "takeWhile is_digit (str_nat n @ c # s) = str_nat n"
    and "dropWhile is_digit (str_nat n @ c # s) = c # s"
  using assms str_nat_digits [of _ n]
  by (simp_all add: takeWhile_append2 dropWhile_append2)

lemma read_entry_repr:
  "\<not> is_digit c \<Longrightarrow> read_entry (entry_repr e @ c # s) = Some (e, c # s)"
  by (cases e) (simp add: read_entry_def entry_repr_def)

lemma not_digit_sep [simp]: "\<not> is_digit CHR '',''" "\<not> is_digit CHR ''}''"
  by (simp_all add: is_digit_def)

lemma read_entries_repr:
  "d \<noteq> [] \<Longrightarrow> read_entries (join_sep '', '' (map entry_repr d) @ ''})'') = Some d"
proof (induction d rule: list_nonempty_induct)
  case (single e)
  then show ?case
    by (subst read_entries.simps) (simp add: read_entry_repr)
next
  case (cons e d)
  then obtain e' d' where d: "d = e' # d'"
    by (cases d) auto
  have "read_entries (entry_repr e @ '', '' @ join_sep '', '' (map entry_repr d) @ ''})'')
      = map_option ((#) e) (read_entries (join_sep '', '' (map entry_repr d) @ ''})''))"
    by (subst read_entries.simps) (simp add: read_entry_repr)
  with cons.IH show ?case
    by (simp add: d)
qed

lemma most_common_Nil_iff [simp]: "most_common c = [] \<longleftrightarrow> c = []"
  using length_sort [of "\<lambda>(elem, n). - int n" c]
  by (auto simp: most_common_def simp del: length_sort)

lemma most_common_Nil [simp]: "most_common [] = []"
  by (simp add: most_common_def)

lemma read_counter_repr [simp]: "read_counter (counter_repr c) = Some (most_common c)"
  by (simp add: read_counter_def counter_repr_def dict_repr_def read_entries_repr)

text \<open>The example result: three placements of three units.\<close>

lemma main_script_ex:
  "main_script (Return ex_result)
     = Return [''Counter({'Shelf_1': 1, 'Door_1': 1, 'Door_2': 1})'']"
  by (simp add: main_script_def item_counts_def ex_result_def Counter_def count_elem_def
      counter_repr_def most_common_def dict_repr_def entry_repr_def eval_repr
      str_nat.simps digit_char_def)

text \<open>A file that cannot be read or holds no \<open>used\<close> ends the script with the
  exception; nothing is printed.\<close>

lemma main_script_raises:
  "main_script (Raise e) = Raise e"
  "main_script (Return \<lparr>rr_used = None, rr_unused = unused, rr_cuts = cuts\<rparr>)
     = Raise (KeyError ''used'')"
  by (simp_all add: main_script_def item_counts_def)

section \<open>Properties of the script\<close>

text \<open>C38. Whatever reading the file gives, the script either ends with the exception
  of the reading or the \<open>KeyError\<close> of a result without \<open>used\<close> and prints nothing,
  or prints exactly one line, and reading that line back gives the entries of
  \<open>shown_counts\<close>: every item identifier with its count, in the order of
  \<open>most_common\<close>. Identifiers with quotes, backslashes or characters that are not
  printable included, the printed line determines the counts.\<close>

theorem printed_counts_roundtrip:
  "map_sum id (map read_counter) (main_script loaded)
     = map_sum id (\<lambda>counts. [Some counts]) (bind_result loaded shown_counts)"
  by (cases loaded)
     (auto simp: main_script_def shown_counts_def item_counts_def split: option.splits)

end
