(* ===== verification/Retry_Safety.thy ===== *)
theory Retry_Safety
  imports Retry_Controller
begin

text \<open>
  Safety of the retry controller of \<open>calculate\<close>: what holds in every state the loop can
  be in, whatever the packing library answers. The states that can be reached from a
  request are an inductive predicate over the steps of \<open>Retry_Controller\<close>; the
  invariant \<open>controller_safe\<close> says what an attempt may differ in from the request the
  caller made (only in panel quantities, which never fall), how large the total
  quantity of an attempt can be, and that a response is well formed. The invariant is
  shown for one step and then, by rule induction, for every reachable state.
\<close>

section \<open>Reachable states\<close>

inductive reachable :: "Method \<Rightarrow> UserParams \<Rightarrow> controller \<Rightarrow> bool"
  for m :: Method and u0 :: UserParams where
  reachable_init: "reachable m u0 (Attempting u0)"
| reachable_step: "reachable m u0 s \<Longrightarrow> any_step m s s' \<Longrightarrow> reachable m u0 s'"

section \<open>The invariant\<close>

text \<open>An attempt is made for the specifications of the request: the same items and
  cutting parameters, the same panel types in the same order, of each at least as
  many as the caller has.\<close>

definition same_specifications :: "UserParams \<Rightarrow> UserParams \<Rightarrow> bool" where
  "same_specifications u0 u \<longleftrightarrow>
     up_items u = up_items u0 \<and> up_cut_width u = up_cut_width u0
     \<and> up_min_initial_usage u = up_min_initial_usage u0
     \<and> list_all2 (\<lambda>p0 p. pin_name p = pin_name p0 \<and> pin_width p = pin_width p0
           \<and> pin_height p = pin_height p0 \<and> pin_grain p = pin_grain p0
           \<and> pin_quantity p0 \<le> pin_quantity p) (up_panels u0) (up_panels u)"

text \<open>The largest total an attempt can have: the total of the request when that is 50
  or more, and otherwise less than 50 plus the number of panel specifications.\<close>

definition ceiling_total :: "UserParams \<Rightarrow> int" where
  "ceiling_total u0 = max (get_total_panel_quantity u0) (49 + int (length (up_panels u0)))"

fun controller_safe :: "UserParams \<Rightarrow> controller \<Rightarrow> bool" where
  "controller_safe u0 (Attempting u) \<longleftrightarrow>
     same_specifications u0 u \<and> get_total_panel_quantity u \<le> ceiling_total u0"
| "controller_safe u0 (Terminal r) \<longleftrightarrow> response_wf r"

section \<open>Facts about the invariant\<close>

lemma same_specifications_refl [simp]: "same_specifications u u"
  by (simp add: same_specifications_def list_all2_same)

lemma same_specifications_length:
  "same_specifications u0 u \<Longrightarrow> length (up_panels u) = length (up_panels u0)"
  by (auto simp: same_specifications_def dest: list_all2_lengthD)

lemma same_specifications_increment:
  assumes "same_specifications u0 u" and "0 \<le> k"
  shows "same_specifications u0 (increment_panel_quantities u k)"
  using assms
  by (auto simp: same_specifications_def list_all2_map2 elim!: list_all2_mono)

lemma same_specifications_names:
  "same_specifications u0 u \<Longrightarrow> map pin_name (up_panels u) = map pin_name (up_panels u0)"
  by (auto simp: same_specifications_def list_all2_conv_all_nth intro!: nth_equalityI)

lemma same_specifications_wf:
  "same_specifications u0 u \<Longrightarrow> wf_request u \<longleftrightarrow> wf_request u0"
  using same_specifications_names [of u0 u]
  by (simp add: wf_request_def unique_panel_names_def same_specifications_def)

lemma controller_safe_init: "controller_safe u0 (Attempting u0)"
  by (simp add: ceiling_total_def)

text \<open>One step keeps the invariant.\<close>

lemma retry_step_safe:
  assumes "retry_step solve m s s'" and "controller_safe u0 s"
  shows "controller_safe u0 s'"
  using assms
proof (induction rule: retry_step.induct)
  case (step_success u r)
  then show ?case
    by (auto simp: response_wf_def dest: attempt_Return_success)
next
  case (step_retry u e)
  then have "get_total_panel_quantity u < 50" and "same_specifications u0 u"
    by (simp_all add: handle_exception_None_iff)
  then show ?case
    by (simp add: same_specifications_increment total_increment same_specifications_length
        ceiling_total_def)
next
  case (step_failure u e r)
  then show ?case
    by (auto dest: handle_exception_Some_failure)
qed

lemma reachable_safe: "reachable m u0 s \<Longrightarrow> controller_safe u0 s"
proof (induction rule: reachable.induct)
  case reachable_init
  show ?case by (rule controller_safe_init)
next
  case (reachable_step s s')
  then show ?case
    by (auto simp: any_step_def intro: retry_step_safe)
qed

text \<open>The reachable states are those the steps lead to.\<close>

lemma reachable_iff_steps: "reachable m u0 s \<longleftrightarrow> (any_step m)\<^sup>*\<^sup>* (Attempting u0) s"
proof
  show "reachable m u0 s \<Longrightarrow> (any_step m)\<^sup>*\<^sup>* (Attempting u0) s"
    by (induction rule: reachable.induct) auto
  show "(any_step m)\<^sup>*\<^sup>* (Attempting u0) s \<Longrightarrow> reachable m u0 s"
    by (induction rule: rtranclp_induct) (auto intro: reachable.intros)
qed

lemma reachable_calculate_loop: "reachable m u0 (Terminal (calculate_loop solve m u0))"
proof -
  have "(retry_step solve m)\<^sup>*\<^sup>* (Attempting u0) (Terminal (calculate_loop solve m u0))"
    by (rule calculate_loop_run)
  then have "(any_step m)\<^sup>*\<^sup>* (Attempting u0) (Terminal (calculate_loop solve m u0))"
    by (rule rtranclp_mono [THEN predicate2D, rotated]) (auto simp: any_step_def)
  then show ?thesis
    by (simp add: reachable_iff_steps)
qed

text \<open>The number of panel units an attempt hands to the packing library.\<close>

lemma units_le_total:
  assumes "\<forall>p\<in>set ps. 0 \<le> pin_quantity p"
  shows "int (length (expand_panels ps)) = sum_list (map pin_quantity ps)"
  using assms by (induction ps) (simp_all add: expand_panels_Cons)

lemma same_specifications_nonneg:
  assumes "same_specifications u0 u" and "\<forall>p\<in>set (up_panels u0). 0 \<le> pin_quantity p"
  shows "\<forall>p\<in>set (up_panels u). 0 \<le> pin_quantity p"
proof
  fix p assume "p \<in> set (up_panels u)"
  then obtain i where i: "i < length (up_panels u)" "p = up_panels u ! i"
    by (auto simp: in_set_conv_nth)
  with assms(1) have "pin_quantity (up_panels u0 ! i) \<le> pin_quantity p"
    and "up_panels u0 ! i \<in> set (up_panels u0)"
    by (auto simp: same_specifications_def list_all2_conv_all_nth)
  with assms(2) show "0 \<le> pin_quantity p"
    by force
qed

section \<open>Safety\<close>

text \<open>C6. Safety of the retry loop: whatever the packing library answers, every
  attempt \<open>calculate\<close> makes is for the items, the cutting parameters and the panel
  types of the request, with no panel quantity below the caller's and a total
  quantity of at most \<open>max(T0, 49 + n)\<close>; it is well formed exactly when the
  request is, and for a request without negative quantities it hands the library at
  most that many panel units. Every response the loop ends in is well formed.\<close>

theorem retry_safety:
  assumes "reachable m u0 s"
  shows "case s of
      Attempting u \<Rightarrow>
        same_specifications u0 u \<and> get_total_panel_quantity u \<le> ceiling_total u0
        \<and> (wf_request u \<longleftrightarrow> wf_request u0)
        \<and> ((\<forall>p\<in>set (up_panels u0). 0 \<le> pin_quantity p) \<longrightarrow>
              int (length (prm_panels (params_of u))) \<le> ceiling_total u0)
    | Terminal r \<Rightarrow> response_wf r"
proof (cases s)
  case (Attempting u)
  with reachable_safe [OF assms] have safe: "same_specifications u0 u"
    "get_total_panel_quantity u \<le> ceiling_total u0"
    by simp_all
  from safe(1) have "wf_request u \<longleftrightarrow> wf_request u0"
    by (rule same_specifications_wf)
  moreover have "int (length (prm_panels (params_of u))) \<le> ceiling_total u0"
    if "\<forall>p\<in>set (up_panels u0). 0 \<le> pin_quantity p"
    using units_le_total [OF same_specifications_nonneg [OF safe(1) that]] safe(2)
    by (simp add: get_total_panel_quantity_def)
  ultimately show ?thesis
    using Attempting safe by simp
next
  case (Terminal r)
  with reachable_safe [OF assms] show ?thesis by simp
qed

lemma reachable_ex_retry:
  "reachable GREEDY ex_request (Attempting (increment_panel_quantities ex_request 1))"
  using reachable_init ex_retry by (rule reachable_step)

theorem retry_safety_witness:
  "reachable GREEDY ex_request (Attempting (increment_panel_quantities ex_request 1))
   \<and> same_specifications ex_request (increment_panel_quantities ex_request 1)
   \<and> get_total_panel_quantity (increment_panel_quantities ex_request 1) = 5
   \<and> ceiling_total ex_request = 51
   \<and> wf_request (increment_panel_quantities ex_request 1)
   \<and> length (prm_panels (params_of (increment_panel_quantities ex_request 1))) = 5"
proof -
  have "get_total_panel_quantity (increment_panel_quantities ex_request 1) = 5"
    and "ceiling_total ex_request = 51"
    and "length (prm_panels (params_of (increment_panel_quantities ex_request 1))) = 5"
    by (simp_all add: get_total_panel_quantity_def ceiling_total_def ex_defs expand_panels_Cons)
  with retry_safety [OF reachable_ex_retry] reachable_ex_retry wf_ex_request show ?thesis
    by simp
qed

end
