(* ===== verification/Retry_Reference.thy ===== *)
theory Retry_Reference
  imports Retry_Controller
begin

text \<open>
  What \<open>calculate\<close> answers, said without the loop. An attempt is \<^emph>\<open>refused\<close> when the
  call of the packing library itself raises \<open>UnresolvableError\<close>, and \<^emph>\<open>retried\<close> when
  it is refused at a total quantity below 50. \<open>retries\<close> is the number of leading retried
  attempts among those with every panel quantity raised by \<open>0, 1, 2, ...\<close>, and
  \<open>calculate_reference\<close> answers with what the attempt after them gives: the response
  assembled from the library's result; the failure that names the total quantity, when
  the library refuses at 50 or more; the failure with the text of any other exception,
  be it the library's or the assembler's.

  The reference is stated over the library's own answers and not over the \<open>try\<close> block
  and the \<open>except\<close> clauses. That the loop computes it rests on three facts: only a
  refusal of the library is ever retried, since nothing the orchestrator raises itself is
  an \<open>UnresolvableError\<close>; a retry raises every quantity by one and keeps everything
  else; and the ceiling is tested with \<open>< 50\<close> on the total of the attempt that was
  refused.
\<close>

section \<open>The reference\<close>

definition refused :: "solver \<Rightarrow> Method \<Rightarrow> UserParams \<Rightarrow> bool" where
  "refused solve m u \<longleftrightarrow>
     (case invoke solve m u of Inl e \<Rightarrow> is_unresolvable e | Inr raw \<Rightarrow> False)"

definition retried :: "solver \<Rightarrow> Method \<Rightarrow> UserParams \<Rightarrow> bool" where
  "retried solve m u \<longleftrightarrow> refused solve m u \<and> get_total_panel_quantity u < 50"

definition answer_of :: "solver \<Rightarrow> Method \<Rightarrow> UserParams \<Rightarrow> CalculationResponse" where
  "answer_of solve m u =
     (case invoke solve m u of
        Inl e \<Rightarrow>
          failure_response
            (if is_unresolvable e then unresolvable_message (get_total_panel_quantity u)
             else exception_message e)
      | Inr raw \<Rightarrow>
          (case transform_result raw u of
             Inr response \<Rightarrow> response
           | Inl e \<Rightarrow> failure_response (exception_message e)))"

definition retries :: "solver \<Rightarrow> Method \<Rightarrow> UserParams \<Rightarrow> nat" where
  "retries solve m u =
     length (takeWhile (\<lambda>k. retried solve m (increment_panel_quantities u (int k)))
       [0..<nat (50 - get_total_panel_quantity u)])"

definition calculate_reference :: "solver \<Rightarrow> UserParams \<Rightarrow> string \<Rightarrow> CalculationResponse py" where
  "calculate_reference solve u name =
     (case method_map name of
        None \<Rightarrow> Raise (ValueError (''Unknown method: '' @ name))
      | Some m \<Rightarrow>
          Return (answer_of solve m (increment_panel_quantities u (int (retries solve m u)))))"

section \<open>One pass and the reference\<close>

text \<open>The three ways a pass can go, in terms of the reference.\<close>

lemma attempt_answered:
  "attempt solve m u = Return r \<Longrightarrow> \<not> retried solve m u \<and> answer_of solve m u = r"
  by (auto simp: attempt_def retried_def refused_def answer_of_def bind_result_eq_Inr_iff)

lemma attempt_given_up:
  assumes "attempt solve m u = Raise e" and "handle_exception u e = Some r"
  shows "\<not> retried solve m u \<and> answer_of solve m u = r"
proof (cases "invoke solve m u")
  case (Inl e')
  with assms show ?thesis
    by (auto simp: attempt_def retried_def refused_def answer_of_def handle_exception_def Let_def
        split: if_splits)
next
  case (Inr raw)
  with assms(1) have raised: "transform_result raw u = Raise e"
    by (simp add: attempt_def)
  then have "\<not> is_unresolvable e"
    by (rule transform_result_raises)
  with assms(2) Inr raised show ?thesis
    by (simp add: retried_def refused_def answer_of_def handle_exception_def)
qed

lemma attempt_retried:
  assumes "attempt solve m u = Raise e" and "handle_exception u e = None"
  shows "retried solve m u"
proof (cases "invoke solve m u")
  case (Inl e')
  with assms show ?thesis
    by (simp add: attempt_def retried_def refused_def handle_exception_None_iff)
next
  case (Inr raw)
  with assms(1) have "transform_result raw u = Raise e"
    by (simp add: attempt_def)
  with assms(2) show ?thesis
    by (auto simp: handle_exception_None_iff dest: transform_result_raises)
qed

section \<open>Counting the retries\<close>

lemma takeWhile_snoc_not: "\<not> P x \<Longrightarrow> takeWhile P (xs @ [x]) = takeWhile P xs"
  by (induction xs) simp_all

text \<open>Numbers from which the property fails for good can be left off the range.\<close>

lemma takeWhile_upt_cut:
  assumes "a \<le> b" and "\<And>k. a \<le> k \<Longrightarrow> \<not> P k"
  shows "takeWhile P [0..<b] = takeWhile P [0..<a]"
  using assms(1)
proof (induction rule: dec_induct)
  case base
  show ?case ..
next
  case (step b)
  with assms(2) [of b] show ?case
    by (simp add: takeWhile_snoc_not)
qed

lemma retries_0: "\<not> retried solve m u \<Longrightarrow> retries solve m u = 0"
  by (cases "nat (50 - get_total_panel_quantity u)") (simp_all add: retries_def upt_rec)

lemma retried_nonempty: "retried solve m u \<Longrightarrow> up_panels u \<noteq> []"
  by (auto simp: retried_def refused_def split: sum.splits dest: invoke_unresolvable_nonempty)

lemma retries_Suc:
  assumes "retried solve m u"
  shows "retries solve m u = Suc (retries solve m (increment_panel_quantities u 1))"
proof -
  let ?P = "\<lambda>u k. retried solve m (increment_panel_quantities u (int k))"
  let ?u = "increment_panel_quantities u 1"
  define N where "N = nat (50 - get_total_panel_quantity u)"
  define N' where "N' = nat (50 - get_total_panel_quantity ?u)"
  define L where "L = int (length (up_panels u))"
  from assms have lt: "get_total_panel_quantity u < 50"
    by (simp add: retried_def)
  from retried_nonempty [OF assms] have L: "1 \<le> L"
    by (cases "up_panels u") (simp_all add: L_def)
  from lt obtain M where M: "N = Suc M"
    by (cases N) (simp_all add: N_def)
  from L M have le: "N' \<le> M"
    by (simp add: N_def N'_def total_increment L_def [symmetric])
  have "\<not> ?P ?u k" if "N' \<le> k" for k
  proof -
    from L have "int k \<le> L * int k"
      by (simp add: mult_le_cancel_right1)
    with that L have "50 \<le> get_total_panel_quantity u + L * (1 + int k)"
      by (simp add: N'_def total_increment L_def [symmetric] algebra_simps)
    then show ?thesis
      by (simp add: retried_def total_increment L_def)
  qed
  with le have cut: "takeWhile (?P ?u) [0..<M] = takeWhile (?P ?u) [0..<N']"
    by (rule takeWhile_upt_cut)
  have "[0..<N] = 0 # map Suc [0..<M]"
    by (simp add: M upt_conv_Cons map_Suc_upt del: upt_Suc)
  moreover have "?P u 0"
    using assms by simp
  moreover have "?P u \<circ> Suc = ?P ?u"
    by (simp add: fun_eq_iff add.commute)
  ultimately have "takeWhile (?P u) [0..<N] = 0 # map Suc (takeWhile (?P ?u) [0..<M])"
    by (simp add: takeWhile_map)
  with cut show ?thesis
    by (simp add: retries_def N_def N'_def)
qed

section \<open>The loop computes the reference\<close>

lemma calculate_loop_reference:
  "calculate_loop solve m u
     = answer_of solve m (increment_panel_quantities u (int (retries solve m u)))"
proof (induction solve m u rule: calculate_loop.induct)
  case (1 solve m u)
  show ?case
  proof (cases "attempt solve m u")
    case (Inr r)
    with attempt_answered [of solve m u r] show ?thesis
      by (simp add: calculate_loop_success retries_0)
  next
    case (Inl e)
    show ?thesis
    proof (cases "handle_exception u e")
      case (Some r)
      with Inl attempt_given_up [of solve m u e r] show ?thesis
        by (simp add: calculate_loop_handled retries_0)
    next
      case None
      with Inl have "retried solve m u"
        by (simp add: attempt_retried)
      with "1.IH" [OF Inl None] Inl None show ?thesis
        by (simp add: calculate_loop_retry retries_Suc add.commute)
    qed
  qed
qed

text \<open>C11. \<open>calculate\<close> answers as the loop-free reference says: for an unknown method
  name it raises \<open>ValueError\<close>; otherwise it answers with the outcome of the first
  attempt, counting from the request as sent and raising every panel quantity by one
  each time, that the packing library does not refuse with \<open>UnresolvableError\<close> at a
  total quantity below 50. That outcome is the assembled response, or the failure
  naming the total when the library refuses at 50 or more, or the failure with the
  text of any other exception.\<close>

theorem calculate_is_reference:
  "calculate solve u method = calculate_reference solve u method"
  by (simp add: calculate_def calculate_reference_def calculate_loop_reference
      split: option.split)

end
