(* ===== verification/Grain_Reference.thy ===== *)
theory Grain_Reference
  imports Result_Assembler
begin

text \<open>
  A reference for the grain comparison of the result assembler. \<open>transform_result\<close>
  compares the grain of every placed item with the grain of the first panel
  specification of the request. The reference, \<open>transform_result_reference\<close>,
  compares it with the grain of the panel specification the placement lies on, found
  from the panel identifier of the placement; everything else it does as
  \<open>transform_result_spec\<close>.

  The lemmas show that the display of a placement depends on the panel it is compared
  with through the grain only, and the theorem that \<open>transform_result\<close> is the
  reference for every request whose panel specifications have one grain. For the
  example request, whose two panel specifications differ in grain, the two differ.
\<close>

section \<open>The panel a placement lies on\<close>

text \<open>The panel specification a unit identifier belongs to: the first whose units
  have the identifier.\<close>

definition panel_spec_of :: "PanelInput list \<Rightarrow> string \<Rightarrow> PanelInput option" where
  "panel_spec_of panels pid =
     find (\<lambda>p. pid \<in> set (unit_ids (pin_name p) (pin_quantity p))) panels"

definition assigned_panel :: "PanelInput list \<Rightarrow> string \<Rightarrow> PanelInput" where
  "assigned_panel panels pid =
     (case panel_spec_of panels pid of None \<Rightarrow> hd panels | Some p \<Rightarrow> p)"

definition uniform_grain :: "PanelInput list \<Rightarrow> bool" where
  "uniform_grain panels \<longleftrightarrow> list_all (\<lambda>p. pin_grain p = pin_grain (hd panels)) panels"

section \<open>The reference\<close>

definition assemble_panel_reference ::
  "PanelInput list \<Rightarrow> panel_mapping \<Rightarrow> item_mapping \<Rightarrow> UsedJson list \<Rightarrow> UnusedJson list
     \<Rightarrow> string \<Rightarrow> PanelOutput" where
  "assemble_panel_reference panels panel_map item_map used unused k =
     \<lparr>po_panel_id = k,
      po_panel_name = pdt_name (the (panel_map k)),
      po_width = pdt_width (the (panel_map k)),
      po_height = pdt_height (the (panel_map k)),
      po_used_items = map (\<lambda>u. transform_used_item_for_display u item_map (assigned_panel panels k))
         (filter (\<lambda>u. uj_panel u = k) used),
      po_unused_areas = map unused_area_of (filter (\<lambda>a. nj_panel a = k) unused)\<rparr>"

definition transform_result_reference :: "RawResult \<Rightarrow> UserParams \<Rightarrow> CalculationResponse py" where
  "transform_result_reference result user_params =
     (case up_panels user_params of
        [] \<Rightarrow> Raise IndexError
      | panel0 # _ \<Rightarrow>
          let panel_map = create_panel_mapping (up_panels user_params);
              item_map = create_item_mapping (up_items user_params) panel0;
              ids = panel_ids (used_of result) (unused_of result)
          in (case find (\<lambda>k. panel_map k = None) ids of
                Some k \<Rightarrow> Raise (KeyError k)
              | None \<Rightarrow> Return
                  \<lparr>cr_success = True,
                   cr_panels = map (assemble_panel_reference (up_panels user_params) panel_map
                                      item_map (used_of result) (unused_of result))
                                 (sort (remdups ids)),
                   cr_cuts = cuts_of result,
                   cr_summary =
                     [(''total_panels_used'', int (card (set ids))),
                      (''total_items_placed'', int (length (used_of result))),
                      (''total_unused_areas'', int (length (unused_of result)))],
                   cr_error = None\<rparr>))"

section \<open>Facts\<close>

lemma display_grain_cong:
  "pin_grain p = pin_grain p' \<Longrightarrow>
     transform_used_item_for_display x item_map p = transform_used_item_for_display x item_map p'"
  by (simp add: transform_used_item_for_display_def)

lemma uniform_grainD: "uniform_grain panels \<Longrightarrow> p \<in> set panels \<Longrightarrow> pin_grain p = pin_grain (hd panels)"
  by (simp add: uniform_grain_def list_all_iff)

lemma assigned_panel_mem: "panels \<noteq> [] \<Longrightarrow> assigned_panel panels pid \<in> set panels"
  by (auto simp: assigned_panel_def panel_spec_of_def dest: find_Some_holds split: option.splits)

lemma assigned_panel_unit:
  assumes "unique_panel_names panels" and "p \<in> set panels" and "1 \<le> k" and "k \<le> pin_quantity p"
  shows "assigned_panel panels (unit_id (pin_name p) k) = p"
proof -
  let ?P = "\<lambda>q. unit_id (pin_name p) k \<in> set (unit_ids (pin_name q) (pin_quantity q))"
  from assms(2-4) have "?P p"
    by (simp add: set_unit_ids)
  with assms(2) obtain q where q: "find ?P panels = Some q"
    by (cases "find ?P panels") (auto simp: find_None_iff)
  then have "q \<in> set panels" and "?P q"
    by (auto dest: find_Some_holds)
  then have "pin_name q = pin_name p"
    by (auto simp: set_unit_ids)
  with assms(1,2) \<open>q \<in> set panels\<close> have "q = p"
    by (auto simp: unique_panel_names_def distinct_map inj_on_def)
  with q show ?thesis
    by (simp add: assigned_panel_def panel_spec_of_def)
qed

lemma assemble_panel_uniform:
  assumes "uniform_grain (panel0 # ps)"
  shows "assemble_panel_reference (panel0 # ps) panel_map item_map used unused k
       = assemble_panel panel_map item_map panel0 used unused k"
proof -
  have "assigned_panel (panel0 # ps) k \<in> set (panel0 # ps)"
    by (rule assigned_panel_mem) simp
  with assms have "pin_grain (assigned_panel (panel0 # ps) k) = pin_grain panel0"
    by (auto dest: uniform_grainD)
  then show ?thesis
    by (simp add: assemble_panel_reference_def assemble_panel_def
        display_grain_cong [of "assigned_panel (panel0 # ps) k" panel0])
qed

section \<open>The code and the reference\<close>

text \<open>C28. For a request whose panel specifications all have the grain of the first,
  \<open>transform_result\<close> is the reference that compares every item with the panel it
  lies on: same responses, same exceptions.\<close>

theorem uniform_grain_conforms:
  assumes "uniform_grain (up_panels user_params)"
  shows "transform_result result user_params = transform_result_reference result user_params"
proof (cases "up_panels user_params")
  case Nil
  then show ?thesis
    by (simp add: transform_result_Nil transform_result_reference_def)
next
  case (Cons panel0 ps)
  with assms show ?thesis
    by (simp add: transform_result_Cons [OF Cons] transform_result_reference_def Let_def
        assemble_panel_uniform split: option.splits)
qed

text \<open>The example request with the board turned to the grain of the sheet, and the
  example request itself, where the door on the board is shown differently.\<close>

definition ex_response_reference :: CalculationResponse where
  "ex_response_reference =
     ex_response\<lparr>cr_panels :=
       [\<lparr>po_panel_id = ''Board_1'', po_panel_name = ''Board'', po_width = 1000, po_height = 600,
         po_used_items = [(ex_door_shown ''Door_1'' 0 False)
            \<lparr>ui_engraved_line := Line_horizontal, ui_borders := iin_borders ex_door\<rparr>],
         po_unused_areas = [\<lparr>ua_width = 697, ua_height = 600, ua_x = 303, ua_y = 0\<rparr>]\<rparr>,
        cr_panels ex_response ! 1]\<rparr>"

lemma transform_result_reference_ex:
  "transform_result_reference ex_result ex_request = Return ex_response_reference"
  unfolding transform_result_reference_def Let_def card_set
  apply (simp add: ex_result_def used_of_def unused_of_def cuts_of_def panel_ids_def ex_request_def)
  apply (simp add: ex_defs create_panel_mapping_eq panel_entries_def eval_ids panel_details_def)
  apply (simp add: assemble_panel_reference_def assigned_panel_def panel_spec_of_def
      create_item_mapping_eq item_entries_def item_details_def eval_ids
      transform_used_item_for_display_def Let_def dict_get_def rotate_borders_def
      flip_engraved_line_def unused_area_of_def transform_item_for_calculation_def
      ex_response_reference_def ex_response_defs)
  apply (simp add: ex_door_def)
  done

lemma reference_differs:
  "transform_result ex_result ex_request \<noteq> transform_result_reference ex_result ex_request"
  by (simp add: transform_result_ex transform_result_reference_ex ex_response_reference_def
      ex_response_defs ex_door_def)

theorem uniform_grain_conforms_witness:
  "uniform_grain (up_panels (ex_request\<lparr>up_panels := [ex_sheet, ex_board\<lparr>pin_grain := Vertical\<rparr>]\<rparr>))
   \<and> transform_result ex_result (ex_request\<lparr>up_panels := [ex_sheet, ex_board\<lparr>pin_grain := Vertical\<rparr>]\<rparr>)
     = transform_result_reference ex_result
         (ex_request\<lparr>up_panels := [ex_sheet, ex_board\<lparr>pin_grain := Vertical\<rparr>]\<rparr>)
   \<and> \<not> uniform_grain (up_panels ex_request)
   \<and> transform_result ex_result ex_request \<noteq> transform_result_reference ex_result ex_request"
proof -
  have u: "uniform_grain (up_panels (ex_request\<lparr>up_panels := [ex_sheet, ex_board\<lparr>pin_grain := Vertical\<rparr>]\<rparr>))"
    and n: "\<not> uniform_grain (up_panels ex_request)"
    by (simp_all add: uniform_grain_def ex_defs)
  from uniform_grain_conforms [OF u, of ex_result] u n reference_differs show ?thesis
    by simp
qed

end
