(* ===== verification/Layout.thy ===== *)
theory Layout
  imports Retry_Safety
begin

text \<open>
  The geometry of a cutting plan, on both sides of the packing library. The library
  places the units it is given: a placement is an item unit at a position on a panel
  unit, turned by a quarter or not. The response shows placed items with a position,
  a size and the same flag. \<open>valid_packing\<close> says what the orchestrator may expect of
  an answer of the library, \<open>valid_plan\<close> what a caller may expect of a response; both
  are stated over the rectangles the placements occupy.

  The lemmas show that the rectangle a placement is shown with is the rectangle the
  library gave it, and that the panel it is shown on has the size of the panel unit
  the library put it on, for a request with unique names. The theorem follows: when
  the library keeps its side, every successful response of \<open>calculate\<close> is a valid
  plan for the request with the quantities of the attempt that succeeded, and every
  other response answers an exception of the library.
\<close>

section \<open>Rectangles\<close>

record rect =
  r_x :: real
  r_y :: real
  r_width :: real
  r_height :: real

text \<open>The rectangle of a piece of the given size at a position, turned or not.\<close>

definition occupied :: "real \<Rightarrow> real \<Rightarrow> bool \<Rightarrow> real \<Rightarrow> real \<Rightarrow> rect" where
  "occupied x y turned w h =
     (if turned then \<lparr>r_x = x, r_y = y, r_width = h, r_height = w\<rparr>
      else \<lparr>r_x = x, r_y = y, r_width = w, r_height = h\<rparr>)"

definition fits_in :: "real \<Rightarrow> real \<Rightarrow> rect \<Rightarrow> bool" where
  "fits_in w h r \<longleftrightarrow> 0 \<le> r_x r \<and> 0 \<le> r_y r \<and> r_x r + r_width r \<le> w \<and> r_y r + r_height r \<le> h"

text \<open>Two rectangles with room for a saw cut of width \<open>k\<close> between them.\<close>

definition apart :: "real \<Rightarrow> rect \<Rightarrow> rect \<Rightarrow> bool" where
  "apart k a b \<longleftrightarrow>
     r_x a + r_width a + k \<le> r_x b \<or> r_x b + r_width b + k \<le> r_x a
     \<or> r_y a + r_height a + k \<le> r_y b \<or> r_y b + r_height b + k \<le> r_y a"

section \<open>What the library places\<close>

definition item_unit :: "Item list \<Rightarrow> string \<Rightarrow> Item option" where
  "item_unit items k = find (\<lambda>it. ci_id it = k) items"

definition placement_rect :: "Item list \<Rightarrow> UsedJson \<Rightarrow> rect" where
  "placement_rect items x =
     (case item_unit items (uj_item x) of
        Some it \<Rightarrow> occupied (uj_x x) (uj_y x) (uj_rotate x) (ci_width it) (ci_height it)
      | None \<Rightarrow> occupied (uj_x x) (uj_y x) (uj_rotate x) 0 0)"

definition on_panel :: "string \<Rightarrow> UsedJson list \<Rightarrow> UsedJson list" where
  "on_panel k used = filter (\<lambda>x. uj_panel x = k) used"

text \<open>An answer of the library to the parameters \<open>prm\<close>: every item unit is placed
  once, on a panel unit it was given and inside it, turned only if it may be; the
  placements carry no size of their own; placements on one panel unit are a saw cut
  apart; and the unused regions lie on panel units that were given.\<close>

definition valid_packing :: "Params \<Rightarrow> RawResult \<Rightarrow> bool" where
  "valid_packing prm raw \<longleftrightarrow>
     mset (map uj_item (used_of raw)) = mset (map ci_id (prm_items prm))
     \<and> list_all (\<lambda>x. uj_width x = None \<and> uj_height x = None
          \<and> list_ex (\<lambda>it. ci_id it = uj_item x \<and> (if uj_rotate x then ci_can_rotate it else True))
               (prm_items prm)
          \<and> list_ex (\<lambda>p. cp_id p = uj_panel x
                \<and> fits_in (cp_width p) (cp_height p) (placement_rect (prm_items prm) x))
               (prm_panels prm))
         (used_of raw)
     \<and> list_all (\<lambda>p. sorted_wrt (apart (prm_cut_width prm))
          (map (placement_rect (prm_items prm)) (on_panel (cp_id p) (used_of raw))))
         (prm_panels prm)
     \<and> list_all (\<lambda>a. list_ex (\<lambda>p. cp_id p = nj_panel a) (prm_panels prm)) (unused_of raw)"

text \<open>The library keeps its side: whatever it returns is a valid packing of what it
  was given.\<close>

definition honest :: "solver \<Rightarrow> Method \<Rightarrow> bool" where
  "honest solve m \<longleftrightarrow> (\<forall>prm raw. solve m prm = Return raw \<longrightarrow> valid_packing prm raw)"

text \<open>A stand-in for the library that keeps the contract: it wants at least \<open>n\<close>
  panel units and then lays the item units side by side along the lower edge of
  the first one, a saw cut apart, none turned; it refuses when they do not fit
  that way.\<close>

fun row :: "real \<Rightarrow> string \<Rightarrow> real \<Rightarrow> Item list \<Rightarrow> UsedJson list" where
  "row k pid x [] = []"
| "row k pid x (it # its) =
     \<lparr>uj_panel = pid, uj_item = ci_id it, uj_x = x, uj_y = 0, uj_rotate = False,
      uj_width = None, uj_height = None\<rparr> # row k pid (x + ci_width it + k) its"

fun row_rects :: "real \<Rightarrow> real \<Rightarrow> Item list \<Rightarrow> rect list" where
  "row_rects k x [] = []"
| "row_rects k x (it # its) =
     \<lparr>r_x = x, r_y = 0, r_width = ci_width it, r_height = ci_height it\<rparr>
       # row_rects k (x + ci_width it + k) its"

definition row_fits :: "real \<Rightarrow> Panel \<Rightarrow> Item list \<Rightarrow> bool" where
  "row_fits k p its \<longleftrightarrow> 0 \<le> k \<and> distinct (map ci_id its)
     \<and> list_all (\<lambda>it. 0 \<le> ci_width it \<and> 0 \<le> ci_height it \<and> ci_height it \<le> cp_height p) its
     \<and> (\<Sum>it\<leftarrow>its. ci_width it + k) \<le> cp_width p"

definition rows_from :: "nat \<Rightarrow> solver" where
  "rows_from n m prm =
     (case prm_panels prm of
        [] \<Rightarrow> Raise (UnresolvableError ''no fit'')
      | p # ps \<Rightarrow>
          if n \<le> length (prm_panels prm) \<and> row_fits (prm_cut_width prm) p (prm_items prm)
          then Return \<lparr>rr_used = Some (row (prm_cut_width prm) (cp_id p) 0 (prm_items prm)),
                 rr_unused = Some [], rr_cuts = None\<rparr>
          else Raise (UnresolvableError ''no fit''))"

section \<open>What the response shows\<close>

definition shown_rect :: "UsedItem \<Rightarrow> rect" where
  "shown_rect i = occupied (ui_x i) (ui_y i) (ui_rotate i) (ui_width i) (ui_height i)"

text \<open>The specification a unit identifier belongs to.\<close>

definition panel_of :: "PanelInput list \<Rightarrow> string \<Rightarrow> PanelInput option" where
  "panel_of panels k = find (\<lambda>p. k \<in> set (unit_ids (pin_name p) (pin_quantity p))) panels"

definition item_of :: "ItemInput list \<Rightarrow> string \<Rightarrow> ItemInput option" where
  "item_of items k = find (\<lambda>i. k \<in> set (unit_ids (iin_name i) (iin_quantity i))) items"

text \<open>A plan for the request \<open>u\<close>: every item unit of the request is shown once; an item
  is shown under the name and with the grain of its specification, and its rectangle
  has the area the specification declares; a panel is shown once, it is a panel unit
  of the request and has the size of its specification; the items on a panel lie
  inside it, a saw cut apart.\<close>

definition shown_item_ok :: "UserParams \<Rightarrow> UsedItem \<Rightarrow> bool" where
  "shown_item_ok u i \<longleftrightarrow>
     (case item_of (up_items u) (ui_item_id i) of
        None \<Rightarrow> False
      | Some s \<Rightarrow> ui_name i = iin_name s \<and> ui_grain i = iin_grain s
          \<and> r_width (shown_rect i) * r_height (shown_rect i) = iin_width s * iin_height s
          \<and> (if ui_rotate i then iin_isRotate s else True))"

definition shown_panel_ok :: "UserParams \<Rightarrow> PanelOutput \<Rightarrow> bool" where
  "shown_panel_ok u p \<longleftrightarrow>
     (case panel_of (up_panels u) (po_panel_id p) of
        None \<Rightarrow> False
      | Some s \<Rightarrow> po_panel_name p = pin_name s \<and> po_width p = pin_width s
          \<and> po_height p = pin_height s)
     \<and> list_all (shown_item_ok u) (po_used_items p)
     \<and> list_all (fits_in (po_width p) (po_height p)) (map shown_rect (po_used_items p))
     \<and> sorted_wrt (apart (up_cut_width u)) (map shown_rect (po_used_items p))"

definition valid_plan :: "UserParams \<Rightarrow> CalculationResponse \<Rightarrow> bool" where
  "valid_plan u r \<longleftrightarrow>
     cr_success r
     \<and> mset (map ui_item_id (concat (map po_used_items (cr_panels r))))
         = mset (concat (map (\<lambda>i. unit_ids (iin_name i) (iin_quantity i)) (up_items u)))
     \<and> distinct (map po_panel_id (cr_panels r))
     \<and> list_all (shown_panel_ok u) (cr_panels r)"

section \<open>Units and their specifications\<close>

text \<open>With unique names an identifier is a unit of one specification only, so the
  first specification that has it is the one.\<close>

lemma find_unit_owner:
  assumes "distinct (map nm xs)" and "s \<in> set xs" and "k \<in> set (unit_ids (nm s) (qty s))"
  shows "find (\<lambda>x. k \<in> set (unit_ids (nm x) (qty x))) xs = Some s"
proof -
  from assms(2,3) obtain s' where s': "find (\<lambda>x. k \<in> set (unit_ids (nm x) (qty x))) xs = Some s'"
    by (cases "find (\<lambda>x. k \<in> set (unit_ids (nm x) (qty x))) xs") (auto simp: find_None_iff)
  then have "s' \<in> set xs" and "k \<in> set (unit_ids (nm s') (qty s'))"
    by (auto dest: find_Some_holds)
  with assms(3) have "nm s' = nm s"
    using unit_ids_disjoint [of "nm s'" "nm s" "qty s'" "qty s"] by auto
  with assms(1,2) \<open>s' \<in> set xs\<close> have "s' = s"
    by (auto simp: distinct_map dest: inj_onD)
  with s' show ?thesis by simp
qed

lemma panel_of_unit:
  "unique_panel_names ps \<Longrightarrow> s \<in> set ps \<Longrightarrow> k \<in> set (unit_ids (pin_name s) (pin_quantity s))
     \<Longrightarrow> panel_of ps k = Some s"
  unfolding panel_of_def unique_panel_names_def by (rule find_unit_owner)

lemma item_of_unit:
  "unique_item_names its \<Longrightarrow> s \<in> set its \<Longrightarrow> k \<in> set (unit_ids (iin_name s) (iin_quantity s))
     \<Longrightarrow> item_of its k = Some s"
  unfolding item_of_def unique_item_names_def by (rule find_unit_owner)

text \<open>A unit handed to the library, its specification and its entry in the
  dictionary.\<close>

lemma panel_unit_owner:
  assumes "unique_panel_names ps" and "P \<in> set (expand_panels ps)"
  obtains s where "s \<in> set ps" and "panel_of ps (cp_id P) = Some s"
    and "create_panel_mapping ps (cp_id P) = Some (panel_details s)"
    and "cp_width P = pin_width s" and "cp_height P = pin_height s"
proof -
  from assms(2) obtain s i where s: "s \<in> set ps" and i: "i \<in> set (py_range (pin_quantity s))"
    and P: "P = \<lparr>cp_id = unit_id (pin_name s) (i + 1), cp_width = pin_width s,
      cp_height = pin_height s\<rparr>"
    by (auto simp: expand_panels_def)
  from i have k: "cp_id P \<in> set (unit_ids (pin_name s) (pin_quantity s))"
    by (simp add: P unit_ids_def)
  with assms(1) s have "create_panel_mapping ps (cp_id P) = Some (panel_details s)"
    by (intro create_panel_mapping_entry) (auto simp: panel_entry_mem)
  with s k P assms(1) that [of s] show thesis
    by (simp add: panel_of_unit)
qed

lemma item_unit_owner:
  assumes "unique_item_names its" and "it \<in> set (expand_items its p0)"
  obtains s where "s \<in> set its" and "item_of its (ci_id it) = Some s"
    and "create_item_mapping its p0 (ci_id it) = Some (item_details p0 s)"
    and "ci_width it = idt_width (item_details p0 s)"
    and "ci_height it = idt_height (item_details p0 s)"
    and "ci_can_rotate it = iin_isRotate s"
proof -
  from assms(2) obtain s i where s: "s \<in> set its" and i: "i \<in> set (py_range (iin_quantity s))"
    and it: "it = \<lparr>ci_id = unit_id (iin_name s) (i + 1),
      ci_width = ti_width (transform_item_for_calculation s p0),
      ci_height = ti_height (transform_item_for_calculation s p0),
      ci_can_rotate = iin_isRotate s\<rparr>"
    by (auto simp: expand_items_def Let_def)
  from i have k: "ci_id it \<in> set (unit_ids (iin_name s) (iin_quantity s))"
    by (simp add: it unit_ids_def)
  with assms(1) s have "create_item_mapping its p0 (ci_id it) = Some (item_details p0 s)"
    by (intro create_item_mapping_entry) (auto simp: item_entry_mem)
  with s k it assms(1) that [of s] show thesis
    by (simp add: item_of_unit item_details_def)
qed

section \<open>A placement, as given and as shown\<close>

lemma item_unit_found:
  assumes "k \<in> ci_id ` set items"
  obtains it where "item_unit items k = Some it" and "it \<in> set items" and "ci_id it = k"
proof -
  from assms obtain it where "item_unit items k = Some it"
    unfolding item_unit_def by (cases "find (\<lambda>it. ci_id it = k) items") (auto simp: find_None_iff)
  with that show thesis
    by (auto simp: item_unit_def dest: find_Some_holds)
qed

text \<open>The rectangle shown is the rectangle the library placed.\<close>

lemma shown_rect_placement:
  assumes "unique_item_names its" and "uj_item x \<in> ci_id ` set (expand_items its p0)"
    and "uj_width x = None" and "uj_height x = None"
  shows "shown_rect (transform_used_item_for_display x (create_item_mapping its p0) p0)
       = placement_rect (expand_items its p0) x"
proof -
  from assms(2) obtain it where it: "item_unit (expand_items its p0) (uj_item x) = Some it"
    "it \<in> set (expand_items its p0)" "ci_id it = uj_item x"
    by (rule item_unit_found)
  from assms(1) it(2) obtain s
    where "create_item_mapping its p0 (ci_id it) = Some (item_details p0 s)"
      and "ci_width it = idt_width (item_details p0 s)"
      and "ci_height it = idt_height (item_details p0 s)"
    by (rule item_unit_owner)
  with it assms(3,4) show ?thesis
    by (simp add: shown_rect_def placement_rect_def display_known)
qed

lemma area_occupied [simp]:
  "r_width (occupied x y t w h) * r_height (occupied x y t w h) = w * h"
  by (simp add: occupied_def)

lemma shown_item:
  assumes "unique_item_names (up_items u)"
    and "list_ex (\<lambda>it. ci_id it = uj_item x \<and> (if uj_rotate x then ci_can_rotate it else True))
           (expand_items (up_items u) p0)"
    and "uj_width x = None" and "uj_height x = None"
  shows "shown_item_ok u
    (transform_used_item_for_display x (create_item_mapping (up_items u) p0) p0)"
proof -
  from assms(2) obtain it where it: "it \<in> set (expand_items (up_items u) p0)"
    "ci_id it = uj_item x" "if uj_rotate x then ci_can_rotate it else True"
    by (auto simp: list_ex_iff)
  from assms(1) it(1) obtain s where "item_of (up_items u) (ci_id it) = Some s"
    and "create_item_mapping (up_items u) p0 (ci_id it) = Some (item_details p0 s)"
    and "ci_can_rotate it = iin_isRotate s"
    by (rule item_unit_owner)
  with it assms(3,4) show ?thesis
    by (auto simp: shown_item_ok_def shown_rect_def display_known item_details_def
        split: if_splits)
qed

section \<open>From a valid packing to a valid plan\<close>

lemma valid_packingD:
  assumes "valid_packing prm raw"
  shows "mset (map uj_item (used_of raw)) = mset (map ci_id (prm_items prm))"
    and "x \<in> set (used_of raw) \<Longrightarrow> uj_width x = None \<and> uj_height x = None
          \<and> uj_item x \<in> ci_id ` set (prm_items prm)
          \<and> list_ex (\<lambda>it. ci_id it = uj_item x \<and> (if uj_rotate x then ci_can_rotate it else True))
               (prm_items prm)"
    and "x \<in> set (used_of raw) \<Longrightarrow> \<exists>p\<in>set (prm_panels prm). cp_id p = uj_panel x
          \<and> fits_in (cp_width p) (cp_height p) (placement_rect (prm_items prm) x)"
    and "p \<in> set (prm_panels prm) \<Longrightarrow> sorted_wrt (apart (prm_cut_width prm))
          (map (placement_rect (prm_items prm)) (on_panel (cp_id p) (used_of raw)))"
    and "a \<in> set (unused_of raw) \<Longrightarrow> nj_panel a \<in> cp_id ` set (prm_panels prm)"
proof -
  from assms have all: "list_all (\<lambda>x. uj_width x = None \<and> uj_height x = None
      \<and> list_ex (\<lambda>it. ci_id it = uj_item x \<and> (if uj_rotate x then ci_can_rotate it else True))
           (prm_items prm)
      \<and> list_ex (\<lambda>p. cp_id p = uj_panel x
           \<and> fits_in (cp_width p) (cp_height p) (placement_rect (prm_items prm) x))
           (prm_panels prm)) (used_of raw)"
    by (simp add: valid_packing_def)
  from assms show "mset (map uj_item (used_of raw)) = mset (map ci_id (prm_items prm))"
    by (simp add: valid_packing_def)
  from all show "uj_width x = None \<and> uj_height x = None
      \<and> uj_item x \<in> ci_id ` set (prm_items prm)
      \<and> list_ex (\<lambda>it. ci_id it = uj_item x \<and> (if uj_rotate x then ci_can_rotate it else True))
           (prm_items prm)" if "x \<in> set (used_of raw)"
    using that unfolding list_all_iff list_ex_iff by force
  from all show "\<exists>p\<in>set (prm_panels prm). cp_id p = uj_panel x
      \<and> fits_in (cp_width p) (cp_height p) (placement_rect (prm_items prm) x)"
    if "x \<in> set (used_of raw)"
    using that unfolding list_all_iff list_ex_iff by blast
  from assms show "sorted_wrt (apart (prm_cut_width prm))
      (map (placement_rect (prm_items prm)) (on_panel (cp_id p) (used_of raw)))"
    if "p \<in> set (prm_panels prm)"
    using that by (simp add: valid_packing_def list_all_iff)
  from assms show "nj_panel a \<in> cp_id ` set (prm_panels prm)" if "a \<in> set (unused_of raw)"
    using that by (force simp: valid_packing_def list_all_iff list_ex_iff)
qed

lemma valid_packing_panel_ids:
  assumes "valid_packing prm raw"
  shows "set (panel_ids (used_of raw) (unused_of raw)) \<subseteq> cp_id ` set (prm_panels prm)"
proof
  fix k
  assume "k \<in> set (panel_ids (used_of raw) (unused_of raw))"
  then consider x where "x \<in> set (used_of raw)" "k = uj_panel x"
    | a where "a \<in> set (unused_of raw)" "k = nj_panel a"
    by (auto simp: panel_ids_def)
  then show "k \<in> cp_id ` set (prm_panels prm)"
  proof cases
    case 1
    with valid_packingD(3) [OF assms 1(1)] show ?thesis
      by force
  next
    case 2
    with valid_packingD(5) [OF assms 2(1)] show ?thesis
      by simp
  qed
qed

text \<open>A placement of a valid packing is shown as it was placed, and it fits the
  specification of the panel it names.\<close>

lemma shown_as_placed:
  assumes "wf_request u" and "up_panels u = p0 # rest"
    and "valid_packing (params_of u) raw" and "x \<in> set (used_of raw)"
  shows "shown_item_ok u (transform_used_item_for_display x (create_item_mapping (up_items u) p0) p0)"
    and "shown_rect (transform_used_item_for_display x (create_item_mapping (up_items u) p0) p0)
      = placement_rect (expand_items (up_items u) p0) x"
  using valid_packingD(2) [OF assms(3,4)] assms(1)
  by (simp_all add: assms(2) wf_request_def shown_item shown_rect_placement)

lemma placed_on_owner:
  assumes "wf_request u" and "up_panels u = p0 # rest"
    and "valid_packing (params_of u) raw" and "x \<in> set (used_of raw)"
    and "panel_of (up_panels u) (uj_panel x) = Some s"
  shows "fits_in (pin_width s) (pin_height s) (placement_rect (expand_items (up_items u) p0) x)"
proof -
  from valid_packingD(3) [OF assms(3,4)] obtain P
    where P: "P \<in> set (expand_panels (up_panels u))" "cp_id P = uj_panel x"
      "fits_in (cp_width P) (cp_height P) (placement_rect (expand_items (up_items u) p0) x)"
    by (auto simp: assms(2))
  from assms(1) have "unique_panel_names (up_panels u)"
    by (simp add: wf_request_def)
  from this P(1) obtain s' where "panel_of (up_panels u) (cp_id P) = Some s'"
    "cp_width P = pin_width s'" "cp_height P = pin_height s'"
    by (rule panel_unit_owner)
  with assms(5) P(2,3) show ?thesis
    by simp
qed

text \<open>One panel of the response.\<close>

lemma assembled_panel_ok:
  assumes wf: "wf_request u" and ps: "up_panels u = p0 # rest"
    and vp: "valid_packing (params_of u) raw"
    and k: "k \<in> set (panel_ids (used_of raw) (unused_of raw))"
  shows "shown_panel_ok u (assemble_panel (create_panel_mapping (up_panels u))
    (create_item_mapping (up_items u) p0) p0 (used_of raw) (unused_of raw) k)"
proof -
  let ?items = "expand_items (up_items u) p0"
  let ?shown = "\<lambda>x. transform_used_item_for_display x (create_item_mapping (up_items u) p0) p0"
  let ?p = "assemble_panel (create_panel_mapping (up_panels u))
    (create_item_mapping (up_items u) p0) p0 (used_of raw) (unused_of raw) k"
  note shown = shown_as_placed [OF wf ps vp]
  from k valid_packing_panel_ids [OF vp] obtain P
    where P: "P \<in> set (expand_panels (up_panels u))" "cp_id P = k"
    by auto
  from wf have "unique_panel_names (up_panels u)"
    by (simp add: wf_request_def)
  from this P(1) obtain s where s: "panel_of (up_panels u) (cp_id P) = Some s"
    "create_panel_mapping (up_panels u) (cp_id P) = Some (panel_details s)"
    by (rule panel_unit_owner)
  have items: "po_used_items ?p = map ?shown (on_panel k (used_of raw))"
    by (simp add: assemble_panel_def on_panel_def)
  have rects: "map shown_rect (po_used_items ?p)
      = map (placement_rect ?items) (on_panel k (used_of raw))"
    by (simp add: items on_panel_def shown(2))
  have sheet: "po_panel_id ?p = k" "po_panel_name ?p = pin_name s"
    "po_width ?p = pin_width s" "po_height ?p = pin_height s"
    using s(2) P(2) by (simp_all add: assemble_panel_def panel_details_def)
  have "list_all (shown_item_ok u) (po_used_items ?p)"
    by (simp add: items list_all_iff on_panel_def shown(1))
  moreover have "list_all (fits_in (pin_width s) (pin_height s))
      (map (placement_rect ?items) (on_panel k (used_of raw)))"
    using s(1) P(2) by (auto simp: list_all_iff on_panel_def intro: placed_on_owner [OF wf ps vp])
  moreover from valid_packingD(4) [OF vp, of P] P
  have "sorted_wrt (apart (up_cut_width u)) (map (placement_rect ?items) (on_panel k (used_of raw)))"
    by (simp add: ps)
  ultimately show ?thesis
    using s(1) P(2) by (simp add: shown_panel_ok_def rects sheet)
qed

text \<open>The whole response.\<close>

lemma valid_packing_shown:
  assumes wf: "wf_request u" and ne: "up_panels u \<noteq> []"
    and vp: "valid_packing (params_of u) raw"
  shows "\<exists>r. transform_result raw u = Return r \<and> valid_plan u r"
proof -
  let ?ids = "panel_ids (used_of raw) (unused_of raw)"
  let ?p0 = "hd (up_panels u)"
  let ?A = "assemble_panel (create_panel_mapping (up_panels u))
    (create_item_mapping (up_items u) ?p0) ?p0 (used_of raw) (unused_of raw)"
  from ne have ps: "up_panels u = ?p0 # tl (up_panels u)"
    by simp
  from valid_packing_panel_ids [OF vp]
  obtain r where r: "transform_result raw u = Return r"
    using transform_result_returns [OF ne, of raw] by auto
  note shape = transform_result_ReturnD(3) [OF r]
  have panels: "cr_panels r = map ?A (sort (remdups ?ids))"
    by (subst shape) simp
  have "mset (map ui_item_id (concat (map po_used_items (cr_panels r))))
      = mset (map uj_item (used_of raw))"
    unfolding panels map_map comp_def mset_map used_items_assembled
    by (simp add: multiset.map_comp comp_def)
  also have "\<dots> = mset (concat (map (\<lambda>i. unit_ids (iin_name i) (iin_quantity i)) (up_items u)))"
    by (simp only: valid_packingD(1) [OF vp] params_of_fields expand_items_ids)
  finally have units: "mset (map ui_item_id (concat (map po_used_items (cr_panels r))))
      = mset (concat (map (\<lambda>i. unit_ids (iin_name i) (iin_quantity i)) (up_items u)))" .
  have "map po_panel_id (cr_panels r) = sort (remdups ?ids)"
    by (simp add: panels comp_def)
  then have "distinct (map po_panel_id (cr_panels r))"
    by simp
  moreover have "list_all (shown_panel_ok u) (cr_panels r)"
    using assembled_panel_ok [OF wf ps vp] by (simp add: panels list_all_iff)
  moreover have "cr_success r"
    by (subst shape) simp
  ultimately have "valid_plan u r"
    using units by (simp add: valid_plan_def)
  with r show ?thesis
    by blast
qed

section \<open>A library that keeps the contract\<close>

lemma row_ids [simp]: "map uj_item (row k pid x its) = map ci_id its"
  by (induction its arbitrary: x) simp_all

lemma row_fields:
  "j \<in> set (row k pid x its) \<Longrightarrow>
     uj_panel j = pid \<and> \<not> uj_rotate j \<and> uj_width j = None \<and> uj_height j = None"
  by (induction its arbitrary: x) auto

lemma on_panel_row:
  "on_panel pid' (row k pid x its) = (if pid' = pid then row k pid x its else [])"
  by (auto simp: on_panel_def filter_id_conv filter_empty_conv dest: row_fields)

lemma item_unit_distinct:
  "distinct (map ci_id items) \<Longrightarrow> it \<in> set items \<Longrightarrow> item_unit items (ci_id it) = Some it"
  unfolding item_unit_def
  by (induction items) (auto simp: image_iff)

lemma placement_row:
  assumes "distinct (map ci_id items)" and "set its \<subseteq> set items"
  shows "map (placement_rect items) (row k pid x its) = row_rects k x its"
  using assms(2)
  by (induction its arbitrary: x)
     (simp_all add: placement_rect_def item_unit_distinct [OF assms(1)] occupied_def)

lemma row_rects_bounds:
  assumes "0 \<le> k" and "list_all (\<lambda>it. 0 \<le> ci_width it) its" and "r \<in> set (row_rects k x its)"
  shows "x \<le> r_x r \<and> r_x r + r_width r + k \<le> x + (\<Sum>it\<leftarrow>its. ci_width it + k)
    \<and> r_y r = 0 \<and> r_height r \<in> ci_height ` set its"
  using assms(2,3)
proof (induction its arbitrary: x)
  case (Cons it its)
  from assms(1) Cons.prems(1) have "0 \<le> (\<Sum>it\<leftarrow>its. ci_width it + k)"
    by (auto simp: list_all_iff intro!: sum_list_nonneg)
  with assms(1) Cons show ?case
    by (fastforce simp: algebra_simps)
qed simp

lemma row_rects_apart:
  assumes "0 \<le> k" and "list_all (\<lambda>it. 0 \<le> ci_width it) its"
  shows "sorted_wrt (apart k) (row_rects k x its)"
  using assms(2)
proof (induction its arbitrary: x)
  case (Cons it its)
  then have "apart k \<lparr>r_x = x, r_y = 0, r_width = ci_width it, r_height = ci_height it\<rparr> r"
    if "r \<in> set (row_rects k (x + ci_width it + k) its)" for r
    using row_rects_bounds [OF assms(1) _ that] by (simp add: apart_def)
  with Cons show ?case
    by simp
qed simp

lemma row_valid:
  assumes "prm_panels prm = p # ps" and "row_fits (prm_cut_width prm) p (prm_items prm)"
  shows "valid_packing prm \<lparr>rr_used = Some (row (prm_cut_width prm) (cp_id p) 0 (prm_items prm)),
    rr_unused = Some [], rr_cuts = None\<rparr>"
proof -
  let ?k = "prm_cut_width prm" and ?its = "prm_items prm"
  let ?row = "row ?k (cp_id p) 0 ?its"
  from assms(2) have k: "0 \<le> ?k" and ids: "distinct (map ci_id ?its)"
    and w: "list_all (\<lambda>it. 0 \<le> ci_width it) ?its"
    and h: "\<forall>it\<in>set ?its. 0 \<le> ci_height it \<and> ci_height it \<le> cp_height p"
    and len: "(\<Sum>it\<leftarrow>?its. ci_width it + ?k) \<le> cp_width p"
    by (auto simp: row_fits_def list_all_iff)
  have rects: "map (placement_rect ?its) ?row = row_rects ?k 0 ?its"
    using ids by (rule placement_row) simp
  have "fits_in (cp_width p) (cp_height p) (placement_rect ?its j)" if "j \<in> set ?row" for j
  proof -
    from that have "placement_rect ?its j \<in> set (row_rects ?k 0 ?its)"
      unfolding rects [symmetric] by simp
    from row_rects_bounds [OF k w this] h len k show ?thesis
      by (fastforce simp: fits_in_def)
  qed
  moreover have "list_ex (\<lambda>it. ci_id it = uj_item j) ?its" if "j \<in> set ?row" for j
  proof -
    from that have "uj_item j \<in> uj_item ` set ?row"
      by (rule imageI)
    then have "uj_item j \<in> set (map ci_id ?its)"
      by (simp only: set_map [symmetric] row_ids)
    then show ?thesis
      by (auto simp: list_ex_iff)
  qed
  moreover have "sorted_wrt (apart ?k) (map (placement_rect ?its) (on_panel (cp_id q) ?row))" for q
    by (simp add: on_panel_row rects row_rects_apart [OF k w])
  ultimately show ?thesis
    using assms(1) row_fields [of _ ?k "cp_id p" 0 ?its]
    by (auto simp: valid_packing_def used_of_def unused_of_def list_all_iff list_ex_iff)
qed

lemma honest_rows_from: "honest (rows_from n) m"
  unfolding honest_def rows_from_def
  by (auto split: list.splits if_splits intro: row_valid)

section \<open>The plan of a successful response\<close>

lemma attempt_ReturnD:
  assumes "attempt solve m u = Return r"
  obtains raw where "up_panels u \<noteq> []" and "solve m (params_of u) = Return raw"
    and "transform_result raw u = Return r"
proof -
  from assms have ne: "up_panels u \<noteq> []"
    by (auto simp: attempt_def)
  with assms that show thesis
    by (auto simp: attempt_def invoke_Cons bind_result_eq_Inr_iff)
qed

lemma wf_request_increment:
  "wf_request (increment_panel_quantities u (int k)) \<longleftrightarrow> wf_request u"
  by (intro same_specifications_wf same_specifications_increment) simp_all

lemma honest_attempt:
  assumes "wf_request u" and "honest solve m" and "attempt solve m u = Return r"
  shows "valid_plan u r"
proof -
  from assms(3) obtain raw where raw: "up_panels u \<noteq> []" "solve m (params_of u) = Return raw"
      "transform_result raw u = Return r"
    by (rule attempt_ReturnD)
  from assms(2) raw(2) have "valid_packing (params_of u) raw"
    by (simp add: honest_def)
  from valid_packing_shown [OF assms(1) raw(1) this] raw(3) show ?thesis
    by simp
qed

text \<open>The example request with a library that wants four panel units: the request has
  three, so the first attempt is refused and the second, with two sheets and three
  boards, is answered with the shelf and the two doors in a row.\<close>

lemma rows_ex_refused:
  "infeasible (rows_from 4) GREEDY (params_of (increment_panel_quantities ex_request (int 0)))"
  by (simp add: infeasible_def rows_from_def ex_defs expand_panels_Cons split: list.splits)

lemma rows_ex_answered:
  "\<exists>raw. rows_from 4 GREEDY (params_of (increment_panel_quantities ex_request (int 1))) = Return raw"
  by (simp add: rows_from_def row_fits_def ex_defs expand_panels_Cons expand_items_Cons eval_ids
      transform_item_for_calculation_def)

lemma rows_ex_served:
  "cr_success (calculate_loop (rows_from 4) GREEDY ex_request)"
proof -
  let ?u = "increment_panel_quantities ex_request (int 1)"
  from rows_ex_answered obtain raw where raw: "rows_from 4 GREEDY (params_of ?u) = Return raw" ..
  have ne: "up_panels ?u \<noteq> []"
    by (simp add: ex_request_def)
  have "wf_request ?u"
    by (simp only: wf_request_increment wf_ex_request)
  moreover from honest_rows_from raw have "valid_packing (params_of ?u) raw"
    by (simp add: honest_def)
  ultimately obtain r where r: "transform_result raw ?u = Return r"
    using valid_packing_shown [OF _ ne] by blast
  have "calculate_loop (rows_from 4) GREEDY ex_request = calculate_loop (rows_from 4) GREEDY ?u"
    using rows_ex_refused
    by (intro calculate_loop_after_retries) (simp_all add: ex_defs get_total_panel_quantity_def)
  also have "\<dots> = r"
    using calculate_loop_solved [where solve = "rows_from 4" and m = GREEDY, OF ne raw] r
    by simp
  finally show ?thesis
    using transform_result_Return_success [OF r] by simp
qed

text \<open>With a library that keeps the contract an attempt raises only what the library
  raises.\<close>

lemma honest_attempt_raises:
  assumes "wf_request u" and "up_panels u \<noteq> []" and "honest solve m"
    and "attempt solve m u = Raise e"
  shows "solve m (params_of u) = Raise e"
proof (cases "solve m (params_of u)")
  case (Inl e')
  with assms(2,4) show ?thesis
    by (simp add: attempt_raises_solver)
next
  case (Inr raw)
  with assms(3) have "valid_packing (params_of u) raw"
    by (simp add: honest_def)
  from valid_packing_shown [OF assms(1,2) this] Inr assms(2,4) show ?thesis
    by (auto simp: attempt_solved [where solve = solve and m = m])
qed

lemma honest_calculate_loop:
  assumes "wf_request u" and "honest solve m" and "cr_success (calculate_loop solve m u)"
  shows "\<exists>k. valid_plan (increment_panel_quantities u (int k)) (calculate_loop solve m u)"
proof -
  from assms(3) obtain k
    where "attempt solve m (increment_panel_quantities u (int k)) = Return (calculate_loop solve m u)"
    using success_origin [of solve m u] by auto
  with assms(1,2)
  have "valid_plan (increment_panel_quantities u (int k)) (calculate_loop solve m u)"
    by (intro honest_attempt) (simp_all add: wf_request_increment)
  then show ?thesis ..
qed

section \<open>Properties of the plan\<close>

text \<open>With a packing library that keeps its contract (every answer is a valid
  packing of the parameters it was given), a request with unique names and a known
  method, a successful response of \<open>calculate\<close> is a valid plan for the request
  with every panel quantity raised by the number of retries: every item unit of
  the request is shown exactly once, under its name and grain, with the area of
  its specification and turned only if the request allows it; every panel shown
  is a unit of the request with the size of its specification and is shown once;
  every shown piece lies on its panel, and any two pieces of a panel are at least
  a saw cut apart.\<close>

theorem shown_plan_valid:
  assumes "method_map method = Some m" and "wf_request u" and "honest solve m"
    and "calculate solve u method = Return r" and "cr_success r"
  shows "\<exists>k. valid_plan (increment_panel_quantities u (int k)) r"
  using assms honest_calculate_loop [of u solve m]
  by (simp add: calculate_def)

theorem shown_plan_valid_witness:
  "calculate (rows_from 4) ex_request ''greedy''
     = Return (calculate_loop (rows_from 4) GREEDY ex_request)
   \<and> cr_success (calculate_loop (rows_from 4) GREEDY ex_request)
   \<and> (\<exists>k. valid_plan (increment_panel_quantities ex_request (int k))
         (calculate_loop (rows_from 4) GREEDY ex_request))"
proof -
  have "calculate (rows_from 4) ex_request ''greedy''
      = Return (calculate_loop (rows_from 4) GREEDY ex_request)"
    by (simp add: calculate_def)
  with shown_plan_valid [OF _ wf_ex_request honest_rows_from this rows_ex_served] rows_ex_served
  show ?thesis
    by simp
qed

text \<open>C23. With such a library, a request with unique names, at least one panel and
  a known method, the orchestrator adds no failure of its own: a response of
  \<open>calculate\<close> that is no success is the answer to an exception the library raised
  at one of the attempts, either the text of that exception, when it is not
  \<open>UnresolvableError\<close>, or the text of a calculation given up at a total quantity
  of 50 or more. In particular no \<open>KeyError\<close> or \<open>IndexError\<close> of
  \<open>transform_result\<close> reaches the caller.\<close>

theorem failure_is_the_librarys:
  assumes "method_map method = Some m" and "wf_request u" and "up_panels u \<noteq> []"
    and "honest solve m" and "calculate solve u method = Return r" and "\<not> cr_success r"
  shows "\<exists>k e. solve m (params_of (increment_panel_quantities u (int k))) = Raise e
    \<and> (if is_unresolvable e
        then 50 \<le> get_total_panel_quantity (increment_panel_quantities u (int k))
          \<and> r = failure_response (unresolvable_message
                (get_total_panel_quantity (increment_panel_quantities u (int k))))
        else r = failure_response (exception_message e))"
proof -
  from assms(1,5) have "r = calculate_loop solve m u"
    by (simp add: calculate_def)
  with assms(6) obtain k e
    where att: "attempt solve m (increment_panel_quantities u (int k)) = Raise e"
      and r: "handle_exception (increment_panel_quantities u (int k)) e = Some r"
    using failure_origin [of solve m u] by auto
  from assms(2-4) att have "solve m (params_of (increment_panel_quantities u (int k))) = Raise e"
    by (intro honest_attempt_raises) (simp_all add: wf_request_increment)
  moreover from r have "if is_unresolvable e
      then 50 \<le> get_total_panel_quantity (increment_panel_quantities u (int k))
        \<and> r = failure_response (unresolvable_message
              (get_total_panel_quantity (increment_panel_quantities u (int k))))
      else r = failure_response (exception_message e)"
    by (auto simp: handle_exception_def Let_def split: if_splits)
  ultimately show ?thesis
    by blast
qed

theorem failure_is_the_librarys_witness:
  "calculate never_fits ex_request ''greedy''
     = Return (failure_response (unresolvable_message 51))
   \<and> (\<exists>k e. never_fits GREEDY (params_of (increment_panel_quantities ex_request (int k))) = Raise e
        \<and> (if is_unresolvable e
            then 50 \<le> get_total_panel_quantity (increment_panel_quantities ex_request (int k))
              \<and> failure_response (unresolvable_message 51)
                = failure_response (unresolvable_message
                    (get_total_panel_quantity (increment_panel_quantities ex_request (int k))))
            else failure_response (unresolvable_message 51)
                = failure_response (exception_message e)))"
proof -
  have r: "calculate never_fits ex_request ''greedy''
      = Return (failure_response (unresolvable_message 51))"
    by (simp add: calculate_def always_unresolvable_loop exhausted_total_def
        get_total_panel_quantity_def ex_defs)
  have "honest never_fits GREEDY" and "method_map ''greedy'' = Some GREEDY"
    and "up_panels ex_request \<noteq> []" and "\<not> cr_success (failure_response (unresolvable_message 51))"
    by (simp_all add: honest_def never_fits_def method_map_def ex_request_def)
  from failure_is_the_librarys [OF this(2) wf_ex_request this(3,1) r this(4)] r show ?thesis
    by simp
qed

end
