(* ===== verification/Stock_Example.thy ===== *)
theory Stock_Example
  imports Py_Runtime
begin

text \<open>
  The script \<open>src/main2.py\<close>: it states a one-dimensional cutting problem (ten boards
  of length 2440 in stock; eight parts of 500, six of 700 and ten of 300 wanted),
  hands it to a solver and prints the waste and the cuts of every pattern of the
  solution. The classes \<open>StockItem\<close>, \<open>OrderItem\<close>, \<open>Problem\<close> and \<open>Solver\<close> are not
  part of the repository: the first three are records of the fields the script
  gives them, the solution is a record of the attributes the script reads, and the
  solver is a parameter that returns a solution or raises. Lengths and wastes are
  \<open>int\<close>s, as the numbers of the script are.

  \<open>report\<close> is what the script prints, line by line, for the solution the solver
  returns; \<open>main2\<close> is the script, which prints the report or ends with the exception
  of the solver. Nothing is said of the solver: which solutions it may return is not
  written anywhere in the repository. The lemmas show how many lines are printed and
  that the printed lines determine the solution: the decimal numbers, the brackets and
  commas of a list and the four lines of a pattern can all be read back.
\<close>

section \<open>The problem\<close>

record StockItem =
  si_length :: int
  si_quantity :: int

record OrderItem =
  oi_length :: int
  oi_quantity :: int

record Problem =
  pb_stocks :: "StockItem list"
  pb_orders :: "OrderItem list"

definition stocks :: "StockItem list" where
  "stocks = [\<lparr>si_length = 2440, si_quantity = 10\<rparr>]"

definition orders :: "OrderItem list" where
  "orders = [\<lparr>oi_length = 500, oi_quantity = 8\<rparr>,
             \<lparr>oi_length = 700, oi_quantity = 6\<rparr>,
             \<lparr>oi_length = 300, oi_quantity = 10\<rparr>]"

definition problem :: Problem where
  "problem = \<lparr>pb_stocks = stocks, pb_orders = orders\<rparr>"

section \<open>The solution and the report\<close>

record Cut =
  cut_length :: int

record Pattern =
  pt_waste :: int
  pt_cuts :: "Cut list"

record Solution =
  sol_total_waste :: int
  sol_patterns :: "Pattern list"

type_synonym stock_solver = "Problem \<Rightarrow> Solution py"

text \<open>\<open>", ".join\<close> and the text of a list of \<open>int\<close>s as \<open>print\<close> shows it.\<close>

fun join_comma :: "string list \<Rightarrow> string" where
  "join_comma [] = []"
| "join_comma [s] = s"
| "join_comma (s # t # ss) = s @ '', '' @ join_comma (t # ss)"

definition show_int_list :: "int list \<Rightarrow> string" where
  "show_int_list xs = ''['' @ join_comma (map str_int xs) @ '']''"

definition report_pattern :: "Pattern \<Rightarrow> string list" where
  "report_pattern pattern =
     ['''', ''Pattern:'',
      ''  Waste: '' @ str_int (pt_waste pattern),
      ''  Cuts: '' @ show_int_list (map cut_length (pt_cuts pattern))]"

definition report :: "Solution \<Rightarrow> string list" where
  "report solution =
     (''Total waste: '' @ str_int (sol_total_waste solution))
       # concat (map report_pattern (sol_patterns solution))"

definition main2 :: "stock_solver \<Rightarrow> string list py" where
  "main2 solve = bind_result (solve problem) (\<lambda>solution. Return (report solution))"

section \<open>A run\<close>

text \<open>Five boards that serve the script's problem, as a solution a solver may return.\<close>

definition pattern_of :: "int \<Rightarrow> int list \<Rightarrow> Pattern" where
  "pattern_of w ls = \<lparr>pt_waste = w, pt_cuts = map (\<lambda>l. \<lparr>cut_length = l\<rparr>) ls\<rparr>"

definition ex_solution :: Solution where
  "ex_solution = \<lparr>sol_total_waste = 1000, sol_patterns =
     [pattern_of 40 [700, 700, 500, 500],
      pattern_of 40 [700, 700, 500, 500],
      pattern_of 40 [700, 700, 500, 500],
      pattern_of 240 [500, 500, 300, 300, 300, 300],
      pattern_of 640 [300, 300, 300, 300, 300, 300]]\<rparr>"

section \<open>Facts\<close>

lemma length_report: "length (report solution) = 1 + 4 * length (sol_patterns solution)"
  by (induction "sol_patterns solution" arbitrary: solution)
     (simp_all add: report_def report_pattern_def length_concat comp_def sum_list_triv)

lemma main2_cases:
  "main2 solve = (case solve problem of Inl e \<Rightarrow> Raise e | Inr s \<Rightarrow> Return (report s))"
  by (simp add: main2_def bind_result_def)

section \<open>The report determines the solution\<close>

text \<open>A decimal number holds no comma, so the numbers of a printed list can be told
  apart; a pattern prints four lines, so the patterns of a report can.\<close>

lemma comma_notin_str_int [simp]: "CHR '','' \<notin> set (str_int i)"
  using str_nat_digits [of "CHR '',''"] by (auto simp: str_int_def is_digit_def)

lemma join_comma_Cons:
  "join_comma (s # ss) = (if ss = [] then s else s @ '', '' @ join_comma ss)"
  by (cases ss) simp_all

lemma join_comma_str_int_inj:
  "join_comma (map str_int xs) = join_comma (map str_int ys) \<longleftrightarrow> xs = ys"
proof (induction xs arbitrary: ys)
  case Nil
  show ?case
    by (cases ys) (simp_all add: join_comma_Cons str_int_nonempty [THEN not_sym])
next
  case (Cons x xs)
  show ?case
  proof (cases ys)
    case Nil
    then show ?thesis
      by (simp add: join_comma_Cons)
  next
    case (Cons y ys')
    have "str_int x \<noteq> str_int y @ CHR '','' # r" "str_int y @ CHR '','' # r \<noteq> str_int x" for x y r
      using sep_not_in_tail [of "CHR '',''" "str_int x" "str_int y" r] by auto
    with Cons Cons.IH [of ys'] show ?thesis
      by (simp add: join_comma_Cons sep_first_eq_iff)
  qed
qed

lemma show_int_list_inj [simp]: "show_int_list xs = show_int_list ys \<longleftrightarrow> xs = ys"
  by (simp add: show_int_list_def join_comma_str_int_inj)

lemma map_cut_length_inj [simp]:
  fixes cs ds :: "Cut list"
  shows "map cut_length cs = map cut_length ds \<longleftrightarrow> cs = ds"
  by (rule inj_map_eq_map) (simp add: inj_def)

lemma report_pattern_inj [simp]: "report_pattern p = report_pattern q \<longleftrightarrow> p = q"
  by (auto simp: report_pattern_def)

lemma concat_report_pattern_inj:
  "concat (map report_pattern ps) = concat (map report_pattern qs) \<longleftrightarrow> ps = qs"
proof (induction ps arbitrary: qs)
  case Nil
  show ?case
    by (cases qs) (simp_all add: report_pattern_def)
next
  case (Cons p ps)
  show ?case
  proof (cases qs)
    case Nil
    then show ?thesis
      by (simp add: report_pattern_def)
  next
    case (Cons q qs')
    have "report_pattern p @ r = report_pattern q @ r' \<longleftrightarrow> p = q \<and> r = r'" for r r'
      using report_pattern_inj [of p q] by (auto simp: report_pattern_def)
    with Cons Cons.IH [of qs'] show ?thesis
      by simp
  qed
qed

lemma report_inj: "report solution = report solution' \<longleftrightarrow> solution = solution'"
  by (auto simp: report_def concat_report_pattern_inj intro: Solution.equality)

section \<open>Runs\<close>

text \<open>The script on a solver that returns the five boards: the first lines it
  prints.\<close>

lemma main2_ex:
  "\<exists>ls. main2 (\<lambda>pb. Return ex_solution) = Return ls \<and> length ls = 21
     \<and> take 5 ls = [''Total waste: 1000'', '''', ''Pattern:'', ''  Waste: 40'',
          ''  Cuts: [700, 700, 500, 500]'']"
proof -
  have "take 5 (report ex_solution)
       = [''Total waste: 1000'', '''', ''Pattern:'', ''  Waste: 40'',
          ''  Cuts: [700, 700, 500, 500]'']"
    by (simp add: report_def report_pattern_def ex_solution_def pattern_of_def show_int_list_def
        str_int_def str_nat.simps digit_char_def)
  moreover have "length (report ex_solution) = 21"
    by (simp add: length_report) (simp add: ex_solution_def)
  ultimately show ?thesis
    by (simp add: main2_def)
qed

text \<open>C40. The lines \<open>src/main2.py\<close> prints lose nothing of the solution: with two
  solvers the script runs alike, printing the same lines or ending with the same
  exception, exactly when the solvers answer its problem alike. So the total waste and
  the waste and the cuts of every pattern, in their order, can be read off the
  output.\<close>

theorem main2_determines_solution:
  "main2 solve = main2 solve' \<longleftrightarrow> solve problem = solve' problem"
  by (simp add: main2_cases report_inj split: sum.splits)

end
