(* ===== verification/Spec2Isabelle.thy ===== *)
theory Spec2Isabelle
  imports Library_Calls Legacy_Api Counter_Text Retry_Safety Retry_Reference Grain_Reference
    Layout Stock_Example
begin

text \<open>
  \<^bold>\<open>The program.\<close> \<open>src/app/main.py\<close> is a web service that takes a cutting request
  (panels in stock, rectangular items to cut, the width of the saw cut), hands the
  geometry to the packing library \<open>opcut\<close> and returns, per panel, the items placed
  on it and the areas left over, each item with its grain, engraved line and border
  flags. The class \<open>CuttingOptimizer\<close> is the orchestrator between the request and
  the library. Its parts, leaf first:

  \<^item> \<^emph>\<open>Geometry transform\<close> (\<open>_transform_item_for_calculation\<close>,
    \<open>_transform_used_item_for_display\<close>): an item whose grain differs from the
    panel's goes to the library with width and height swapped; on the way back its
    engraved line is flipped and its border flags are turned a quarter turn.
  \<^item> \<^emph>\<open>Quantity expander\<close> (\<open>_expand_panels\<close>, \<open>_expand_items\<close>,
    \<open>_create_panel_mapping\<close>, \<open>_create_item_mapping\<close>): a specification of quantity
    \<open>q\<close> becomes the units \<open>name_1 .. name_q\<close>; two dictionaries lead from a unit
    identifier back to its specification.
  \<^item> \<^emph>\<open>Packing adapter\<close> (\<open>method_map\<close>, \<open>common.Params\<close>, the call of
    \<open>opcut.calculate.calculate\<close>): the only place where the library is entered.
  \<^item> \<^emph>\<open>Result assembler\<close> (\<open>transform_result\<close>, \<open>_build_panel_structure\<close>):
    groups placements and unused regions by panel, sorts the panels and counts.
  \<^item> \<^emph>\<open>Retry controller\<close> (\<open>calculate\<close>, \<open>_increment_panel_quantities\<close>,
    \<open>_get_total_panel_quantity\<close>): when the library raises \<open>UnresolvableError\<close> and
    fewer than 50 panels are in stock, every panel quantity is raised by one and the
    calculation is tried again; any other exception ends it.
  \<^item> \<^emph>\<open>HTTP handlers\<close> (\<open>calculate_optimization\<close>, \<open>health_check\<close>): the handler of
    \<open>/calculate\<close> sets the quantity of the first panel to one, calls \<open>calculate\<close>
    and answers whatever is raised with a failure response.

  \<open>calculate\<close> calls the expander, the adapter and the assembler in this order in
  each pass of its loop; the assembler calls the expander's dictionaries and the
  geometry transform. Beside the service the repository holds its first version,
  \<open>src/app.py\<close> (one endpoint that passes dictionaries of panels and items straight
  to the library), and two scripts: \<open>src/main.py\<close> counts the item identifiers of a
  stored result and prints the counts, \<open>src/main2.py\<close> states a one-dimensional
  problem, calls a solver that is not part of the repository and prints the
  solution.

  \<^bold>\<open>The theories.\<close>

  \<^item> \<open>Opcut_Prelude\<close>: the result type \<open>'e + 'a\<close> of a call that returns or raises,
    \<open>bind_result\<close> and \<open>fold_result\<close> (a \<open>for\<close> loop that stops at the first raise),
    \<open>dict_get\<close>, \<open>map_entry\<close>, and the list, map, sorting and multiset lemmas the
    components share.
  \<^item> \<open>Py_Repr\<close>: the text \<open>repr\<close> makes of a string (\<open>py_repr\<close>: the choice of the
    quote, the escapes), which is the text of a \<open>KeyError\<close> and of a key of a printed
    dictionary, and a reader that inverts it (\<open>read_repr\<close>).
  \<^item> \<open>Py_Runtime\<close>: exceptions (\<open>exn\<close>), \<open>panels[0]\<close> (\<open>first_elem\<close>), \<open>range\<close>
    (\<open>py_range\<close>), the decimal text of an \<open>int\<close> (\<open>str_int\<close>) and the unit
    identifier (\<open>unit_id\<close>), with readers that invert them.
  \<^item> \<open>Data_Model\<close>: the pydantic classes, the entry dictionaries and the library's
    objects as records, and the example data of the closed instances (the example
    request with two panel and two item specifications, Scenarios A, B and C of the
    specification).
  \<^item> \<open>Geometry_Transform\<close>, \<open>Quantity_Expander\<close>, \<open>Packing_Adapter\<close>,
    \<open>Result_Assembler\<close>, \<open>Retry_Controller\<close>: one theory per part of the
    orchestrator, each with the methods of the part under their names (without the
    leading underscore), a loop-free description of what they compute, and the
    lemmas that relate the two.
  \<^item> \<open>Retry_Safety\<close>: the states the retry loop can reach from a request
    (\<open>reachable\<close>, an inductive predicate over the steps of \<open>Retry_Controller\<close>) and
    the invariant \<open>controller_safe\<close> that holds in all of them.
  \<^item> \<open>Retry_Reference\<close>: \<open>calculate_reference\<close>, what \<open>calculate\<close> answers said
    without a loop and over the library's own answers: the number of leading attempts
    the library refuses below the ceiling (\<open>retries\<close>) and the outcome of the attempt
    after them (\<open>answer_of\<close>).
  \<^item> \<open>Grain_Reference\<close>: \<open>transform_result_reference\<close>, the assembler with the grain
    comparison against the panel specification a placement lies on, as a reference
    for \<open>transform_result\<close>.
  \<^item> \<open>Layout\<close>: the rectangles of a cutting plan on both sides of the library:
    \<open>valid_packing\<close>, what an answer of the library is to the parameters it was
    given (every item unit placed once, on a panel unit it was given, inside it,
    turned only if it may be, a saw cut away from its neighbours), \<open>honest\<close>, a
    library that only returns such answers, and \<open>valid_plan\<close>, the same for a
    response and a request; \<open>rows_from\<close>, a library that lays the items in a row,
    as an instance of \<open>honest\<close>.
  \<^item> \<open>Api_Handler\<close>: the two handlers of \<open>src/app/main.py\<close>.
  \<^item> \<open>Calculate_Effects\<close>: \<open>calculate\<close> and the handler of \<open>/calculate\<close> once more, with
    their effects: the records written to the logger, the \<open>print\<close> calls, the readings
    of \<open>time.time()\<close> and the field \<open>calculation_time\<close> of the response
    (\<open>transform_result_io\<close>, \<open>attempt_io\<close>, \<open>handle_exception_io\<close>, \<open>calculate_loop_io\<close>,
    \<open>calculate_io\<close>, \<open>calculate_optimization_io\<close>). The logging levels are a linear
    order by their numbers, as the library compares them with the level of
    \<open>logging.basicConfig\<close>.
  \<^item> \<open>Service\<close>: the application with its two routes (\<open>serve\<close>, the decorators
    \<open>@app.post("/calculate")\<close> and \<open>@app.get("/health")\<close> with their handlers) and
    \<open>serve_all\<close>, a run over a sequence of requests, each served in the world the one
    before left. \<open>serve_all\<close> stands for no line of the sources: it is the assumption
    made of the server, that it runs one handler to its end before the next.
  \<^item> \<open>Library_Calls\<close>: the calls of the library counted in the log (\<open>library_calls\<close>),
    the number of passes a request can take (\<open>call_budget\<close>) and a request to the
    service can take (\<open>request_budget\<close>).
  \<^item> \<open>Legacy_Api\<close>: \<open>calculate_job\<close> of \<open>src/app.py\<close> and its request classes.
  \<^item> \<open>Result_Inspection\<close>: \<open>src/main.py\<close>, the \<open>Counter\<close> (\<open>item_counts\<close>) and the
    order in which \<open>print\<close> shows its entries (\<open>most_common\<close>, \<open>shown_counts\<close>).
  \<^item> \<open>Counter_Text\<close>: the line \<open>src/main.py\<close> prints (\<open>counter_repr\<close>), the script as
    a function of what reading \<open>result.json\<close> gives (\<open>main_script\<close>), and a reader of
    the printed line (\<open>read_counter\<close>, a recursive function whose termination rests
    on each entry being at least one character long).
  \<^item> \<open>Stock_Example\<close>: \<open>src/main2.py\<close>, the problem it states (\<open>stocks\<close>, \<open>orders\<close>,
    \<open>problem\<close>), the call of the solver (\<open>main2\<close>, with the solver as a parameter)
    and the lines it prints (\<open>report\<close>). The records of the solution have the
    attributes the script reads.
  \<^item> This theory: the properties that span components.

  \<^bold>\<open>How state and effects are modelled.\<close> The orchestrator keeps no state between
  requests. Within a request, a dictionary filled by a loop is a map
  (\<open>item_mapping\<close>, \<open>panel_mapping\<close>) or, where the order of insertion is
  observable, an association list (\<open>panels_dict\<close>, \<open>borders\<close>, \<open>summary\<close>, the
  dictionaries of the first version, the \<open>Counter\<close>). An exception is a value: a
  method that can raise returns \<open>exn + 'a\<close>. The packing library is a function
  parameter \<open>solve\<close> of which nothing is assumed; in the state machine of the retry
  controller it may answer differently at each attempt. The \<open>while True\<close> loop of
  \<open>calculate\<close> is the recursive function \<open>calculate_loop\<close>; its termination is
  proved with the measure \<open>50 - total quantity\<close>, which every retry lowers because
  a retry only happens after \<open>panels[0]\<close> succeeded, so there is at least one panel
  whose quantity grows. No fuel is used anywhere. A \<open>float\<close> is a real number, an
  \<open>int\<close> an integer. The assignment of the handler to the first panel's quantity
  is an update of the request value it passes on.

  The theories of the orchestrator up to \<open>Api_Handler\<close> give the answer of each
  method and leave its effects out. \<open>Calculate_Effects\<close> has the effects: the log, the
  standard output and the number of clock readings are the record \<open>world\<close>, threaded
  through the statements in the state monad of \<open>HOL-Library.State_Monad\<close>; the clock
  is a parameter, the sequence of the values \<open>time.time()\<close> returns; the response with
  its time is the record \<open>TimedResponse\<close>, which extends \<open>CalculationResponse\<close>. The
  loop with effects, \<open>calculate_loop_io\<close>, terminates by the same measure. The two
  levels are tied by a refinement: forgetting the world and the time turns each
  function of \<open>Calculate_Effects\<close> into the function of the same name without \<open>_io\<close>.

  \<^bold>\<open>What is proved.\<close>

  \<^item> Geometry transform: the swap keeps the area, the flip is an involution with
    the one fixed point \<open>none\<close>, the quarter turn has order four.
  \<^item> Quantity expander: unit identifiers are injective in name and ordinal, units
    are pairwise different under unique names, the dictionaries have exactly the
    units as keys and agree with the units.
  \<^item> Result assembler: \<open>transform_result\<close> equals \<open>transform_result_spec\<close> on
    every input, errors included; it returns exactly for results that name only
    panel units of the request; a response has its panels sorted and without
    repetition, holds every placement and every unused region exactly once, and
    its counts are those of its panels.
  \<^item> Retry controller: every run ends; \<open>calculate\<close> is \<open>calculate_reference\<close>, so it
    answers with the first attempt the library does not refuse below the ceiling; the
    function \<open>calculate_loop\<close> is the unique run of the state machine; the bound on
    the number of attempts; what
    stays fixed across retries; the closed form of the total at which an always
    infeasible request is given up, and its range; recovery after \<open>k\<close> infeasible
    attempts; the response of each way of ending; well-formedness of every
    response.
  \<^item> Safety of the retry loop, by rule induction over the reachable states: an
    attempt is always made for the caller's items, cutting parameters and panel
    types, with no quantity below the caller's; its total quantity is at most
    \<open>max T0 (49 + n)\<close> for a request of total \<open>T0\<close> with \<open>n\<close> panel specifications, and
    so is the number of panel units the library is given; a response is well
    formed.
  \<^item> Grain reference: \<open>transform_result\<close> is \<open>transform_result_reference\<close> for all
    requests whose panel specifications have one grain; on the example request,
    which has both grains, the two differ.
  \<^item> Layout: for a request with unique names the rectangle a placement is shown
    with is the rectangle the library gave it, and the panel it is shown on has the
    size of the panel unit it was put on; so with a library that keeps
    \<open>valid_packing\<close> every successful response of \<open>calculate\<close> is a \<open>valid_plan\<close>
    for the request with the quantities of the attempt that was answered, and
    \<open>transform_result\<close> raises nothing on its answers, so every failure answers an
    exception of the library. \<open>rows_from\<close> keeps the contract, so the hypothesis can
    be met.
  \<^item> Effects: the answer of \<open>calculate\<close> and of the handler does not depend on the
    log, the output or the clock; the log and the output only grow; \<open>calculate\<close>
    reads the clock at least twice and reports the last reading less the first, which
    is not negative for a clock that does not go back; a record of level \<open>ERROR\<close> is
    written exactly when the response is a failure; a failure of the handler itself
    carries no time.
  \<^item> Calls of the library: the log of one \<open>calculate\<close> gains at most
    \<open>\<lceil>max(0, 50 - T0) / n\<rceil> + 1\<close> records \<open>Starting optimization calculation...\<close>,
    one per call of the library, and exactly that many when the library never finds
    a placement; a run of the service calls the library at most as often as the
    budgets of its requests add up to, which bounds what a request waits for, the
    health check included.
  \<^item> Service: the answers of a run over any sequence of requests are, the time
    apart, the answers to the requests one by one, so a request is answered the same
    whatever was served before it and however that ended.
  \<^item> Handlers: the handler of \<open>/calculate\<close> always answers with a well-formed
    response, ignores the first panel's quantity, and answers a request with one
    panel specification that never fits with the failure naming 50 panels.
  \<^item> First version: what \<open>calculate_job\<close> answers.
  \<^item> Python texts: \<open>read_repr\<close> reads \<open>py_repr\<close> back, whatever follows the closing
    quote, so \<open>repr\<close> is injective; a string of printable characters without quote
    and backslash is shown between single quotes as it is.
  \<^item> Inspection script: the \<open>Counter\<close> has every identifier once, with the number
    of its occurrences, in the order of the first occurrences; what is printed is a
    rearrangement of it by descending count that keeps identifiers of one count in
    that order; the script prints one line or raises, and the line read back is the
    entries shown.
  \<^item> Stock example: the script prints \<open>1 + 4 k\<close> lines for a solution of \<open>k\<close>
    patterns, or ends with the solver's exception; the printed lines determine the
    solution, so two solvers give the same run exactly when they answer the script's
    problem alike; a run on five boards.
  \<^item> Across components (below): what a cross-grain item looks like on both sides
    of the library; that a shown item is the declared one exactly when it has the
    first panel's grain or is unchanged by a quarter turn; that the first panel
    specification decides flip and turn for
    every placement; the response of a first attempt that succeeds; that an
    unknown panel identifier is fatal and an unknown item identifier is not;
    Scenario A through the handler; that the adapter call is the first version's
    endpoint on the expanded units; that the script's counts add up to the
    summary's; and, end to end, that every successful answer of a run of the
    service is a valid plan for its request when the library keeps its contract.

  The closed instances (\<open>_witness\<close>) apply each theorem that has hypotheses to the
  example data and compute the outcome by rewriting.

  \<^bold>\<open>What is not modelled.\<close> The text the runtime makes of a value inside a log
  message (a duration formatted with \<open>.2f\<close>, a traceback, the \<open>repr\<close> of a pydantic
  object): such a piece is kept as the value. The FastAPI and CORS set-up and request
  validation by pydantic (a request is taken as already validated: grains and
  engraved lines are datatypes). Opening and parsing \<open>result.json\<close>: what it gives,
  a result or an exception, is the parameter of \<open>main_script\<close>. A character is one
  of the 256 of the type \<open>char\<close>; \<open>repr\<close> is modelled on these. The two libraries:
  the packing library \<open>opcut\<close> of the service and the one-dimensional solver of
  \<open>src/main2.py\<close> are parameters of the model, so a theorem about them holds for
  whatever they return; where a theorem needs more of the packing library, it says
  so in a hypothesis (\<open>infeasible\<close>, \<open>honest\<close>). The lines of \<open>src/\<close> that no
  definition stands for are imports, the creation of the FastAPI application with
  its CORS middleware and the start of \<open>uvicorn\<close>.
\<close>

section \<open>The grain transform, from the request to the display\<close>

text \<open>C10. An item that lies across the grain of the first panel is handed to the
  packing library with width and height exchanged, and a placement of it that
  carries no size of its own is shown with that exchanged size: the display width
  is the declared height and the display height the declared width. The engraved
  line is flipped and the borders are turned.\<close>

theorem cross_grain_shown_as_cut:
  assumes "unique_item_names items" and "i \<in> set items" and "1 \<le> k" and "k \<le> iin_quantity i"
    and "iin_grain i \<noteq> pin_grain panel"
    and "uj_item x = unit_id (iin_name i) k" and "uj_width x = None" and "uj_height x = None"
  shows "\<lparr>ci_id = unit_id (iin_name i) k, ci_width = iin_height i, ci_height = iin_width i,
            ci_can_rotate = iin_isRotate i\<rparr> \<in> set (expand_items items panel)
    \<and> transform_used_item_for_display x (create_item_mapping items panel) panel =
        \<lparr>ui_item_id = unit_id (iin_name i) k, ui_name = iin_name i,
         ui_width = iin_height i, ui_height = iin_width i,
         ui_x = uj_x x, ui_y = uj_y x, ui_rotate = uj_rotate x,
         ui_grain = iin_grain i,
         ui_engraved_line = flip_engraved_line (iin_engraved_line i),
         ui_borders = rotate_borders (iin_borders i)\<rparr>"
proof -
  from assms(1-4,6) have "create_item_mapping items panel (uj_item x) = Some (item_details panel i)"
    by (simp add: item_unit_entry)
  from display_known [where m = "create_item_mapping items panel" and u = x and panel = panel, OF this]
    assms(5-8) item_unit_member [OF assms(2-4), of panel]
  show ?thesis
    by (simp add: item_details_def cross_grain_def)
qed

theorem cross_grain_shown_as_cut_witness:
  "unique_item_names [ex_rail] \<and> ex_rail \<in> set [ex_rail] \<and> (1::int) \<le> 1 \<and> 1 \<le> iin_quantity ex_rail
   \<and> iin_grain ex_rail \<noteq> pin_grain ex_sheet
   \<and> iin_width ex_rail = 500 \<and> iin_height ex_rail = 300
   \<and> \<lparr>ci_id = ''Rail_1'', ci_width = 300, ci_height = 500, ci_can_rotate = False\<rparr>
        \<in> set (expand_items [ex_rail] ex_sheet)
   \<and> transform_used_item_for_display
        \<lparr>uj_panel = ''Sheet_1'', uj_item = ''Rail_1'', uj_x = 0, uj_y = 0, uj_rotate = False,
          uj_width = None, uj_height = None\<rparr> (create_item_mapping [ex_rail] ex_sheet) ex_sheet
      = \<lparr>ui_item_id = ''Rail_1'', ui_name = ''Rail'', ui_width = 300, ui_height = 500,
         ui_x = 0, ui_y = 0, ui_rotate = False, ui_grain = Horizontal,
         ui_engraved_line = Line_vertical, ui_borders = default_borders\<rparr>"
  using cross_grain_shown_as_cut [where items = "[ex_rail]" and i = ex_rail and k = 1
      and panel = ex_sheet and x = "\<lparr>uj_panel = ''Sheet_1'', uj_item = ''Rail_1'', uj_x = 0, uj_y = 0,
        uj_rotate = False, uj_width = None, uj_height = None\<rparr>"]
  by (simp add: ex_rail_def ex_sheet_def eval_ids)

text \<open>C33. The round trip of the specification, through the cutting orientation and
  back: a placement of an item unit that carries no size of its own is shown with the
  declared width, height, engraved line and border flags exactly when the item has the
  grain of the first panel or is unchanged by a quarter turn. For every other item
  across the grain the display differs from the declaration.\<close>

theorem display_round_trip_iff:
  assumes "unique_item_names items" and "i \<in> set items" and "1 \<le> k" and "k \<le> iin_quantity i"
    and "uj_item x = unit_id (iin_name i) k" and "uj_width x = None" and "uj_height x = None"
  shows "shown_as_declared i
           (transform_used_item_for_display x (create_item_mapping items panel) panel)
     \<longleftrightarrow> iin_grain i = pin_grain panel \<or> quarter_turn_symmetric i"
proof -
  from assms(1-5) have "create_item_mapping items panel (uj_item x) = Some (item_details panel i)"
    by (simp add: item_unit_entry)
  from display_known [where m = "create_item_mapping items panel" and u = x and panel = panel, OF this]
    assms(6,7)
  show ?thesis
    by (auto simp: shown_as_declared_def quarter_turn_symmetric_def item_details_def cross_grain_def
        flip_engraved_line_fixed_iff)
qed

theorem display_round_trip_iff_witness:
  "unique_item_names [ex_rail] \<and> ex_rail \<in> set [ex_rail] \<and> (1::int) \<le> 1 \<and> 1 \<le> iin_quantity ex_rail
   \<and> iin_grain ex_rail \<noteq> pin_grain ex_sheet \<and> \<not> quarter_turn_symmetric ex_rail
   \<and> \<not> shown_as_declared ex_rail
        (transform_used_item_for_display
          \<lparr>uj_panel = ''Sheet_1'', uj_item = ''Rail_1'', uj_x = 0, uj_y = 0, uj_rotate = False,
            uj_width = None, uj_height = None\<rparr> (create_item_mapping [ex_rail] ex_sheet) ex_sheet)
   \<and> shown_as_declared ex_rail
        (transform_used_item_for_display
          \<lparr>uj_panel = ''Board_1'', uj_item = ''Rail_1'', uj_x = 0, uj_y = 0, uj_rotate = False,
            uj_width = None, uj_height = None\<rparr> (create_item_mapping [ex_rail] ex_board) ex_board)"
  using display_round_trip_iff [where items = "[ex_rail]" and i = ex_rail and k = 1
      and panel = ex_sheet and x = "\<lparr>uj_panel = ''Sheet_1'', uj_item = ''Rail_1'', uj_x = 0, uj_y = 0,
        uj_rotate = False, uj_width = None, uj_height = None\<rparr>"]
    display_round_trip_iff [where items = "[ex_rail]" and i = ex_rail and k = 1
      and panel = ex_board and x = "\<lparr>uj_panel = ''Board_1'', uj_item = ''Rail_1'', uj_x = 0, uj_y = 0,
        uj_rotate = False, uj_width = None, uj_height = None\<rparr>"]
  by (simp add: ex_rail_def ex_sheet_def ex_board_def eval_ids quarter_turn_symmetric_def)

text \<open>C27. The grain of the first panel specification decides for every placement:
  an item whose grain differs from it is shown with its engraved line flipped and
  its borders turned also on a panel of the item's own grain.\<close>

theorem first_panel_decides:
  assumes "transform_result raw u = Return r" and "x \<in> set (used_of raw)"
    and "unique_item_names (up_items u)" and "i \<in> set (up_items u)"
    and "1 \<le> k" and "k \<le> iin_quantity i" and "uj_item x = unit_id (iin_name i) k"
    and "unique_panel_names (up_panels u)" and "p \<in> set (up_panels u)"
    and "1 \<le> j" and "j \<le> pin_quantity p" and "uj_panel x = unit_id (pin_name p) j"
    and "pin_grain p = iin_grain i" and "iin_grain i \<noteq> pin_grain (hd (up_panels u))"
  shows "\<exists>out\<in>set (cr_panels r). po_panel_id out = uj_panel x \<and> po_panel_name out = pin_name p
    \<and> (\<exists>shown\<in>set (po_used_items out). ui_item_id shown = uj_item x
         \<and> ui_grain shown = pin_grain p
         \<and> ui_engraved_line shown = flip_engraved_line (iin_engraved_line i)
         \<and> ui_borders shown = rotate_borders (iin_borders i))"
proof -
  let ?p0 = "hd (up_panels u)"
  let ?shown = "transform_used_item_for_display x (create_item_mapping (up_items u) ?p0) ?p0"
  from placement_shown [OF assms(1,2)] obtain out
    where out: "out \<in> set (cr_panels r)" "po_panel_id out = uj_panel x" "?shown \<in> set (po_used_items out)"
    by blast
  from out(1,2) have "out = assemble_panel (create_panel_mapping (up_panels u))
      (create_item_mapping (up_items u) ?p0) ?p0 (used_of raw) (unused_of raw) (uj_panel x)"
    by (auto simp: transform_result_ReturnD(3) [OF assms(1)])
  with assms(8-12) have name: "po_panel_name out = pin_name p"
    by (simp add: assemble_panel_def panel_unit_entry panel_details_def)
  from assms(3-7) have "create_item_mapping (up_items u) ?p0 (uj_item x) = Some (item_details ?p0 i)"
    by (simp add: item_unit_entry)
  from display_known [where m = "create_item_mapping (up_items u) ?p0" and u = x and panel = ?p0, OF this]
    assms(13,14)
  have "ui_item_id ?shown = uj_item x \<and> ui_grain ?shown = pin_grain p
    \<and> ui_engraved_line ?shown = flip_engraved_line (iin_engraved_line i)
    \<and> ui_borders ?shown = rotate_borders (iin_borders i)"
    by (simp add: item_details_def cross_grain_def)
  with out name show ?thesis
    by blast
qed

theorem first_panel_decides_witness:
  "transform_result ex_result ex_request = Return ex_response
   \<and> unique_item_names (up_items ex_request) \<and> unique_panel_names (up_panels ex_request)
   \<and> pin_grain ex_board = iin_grain ex_door \<and> iin_grain ex_door \<noteq> pin_grain (hd (up_panels ex_request))
   \<and> iin_engraved_line ex_door = Line_horizontal
   \<and> (\<exists>out\<in>set (cr_panels ex_response). po_panel_id out = ''Board_1'' \<and> po_panel_name out = ''Board''
    \<and> (\<exists>shown\<in>set (po_used_items out). ui_item_id shown = ''Door_1''
         \<and> ui_grain shown = Horizontal
         \<and> ui_engraved_line shown = Line_vertical
         \<and> ui_borders shown = [(''top'', True), (''right'', True), (''bottom'', False), (''left'', False)]))"
proof -
  let ?x = "\<lparr>uj_panel = ''Board_1'', uj_item = ''Door_1'', uj_x = 0, uj_y = 0, uj_rotate = False,
          uj_width = Some 300, uj_height = Some 500\<rparr>"
  have x: "?x \<in> set (used_of ex_result)"
    by (simp add: used_of_def ex_result_def)
  have facts: "unique_item_names (up_items ex_request)" "unique_panel_names (up_panels ex_request)"
    "pin_grain ex_board = iin_grain ex_door" "iin_grain ex_door \<noteq> pin_grain (hd (up_panels ex_request))"
    "iin_engraved_line ex_door = Line_horizontal"
    by (simp_all add: ex_defs)
  from first_panel_decides [where i = ex_door and k = 1 and p = ex_board and j = 1,
      OF transform_result_ex x facts(1) _ _ _ _ facts(2) _ _ _ _ facts(3,4)]
  have "\<exists>out\<in>set (cr_panels ex_response). po_panel_id out = ''Board_1'' \<and> po_panel_name out = ''Board''
    \<and> (\<exists>shown\<in>set (po_used_items out). ui_item_id shown = ''Door_1''
         \<and> ui_grain shown = Horizontal
         \<and> ui_engraved_line shown = Line_vertical
         \<and> ui_borders shown = [(''top'', True), (''right'', True), (''bottom'', False), (''left'', False)])"
    by (simp add: ex_defs eval_ids rotate_borders_def)
  with transform_result_ex facts show ?thesis
    by blast
qed

section \<open>One attempt, from the request to the response\<close>

text \<open>When the method is known, the request has a panel and the packing
  library answers the first attempt with a result that names only panel units it
  was given, \<open>calculate\<close> returns the response \<open>transform_result\<close> makes of it: a
  success without error text, counting the placements of the result, whose panels
  are among the units given.\<close>

theorem first_attempt_success:
  assumes "method_map method = Some m" and "up_panels u \<noteq> []"
    and "solve m (params_of u) = Return raw"
    and "set (panel_ids (used_of raw) (unused_of raw)) \<subseteq> cp_id ` set (prm_panels (params_of u))"
  shows "\<exists>r. calculate solve u method = Return r \<and> transform_result raw u = Return r
    \<and> cr_success r \<and> cr_error r = None
    \<and> map_of (cr_summary r) ''total_items_placed'' = Some (int (length (used_of raw)))
    \<and> set (map po_panel_id (cr_panels r)) \<subseteq> cp_id ` set (prm_panels (params_of u))"
proof -
  from assms(2,4) obtain r where r: "transform_result raw u = Return r"
    using transform_result_returns [of u raw] by auto
  note d = transform_result_ReturnD [OF r]
  from assms r have "calculate solve u method = Return r"
    by (simp add: calculate_def calculate_loop_solved)
  moreover have "set (map po_panel_id (cr_panels r)) = set (panel_ids (used_of raw) (unused_of raw))"
    by (simp add: d(3) comp_def)
  moreover have "cr_success r \<and> cr_error r = None
      \<and> map_of (cr_summary r) ''total_items_placed'' = Some (int (length (used_of raw)))"
    by (simp add: d(3))
  ultimately show ?thesis
    using assms(4) r by auto
qed

theorem first_attempt_success_witness:
  "method_map ''greedy'' = Some GREEDY \<and> up_panels ex_request \<noteq> []
   \<and> always_returns ex_result GREEDY (params_of ex_request) = Return ex_result
   \<and> set (panel_ids (used_of ex_result) (unused_of ex_result))
        \<subseteq> cp_id ` set (prm_panels (params_of ex_request))
   \<and> calculate (always_returns ex_result) ex_request ''greedy'' = Return ex_response"
proof -
  have ne: "up_panels ex_request \<noteq> []"
    by (simp add: ex_request_def)
  have sub: "set (panel_ids (used_of ex_result) (unused_of ex_result))
      \<subseteq> cp_id ` set (prm_panels (params_of ex_request))"
    using ex_units by (simp add: set_map [symmetric] panel_ids_def used_of_def unused_of_def ex_result_def del: set_map)
  from first_attempt_success [where u = ex_request and solve = "always_returns ex_result"
      and raw = ex_result, OF method_map_simps(1) ne _ sub]
    transform_result_ex
  have "calculate (always_returns ex_result) ex_request ''greedy'' = Return ex_response"
    by (auto simp: always_returns_def)
  with ne sub show ?thesis
    by (simp add: always_returns_def)
qed

text \<open>C25. A result that names a panel identifier the library was not given ends
  the calculation without a retry: the response is the failure with the text of
  the \<open>KeyError\<close> of the first such identifier.\<close>

theorem unknown_panel_is_fatal:
  assumes "method_map method = Some m" and "up_panels u \<noteq> []"
    and "solve m (params_of u) = Return raw"
    and "find (\<lambda>k. k \<notin> cp_id ` set (prm_panels (params_of u)))
           (panel_ids (used_of raw) (unused_of raw)) = Some k"
  shows "calculate solve u method
     = Return (failure_response (''KeyError: '' @ py_repr k))"
proof -
  from assms(2) obtain p ps where ps: "up_panels u = p # ps"
    by (cases "up_panels u") auto
  have "(\<lambda>k. k \<notin> cp_id ` set (prm_panels (params_of u)))
      = (\<lambda>k. create_panel_mapping (up_panels u) k = None)"
    using dom_create_panel_mapping [of "up_panels u"] by (auto simp: fun_eq_iff domIff)
  with assms(4) have "transform_result raw u = Raise (KeyError k)"
    by (simp add: transform_result_Cons [OF ps])
  with assms(1-3) show ?thesis
    by (simp add: calculate_def calculate_loop_solved exception_message_def)
qed

theorem unknown_panel_is_fatal_witness:
  "method_map ''greedy'' = Some GREEDY \<and> up_panels ex_request \<noteq> []
   \<and> always_returns ex_stray GREEDY (params_of ex_request) = Return ex_stray
   \<and> find (\<lambda>k. k \<notin> cp_id ` set (prm_panels (params_of ex_request)))
        (panel_ids (used_of ex_stray) (unused_of ex_stray)) = Some ''Sheet_9''
   \<and> calculate (always_returns ex_stray) ex_request ''greedy''
        = Return (failure_response (''KeyError: '' @ [CHR 0x27] @ ''Sheet_9'' @ [CHR 0x27]))"
proof -
  have ne: "up_panels ex_request \<noteq> []"
    by (simp add: ex_request_def)
  have f: "find (\<lambda>k. k \<notin> cp_id ` set (prm_panels (params_of ex_request)))
        (panel_ids (used_of ex_stray) (unused_of ex_stray)) = Some ''Sheet_9''"
    using ex_units by (simp add: set_map [symmetric] panel_ids_def used_of_def unused_of_def ex_stray_def del: set_map)
  from unknown_panel_is_fatal [where u = ex_request and solve = "always_returns ex_stray"
      and raw = ex_stray, OF method_map_simps(1) ne _ f] ne f
  show ?thesis
    by (simp add: always_returns_def eval_repr)
qed

text \<open>C26. A placement of an item identifier the request does not have is no
  failure: \<open>transform_result\<close> returns a success in which the placement is shown
  with an empty name, the size the result gives or zero, vertical grain, no
  engraved line and no borders.\<close>

theorem unknown_item_is_shown:
  assumes "up_panels u \<noteq> []"
    and "set (panel_ids (used_of raw) (unused_of raw)) \<subseteq> cp_id ` set (expand_panels (up_panels u))"
    and "x \<in> set (used_of raw)"
    and "uj_item x \<notin> ci_id ` set (expand_items (up_items u) (hd (up_panels u)))"
  shows "\<exists>r. transform_result raw u = Return r \<and> cr_success r
    \<and> (\<exists>p\<in>set (cr_panels r).
          \<lparr>ui_item_id = uj_item x, ui_name = '''',
           ui_width = (case uj_width x of Some w \<Rightarrow> w | None \<Rightarrow> 0),
           ui_height = (case uj_height x of Some h \<Rightarrow> h | None \<Rightarrow> 0),
           ui_x = uj_x x, ui_y = uj_y x, ui_rotate = uj_rotate x,
           ui_grain = Vertical, ui_engraved_line = Line_none, ui_borders = default_borders\<rparr>
          \<in> set (po_used_items p))"
proof -
  from assms(1,2) obtain r where r: "transform_result raw u = Return r"
    using transform_result_returns [of u raw] by auto
  from assms(4) have "create_item_mapping (up_items u) (hd (up_panels u)) (uj_item x) = None"
    using dom_create_item_mapping [of "up_items u" "hd (up_panels u)"] by (auto simp: domIff)
  from display_unknown [where u = x and panel = "hd (up_panels u)"
      and m = "create_item_mapping (up_items u) (hd (up_panels u))", OF this]
    placement_shown [OF r assms(3)] r
  show ?thesis
    by (auto simp: transform_result_ReturnD(3) [OF r])
qed

theorem unknown_item_is_shown_witness:
  "up_panels ex_request \<noteq> []
   \<and> set (panel_ids (used_of (ex_stray\<lparr>rr_unused := None\<rparr>)) (unused_of (ex_stray\<lparr>rr_unused := None\<rparr>)))
       \<subseteq> cp_id ` set (expand_panels (up_panels ex_request))
   \<and> uj_item (hd (used_of ex_stray)) = ''Ghost_1''
   \<and> ''Ghost_1'' \<notin> ci_id ` set (expand_items (up_items ex_request) (hd (up_panels ex_request)))
   \<and> (\<exists>r. transform_result (ex_stray\<lparr>rr_unused := None\<rparr>) ex_request = Return r \<and> cr_success r
    \<and> (\<exists>p\<in>set (cr_panels r).
          \<lparr>ui_item_id = ''Ghost_1'', ui_name = '''', ui_width = 0, ui_height = 0,
           ui_x = 0, ui_y = 0, ui_rotate = False,
           ui_grain = Vertical, ui_engraved_line = Line_none, ui_borders = default_borders\<rparr>
          \<in> set (po_used_items p)))"
proof -
  let ?raw = "ex_stray\<lparr>rr_unused := None\<rparr>"
  have ne: "up_panels ex_request \<noteq> []"
    by (simp add: ex_request_def)
  have sub: "set (panel_ids (used_of ?raw) (unused_of ?raw)) \<subseteq> cp_id ` set (expand_panels (up_panels ex_request))"
    using ex_units by (simp add: set_map [symmetric] panel_ids_def used_of_def unused_of_def ex_stray_def del: set_map)
  have x: "hd (used_of ex_stray) \<in> set (used_of ?raw)" and g: "uj_item (hd (used_of ex_stray)) = ''Ghost_1''"
    by (simp_all add: used_of_def ex_stray_def)
  have ghost: "''Ghost_1'' \<notin> ci_id ` set (expand_items (up_items ex_request) (hd (up_panels ex_request)))"
    using ex_item_units by (simp add: set_map [symmetric] del: set_map)
  from unknown_item_is_shown [OF ne sub x] ghost g
  have "\<exists>r. transform_result ?raw ex_request = Return r \<and> cr_success r
    \<and> (\<exists>p\<in>set (cr_panels r).
          \<lparr>ui_item_id = ''Ghost_1'', ui_name = '''', ui_width = 0, ui_height = 0,
           ui_x = 0, ui_y = 0, ui_rotate = False,
           ui_grain = Vertical, ui_engraved_line = Line_none, ui_borders = default_borders\<rparr>
          \<in> set (po_used_items p))"
    by (simp add: used_of_def ex_stray_def)
  with ne sub g ghost show ?thesis
    by blast
qed

text \<open>Scenario A through the handler of \<open>/calculate\<close>: one sheet of 2440 by
  1220, one shelf of 500 by 300 of the same grain and a library that places it; the
  response has exactly the panel \<open>Sheet_1\<close> with exactly the item \<open>Shelf_1\<close>, shown
  500 wide and 300 high.\<close>

theorem scenario_a_served:
  "calculate_optimization (always_returns ex_result_a) scenario_a ''greedy'' = ex_response_a
   \<and> map po_panel_id (cr_panels ex_response_a) = [''Sheet_1'']
   \<and> map (\<lambda>i. (ui_item_id i, ui_width i, ui_height i))
        (concat (map po_used_items (cr_panels ex_response_a))) = [(''Shelf_1'', 500, 300)]"
proof -
  have "scenario_a\<lparr>up_panels := [ex_sheet\<lparr>pin_quantity := 1\<rparr>]\<rparr> = scenario_a"
    by (simp add: scenario_a_def ex_sheet_def)
  with transform_scenario_a [of 1]
  have "calculate_optimization (always_returns ex_result_a) scenario_a ''greedy'' = ex_response_a"
    by (simp add: calculate_optimization_Cons [where p = ex_sheet and ps = "[]"] scenario_a_def
        calculate_loop_solved [where raw = ex_result_a] always_returns_def)
  then show ?thesis
    by (simp add: ex_response_a_def)
qed

section \<open>The first version of the service and the adapter\<close>

text \<open>The request of the first version that carries the units of a request of the
  orchestrator.\<close>

definition as_job :: "UserParams \<Rightarrow> ParamsModel" where
  "as_job u =
     \<lparr>lp_cut_width = up_cut_width u,
      lp_min_initial_usage = up_min_initial_usage u,
      lp_panels = map (\<lambda>p. (cp_id p, \<lparr>pm_width = cp_width p, pm_height = cp_height p\<rparr>))
         (expand_panels (up_panels u)),
      lp_items = map (\<lambda>i. (ci_id i, \<lparr>im_width = ci_width i, im_height = ci_height i,
            im_can_rotate = ci_can_rotate i\<rparr>))
         (expand_items (up_items u) (hd (up_panels u)))\<rparr>"

lemma job_params_as_job: "job_params (as_job u) = params_of u"
  by (simp add: job_params_def as_job_def params_of_def build_params_def job_panels_def
      job_items_def comp_def)

text \<open>C36. The orchestrator's call of the packing library is the endpoint of the
  first version applied to the expanded units: for a request with a panel and a
  known method both hand the library the same parameters and give its answer; for
  a well-formed request the identifiers are pairwise different, so the units form
  dictionaries.\<close>

theorem job_is_adapter:
  assumes "up_panels u \<noteq> []" and "method_map method = Some m"
  shows "calculate_job solve (as_job u) method =
      (case invoke solve m u of Inr raw \<Rightarrow> Job_Result raw | Inl e \<Rightarrow> Job_Error (exn_str e))
    \<and> (wf_request u \<longrightarrow> distinct (map fst (lp_panels (as_job u)))
          \<and> distinct (map fst (lp_items (as_job u))))"
proof -
  have "wf_request u \<Longrightarrow> distinct (map fst (lp_panels (as_job u)))"
    using distinct_panel_entries [of "up_panels u"]
    by (simp add: as_job_def comp_def wf_request_def expand_panels_ids panel_entries_keys)
  moreover have "wf_request u \<Longrightarrow> distinct (map fst (lp_items (as_job u)))"
    using distinct_item_entries [of "up_items u" "hd (up_panels u)"]
    by (simp add: as_job_def comp_def wf_request_def expand_items_ids item_entries_keys)
  ultimately show ?thesis
    using assms by (simp add: calculate_job_known job_params_as_job invoke_Cons)
qed

theorem job_is_adapter_witness:
  "up_panels ex_request \<noteq> [] \<and> method_map ''greedy'' = Some GREEDY \<and> wf_request ex_request
   \<and> calculate_job (always_returns ex_result) (as_job ex_request) ''greedy'' = Job_Result ex_result
   \<and> invoke (always_returns ex_result) GREEDY ex_request = Return ex_result
   \<and> map fst (lp_panels (as_job ex_request)) = [''Sheet_1'', ''Board_1'', ''Board_2'']
   \<and> distinct (map fst (lp_items (as_job ex_request)))"
proof -
  have ne: "up_panels ex_request \<noteq> []"
    by (simp add: ex_request_def)
  have ids: "map fst (lp_panels (as_job ex_request)) = [''Sheet_1'', ''Board_1'', ''Board_2'']"
    using ex_units by (simp add: as_job_def comp_def)
  have inv: "invoke (always_returns ex_result) GREEDY ex_request = Return ex_result"
    by (simp add: invoke_Cons [OF ne] always_returns_def)
  from job_is_adapter [OF ne, of "''greedy''" GREEDY "always_returns ex_result"] inv wf_ex_request ne ids
  show ?thesis
    by simp
qed

section \<open>The count of the inspection script and the summary\<close>

text \<open>C37. For a result with placements that \<open>transform_result\<close> assembles, the
  counts the inspection script prints add up to \<open>total_items_placed\<close> of the
  summary, and the identifiers it counts are those of the items shown.\<close>

theorem inspection_matches_summary:
  assumes "transform_result raw u = Return r" and "rr_used raw = Some used"
  shows "\<exists>c. item_counts raw = Return c
    \<and> map_of (cr_summary r) ''total_items_placed'' = Some (int (sum_list (map snd c)))
    \<and> fst ` set c = ui_item_id ` set (concat (map po_used_items (cr_panels r)))"
proof -
  have "set (concat (map po_used_items (cr_panels r)))
      = set_mset (mset (concat (map po_used_items (cr_panels r))))"
    by simp
  also have "\<dots> = (\<lambda>x. transform_used_item_for_display x
      (create_item_mapping (up_items u) (hd (up_panels u))) (hd (up_panels u))) ` set (used_of raw)"
    unfolding transform_result_ReturnD(3) [OF assms(1)]
    by (simp add: comp_def used_items_assembled)
  finally have "ui_item_id ` set (concat (map po_used_items (cr_panels r))) = uj_item ` set used"
    using assms(2) by (simp add: image_image used_of_def)
  with assms(2) show ?thesis
    by (simp add: item_counts_def transform_result_ReturnD(3) [OF assms(1)] sum_Counter used_of_def)
qed

theorem inspection_matches_summary_witness:
  "transform_result ex_result ex_request = Return ex_response
   \<and> rr_used ex_result \<noteq> None
   \<and> item_counts ex_result = Return [(''Shelf_1'', 1), (''Door_1'', 1), (''Door_2'', 1)]
   \<and> (\<exists>c. item_counts ex_result = Return c
    \<and> map_of (cr_summary ex_response) ''total_items_placed'' = Some (int (sum_list (map snd c)))
    \<and> fst ` set c = ui_item_id ` set (concat (map po_used_items (cr_panels ex_response))))"
proof -
  have u: "rr_used ex_result = Some (used_of ex_result)"
    by (simp add: ex_result_def used_of_def)
  have "item_counts ex_result = Return [(''Shelf_1'', 1), (''Door_1'', 1), (''Door_2'', 1)]"
    by (simp add: item_counts_def ex_result_def Counter_def count_elem_def)
  with inspection_matches_summary [OF transform_result_ex u] transform_result_ex u show ?thesis
    by simp
qed

section \<open>The plans the service answers with\<close>

lemma wf_set_first_quantity:
  "set_first_quantity u = Return u' \<Longrightarrow> wf_request u' \<longleftrightarrow> wf_request u"
  by (cases "up_panels u")
     (auto simp: set_first_quantity_def wf_request_def unique_panel_names_def)

lemma success_untimed [simp]: "cr_success (untimed r) = cr_success r"
  by (simp add: untimed_def CalculationResponse.truncate_def)

text \<open>A success of the handler is a success of the loop on the request with the first
  quantity set to one.\<close>

lemma calculate_optimization_success:
  assumes "cr_success (calculate_optimization solve u name)"
  obtains u' m where "set_first_quantity u = Return u'" and "method_map name = Some m"
    and "calculate_optimization solve u name = calculate_loop solve m u'"
proof (cases "up_panels u")
  case Nil
  with assms show thesis
    by (simp add: calculate_optimization_Nil)
next
  case (Cons p ps)
  with assms that [of "u\<lparr>up_panels := p\<lparr>pin_quantity := 1\<rparr> # ps\<rparr>"] show thesis
    by (cases "method_map name") (simp_all add: calculate_optimization_Cons set_first_quantity_Cons)
qed

text \<open>The answer at a place of a run is the answer to the request at that place.\<close>

lemma served_answer:
  assumes "i < length requests" and "requests ! i = Post_calculate u name"
  shows "\<exists>r. fst (run_state (serve_all clock solve requests) w) ! i = Calculation r
    \<and> untimed r = calculate_optimization solve u name"
proof -
  let ?rs = "fst (run_state (serve_all clock solve requests) w)"
  have all: "map (map_http_response untimed) ?rs = map (answer solve) requests"
    by (rule serve_all_erases)
  then have "length ?rs = length requests"
    by (rule map_eq_imp_length_eq)
  with all assms have "map_http_response untimed (?rs ! i)
      = Calculation (calculate_optimization solve u name)"
    by (metis answer.simps(1) nth_map)
  then show ?thesis
    by (cases "?rs ! i") simp_all
qed

text \<open>C5. End to end: with a packing library that only returns valid packings of the
  parameters it is given, whatever requests the service has served before and
  whatever it has logged, a successful answer to a calculation request with unique
  names is a valid plan for that request with the quantity of the first panel set
  to one and every panel quantity raised by the number of retries: each item unit
  shown once with its name, grain and area, each panel a unit of the request with
  its size, every piece on its panel and any two pieces of a panel a saw cut
  apart.\<close>

theorem served_plans_valid:
  assumes "\<And>m. honest solve m"
    and "i < length requests" and "requests ! i = Post_calculate u name" and "wf_request u"
    and "fst (run_state (serve_all clock solve requests) w) ! i = Calculation r"
    and "cr_success r"
  shows "\<exists>u' k. set_first_quantity u = Return u'
    \<and> valid_plan (increment_panel_quantities u' (int k)) (untimed r)"
proof -
  from served_answer [OF assms(2,3), of clock solve w] assms(5)
  have r: "untimed r = calculate_optimization solve u name"
    by simp
  with assms(6) have s: "cr_success (calculate_optimization solve u name)"
    by (simp flip: r)
  then obtain u' m where u': "set_first_quantity u = Return u'"
    and loop: "calculate_optimization solve u name = calculate_loop solve m u'"
    by (rule calculate_optimization_success)
  from assms(4) u' have "wf_request u'"
    by (simp add: wf_set_first_quantity)
  from honest_calculate_loop [OF this assms(1) [of m]] s u' show ?thesis
    by (auto simp: r loop)
qed

text \<open>The example request behind a health check, with a library that wants four panel
  units and lays the items in a row.\<close>

theorem served_plans_valid_witness:
  "\<exists>r. fst (run_state (serve_all real (rows_from 4) [Get_health, Post_calculate ex_request ''greedy''])
        world0) ! 1 = Calculation r
     \<and> cr_success r
     \<and> (\<exists>u' k. set_first_quantity ex_request = Return u'
          \<and> valid_plan (increment_panel_quantities u' (int k)) (untimed r))"
proof -
  let ?requests = "[Get_health, Post_calculate ex_request ''greedy'']"
  from served_answer [of 1 ?requests ex_request "''greedy''" real "rows_from 4" world0]
  obtain r where r: "fst (run_state (serve_all real (rows_from 4) ?requests) world0) ! 1 = Calculation r"
    "untimed r = calculate_optimization (rows_from 4) ex_request ''greedy''"
    by auto
  have "calculate_optimization (rows_from 4) ex_request ''greedy''
      = calculate_loop (rows_from 4) GREEDY ex_request"
    by (simp add: calculate_optimization_def set_first_quantity_def calculate_def ex_defs)
  with r(2) rows_ex_served have s: "cr_success r"
    by (simp flip: success_untimed)
  from served_plans_valid [of "rows_from 4" 1 ?requests ex_request "''greedy''" real world0 r]
    honest_rows_from wf_ex_request r(1) s
  show ?thesis
    by auto
qed

end
